(* ===== verification/Prelude.thy ===== *)
theory Prelude
  imports
    Main
    "HOL-Library.State_Monad"
    "HOL-Library.AList"
    "HOL-Library.Sublist"
    "HOL-Library.Word"
begin

text \<open>
  What every component shares and no component owns: the two collections of rewrite rules the
  component proofs use, Go maps as a locale (lookup, insert, delete, size) with its interpretation
  on association lists, the string functions of Go's standard library that the shim calls
  (\<open>strings.Split\<close>, \<open>strings.HasPrefix\<close>, \<open>strings.Contains\<close>, \<open>strconv.Itoa\<close>) and the
  state monad's short names.
\<close>

named_theorems op_defs "definitions of the operations, unfolded together by the component proofs"
named_theorems emit_simps "what an operation appends to the trace of external calls"

section \<open>Machine integers and strings\<close>

type_synonym u16 = "16 word"
type_synonym u32 = "32 word"
type_synonym u64 = "64 word"

text \<open>A Go string is a sequence of bytes, as \<^typ>\<open>string\<close> is; \<open>len\<close> is \<^const>\<open>length\<close>.\<close>

definition has_prefix :: "string \<Rightarrow> string \<Rightarrow> bool" where
  "has_prefix s p = prefix p s"

definition str_contains :: "string \<Rightarrow> string \<Rightarrow> bool" where
  "str_contains s sub = sublist sub s"

text \<open>\<open>strings.Split(s, sep)\<close> for a separator of one byte: never the empty list.\<close>

fun split_on :: "char \<Rightarrow> string \<Rightarrow> string list" where
  "split_on c [] = [[]]"
| "split_on c (x # xs) =
     (if x = c then [] # split_on c xs
      else (case split_on c xs of [] \<Rightarrow> [[x]] | p # ps \<Rightarrow> (x # p) # ps))"

fun join_with :: "char \<Rightarrow> string list \<Rightarrow> string" where
  "join_with c [] = []"
| "join_with c [p] = p"
| "join_with c (p # q # ps) = p @ c # join_with c (q # ps)"

lemma split_on_not_Nil [simp]: "split_on c s \<noteq> []"
  by (induction s) (auto split: list.splits)

lemma join_with_Cons_char: "join_with c ((x # p) # ps) = x # join_with c (p # ps)"
  by (cases ps) auto

lemma join_with_Nil_Cons: "ps \<noteq> [] \<Longrightarrow> join_with c ([] # ps) = c # join_with c ps"
  by (cases ps) auto

lemma join_split [simp]: "join_with c (split_on c s) = s"
  by (induction s) (auto simp: join_with_Cons_char join_with_Nil_Cons split: list.splits)

lemma split_on_parts: "p \<in> set (split_on c s) \<Longrightarrow> c \<notin> set p"
  by (induction s arbitrary: p) (auto split: if_splits list.splits)

lemma split_on_no_sep: "c \<notin> set s \<Longrightarrow> split_on c s = [s]"
  by (induction s) auto

lemma split_on_append: "c \<notin> set p \<Longrightarrow> split_on c (p @ c # s) = p # split_on c s"
  by (induction p) auto

lemma split_join:
  assumes "ps \<noteq> []" "\<forall>p \<in> set ps. c \<notin> set p"
  shows "split_on c (join_with c ps) = ps"
  using assms
  by (induction c ps rule: join_with.induct) (auto simp: split_on_no_sep split_on_append)

subsection \<open>Decimal printing\<close>

definition digit_char :: "nat \<Rightarrow> char" where
  "digit_char d = char_of (48 + d)"

fun show_nat :: "nat \<Rightarrow> string" where
  "show_nat n = (if n < 10 then [digit_char n] else show_nat (n div 10) @ [digit_char (n mod 10)])"

declare show_nat.simps [simp del]

text \<open>\<open>strconv.Itoa\<close>, and the verb \<open>%d\<close>.\<close>

definition itoa :: "int \<Rightarrow> string" where
  "itoa i = (if i < 0 then CHR ''-'' # show_nat (nat (- i)) else show_nat (nat i))"

text \<open>A reference reader of decimals, to say that no two numbers print alike.\<close>

definition read_nat :: "string \<Rightarrow> nat" where
  "read_nat s = foldl (\<lambda>a c. 10 * a + (of_char c - 48)) 0 s"

definition read_int :: "string \<Rightarrow> int" where
  "read_int s = (case s of [] \<Rightarrow> 0
     | c # cs \<Rightarrow> if c = CHR ''-'' then - int (read_nat cs) else int (read_nat s))"

lemma of_digit_char: "d < 10 \<Longrightarrow> of_char (digit_char d) - 48 = d"
  by (simp add: digit_char_def)

lemma digit_char_not_minus: "d < 10 \<Longrightarrow> digit_char d \<noteq> CHR ''-''"
proof
  assume d: "d < 10" and eq: "digit_char d = CHR ''-''"
  have "(of_char (digit_char d) :: nat) = 48 + d"
    using d by (simp add: digit_char_def)
  moreover have "(of_char CHR ''-'' :: nat) = 45" by simp
  ultimately show False using eq by simp
qed

lemma read_show_nat: "read_nat (show_nat n) = n"
proof (induction n rule: show_nat.induct)
  case (1 n)
  show ?case
  proof (cases "n < 10")
    case True
    then show ?thesis by (subst show_nat.simps) (simp add: read_nat_def of_digit_char)
  next
    case False
    with 1 have "read_nat (show_nat (n div 10)) = n div 10" by simp
    with False show ?thesis
      by (subst show_nat.simps) (simp add: read_nat_def of_digit_char)
  qed
qed

lemma show_nat_not_Nil [simp]: "show_nat n \<noteq> []"
  by (subst show_nat.simps) simp

lemma show_nat_hd: "hd (show_nat n) \<noteq> CHR ''-''"
proof (induction n rule: show_nat.induct)
  case (1 n)
  then show ?case
    by (subst show_nat.simps) (simp add: hd_append digit_char_not_minus)
qed

lemma read_itoa [simp]: "read_int (itoa i) = i"
proof (cases "i < 0")
  case True
  then show ?thesis by (simp add: itoa_def read_int_def read_show_nat)
next
  case False
  obtain c cs where s: "show_nat (nat i) = c # cs"
    using show_nat_not_Nil [of "nat i"] by (cases "show_nat (nat i)") auto
  have "c \<noteq> CHR ''-''" using show_nat_hd [of "nat i"] s by simp
  then show ?thesis
    using False s read_show_nat [of "nat i"] by (simp add: itoa_def read_int_def)
qed

lemma itoa_inject [simp]: "itoa i = itoa j \<longleftrightarrow> i = j"
  by (metis read_itoa)

section \<open>Go maps\<close>

text \<open>
  A Go map is a finite map whose iteration order is not fixed. The contract that the shim relies
  on is the locale below: lookup after insert and delete, the size, and the entries an iteration
  visits. Its models in the code are \<open>Container.processes\<close>, \<open>runscService.containers\<close>,
  \<open>Spec.Annotations\<close> and \<open>Runsc.Config\<close>.
\<close>

locale go_map =
  fixes empty :: "'m"
    and get :: "'m \<Rightarrow> 'k \<Rightarrow> 'v option"
    and put :: "'k \<Rightarrow> 'v \<Rightarrow> 'm \<Rightarrow> 'm"
    and del :: "'k \<Rightarrow> 'm \<Rightarrow> 'm"
    and entries :: "'m \<Rightarrow> ('k \<times> 'v) list"
    and wf :: "'m \<Rightarrow> bool"
  assumes get_empty: "get empty k = None"
    and get_put: "get (put k v m) k' = (if k' = k then Some v else get m k')"
    and get_del: "get (del k m) k' = (if k' = k then None else get m k')"
    and entries_get: "wf m \<Longrightarrow> (k, v) \<in> set (entries m) \<longleftrightarrow> get m k = Some v"
    and entries_distinct: "wf m \<Longrightarrow> distinct (map fst (entries m))"
    and wf_empty: "wf empty"
    and wf_put: "wf m \<Longrightarrow> wf (put k v m)"
    and wf_del: "wf m \<Longrightarrow> wf (del k m)"
begin

lemma get_put_same: "get (put k v m) k = Some v"
  by (simp add: get_put)

lemma get_del_same: "get (del k m) k = None"
  by (simp add: get_del)

lemma entries_put:
  assumes "wf m"
  shows "set (entries (put k v m)) = insert (k, v) {e \<in> set (entries m). fst e \<noteq> k}"
  using assms wf_put [OF assms, of k v] by (auto simp: entries_get get_put split: if_splits)

lemma entries_del:
  assumes "wf m"
  shows "set (entries (del k m)) = {e \<in> set (entries m). fst e \<noteq> k}"
  using assms wf_del [OF assms, of k] by (auto simp: entries_get get_del split: if_splits)

lemma del_put_entries:
  assumes "wf m" "get m k = None"
  shows "set (entries (del k (put k v m))) = set (entries m)"
  using assms by (auto simp: entries_del entries_put wf_put entries_get)

lemma put_nonempty: "wf m \<Longrightarrow> entries (put k v m) \<noteq> []"
  using entries_put [of m k v] by auto

lemma entries_Nil_iff: "wf m \<Longrightarrow> entries m = [] \<longleftrightarrow> (\<forall>k. get m k = None)"
  by (metis entries_get list.set_intros(1) list.set(1) empty_iff neq_Nil_conv not_Some_eq
      prod.collapse)

text \<open>A property of every stored value is kept by insertion of a value that has it.\<close>

lemma all_put:
  assumes "\<forall>k v. get m k = Some v \<longrightarrow> P k v" "P k v"
  shows "\<forall>k' v'. get (put k v m) k' = Some v' \<longrightarrow> P k' v'"
  using assms by (auto simp: get_put)

lemma all_del:
  assumes "\<forall>k v. get m k = Some v \<longrightarrow> P k v"
  shows "\<forall>k' v'. get (del k m) k' = Some v' \<longrightarrow> P k' v'"
  using assms by (auto simp: get_del)

end

type_synonym ('k, 'v) gomap = "('k \<times> 'v) list"

abbreviation gm_get :: "('k, 'v) gomap \<Rightarrow> 'k \<Rightarrow> 'v option" where
  "gm_get \<equiv> map_of"

abbreviation gm_put :: "'k \<Rightarrow> 'v \<Rightarrow> ('k, 'v) gomap \<Rightarrow> ('k, 'v) gomap" where
  "gm_put \<equiv> AList.update"

abbreviation gm_del :: "'k \<Rightarrow> ('k, 'v) gomap \<Rightarrow> ('k, 'v) gomap" where
  "gm_del \<equiv> AList.delete"

definition gm_wf :: "('k, 'v) gomap \<Rightarrow> bool" where
  "gm_wf m = distinct (map fst m)"

interpretation gm: go_map "[]" gm_get gm_put gm_del "\<lambda>m. m" gm_wf
proof unfold_locales
  fix m :: "('a, 'b) gomap" and k k' v
  show "gm_get (gm_put k v m) k' = (if k' = k then Some v else gm_get m k')"
    by (simp add: update_conv')
  show "gm_get (gm_del k m) k' = (if k' = k then None else gm_get m k')"
    by (simp add: delete_conv')
  show "gm_wf m \<Longrightarrow> (k, v) \<in> set m \<longleftrightarrow> gm_get m k = Some v"
    by (simp add: gm_wf_def)
qed (auto simp: gm_wf_def distinct_update distinct_delete)

lemma gm_len_del_put:
  assumes "gm_wf m" "gm_get m k = None"
  shows "gm_del k (gm_put k v m) = m"
  using assms by (simp add: delete_update_same map_of_eq_None_iff image_image)

section \<open>The state monad\<close>

text \<open>Operations with effects are programs of \<^theory_text>\<open>HOL-Library.State_Monad\<close>; \<open>ret\<close> is its unit.\<close>

abbreviation ret :: "'a \<Rightarrow> ('s, 'a) state" where
  "ret \<equiv> State_Monad.return"

text \<open>Running a program descends into its branches.\<close>

lemma run_state_let [simp]: "run_state (let x = t in f x) w = run_state (f t) w"
  by (simp add: Let_def)

lemma run_state_if [simp]:
  "run_state (if b then m else n) w = (if b then run_state m w else run_state n w)"
  by simp

lemma run_state_case_sum [simp]:
  "run_state (case r of Inl e \<Rightarrow> f e | Inr x \<Rightarrow> g x) w =
    (case r of Inl e \<Rightarrow> run_state (f e) w | Inr x \<Rightarrow> run_state (g x) w)"
  by (cases r) simp_all

lemma run_state_case_option [simp]:
  "run_state (case r of None \<Rightarrow> m | Some x \<Rightarrow> g x) w =
    (case r of None \<Rightarrow> run_state m w | Some x \<Rightarrow> run_state (g x) w)"
  by (cases r) simp_all

lemma run_state_case_prod [simp]:
  "run_state (case p of (a, b) \<Rightarrow> f a b) w = (case p of (a, b) \<Rightarrow> run_state (f a b) w)"
  by (cases p) simp

text \<open>Repeat an operation that may panic (\<^const>\<open>None\<close>) over a list of arguments.\<close>

fun fold_opt :: "('p \<Rightarrow> 'a \<Rightarrow> ('s, 'p option) state) \<Rightarrow> 'p \<Rightarrow> 'a list \<Rightarrow> ('s, 'p option) state" where
  "fold_opt f p [] = ret (Some p)"
| "fold_opt f p (a # as) = do {
     r \<leftarrow> f p a;
     case r of None \<Rightarrow> ret None | Some q \<Rightarrow> fold_opt f q as
   }"

end
