(* ===== verification/World.thy ===== *)
theory World
  imports Prelude
begin

text \<open>
  The world the shim acts on: Go error values, the commands it starts, and the trace of the calls
  that leave it. Everything outside \<open>src/\<close> (the runsc binary behind the process monitor, the
  kernel, the disk, the clock, containerd's packages) is the type variable \<open>'x\<close>, moved only by
  functions that are parameters of the model; the trace is the record, in order, of what the shim
  asked of it.
\<close>

section \<open>Error values\<close>

text \<open>The classes of containerd's \<open>errdefs\<close> package that the shim names.\<close>

datatype errdef = ErrNotFound | ErrFailedPrecondition | ErrInvalidArgument | ErrAlreadyExists

text \<open>
  \<open>Msg\<close> is an error known by its text only (\<open>fmt.Errorf\<close> without \<open>%w\<close>, or an error of another
  package); \<open>Wrapf pre e post\<close> is \<open>fmt.Errorf(pre + "%w" + post, e)\<close>; the last three are values of
  the \<open>errdefs\<close> and \<open>errgrpc\<close> packages, kept as they were built.
\<close>

datatype gerror =
    Msg string
  | Wrapf string gerror string
  | Sentinel errdef
  | ToGRPC gerror
  | ToGRPCf errdef string

text \<open>\<open>err.Error()\<close>; \<open>txt\<close> is the text of the values built by packages outside \<open>src/\<close>.\<close>

fun err_text :: "(gerror \<Rightarrow> string) \<Rightarrow> gerror \<Rightarrow> string" where
  "err_text txt (Msg s) = s"
| "err_text txt (Wrapf pre e post) = pre @ err_text txt e @ post"
| "err_text txt e = txt e"

text \<open>\<open>errors.Is(err, class)\<close> on the wrapping chain that \<open>%w\<close> builds.\<close>

fun err_is :: "errdef \<Rightarrow> gerror \<Rightarrow> bool" where
  "err_is c (Sentinel d) = (c = d)"
| "err_is c (Wrapf pre e post) = err_is c e"
| "err_is c _ = False"

type_synonym 'a result = "gerror + 'a"

section \<open>Commands and effects\<close>

text \<open>
  \<open>exec.Cmd\<close>: the program and its arguments (\<open>Args[0]\<close> and the rest), the three standard streams
  (\<^const>\<open>None\<close> for a nil stream) and the two process attributes the client sets.
\<close>

datatype stream = Stdout_buf | Stderr_buf | Bytes string | Io_stream nat

record cmd =
  c_Name :: string
  c_Args :: "string list"
  c_Stdin :: "stream option"
  c_Stdout :: "stream option"
  c_Stderr :: "stream option"
  c_Setpgid :: bool
  c_Pdeathsig :: int

text \<open>The reply of a wait: \<open>Monitor.Wait\<close>'s pair, and the bytes the child wrote to the buffers.\<close>

record wait_reply =
  w_status :: int
  w_err :: "gerror option"
  w_out :: string
  w_errout :: string

text \<open>The mutexes: the service's, one per container, one per init process.\<close>

datatype mutex = MuService | MuContainer string | MuInit string

text \<open>
  Time is a number of nanoseconds, as Go's durations are; a field that may hold the zero time is a \<^typ>\<open>nat option\<close>, zero
  being \<^const>\<open>None\<close> (\<open>time.Now()\<close> is never the zero time). A protobuf timestamp wraps such a field.
\<close>

type_synonym time = nat

datatype timestamp = ToTimestamp "time option"

text \<open>The event messages the shim sends or classifies, with the fields it sets.\<close>

datatype event =
    TaskCreate
  | TaskStart
  | TaskOOM string
  | TaskExit string string u32 u32 timestamp
  | TaskDelete
  | TaskExecAdded string string
  | TaskExecStarted
  | TaskPaused string
  | TaskResumed string
  | OtherEvent

record mount =
  m_Type :: string
  m_Source :: string
  m_Target :: string
  m_Options :: "string list"

text \<open>
  What the shim does, in order: \<open>ActSend\<close> is a send on the channel of events (what the channel makes of
  it is \<open>chan_send\<close>), \<open>ActOnShutdown\<close> the registration of the callback that closes that channel and
  \<open>ActCloseEvents\<close> its run; \<open>ActClosePipe\<close> and \<open>ActCloseStream\<close> are the end of a stream of runsc events.
\<close>

datatype action =
    ActStart cmd
  | ActWait cmd
  | ActLock mutex
  | ActUnlock mutex
  | ActCreateTemp string
  | ActRemove string
  | ActMount mount string
  | ActUnmountAll string
  | ActMkdir string
  | ActSaveState string
  | ActWriteSpec string
  | ActCloseSocket string
  | ActClose nat
  | ActCloseIO nat
  | ActCloseWaitBlock string
  | ActShutdownConsole
  | ActSleep nat
  | ActGoWait string
  | ActExit string int time
  | ActSend event
  | ActOomAdd string int
  | ActPlatformClose
  | ActOnShutdown
  | ActCloseEvents
  | ActClosePipe nat
  | ActCloseStream

record 'x world =
  ext :: 'x
  trace :: "action list"

section \<open>Calls that leave the shim\<close>

definition ext_call :: "('x \<Rightarrow> 'a \<times> 'x) \<Rightarrow> ('x world, 'a) state" where
  "ext_call f = State (\<lambda>w. case f (ext w) of (r, x) \<Rightarrow> (r, \<lparr>ext = x, trace = trace w\<rparr>))"

definition emit :: "action \<Rightarrow> ('x world, unit) state" where
  "emit a = State (\<lambda>w. ((), \<lparr>ext = ext w, trace = trace w @ [a]\<rparr>))"

text \<open>\<open>mu.Lock(); defer mu.Unlock(); body\<close>\<close>

definition with_lock :: "mutex \<Rightarrow> ('x world, 'a) state \<Rightarrow> ('x world, 'a) state" where
  "with_lock m body = do { emit (ActLock m); r \<leftarrow> body; emit (ActUnlock m); ret r }"

lemma run_emit [simp]: "run_state (emit a) w = ((), \<lparr>ext = ext w, trace = trace w @ [a]\<rparr>)"
  by (simp add: emit_def)

lemma run_ext_call:
  "run_state (ext_call f) w = (case f (ext w) of (r, x) \<Rightarrow> (r, \<lparr>ext = x, trace = trace w\<rparr>))"
  by (simp add: ext_call_def)

section \<open>What a program appends to the trace\<close>

text \<open>
  \<open>emits P m\<close>: whatever the world does, running \<open>m\<close> only appends to the trace, and every action it
  appends satisfies \<open>P\<close>. The rules below push it through the monad, so that a safety property of
  an operation ("it starts no command but this one") is a syntactic check of its body.
\<close>

definition emits :: "(action \<Rightarrow> bool) \<Rightarrow> ('x world, 'a) state \<Rightarrow> bool" where
  "emits P m \<longleftrightarrow> (\<forall>w. \<exists>as. trace (snd (run_state m w)) = trace w @ as \<and> (\<forall>a \<in> set as. P a))"

named_theorems emits_intros "rules that push \<open>emits\<close> through the operations"

lemma emits_ret [emits_intros]: "emits P (ret x)"
  by (simp add: emits_def)

lemma emits_emit [emits_intros]: "P a \<Longrightarrow> emits P (emit a)"
  by (simp add: emits_def)

lemma emits_ext_call [emits_intros]: "emits P (ext_call f)"
  by (simp add: emits_def run_ext_call split: prod.splits)

lemma emits_bind [emits_intros]:
  assumes "emits P m" "\<And>x. emits P (f x)"
  shows "emits P (m \<bind> f)"
  unfolding emits_def
proof
  fix w
  obtain x w1 where r1: "run_state m w = (x, w1)" by fastforce
  from assms(1) r1 obtain as where 1: "trace w1 = trace w @ as" "\<forall>a \<in> set as. P a"
    unfolding emits_def by (metis snd_conv)
  from assms(2) obtain bs where
    2: "trace (snd (run_state (f x) w1)) = trace w1 @ bs" "\<forall>a \<in> set bs. P a"
    unfolding emits_def by blast
  show "\<exists>as. trace (snd (run_state (m \<bind> f) w)) = trace w @ as \<and> (\<forall>a \<in> set as. P a)"
    using r1 1 2 by (intro exI [of _ "as @ bs"]) auto
qed

lemma emits_if [emits_intros]: "emits P m \<Longrightarrow> emits P n \<Longrightarrow> emits P (if b then m else n)"
  by simp

lemma emits_case_sum [emits_intros]:
  "(\<And>e. emits P (f e)) \<Longrightarrow> (\<And>x. emits P (g x)) \<Longrightarrow>
    emits P (case r of Inl e \<Rightarrow> f e | Inr x \<Rightarrow> g x)"
  by (cases r) simp_all

lemma emits_case_option [emits_intros]:
  "emits P m \<Longrightarrow> (\<And>x. emits P (g x)) \<Longrightarrow> emits P (case r of None \<Rightarrow> m | Some x \<Rightarrow> g x)"
  by (cases r) simp_all

lemma emits_case_prod [emits_intros]:
  "(\<And>a b. emits P (f a b)) \<Longrightarrow> emits P (case p of (a, b) \<Rightarrow> f a b)"
  by (cases p) simp

lemma emits_let [emits_intros]: "(\<And>x. emits P (f x)) \<Longrightarrow> emits P (let x = t in f x)"
  by (simp add: Let_def)

lemma emits_with_lock [emits_intros]:
  "P (ActLock m) \<Longrightarrow> P (ActUnlock m) \<Longrightarrow> emits P b \<Longrightarrow> emits P (with_lock m b)"
  unfolding with_lock_def by (intro emits_intros)

lemma emits_mono: "emits P m \<Longrightarrow> (\<And>a. P a \<Longrightarrow> Q a) \<Longrightarrow> emits Q m"
  unfolding emits_def by blast

lemma emitsD:
  assumes "emits P m" "run_state m w = (r, w')"
  obtains as where "trace w' = trace w @ as" "\<forall>a \<in> set as. P a"
  using assms unfolding emits_def by (metis snd_conv)

text \<open>A program between an acquisition and its deferred release.\<close>

lemma emits_bracket:
  assumes "emits P m"
  shows "\<exists>mid. trace (snd (run_state
      (emit a \<bind> (\<lambda>_. m \<bind> (\<lambda>r. emit b \<bind> (\<lambda>_. ext_call g \<bind> (\<lambda>_. ret r))))) w)) =
    trace w @ a # mid @ [b] \<and> list_all P mid"
proof -
  obtain r w1 where r: "run_state m \<lparr>ext = ext w, trace = trace w @ [a]\<rparr> = (r, w1)" by fastforce
  then obtain mid where "trace w1 = (trace w @ [a]) @ mid" "\<forall>x \<in> set mid. P x"
    using emitsD [OF assms r] by auto
  with r show ?thesis
    by (intro exI [of _ mid]) (simp add: run_ext_call list_all_iff split: prod.split)
qed

text \<open>The commands a trace started, in order.\<close>

definition started :: "action list \<Rightarrow> cmd list" where
  "started as = [c. ActStart c \<leftarrow> as]"

lemma started_simps [simp]:
  "started [] = []"
  "started (as @ bs) = started as @ started bs"
  "started (ActStart c # as) = c # started as"
  by (simp_all add: started_def)

lemma started_Cons_other [simp]: "(\<And>c. a \<noteq> ActStart c) \<Longrightarrow> started (a # as) = started as"
  by (cases a) (auto simp: started_def)

end
