(* ===== verification/Filepath.thy ===== *)
theory Filepath
  imports Prelude
begin

text \<open>
  The functions of Go's \<open>path/filepath\<close> that the shim calls, on Unix: \<open>Clean\<close>, \<open>Join\<close>, \<open>IsAbs\<close>,
  \<open>Abs\<close> and \<open>Dir\<close>. \<open>Clean\<close> follows its documentation: repeated slashes become one, \<open>.\<close> elements go,
  an inner \<open>..\<close> goes with the element before it, a \<open>..\<close> that begins a rooted path goes, and an
  empty result is \<open>.\<close>.
\<close>

abbreviation slash :: char where
  "slash \<equiv> CHR ''/''"

definition IsAbs :: "string \<Rightarrow> bool" where
  "IsAbs p = has_prefix p [slash]"

text \<open>The element stack of \<open>Clean\<close>, innermost element first.\<close>

fun clean_elems :: "bool \<Rightarrow> string list \<Rightarrow> string list \<Rightarrow> string list" where
  "clean_elems rooted st [] = rev st"
| "clean_elems rooted st (e # es) =
     (if e = [] \<or> e = ''.'' then clean_elems rooted st es
      else if e = ''..'' then
        (case st of
           [] \<Rightarrow> clean_elems rooted (if rooted then [] else [''..'']) es
         | t # ts \<Rightarrow> clean_elems rooted (if t = ''..'' then e # st else ts) es)
      else clean_elems rooted (e # st) es)"

definition Clean :: "string \<Rightarrow> string" where
  "Clean p =
     (let es = clean_elems (IsAbs p) [] (split_on slash p)
      in if IsAbs p then slash # join_with slash es
         else if es = [] then ''.'' else join_with slash es)"

definition Join :: "string list \<Rightarrow> string" where
  "Join elems =
     (case dropWhile (\<lambda>e. e = []) elems of [] \<Rightarrow> [] | es \<Rightarrow> Clean (join_with slash es))"

text \<open>\<open>Dir\<close>: all but the last element, cleaned.\<close>

definition Dir :: "string \<Rightarrow> string" where
  "Dir p = Clean (rev (dropWhile (\<lambda>c. c \<noteq> slash) (rev p)))"

section \<open>Normal elements and the laws of cleaning\<close>

definition normal_elem :: "string \<Rightarrow> bool" where
  "normal_elem e \<longleftrightarrow> e \<noteq> [] \<and> e \<noteq> ''.'' \<and> e \<noteq> ''..'' \<and> slash \<notin> set e"

text \<open>The shape of a cleaned path: some \<open>..\<close> (none when rooted) and then normal elements.\<close>

definition clean_shape :: "bool \<Rightarrow> string list \<Rightarrow> bool" where
  "clean_shape rooted es \<longleftrightarrow>
     (\<exists>n ns. es = replicate n ''..'' @ ns \<and> (\<forall>e \<in> set ns. normal_elem e) \<and> (rooted \<longrightarrow> n = 0))"

lemma clean_elems_normal:
  "\<forall>e \<in> set es. normal_elem e \<Longrightarrow> clean_elems rooted st es = rev st @ es"
  by (induction es arbitrary: st) (auto simp: normal_elem_def)

lemma clean_elems_normal_append:
  "\<forall>e \<in> set es. normal_elem e \<Longrightarrow>
    clean_elems rooted st (es @ fs) = clean_elems rooted (rev es @ st) fs"
  by (induction es arbitrary: st) (auto simp: normal_elem_def)

lemma clean_shape_Nil [simp]: "clean_shape rooted []"
  unfolding clean_shape_def by (rule exI [of _ 0]) simp

lemma clean_shape_snoc:
  assumes "clean_shape rooted es" "normal_elem e"
  shows "clean_shape rooted (es @ [e])"
proof -
  from assms obtain n ns where "es = replicate n ''..'' @ ns" "\<forall>e \<in> set ns. normal_elem e"
    "rooted \<longrightarrow> n = 0"
    unfolding clean_shape_def by blast
  then show ?thesis
    using assms(2) unfolding clean_shape_def
    by (intro exI [of _ n] exI [of _ "ns @ [e]"]) auto
qed

lemma clean_shape_butlast:
  assumes "clean_shape rooted (es @ [t])"
  shows "clean_shape rooted es"
proof -
  from assms obtain n ns where d: "es @ [t] = replicate n ''..'' @ ns"
    "\<forall>e \<in> set ns. normal_elem e" "rooted \<longrightarrow> n = 0"
    unfolding clean_shape_def by blast
  show ?thesis
  proof (cases ns rule: rev_cases)
    case Nil
    then obtain m where "n = Suc m" using d(1) by (cases n) auto
    with Nil d(1) have "es = replicate m ''..''"
      by (metis append_Nil2 butlast_snoc replicate_Suc replicate_append_same)
    with Nil d \<open>n = Suc m\<close> show ?thesis
      unfolding clean_shape_def by (intro exI [of _ m] exI [of _ "[]"]) simp
  next
    case (snoc ms m)
    with d show ?thesis
      unfolding clean_shape_def by (intro exI [of _ n] exI [of _ ms]) auto
  qed
qed

lemma clean_shape_dotdot:
  assumes "clean_shape False (es @ [''..''])"
  shows "clean_shape False (es @ [''..'', ''..''])"
proof -
  from assms obtain n ns where d: "es @ [''..''] = replicate n ''..'' @ ns"
    "\<forall>e \<in> set ns. normal_elem e"
    unfolding clean_shape_def by blast
  have ns: "ns = []"
  proof (cases ns rule: rev_cases)
    case (snoc ms m)
    with d have "m = ''..''" "normal_elem m" by auto
    then show ?thesis by (simp add: normal_elem_def)
  qed
  from d ns have "es @ [''..'', ''..''] = replicate (Suc n) ''..''"
    by (metis append.assoc append_Cons append_Nil append_Nil2 replicate_Suc replicate_append_same)
  with ns show ?thesis
    unfolding clean_shape_def by (intro exI [of _ "Suc n"] exI [of _ "[]"]) simp
qed

lemma rooted_no_dotdot: "clean_shape True es \<Longrightarrow> ''..'' \<notin> set es"
  by (auto simp: clean_shape_def normal_elem_def)

lemma clean_elems_shape:
  assumes "clean_shape rooted (rev st)" "\<forall>e \<in> set es. slash \<notin> set e"
  shows "clean_shape rooted (clean_elems rooted st es)"
  using assms
proof (induction rooted st es rule: clean_elems.induct)
  case (1 rooted st)
  then show ?case by simp
next
  case (2 rooted st e es)
  show ?case
  proof (cases "e = [] \<or> e = ''.''")
    case True
    with 2 show ?thesis by auto
  next
    case nt: False
    show ?thesis
    proof (cases "e = ''..''")
      case False
      with nt 2 have "normal_elem e" by (simp add: normal_elem_def)
      with nt False 2 show ?thesis by (simp add: clean_shape_snoc)
    next
      case dd: True
      show ?thesis
      proof (cases st)
        case Nil
        have "clean_shape False [''..'']"
          unfolding clean_shape_def by (rule exI [of _ 1], rule exI [of _ "[]"]) simp
        with nt dd Nil 2 show ?thesis by (cases rooted) auto
      next
        case (Cons t ts)
        have "clean_shape rooted (rev (if t = ''..'' then e # st else ts))"
          using 2(5) Cons dd rooted_no_dotdot [of "rev st"] clean_shape_dotdot [of "rev ts"]
            clean_shape_butlast [of rooted "rev ts" t]
          by (cases rooted) auto
        with nt dd Cons 2 show ?thesis by auto
      qed
    qed
  qed
qed

lemma clean_elems_fix:
  assumes "clean_shape rooted es"
  shows "clean_elems rooted [] es = es"
proof -
  from assms obtain n ns where es: "es = replicate n ''..'' @ ns" "\<forall>e \<in> set ns. normal_elem e"
    "rooted \<longrightarrow> n = 0"
    unfolding clean_shape_def by blast
  have dd: "clean_elems False (replicate k ''..'') (replicate n ''..'' @ ns) =
      replicate (k + n) ''..'' @ ns" for k
  proof (induction n arbitrary: k)
    case 0
    then show ?case using es(2) by (simp add: clean_elems_normal)
  next
    case (Suc n)
    have "clean_elems False (replicate k ''..'') (replicate (Suc n) ''..'' @ ns) =
        clean_elems False (replicate (Suc k) ''..'') (replicate n ''..'' @ ns)"
      by (cases k) simp_all
    also have "\<dots> = replicate (Suc k + n) ''..'' @ ns" by (rule Suc)
    finally show ?case by simp
  qed
  show ?thesis
  proof (cases rooted)
    case True
    with es show ?thesis by (simp add: clean_elems_normal)
  next
    case False
    with es dd [of 0] show ?thesis by simp
  qed
qed

lemma clean_shape_no_slash: "clean_shape rooted es \<Longrightarrow> \<forall>e \<in> set es. slash \<notin> set e \<and> e \<noteq> []"
  unfolding clean_shape_def normal_elem_def
  by (elim exE conjE) (simp add: ball_Un)

lemma IsAbs_Cons [simp]: "IsAbs (c # s) \<longleftrightarrow> c = slash"
  by (auto simp: IsAbs_def has_prefix_def)

lemma IsAbs_Nil [simp]: "\<not> IsAbs []"
  by (simp add: IsAbs_def has_prefix_def)

lemma IsAbs_join_clean:
  assumes "\<forall>e \<in> set es. slash \<notin> set e \<and> e \<noteq> []"
  shows "\<not> IsAbs (join_with slash es)"
proof (cases es)
  case (Cons e es')
  with assms obtain c cs where "e = c # cs" "c \<noteq> slash" by (cases e) auto
  with Cons show ?thesis by (simp add: join_with_Cons_char)
qed simp

text \<open>The pure elements of a path do not change when it is cleaned again.\<close>

lemma Clean_elems:
  assumes "clean_shape rooted es"
  shows "Clean (if rooted then slash # join_with slash es
                else if es = [] then ''.'' else join_with slash es) =
    (if rooted then slash # join_with slash es
     else if es = [] then ''.'' else join_with slash es)"
proof -
  note ns = clean_shape_no_slash [OF assms]
  have split: "split_on slash (join_with slash es) = es" if "es \<noteq> []"
    using that ns by (simp add: split_join)
  have abs: "\<not> IsAbs (join_with slash es)" by (rule IsAbs_join_clean [OF ns])
  show ?thesis
  proof (cases "es = []")
    case True
    then show ?thesis by (simp add: Clean_def)
  next
    case False
    with split abs clean_elems_fix [OF assms] show ?thesis
      by (cases rooted) (simp_all add: Clean_def Let_def)
  qed
qed

lemma Clean_idem: "Clean (Clean p) = Clean p"
proof -
  have "\<forall>e \<in> set (split_on slash p). slash \<notin> set e" by (simp add: split_on_parts)
  then have "clean_shape (IsAbs p) (clean_elems (IsAbs p) [] (split_on slash p))"
    by (simp add: clean_elems_shape)
  from Clean_elems [OF this] show ?thesis by (simp add: Clean_def Let_def)
qed

end
