(* ===== verification/RunscCmd.thy ===== *)
theory RunscCmd
  imports World Filepath
begin

text \<open>
  The client of the \<open>runsc\<close> command line (\<open>runsccmd/runsc.go\<close>): the options of each subcommand and
  their flags, the construction of a command, the three ways a command is run (\<open>cmdOutput\<close>,
  \<open>runOrError\<close>, \<open>start\<close>) and one operation per subcommand. What a started command does is the
  process monitor's answer, a parameter; the JSON decoders, the OS calls on temporary files and the
  iteration order of a Go map are parameters too. The first locale is the contract of "run one
  command and report its failure", the second the contract of "encode options as flags".
\<close>

section \<open>Values exchanged with runsc\<close>

text \<open>Types of go-runc and the OCI specification, with the fields the shim reads.\<close>

record container_info =
  ci_ID :: string
  ci_Status :: string

record proc_spec =
  ps_Terminal :: bool
  ps_rest :: string

record cpu_usage =
  cu_Total :: u64
  cu_Kernel :: u64
  cu_User :: u64
  cu_Percpu :: "u64 list"

record throttling =
  th_Periods :: u64
  th_ThrottledPeriods :: u64
  th_ThrottledTime :: u64

record mem_entry =
  me_Limit :: u64
  me_Usage :: u64
  me_Max :: u64
  me_Failcnt :: u64

record run_stats =
  rs_Cpu :: cpu_usage
  rs_Throttling :: throttling
  rs_Cache :: u64
  rs_Usage :: mem_entry
  rs_Swap :: mem_entry
  rs_Kernel :: mem_entry
  rs_KernelTCP :: mem_entry
  rs_PidsCurrent :: u64
  rs_PidsLimit :: u64

record run_event =
  ev_Type :: string
  ev_Stats :: "run_stats option"

record wait_result =
  wr_ID :: string
  wr_ExitStatus :: int

section \<open>The environment of the client\<close>

text \<open>
  \<open>mon_start\<close>, \<open>mon_wait\<close>: the monitor \<open>LogMonitor\<close> forwards to. \<open>io_set\<close>, \<open>io_start_closer\<close>: the
  methods \<open>Set\<close> and \<open>CloseAfterStart\<close> of a \<open>runc.IO\<close> (the second only when it has one).
  \<open>map_order\<close>: the order in which a \<open>range\<close> over a map visits the entries. \<open>errtxt\<close>: the text of
  error values of other packages.
\<close>

record 'x cmd_env =
  mon_start :: "cmd \<Rightarrow> 'x \<Rightarrow> nat result \<times> 'x"
  mon_wait :: "cmd \<Rightarrow> nat \<Rightarrow> 'x \<Rightarrow> wait_reply \<times> 'x"
  io_set :: "nat \<Rightarrow> cmd \<Rightarrow> cmd"
  io_start_closer :: "nat \<Rightarrow> ('x \<Rightarrow> gerror option \<times> 'x) option"
  getwd :: "'x \<Rightarrow> string result \<times> 'x"
  temp_create :: "'x \<Rightarrow> string result \<times> 'x"
  temp_encode :: "string \<Rightarrow> proc_spec \<Rightarrow> 'x \<Rightarrow> gerror option \<times> 'x"
  remove_file :: "string \<Rightarrow> 'x \<Rightarrow> unit \<times> 'x"
  map_order :: "(string \<times> string) list \<Rightarrow> (string \<times> string) list"
  dec_list :: "string \<Rightarrow> container_info list result"
  dec_state :: "string \<Rightarrow> container_info result"
  dec_wait :: "string \<Rightarrow> wait_result result"
  dec_event :: "string \<Rightarrow> run_event result"
  dec_pids :: "string \<Rightarrow> int list result"
  parse_ps :: "string \<Rightarrow> string list list result"
  enc_resources :: "string \<Rightarrow> string result"
  errtxt :: "gerror \<Rightarrow> string"

section \<open>Building a command\<close>

definition DefaultCommand :: string where
  "DefaultCommand = ''runsc''"

record runsc =
  Command :: string
  PdeathSignal :: int
  Setpgid :: bool
  Root :: string
  Log :: string
  LogFormat :: string
  PanicLog :: string
  Config :: "(string, string) gomap"

definition runsc_args :: "('x, 'z) cmd_env_scheme \<Rightarrow> runsc \<Rightarrow> string list" where
  "runsc_args env r =
     (if Root r \<noteq> [] then [''--root='' @ Root r] else []) @
     (if Log r \<noteq> [] then [''--log='' @ Log r] else []) @
     (if LogFormat r \<noteq> [] then [''--log-format='' @ LogFormat r] else []) @
     (if PanicLog r \<noteq> [] then [''--panic-log='' @ PanicLog r] else []) @
     map (\<lambda>(k, v). ''--'' @ k @ ''='' @ v) (map_order env (Config r))"

definition runsc_command :: "('x, 'z) cmd_env_scheme \<Rightarrow> runsc \<Rightarrow> string list \<Rightarrow> cmd" where
  "runsc_command env r args =
     \<lparr> c_Name = (if Command r = [] then DefaultCommand else Command r),
       c_Args = runsc_args env r @ args,
       c_Stdin = None, c_Stdout = None, c_Stderr = None,
       c_Setpgid = Setpgid r,
       c_Pdeathsig = (if PdeathSignal r \<noteq> 0 then PdeathSignal r else 0) \<rparr>"

section \<open>Running a command\<close>

definition monitor_start :: "('x, 'z) cmd_env_scheme \<Rightarrow> cmd \<Rightarrow> ('x world, nat result) state" where
  "monitor_start env c = do { emit (ActStart c); ext_call (mon_start env c) }"

definition monitor_wait ::
    "('x, 'z) cmd_env_scheme \<Rightarrow> cmd \<Rightarrow> nat \<Rightarrow> ('x world, wait_reply) state" where
  "monitor_wait env c ch = do { emit (ActWait c); ext_call (mon_wait env c ch) }"

text \<open>The verb \<open>%q\<close> on ASCII strings (bytes from 128 on are kept as they are).\<close>

definition hex_digit :: "nat \<Rightarrow> char" where
  "hex_digit d = (if d < 10 then char_of (48 + d) else char_of (87 + d))"

definition quote_char :: "char \<Rightarrow> string" where
  "quote_char c =
     (let n = of_char c :: nat in
      if n = 34 then [char_of (92::nat), c]
      else if n = 92 then [c, c]
      else if n = 7 then char_of (92::nat) # ''a''
      else if n = 8 then char_of (92::nat) # ''b''
      else if n = 12 then char_of (92::nat) # ''f''
      else if n = 10 then char_of (92::nat) # ''n''
      else if n = 13 then char_of (92::nat) # ''r''
      else if n = 9 then char_of (92::nat) # ''t''
      else if n = 11 then char_of (92::nat) # ''v''
      else if n < 32 \<or> n = 127 then char_of (92::nat) # CHR ''x'' # [hex_digit (n div 16), hex_digit (n mod 16)]
      else [c])"

definition go_quote :: "string \<Rightarrow> string" where
  "go_quote s = char_of (34::nat) # concat (map quote_char s) @ [char_of (34::nat)]"

definition not_terminated :: "string \<Rightarrow> gerror" where
  "not_terminated name = Msg (name @ '' did not terminate successfully'')"

text \<open>\<open>fmt.Errorf("%w: %s", err, out)\<close>\<close>

definition with_output :: "gerror \<Rightarrow> string \<Rightarrow> gerror" where
  "with_output e out = Wrapf [] e ('': '' @ out)"

text \<open>
  \<open>cmdOutput\<close>: the output goes to one buffer when \<open>combined\<close>, to two otherwise. Returns the bytes
  of standard output, those of standard error, and the error.
\<close>

definition cmdOutput ::
    "('x, 'z) cmd_env_scheme \<Rightarrow> cmd \<Rightarrow> bool \<Rightarrow> ('x world, string \<times> string \<times> gerror option) state" where
  "cmdOutput env cmd combined = do {
     let c = cmd\<lparr>c_Stdout := Some Stdout_buf,
                 c_Stderr := Some (if combined then Stdout_buf else Stderr_buf)\<rparr>;
     ec \<leftarrow> monitor_start env c;
     case ec of
       Inl e \<Rightarrow> ret ([], [], Some e)
     | Inr ch \<Rightarrow> do {
         r \<leftarrow> monitor_wait env c ch;
         ret (w_out r, if combined then [] else w_errout r,
              case w_err r of
                Some e \<Rightarrow> Some e
              | None \<Rightarrow> if w_status r \<noteq> 0 then Some (not_terminated (go_quote (c_Name c))) else None)
       }
   }"

text \<open>The waited status of a command whose streams the caller set.\<close>

definition wait_checked ::
    "('x, 'z) cmd_env_scheme \<Rightarrow> cmd \<Rightarrow> nat \<Rightarrow> ('x world, gerror option) state" where
  "wait_checked env c ch = do {
     r \<leftarrow> monitor_wait env c ch;
     ret (case w_err r of
            Some e \<Rightarrow> Some e
          | None \<Rightarrow> if w_status r \<noteq> 0 then Some (not_terminated (c_Name c)) else None)
   }"

definition output_error :: "string \<times> string \<times> gerror option \<Rightarrow> gerror option" where
  "output_error r = (case r of (out, _, err) \<Rightarrow> map_option (\<lambda>e. with_output e out) err)"

definition runOrError :: "('x, 'z) cmd_env_scheme \<Rightarrow> cmd \<Rightarrow> ('x world, gerror option) state" where
  "runOrError env c =
     (if c_Stdout c \<noteq> None \<or> c_Stderr c \<noteq> None then do {
        ec \<leftarrow> monitor_start env c;
        case ec of Inl e \<Rightarrow> ret (Some e) | Inr ch \<Rightarrow> wait_checked env c ch
      } else do {
        r \<leftarrow> cmdOutput env c True;
        ret (output_error r)
      })"

definition apply_io :: "('x, 'z) cmd_env_scheme \<Rightarrow> nat option \<Rightarrow> cmd \<Rightarrow> cmd" where
  "apply_io env cio c = (case cio of None \<Rightarrow> c | Some i \<Rightarrow> io_set env i c)"

definition close_after_start ::
    "('x, 'z) cmd_env_scheme \<Rightarrow> nat option \<Rightarrow> ('x world, gerror option) state" where
  "close_after_start env cio =
     (case cio of
        None \<Rightarrow> ret None
      | Some i \<Rightarrow> (case io_start_closer env i of None \<Rightarrow> ret None | Some f \<Rightarrow> ext_call f))"

text \<open>\<open>Runsc.start\<close>; the tails of \<open>Create\<close> and \<open>Exec\<close> are the same code on their own options.\<close>

definition start_cmd ::
    "('x, 'z) cmd_env_scheme \<Rightarrow> nat option \<Rightarrow> cmd \<Rightarrow> ('x world, gerror option) state" where
  "start_cmd env cio cmd = do {
     let c = apply_io env cio cmd;
     if c_Stdout c = None \<and> c_Stderr c = None then do {
       r \<leftarrow> cmdOutput env c True;
       ret (output_error r)
     } else do {
       ec \<leftarrow> monitor_start env c;
       case ec of
         Inl e \<Rightarrow> ret (Some e)
       | Inr ch \<Rightarrow> do {
           ce \<leftarrow> close_after_start env cio;
           case ce of Some e \<Rightarrow> ret (Some e) | None \<Rightarrow> wait_checked env c ch
         }
     }
   }"

section \<open>Options and their flags\<close>

record create_opts =
  co_IO :: "nat option"
  co_ConsoleSocket :: "string option"
  co_PidFile :: string
  co_UserLog :: string
  co_FSRestoreImagePath :: string
  co_FSRestoreDirect :: bool

record restore_opts =
  ro_ImagePath :: string
  ro_Detach :: bool
  ro_Direct :: bool
  ro_Background :: bool

record checkpoint_opts =
  cp_ImagePath :: string
  cp_LeaveRunning :: bool

record exec_opts =
  eo_IO :: "nat option"
  eo_PidFile :: string
  eo_InternalPidFile :: string
  eo_ConsoleSocket :: "string option"
  eo_Detach :: bool

record delete_opts =
  do_Force :: bool

record kill_opts =
  ko_All :: bool
  ko_Pid :: int

definition abs_path :: "('x, 'z) cmd_env_scheme \<Rightarrow> string \<Rightarrow> ('x world, string result) state" where
  "abs_path env p =
     (if IsAbs p then ret (Inr (Clean p))
      else do {
        wd \<leftarrow> ext_call (getwd env);
        case wd of Inl e \<Rightarrow> ret (Inl e) | Inr d \<Rightarrow> ret (Inr (Join [d, p]))
      })"

text \<open>The flag \<open>flag abs(path)\<close>, absent for an empty path.\<close>

definition path_flag ::
    "('x, 'z) cmd_env_scheme \<Rightarrow> string \<Rightarrow> string \<Rightarrow> ('x world, string list result) state" where
  "path_flag env flag p =
     (if p = [] then ret (Inr [])
      else do {
        a \<leftarrow> abs_path env p;
        case a of Inl e \<Rightarrow> ret (Inl e) | Inr q \<Rightarrow> ret (Inr [flag, q])
      })"

text \<open>\<open>ConsoleSocket\<close> is represented by its \<open>Path()\<close>, the only method the client calls.\<close>

definition create_opts_args ::
    "('x, 'z) cmd_env_scheme \<Rightarrow> create_opts \<Rightarrow> ('x world, string list result) state" where
  "create_opts_args env op = do {
     pf \<leftarrow> path_flag env ''--pid-file'' (co_PidFile op);
     case pf of
       Inl e \<Rightarrow> ret (Inl e)
     | Inr out \<Rightarrow> ret (Inr (out @
         (case co_ConsoleSocket op of None \<Rightarrow> [] | Some s \<Rightarrow> [''--console-socket'', s]) @
         (if co_UserLog op \<noteq> [] then [''--user-log'', co_UserLog op] else []) @
         (if co_FSRestoreImagePath op \<noteq> [] then [''--fs-restore-image-path'', co_FSRestoreImagePath op]
          else []) @
         (if co_FSRestoreDirect op then [''--fs-restore-direct''] else [])))
   }"

definition restore_opts_args :: "restore_opts \<Rightarrow> string list" where
  "restore_opts_args op =
     (if ro_ImagePath op \<noteq> [] then [''--image-path='' @ ro_ImagePath op] else []) @
     (if ro_Detach op then [''--detach''] else []) @
     (if ro_Direct op then [''--direct''] else []) @
     (if ro_Background op then [''--background''] else [])"

definition checkpoint_opts_args :: "checkpoint_opts \<Rightarrow> string list" where
  "checkpoint_opts_args op =
     (if cp_ImagePath op \<noteq> [] then [''--image-path='' @ cp_ImagePath op] else []) @
     (if cp_LeaveRunning op then [''--leave-running''] else [])"

definition exec_opts_args ::
    "('x, 'z) cmd_env_scheme \<Rightarrow> exec_opts \<Rightarrow> ('x world, string list result) state" where
  "exec_opts_args env op = do {
     let out = (case eo_ConsoleSocket op of None \<Rightarrow> [] | Some s \<Rightarrow> [''--console-socket'', s]) @
               (if eo_Detach op then [''--detach''] else []);
     pf \<leftarrow> path_flag env ''--pid-file'' (eo_PidFile op);
     case pf of
       Inl e \<Rightarrow> ret (Inl e)
     | Inr p \<Rightarrow> do {
         ipf \<leftarrow> path_flag env ''--internal-pid-file'' (eo_InternalPidFile op);
         case ipf of Inl e \<Rightarrow> ret (Inl e) | Inr ip \<Rightarrow> ret (Inr (out @ p @ ip))
       }
   }"

definition delete_opts_args :: "delete_opts \<Rightarrow> string list" where
  "delete_opts_args op = (if do_Force op then [''--force''] else [])"

definition kill_opts_args :: "kill_opts \<Rightarrow> string list" where
  "kill_opts_args op =
     (if ko_All op then [''--all''] else []) @
     (if ko_Pid op \<noteq> 0 then [''--pid'', itoa (ko_Pid op)] else [])"

definition opt_args :: "('o \<Rightarrow> string list) \<Rightarrow> 'o option \<Rightarrow> string list" where
  "opt_args f op = (case op of None \<Rightarrow> [] | Some opts \<Rightarrow> f opts)"

definition opt_args_result ::
    "('o \<Rightarrow> ('x world, string list result) state) \<Rightarrow> 'o option \<Rightarrow> ('x world, string list result) state" where
  "opt_args_result f op = (case op of None \<Rightarrow> ret (Inr []) | Some opts \<Rightarrow> f opts)"

section \<open>The operations\<close>

text \<open>The operations that read the command's standard output.\<close>

definition output_of ::
    "('x, 'z) cmd_env_scheme \<Rightarrow> cmd \<Rightarrow> (string \<Rightarrow> 'a result) \<Rightarrow> ('x world, 'a result) state" where
  "output_of env c dec = do {
     (data, stderr, err) \<leftarrow> cmdOutput env c False;
     case err of Some e \<Rightarrow> ret (Inl (with_output e stderr)) | None \<Rightarrow> ret (dec data)
   }"

definition runsc_List ::
    "('x, 'z) cmd_env_scheme \<Rightarrow> runsc \<Rightarrow> ('x world, container_info list result) state" where
  "runsc_List env r =
     output_of env (runsc_command env r [''list'', ''--format=json'']) (dec_list env)"

definition runsc_State ::
    "('x, 'z) cmd_env_scheme \<Rightarrow> runsc \<Rightarrow> string \<Rightarrow> ('x world, container_info result) state" where
  "runsc_State env r cid = output_of env (runsc_command env r [''state'', cid]) (dec_state env)"

definition runsc_Wait ::
    "('x, 'z) cmd_env_scheme \<Rightarrow> runsc \<Rightarrow> string \<Rightarrow> ('x world, int result) state" where
  "runsc_Wait env r cid =
     output_of env (runsc_command env r [''wait'', cid])
       (\<lambda>d. case dec_wait env d of Inl e \<Rightarrow> Inl e | Inr res \<Rightarrow> Inr (wr_ExitStatus res))"

definition runsc_Ps ::
    "('x, 'z) cmd_env_scheme \<Rightarrow> runsc \<Rightarrow> string \<Rightarrow> ('x world, int list result) state" where
  "runsc_Ps env r cid =
     output_of env (runsc_command env r [''ps'', ''--format'', ''json'', cid]) (dec_pids env)"

definition runsc_Top ::
    "('x, 'z) cmd_env_scheme \<Rightarrow> runsc \<Rightarrow> string \<Rightarrow> ('x world, string list list result) state" where
  "runsc_Top env r cid =
     output_of env (runsc_command env r [''ps'', ''--format'', ''table'', cid])
       (\<lambda>d. case parse_ps env d of
              Inl e \<Rightarrow> Inl (Msg (err_text (errtxt env) e @ '': '')) | Inr t \<Rightarrow> Inr t)"

definition check_event :: "run_event \<Rightarrow> run_stats result" where
  "check_event e =
     (if ev_Type e \<noteq> ''stats'' then
        Inl (Msg (''unexpected event type '' @ go_quote (ev_Type e) @ '', wanted '' @ go_quote ''stats''))
      else (case ev_Stats e of
              None \<Rightarrow> Inl (Msg (go_quote ''runsc events -stat'' @ '' succeeded but no stat was provided''))
            | Some s \<Rightarrow> Inr s))"

definition runsc_Stats ::
    "('x, 'z) cmd_env_scheme \<Rightarrow> runsc \<Rightarrow> string \<Rightarrow> ('x world, run_stats result) state" where
  "runsc_Stats env r cid =
     output_of env (runsc_command env r [''events'', ''--stats'', cid])
       (\<lambda>d. case dec_event env d of Inl e \<Rightarrow> Inl e | Inr e \<Rightarrow> check_event e)"

definition runsc_Create ::
    "('x, 'z) cmd_env_scheme \<Rightarrow> runsc \<Rightarrow> string \<Rightarrow> string \<Rightarrow> create_opts option \<Rightarrow>
     ('x world, gerror option) state" where
  "runsc_Create env r cid bundle opts = do {
     oargs \<leftarrow> opt_args_result (create_opts_args env) opts;
     case oargs of
       Inl e \<Rightarrow> ret (Some e)
     | Inr oa \<Rightarrow>
         start_cmd env (Option.bind opts co_IO)
           (runsc_command env r ([''create'', ''--bundle'', bundle] @ oa @ [cid]))
   }"

definition prefixed_error :: "string \<Rightarrow> string \<times> string \<times> gerror option \<Rightarrow> gerror option" where
  "prefixed_error pre r =
     (case r of (out, _, err) \<Rightarrow> map_option (\<lambda>e. Wrapf pre e ('': '' @ out)) err)"

text \<open>\<open>cmdOutput\<close> and \<open>fmt.Errorf(pre + "%w: %s", err, out)\<close>, as \<open>Pause\<close> and \<open>Resume\<close> do.\<close>

definition run_prefixed ::
    "('x, 'z) cmd_env_scheme \<Rightarrow> string \<Rightarrow> cmd \<Rightarrow> ('x world, gerror option) state" where
  "run_prefixed env pre c = do { r \<leftarrow> cmdOutput env c True; ret (prefixed_error pre r) }"

definition runsc_Pause ::
    "('x, 'z) cmd_env_scheme \<Rightarrow> runsc \<Rightarrow> string \<Rightarrow> ('x world, gerror option) state" where
  "runsc_Pause env r cid = run_prefixed env ''unable to pause: '' (runsc_command env r [''pause'', cid])"

definition runsc_Resume ::
    "('x, 'z) cmd_env_scheme \<Rightarrow> runsc \<Rightarrow> string \<Rightarrow> ('x world, gerror option) state" where
  "runsc_Resume env r cid = run_prefixed env ''unable to resume: '' (runsc_command env r [''resume'', cid])"

definition runsc_Update ::
    "('x, 'z) cmd_env_scheme \<Rightarrow> runsc \<Rightarrow> string \<Rightarrow> string \<Rightarrow> ('x world, gerror option) state" where
  "runsc_Update env r cid resources =
     (case enc_resources env resources of
        Inl e \<Rightarrow> ret (Some e)
      | Inr buf \<Rightarrow>
          runOrError env ((runsc_command env r [''update'', ''--resources=-'', cid])
                            \<lparr>c_Stdin := Some (Bytes buf)\<rparr>))"

definition runsc_Start ::
    "('x, 'z) cmd_env_scheme \<Rightarrow> runsc \<Rightarrow> string \<Rightarrow> nat option \<Rightarrow> ('x world, gerror option) state" where
  "runsc_Start env r cid cio = start_cmd env cio (runsc_command env r [''start'', cid])"

definition runsc_Restore ::
    "('x, 'z) cmd_env_scheme \<Rightarrow> runsc \<Rightarrow> string \<Rightarrow> nat option \<Rightarrow> restore_opts option \<Rightarrow>
     ('x world, gerror option) state" where
  "runsc_Restore env r cid cio opts =
     start_cmd env cio (runsc_command env r ([''restore''] @ opt_args restore_opts_args opts @ [cid]))"

definition runsc_Checkpoint ::
    "('x, 'z) cmd_env_scheme \<Rightarrow> runsc \<Rightarrow> string \<Rightarrow> checkpoint_opts option \<Rightarrow>
     ('x world, gerror option) state" where
  "runsc_Checkpoint env r cid opts =
     runOrError env (runsc_command env r ([''checkpoint''] @ opt_args checkpoint_opts_args opts @ [cid]))"

definition runsc_Exec ::
    "('x, 'z) cmd_env_scheme \<Rightarrow> runsc \<Rightarrow> string \<Rightarrow> proc_spec \<Rightarrow> exec_opts option \<Rightarrow>
     ('x world, gerror option) state" where
  "runsc_Exec env r cid spec opts = do {
     f \<leftarrow> ext_call (temp_create env);
     case f of
       Inl e \<Rightarrow> ret (Some e)
     | Inr name \<Rightarrow> do {
         emit (ActCreateTemp name);
         enc \<leftarrow> ext_call (temp_encode env name spec);
         res \<leftarrow> (case enc of
           Some e \<Rightarrow> ret (Some e)
         | None \<Rightarrow> do {
             oargs \<leftarrow> opt_args_result (exec_opts_args env) opts;
             case oargs of
               Inl e \<Rightarrow> ret (Some e)
             | Inr oa \<Rightarrow>
                 start_cmd env (Option.bind opts eo_IO)
                   (runsc_command env r ([''exec'', ''--process'', name] @ oa @ [cid]))
           });
         emit (ActRemove name);
         ext_call (remove_file env name);
         ret res
       }
   }"

definition runsc_Run ::
    "('x, 'z) cmd_env_scheme \<Rightarrow> runsc \<Rightarrow> string \<Rightarrow> string \<Rightarrow> create_opts option \<Rightarrow>
     ('x world, int \<times> gerror option) state" where
  "runsc_Run env r cid bundle opts = do {
     oargs \<leftarrow> opt_args_result (create_opts_args env) opts;
     case oargs of
       Inl e \<Rightarrow> ret (-1, Some e)
     | Inr oa \<Rightarrow> do {
         let c = apply_io env (Option.bind opts co_IO)
                   (runsc_command env r ([''run'', ''--bundle'', bundle] @ oa @ [cid]));
         ec \<leftarrow> monitor_start env c;
         case ec of
           Inl e \<Rightarrow> ret (-1, Some e)
         | Inr ch \<Rightarrow> do { w \<leftarrow> monitor_wait env c ch; ret (w_status w, w_err w) }
       }
   }"

definition runsc_Delete ::
    "('x, 'z) cmd_env_scheme \<Rightarrow> runsc \<Rightarrow> string \<Rightarrow> delete_opts option \<Rightarrow>
     ('x world, gerror option) state" where
  "runsc_Delete env r cid opts =
     runOrError env (runsc_command env r ([''delete''] @ opt_args delete_opts_args opts @ [cid]))"

definition runsc_Kill ::
    "('x, 'z) cmd_env_scheme \<Rightarrow> runsc \<Rightarrow> string \<Rightarrow> int \<Rightarrow> kill_opts option \<Rightarrow>
     ('x world, gerror option) state" where
  "runsc_Kill env r cid sig opts =
     runOrError env
       (runsc_command env r ([''kill''] @ opt_args kill_opts_args opts @ [cid, itoa sig]))"


section \<open>The contract of a checked run\<close>

text \<open>
  One run of a command: start it, do the step between start and wait, wait. \<open>Inl\<close> is an error of
  the start or of the step, \<open>Inr\<close> the wait's reply. Success is a reply with no error and status 0.
\<close>

abbreviation no_step :: "'x \<Rightarrow> gerror option \<times> 'x" where
  "no_step \<equiv> \<lambda>x. (None, x)"

definition run_once ::
    "('x, 'z) cmd_env_scheme \<Rightarrow> ('x \<Rightarrow> gerror option \<times> 'x) \<Rightarrow> cmd \<Rightarrow> 'x world \<Rightarrow>
     wait_reply result \<times> 'x world" where
  "run_once env between c w =
     (case mon_start env c (ext w) of
        (Inl e, x1) \<Rightarrow> (Inl e, \<lparr>ext = x1, trace = trace w @ [ActStart c]\<rparr>)
      | (Inr ch, x1) \<Rightarrow>
          (case between x1 of
             (Some e, x2) \<Rightarrow> (Inl e, \<lparr>ext = x2, trace = trace w @ [ActStart c]\<rparr>)
           | (None, x2) \<Rightarrow>
               (case mon_wait env c ch x2 of
                  (r, x3) \<Rightarrow> (Inr r, \<lparr>ext = x3, trace = trace w @ [ActStart c, ActWait c]\<rparr>))))"

definition reply_ok :: "wait_reply result \<Rightarrow> bool" where
  "reply_ok r = (case r of Inl e \<Rightarrow> False | Inr wr \<Rightarrow> w_err wr = None \<and> w_status wr = 0)"

definition exit_ok ::
    "('x, 'z) cmd_env_scheme \<Rightarrow> ('x \<Rightarrow> gerror option \<times> 'x) \<Rightarrow> cmd \<Rightarrow> 'x world \<Rightarrow> bool" where
  "exit_ok env between c w = reply_ok (fst (run_once env between c w))"

lemma run_once_trace:
  "trace (snd (run_once env between c w)) =
    trace w @ ActStart c # (case fst (run_once env between c w) of Inl e \<Rightarrow> [] | Inr r \<Rightarrow> [ActWait c])
   \<or> trace (snd (run_once env between c w)) = trace w @ [ActStart c]"
  by (simp add: run_once_def split: prod.split sum.split option.split)

text \<open>
  \<open>final c\<close> is the command as it is started (its streams filled in), \<open>between c\<close> the step between
  start and wait. A provider starts exactly that command, waits for it at most once, changes
  nothing else, and returns nil exactly when the run succeeded.
\<close>

locale checked_run =
  fixes env :: "('x, 'z) cmd_env_scheme"
    and run :: "cmd \<Rightarrow> ('x world, gerror option) state"
    and final :: "cmd \<Rightarrow> cmd"
    and between :: "cmd \<Rightarrow> 'x \<Rightarrow> gerror option \<times> 'x"
  assumes run_world: "snd (run_state (run c) w) = snd (run_once env (between c) (final c) w)"
    and run_ok: "fst (run_state (run c) w) = None \<longleftrightarrow> exit_ok env (between c) (final c) w"
begin

lemma run_trace:
  "\<exists>bs. trace (snd (run_state (run c) w)) = trace w @ ActStart (final c) # bs \<and>
        (bs = [] \<or> bs = [ActWait (final c)])"
  unfolding run_world
  using run_once_trace [of env "between c" "final c" w] by (auto split: sum.splits)

lemma run_ok_waits:
  assumes "fst (run_state (run c) w) = None"
  shows "trace (snd (run_state (run c) w)) = trace w @ [ActStart (final c), ActWait (final c)]"
  using assms unfolding run_ok run_world exit_ok_def
  by (simp add: run_once_def reply_ok_def split: prod.splits sum.splits option.splits)

lemma run_emits:
  assumes "P (ActStart (final c))" "P (ActWait (final c))"
  shows "emits P (run c)"
  unfolding emits_def
proof
  fix w
  from run_trace [of c w] obtain bs where
    "trace (snd (run_state (run c) w)) = trace w @ ActStart (final c) # bs"
    "bs = [] \<or> bs = [ActWait (final c)]" by blast
  then show "\<exists>as. trace (snd (run_state (run c) w)) = trace w @ as \<and> (\<forall>a \<in> set as. P a)"
    using assms by (intro exI [of _ "ActStart (final c) # bs"]) auto
qed

lemma run_starts:
  "\<exists>as. trace (snd (run_state (run c) w)) = trace w @ as \<and> started as = [final c]"
  using run_trace [of c w] by auto

end

text \<open>A runsc that never exits with status 0.\<close>

definition never_ok :: "('x, 'z) cmd_env_scheme \<Rightarrow> bool" where
  "never_ok env \<longleftrightarrow>
     (\<forall>c ch x. w_err (fst (mon_wait env c ch x)) \<noteq> None \<or> w_status (fst (mon_wait env c ch x)) \<noteq> 0)"

lemma never_ok_exit:
  assumes "never_ok env"
  shows "\<not> exit_ok env between c w"
proof -
  have "\<not> (w_err r = None \<and> w_status r = 0)" if "mon_wait env c ch x = (r, x')" for r ch x x'
    using assms that unfolding never_ok_def by (metis fst_conv)
  then show ?thesis
    by (auto simp: exit_ok_def run_once_def reply_ok_def split: prod.split sum.split option.split)
qed

context checked_run
begin

lemma run_failing: "never_ok env \<Longrightarrow> fst (run_state (run c) w) \<noteq> None"
  by (simp add: run_ok never_ok_exit)

end

section \<open>The three providers\<close>

definition buffered :: "cmd \<Rightarrow> cmd" where
  "buffered c = c\<lparr>c_Stdout := Some Stdout_buf, c_Stderr := Some Stdout_buf\<rparr>"

definition no_streams :: "cmd \<Rightarrow> bool" where
  "no_streams c \<longleftrightarrow> c_Stdout c = None \<and> c_Stderr c = None"

text \<open>The command that \<open>start_cmd\<close> starts, and the close of the child's ends before the wait.\<close>

definition start_final :: "('x, 'z) cmd_env_scheme \<Rightarrow> nat option \<Rightarrow> cmd \<Rightarrow> cmd" where
  "start_final env cio c =
     (let c' = apply_io env cio c in if no_streams c' then buffered c' else c')"

definition start_between ::
    "('x, 'z) cmd_env_scheme \<Rightarrow> nat option \<Rightarrow> cmd \<Rightarrow> 'x \<Rightarrow> gerror option \<times> 'x" where
  "start_between env cio c =
     (if no_streams (apply_io env cio c) then no_step
      else (case Option.bind cio (io_start_closer env) of None \<Rightarrow> no_step | Some f \<Rightarrow> f))"

definition wait_error :: "string \<Rightarrow> wait_reply \<Rightarrow> gerror option" where
  "wait_error name r =
     (case w_err r of Some e \<Rightarrow> Some e
      | None \<Rightarrow> if w_status r \<noteq> 0 then Some (not_terminated name) else None)"

lemma wait_error_None [simp]: "wait_error name r = None \<longleftrightarrow> w_err r = None \<and> w_status r = 0"
  by (simp add: wait_error_def split: option.splits)

lemma run_cmdOutput:
  "run_state (cmdOutput env c combined) w =
    (let c' = c\<lparr>c_Stdout := Some Stdout_buf,
               c_Stderr := Some (if combined then Stdout_buf else Stderr_buf)\<rparr> in
     case run_once env no_step c' w of
       (Inl e, w') \<Rightarrow> (([], [], Some e), w')
     | (Inr r, w') \<Rightarrow>
         ((w_out r, if combined then [] else w_errout r, wait_error (go_quote (c_Name c)) r), w'))"
  by (simp add: cmdOutput_def monitor_start_def monitor_wait_def run_ext_call run_once_def Let_def
      wait_error_def split: prod.split sum.split option.split)

lemma run_cmdOutput_combined:
  "run_state (cmdOutput env c True) w =
    (case run_once env no_step (buffered c) w of
       (Inl e, w') \<Rightarrow> (([], [], Some e), w')
     | (Inr r, w') \<Rightarrow> ((w_out r, [], wait_error (go_quote (c_Name c)) r), w'))"
  by (simp add: run_cmdOutput buffered_def split: prod.split sum.split)

lemma run_start_wait:
  "run_state (monitor_start env c \<bind>
      case_sum (\<lambda>e. ret (Some e)) (\<lambda>ch. close_after_start env cio \<bind>
        case_option (wait_checked env c ch) (\<lambda>e. ret (Some e)))) w =
    (case run_once env
        (case Option.bind cio (io_start_closer env) of None \<Rightarrow> no_step | Some f \<Rightarrow> f) c w of
       (Inl e, w') \<Rightarrow> (Some e, w')
     | (Inr r, w') \<Rightarrow> (wait_error (c_Name c) r, w'))"
  by (cases cio; cases "Option.bind cio (io_start_closer env)")
    (simp_all add: monitor_start_def monitor_wait_def close_after_start_def wait_checked_def
      run_ext_call run_once_def wait_error_def split: prod.split sum.split option.split)

text \<open>Every provider has this form: the outcome of one run, with an error wrapped.\<close>

lemma checkedI:
  assumes "run_state m w = (case run_once env between c w of
      (Inl e, w') \<Rightarrow> (Some (f e), w')
    | (Inr r, w') \<Rightarrow> (map_option (g r) (wait_error name r), w'))"
  shows "snd (run_state m w) = snd (run_once env between c w)"
    and "fst (run_state m w) = None \<longleftrightarrow> exit_ok env between c w"
  by (simp_all add: assms exit_ok_def reply_ok_def split: prod.split sum.split)

lemma run_buffered:
  "run_state (cmdOutput env c True \<bind> (\<lambda>r. ret (output_error r))) w =
    (case run_once env no_step (buffered c) w of
       (Inl e, w') \<Rightarrow> (Some (with_output e []), w')
     | (Inr r, w') \<Rightarrow>
         (map_option (\<lambda>e. with_output e (w_out r)) (wait_error (go_quote (c_Name c)) r), w'))"
  by (simp add: run_cmdOutput_combined output_error_def split: prod.split sum.split)

lemma run_prefixed_run:
  "run_state (run_prefixed env pre c) w =
    (case run_once env no_step (buffered c) w of
       (Inl e, w') \<Rightarrow> (Some (Wrapf pre e '': ''), w')
     | (Inr r, w') \<Rightarrow> (map_option (\<lambda>e. Wrapf pre e ('': '' @ w_out r))
                        (wait_error (go_quote (c_Name c)) r), w'))"
  by (simp add: run_prefixed_def prefixed_error_def run_cmdOutput_combined
      split: prod.split sum.split)

lemma run_streams:
  "run_state (monitor_start env c \<bind> case_sum (\<lambda>e. ret (Some e)) (wait_checked env c)) w =
    (case run_once env no_step c w of
       (Inl e, w') \<Rightarrow> (Some e, w')
     | (Inr r, w') \<Rightarrow> (map_option (\<lambda>e. e) (wait_error (c_Name c) r), w'))"
  using run_start_wait [of env c None w]
  by (simp add: close_after_start_def option.map_ident split: prod.splits sum.splits)

interpretation roe: checked_run env "runOrError env"
    "\<lambda>c. if no_streams c then buffered c else c" "\<lambda>c. no_step" for env
proof
  fix c w
  show "snd (run_state (runOrError env c) w) =
      snd (run_once env no_step (if no_streams c then buffered c else c) w)"
    by (simp add: runOrError_def no_streams_def checkedI(1) [OF run_buffered]
        checkedI(1) [OF run_streams] del: run_state_bind not_None_eq)
  show "fst (run_state (runOrError env c) w) = None \<longleftrightarrow>
      exit_ok env no_step (if no_streams c then buffered c else c) w"
    by (simp add: runOrError_def no_streams_def checkedI(2) [OF run_buffered]
        checkedI(2) [OF run_streams] del: run_state_bind not_None_eq)
qed

interpretation pfx: checked_run env "run_prefixed env pre" buffered "\<lambda>c. no_step" for env pre
  by unfold_locales (rule checkedI [OF run_prefixed_run])+

lemma start_cmd_streams:
  assumes "\<not> no_streams (apply_io env cio c)"
  shows "start_cmd env cio c =
    monitor_start env (apply_io env cio c) \<bind>
      case_sum (\<lambda>e. ret (Some e)) (\<lambda>ch. close_after_start env cio \<bind>
        case_option (wait_checked env (apply_io env cio c) ch) (\<lambda>e. ret (Some e)))"
  using assms unfolding start_cmd_def Let_def no_streams_def by (rule if_not_P)

lemma run_start_cmd_streams:
  assumes "\<not> no_streams (apply_io env cio c)"
  shows "run_state (start_cmd env cio c) w =
    (case run_once env (start_between env cio c) (apply_io env cio c) w of
       (Inl e, w') \<Rightarrow> (Some e, w')
     | (Inr r, w') \<Rightarrow> (map_option (\<lambda>e. e) (wait_error (c_Name (apply_io env cio c)) r), w'))"
  unfolding start_cmd_streams [OF assms] run_start_wait
  using assms by (simp add: start_between_def option.map_ident split: prod.split sum.split)

lemma run_start_cmd_buffered:
  assumes "no_streams (apply_io env cio c)"
  shows "run_state (start_cmd env cio c) w =
    (case run_once env no_step (buffered (apply_io env cio c)) w of
       (Inl e, w') \<Rightarrow> (Some (with_output e []), w')
     | (Inr r, w') \<Rightarrow> (map_option (\<lambda>e. with_output e (w_out r))
                        (wait_error (go_quote (c_Name (apply_io env cio c))) r), w'))"
  using assms run_buffered [of env "apply_io env cio c" w]
  by (simp add: start_cmd_def no_streams_def Let_def del: run_state_bind)

interpretation stc: checked_run env "start_cmd env cio" "start_final env cio" "start_between env cio"
    for env cio
proof
  fix c w
  show "snd (run_state (start_cmd env cio c) w) =
      snd (run_once env (start_between env cio c) (start_final env cio c) w)"
    by (cases "no_streams (apply_io env cio c)")
      (simp_all add: start_final_def start_between_def Let_def
        checkedI(1) [OF run_start_cmd_buffered]
        checkedI(1) [OF run_start_cmd_streams, unfolded start_between_def])
  show "fst (run_state (start_cmd env cio c) w) = None \<longleftrightarrow>
      exit_ok env (start_between env cio c) (start_final env cio c) w"
    by (cases "no_streams (apply_io env cio c)")
      (simp_all add: start_final_def start_between_def Let_def
        checkedI(2) [OF run_start_cmd_buffered]
        checkedI(2) [OF run_start_cmd_streams, unfolded start_between_def])
qed

section \<open>The contract of a flag encoding\<close>

text \<open>
  Flags carry an option record without loss: some decoder recovers it. Its consequence is what
  the operations need: different options never give the same command line.
\<close>

locale flag_codec =
  fixes enc :: "'p \<Rightarrow> string list"
    and dec :: "string list \<Rightarrow> 'p option"
  assumes dec_enc: "dec (enc op) = Some op"
begin

lemma enc_inject: "enc a = enc b \<longleftrightarrow> a = b"
  by (metis dec_enc option.inject)

lemma command_inject:
  "runsc_command env r ([sub] @ enc a @ rest) = runsc_command env r ([sub] @ enc b @ rest) \<longleftrightarrow> a = b"
  by (auto simp: runsc_command_def enc_inject)

end

definition take_value :: "string \<Rightarrow> string list \<Rightarrow> string \<times> string list" where
  "take_value pre as =
     (case as of [] \<Rightarrow> ([], [])
      | a # rest \<Rightarrow> if prefix pre a then (drop (length pre) a, rest) else ([], as))"

definition take_switch :: "string \<Rightarrow> string list \<Rightarrow> bool \<times> string list" where
  "take_switch f as =
     (case as of [] \<Rightarrow> (False, []) | a # rest \<Rightarrow> if a = f then (True, rest) else (False, as))"

definition restore_decode :: "string list \<Rightarrow> restore_opts option" where
  "restore_decode as =
     (case take_value ''--image-path='' as of (ip, as1) \<Rightarrow>
      case take_switch ''--detach'' as1 of (d, as2) \<Rightarrow>
      case take_switch ''--direct'' as2 of (di, as3) \<Rightarrow>
      case take_switch ''--background'' as3 of (b, as4) \<Rightarrow>
        if as4 = [] then Some \<lparr>ro_ImagePath = ip, ro_Detach = d, ro_Direct = di, ro_Background = b\<rparr>
        else None)"

definition checkpoint_decode :: "string list \<Rightarrow> checkpoint_opts option" where
  "checkpoint_decode as =
     (case take_value ''--image-path='' as of (ip, as1) \<Rightarrow>
      case take_switch ''--leave-running'' as1 of (l, as2) \<Rightarrow>
        if as2 = [] then Some \<lparr>cp_ImagePath = ip, cp_LeaveRunning = l\<rparr> else None)"

definition delete_decode :: "string list \<Rightarrow> delete_opts option" where
  "delete_decode as =
     (case take_switch ''--force'' as of (f, as1) \<Rightarrow>
        if as1 = [] then Some \<lparr>do_Force = f\<rparr> else None)"

definition kill_decode :: "string list \<Rightarrow> kill_opts option" where
  "kill_decode as =
     (case take_switch ''--all'' as of (a, as1) \<Rightarrow>
        (case as1 of
           [] \<Rightarrow> Some \<lparr>ko_All = a, ko_Pid = 0\<rparr>
         | [f, n] \<Rightarrow> if f = ''--pid'' then Some \<lparr>ko_All = a, ko_Pid = read_int n\<rparr> else None
         | _ \<Rightarrow> None))"

lemmas codec_defs = take_value_def take_switch_def

interpretation restore_flags: flag_codec restore_opts_args restore_decode
  by unfold_locales (simp add: restore_opts_args_def restore_decode_def codec_defs)

interpretation checkpoint_flags: flag_codec checkpoint_opts_args checkpoint_decode
  by unfold_locales (simp add: checkpoint_opts_args_def checkpoint_decode_def codec_defs)

interpretation delete_flags: flag_codec delete_opts_args delete_decode
  by unfold_locales (simp add: delete_opts_args_def delete_decode_def codec_defs)

interpretation kill_flags: flag_codec kill_opts_args kill_decode
  by unfold_locales (simp add: kill_opts_args_def kill_decode_def codec_defs)

section \<open>What each operation appends to the trace\<close>

lemma command_streams [simp]:
  "c_Stdout (runsc_command env r args) = None" "c_Stderr (runsc_command env r args) = None"
  "no_streams (runsc_command env r args)"
  by (simp_all add: runsc_command_def no_streams_def)

lemma no_streams_stdin [simp]: "no_streams (c\<lparr>c_Stdin := x\<rparr>) \<longleftrightarrow> no_streams c"
  by (simp add: no_streams_def)

definition is_run :: "action \<Rightarrow> bool" where
  "is_run a \<longleftrightarrow> (\<exists>c. a = ActStart c \<or> a = ActWait c)"

lemma is_run_simps [simp]: "is_run (ActStart c)" "is_run (ActWait c)"
  by (simp_all add: is_run_def)

lemma emits_abs_path [emits_intros]: "emits P (abs_path env p)"
  unfolding abs_path_def by (intro emits_intros)

lemma emits_path_flag [emits_intros]: "emits P (path_flag env f p)"
  unfolding path_flag_def by (intro emits_intros)

lemma emits_create_opts_args [emits_intros]: "emits P (create_opts_args env op)"
  unfolding create_opts_args_def by (intro emits_intros)

lemma emits_exec_opts_args [emits_intros]: "emits P (exec_opts_args env op)"
  unfolding exec_opts_args_def by (intro emits_intros)

lemma emits_opt_args_result [emits_intros]:
  "(\<And>op. emits P (f op)) \<Longrightarrow> emits P (opt_args_result f opts)"
  unfolding opt_args_result_def by (intro emits_intros)

text \<open>An operation that runs commands and does nothing else.\<close>

lemma only_runs [emits_intros]:
  "emits is_run (runOrError env c)" "emits is_run (start_cmd env cio c)"
  "emits is_run (run_prefixed env pre c)"
  by (simp_all add: roe.run_emits stc.run_emits pfx.run_emits)

lemma emits_cmdOutput [emits_intros]:
  "(\<And>c. P (ActStart c)) \<Longrightarrow> (\<And>c. P (ActWait c)) \<Longrightarrow> emits P (cmdOutput env c b)"
  unfolding cmdOutput_def monitor_start_def monitor_wait_def
  by (intro emits_intros) simp_all

lemma emits_output_of [emits_intros]:
  "(\<And>c. P (ActStart c)) \<Longrightarrow> (\<And>c. P (ActWait c)) \<Longrightarrow> emits P (output_of env c dec)"
  unfolding output_of_def by (intro emits_intros) simp_all

lemma trace_silent:
  assumes "emits (\<lambda>_. False) m" "run_state m w = (r, w')"
  shows "trace w' = trace w"
  using emitsD [OF assms] by (metis append_Nil2 last_in_set)

section \<open>A concrete environment\<close>

text \<open>
  A monitor whose commands all start and exit with status \<open>st\<close>, writing \<open>out\<close>; a working directory;
  one temporary file name; map iteration in insertion order. The world has no state of its own.
\<close>

definition sample_cmd_env :: "int \<Rightarrow> string \<Rightarrow> 'x cmd_env" where
  "sample_cmd_env st out =
     \<lparr> mon_start = (\<lambda>c x. (Inr 7, x)),
       mon_wait = (\<lambda>c ch x. (\<lparr>w_status = st, w_err = None, w_out = out, w_errout = []\<rparr>, x)),
       io_set = (\<lambda>i c. c\<lparr>c_Stdout := Some (Io_stream i), c_Stderr := Some (Io_stream i)\<rparr>),
       io_start_closer = (\<lambda>i. Some (\<lambda>x. (None, x))),
       getwd = (\<lambda>x. (Inr ''/run'', x)),
       temp_create = (\<lambda>x. (Inr ''/tmp/runsc-process1'', x)),
       temp_encode = (\<lambda>f p x. (None, x)),
       remove_file = (\<lambda>f x. ((), x)),
       map_order = (\<lambda>m. m),
       dec_list = (\<lambda>d. Inr []),
       dec_state = (\<lambda>d. Inr \<lparr>ci_ID = [], ci_Status = d\<rparr>),
       dec_wait = (\<lambda>d. Inr \<lparr>wr_ID = [], wr_ExitStatus = int (length d)\<rparr>),
       dec_event = (\<lambda>d. Inl (Msg ''no event'')),
       dec_pids = (\<lambda>d. Inr [1]),
       parse_ps = (\<lambda>d. Inr []),
       enc_resources = (\<lambda>s. Inr s),
       errtxt = (\<lambda>e. ''external'') \<rparr>"

definition sample_runsc :: runsc where
  "sample_runsc =
     \<lparr> Command = [], PdeathSignal = 9, Setpgid = False, Root = ''/run/runsc'', Log = [],
       LogFormat = ''json'', PanicLog = [], Config = [(''platform'', ''systrap'')] \<rparr>"

section \<open>Properties\<close>

text \<open>
  C16: Each operation that runs one runsc subcommand reports success (a nil error) exactly when that
  command, with that argument list, was started, was waited for without error and exited with status
  0. For \<open>Start\<close> and \<open>Restore\<close> the command is the one with the container's IO applied.
\<close>

theorem client_success_iff_exit_zero:
  "(fst (run_state (runsc_Checkpoint env r cid cp) w) = None \<longleftrightarrow>
      exit_ok env no_step (buffered (runsc_command env r
        ([''checkpoint''] @ opt_args checkpoint_opts_args cp @ [cid]))) w) \<and>
   (fst (run_state (runsc_Delete env r cid dl) w) = None \<longleftrightarrow>
      exit_ok env no_step (buffered (runsc_command env r
        ([''delete''] @ opt_args delete_opts_args dl @ [cid]))) w) \<and>
   (fst (run_state (runsc_Kill env r cid sig ko) w) = None \<longleftrightarrow>
      exit_ok env no_step (buffered (runsc_command env r
        ([''kill''] @ opt_args kill_opts_args ko @ [cid, itoa sig]))) w) \<and>
   (fst (run_state (runsc_Pause env r cid) w) = None \<longleftrightarrow>
      exit_ok env no_step (buffered (runsc_command env r [''pause'', cid])) w) \<and>
   (fst (run_state (runsc_Resume env r cid) w) = None \<longleftrightarrow>
      exit_ok env no_step (buffered (runsc_command env r [''resume'', cid])) w) \<and>
   (fst (run_state (runsc_Start env r cid cio) w) = None \<longleftrightarrow>
      (let c = runsc_command env r [''start'', cid]
       in exit_ok env (start_between env cio c) (start_final env cio c) w)) \<and>
   (fst (run_state (runsc_Restore env r cid cio ro) w) = None \<longleftrightarrow>
      (let c = runsc_command env r ([''restore''] @ opt_args restore_opts_args ro @ [cid])
       in exit_ok env (start_between env cio c) (start_final env cio c) w))"
  by (simp add: runsc_Checkpoint_def runsc_Delete_def runsc_Kill_def runsc_Pause_def runsc_Resume_def
      runsc_Start_def runsc_Restore_def Let_def roe.run_ok pfx.run_ok stc.run_ok)

lemma output_of_failing:
  assumes "never_ok env"
  shows "\<exists>e. fst (run_state (output_of env c dec) w) = Inl e"
proof -
  have "\<not> exit_ok env no_step (c\<lparr>c_Stdout := Some Stdout_buf, c_Stderr := Some Stderr_buf\<rparr>) w"
    by (rule never_ok_exit [OF assms])
  then show ?thesis
    by (auto simp: output_of_def run_cmdOutput exit_ok_def reply_ok_def Let_def wait_error_def
        split: prod.splits sum.splits option.splits)
qed

lemma Run_failing:
  assumes "never_ok env"
  shows "snd (fst (run_state (runsc_Run env r cid bundle op) w)) \<noteq> None \<or>
    fst (fst (run_state (runsc_Run env r cid bundle op) w)) \<noteq> 0"
proof -
  have "w_err q \<noteq> None \<or> w_status q \<noteq> 0" if "mon_wait env c ch x = (q, x')" for c ch x q x'
    using assms that unfolding never_ok_def by (metis fst_conv)
  then show ?thesis
    by (auto simp: runsc_Run_def monitor_start_def monitor_wait_def run_ext_call Let_def
        split: prod.splits sum.splits)
qed

text \<open>
  C17: A failing runsc is never reported as success. If no command ever exits with status 0, every
  operation that returns an error returns one, whatever its options: those that run one subcommand,
  those that read its output (\<open>List\<close>, \<open>State\<close>, \<open>Wait\<close>, \<open>Ps\<close>, \<open>Top\<close>, \<open>Stats\<close>) and those that prepare
  files or options first (\<open>Create\<close>, \<open>Exec\<close>, \<open>Update\<close>). \<open>Run\<close>, which hands the exit status to its
  caller, gives an error or a status that is not 0.
\<close>

theorem failing_runsc_reported:
  assumes "never_ok env"
  shows "fst (run_state (runsc_Create env r cid bundle co) w) \<noteq> None \<and>
    fst (run_state (runsc_Exec env r cid spec eo) w) \<noteq> None \<and>
    fst (run_state (runsc_Update env r cid res) w) \<noteq> None \<and>
    fst (run_state (runsc_Start env r cid cio) w) \<noteq> None \<and>
    fst (run_state (runsc_Restore env r cid cio ro) w) \<noteq> None \<and>
    fst (run_state (runsc_Checkpoint env r cid cp) w) \<noteq> None \<and>
    fst (run_state (runsc_Delete env r cid dl) w) \<noteq> None \<and>
    fst (run_state (runsc_Kill env r cid sig ko) w) \<noteq> None \<and>
    fst (run_state (runsc_Pause env r cid) w) \<noteq> None \<and>
    fst (run_state (runsc_Resume env r cid) w) \<noteq> None \<and>
    (\<exists>e. fst (run_state (runsc_List env r) w) = Inl e) \<and>
    (\<exists>e. fst (run_state (runsc_State env r cid) w) = Inl e) \<and>
    (\<exists>e. fst (run_state (runsc_Wait env r cid) w) = Inl e) \<and>
    (\<exists>e. fst (run_state (runsc_Ps env r cid) w) = Inl e) \<and>
    (\<exists>e. fst (run_state (runsc_Top env r cid) w) = Inl e) \<and>
    (\<exists>e. fst (run_state (runsc_Stats env r cid) w) = Inl e) \<and>
    (snd (fst (run_state (runsc_Run env r cid bundle co) w)) \<noteq> None \<or>
     fst (fst (run_state (runsc_Run env r cid bundle co) w)) \<noteq> 0)"
proof -
  note fails = roe.run_failing [OF assms] pfx.run_failing [OF assms] stc.run_failing [OF assms]
  have "fst (run_state (runsc_Create env r cid bundle co) w) \<noteq> None"
    using fails by (simp add: runsc_Create_def split: prod.split sum.split)
  moreover have "fst (run_state (runsc_Exec env r cid spec eo) w) \<noteq> None"
    using fails by (auto simp: runsc_Exec_def run_ext_call split: prod.split sum.split option.split)
      (metis fst_conv not_Some_eq)+
  moreover have "fst (run_state (runsc_Update env r cid res) w) \<noteq> None"
    using fails by (simp add: runsc_Update_def split: sum.split)
  moreover note Run_failing [OF assms, of r cid "bundle" co w]
  ultimately show ?thesis
    using fails
    by (simp add: output_of_failing [OF assms] runsc_Start_def runsc_Restore_def runsc_Checkpoint_def runsc_Delete_def
        runsc_Kill_def runsc_Pause_def runsc_Resume_def runsc_List_def runsc_State_def runsc_Wait_def
        runsc_Ps_def runsc_Top_def runsc_Stats_def)
qed

lemma failing_runsc_reported_witness:
  "never_ok (sample_cmd_env 128 ''boom'' :: unit cmd_env) \<and>
   fst (run_state (runsc_Checkpoint (sample_cmd_env 128 ''boom'' :: unit cmd_env) sample_runsc ''c1''
     (Some \<lparr>cp_ImagePath = ''/img'', cp_LeaveRunning = True\<rparr>)) \<lparr>ext = (), trace = []\<rparr>) \<noteq> None \<and>
   (\<exists>e. fst (run_state (runsc_Wait (sample_cmd_env 128 ''boom'' :: unit cmd_env) sample_runsc ''c1'')
     \<lparr>ext = (), trace = []\<rparr>) = Inl e)"
proof -
  have h: "never_ok (sample_cmd_env 128 ''boom'' :: unit cmd_env)"
    by (simp add: never_ok_def sample_cmd_env_def)
  from failing_runsc_reported [OF h] h show ?thesis by blast
qed

text \<open>
  C24: The flags carry the options: the image path and switches of a restore, those of a checkpoint,
  the force switch of a delete and the switch and pid of a kill are recovered by reading the flags
  back, so no option is lost, doubled or taken for another.
\<close>

theorem flags_round_trip:
  "restore_decode (restore_opts_args ro) = Some ro \<and>
   checkpoint_decode (checkpoint_opts_args cp) = Some cp \<and>
   delete_decode (delete_opts_args dl) = Some dl \<and>
   kill_decode (kill_opts_args ko) = Some ko"
  by (simp add: restore_flags.dec_enc checkpoint_flags.dec_enc delete_flags.dec_enc kill_flags.dec_enc)





text \<open>
  C23: \<open>Exec\<close> leaves no temporary file behind. Either no file could be created and nothing happened,
  or the file is created first, removed last, and only runs of a command come between, on every
  path: encoding error, option error, failing command and success.
\<close>

theorem exec_removes_temp_file:
  "\<exists>as. trace (snd (run_state (runsc_Exec env r cid spec op) w)) = trace w @ as \<and>
     (as = [] \<or> (\<exists>name mid. as = ActCreateTemp name # mid @ [ActRemove name] \<and> list_all is_run mid))"
proof -
  obtain f x1 where f: "temp_create env (ext w) = (f, x1)" by fastforce
  show ?thesis
  proof (cases f)
    case (Inl e)
    with f show ?thesis by (simp add: runsc_Exec_def run_ext_call)
  next
    case (Inr name)
    let ?body = "ext_call (temp_encode env name spec) \<bind> case_option
      (opt_args_result (exec_opts_args env) op \<bind>
          case_sum (\<lambda>e. ret (Some e)) (\<lambda>oa. start_cmd env (Option.bind op eo_IO)
            (runsc_command env r ([''exec'', ''--process'', name] @ oa @ [cid]))))
      (\<lambda>e. ret (Some e))"
    have "emits is_run ?body" by (intro emits_intros)
    from emits_bracket [OF this, of "ActCreateTemp name" "ActRemove name" "remove_file env name"
        "\<lparr>ext = x1, trace = trace w\<rparr>"]
    obtain mid where "trace (snd (run_state (emit (ActCreateTemp name) \<bind> (\<lambda>_. ?body \<bind>
        (\<lambda>r. emit (ActRemove name) \<bind> (\<lambda>_. ext_call (remove_file env name) \<bind> (\<lambda>_. ret r)))))
        \<lparr>ext = x1, trace = trace w\<rparr>)) = trace w @ ActCreateTemp name # mid @ [ActRemove name]"
      "list_all is_run mid" by auto
    then show ?thesis
      unfolding runsc_Exec_def run_state_bind [of "ext_call (temp_create env)"] run_ext_call f Inr
      by (intro exI [of _ "ActCreateTemp name # mid @ [ActRemove name]"])
        (simp only: bind_assoc prod.case sum.case append_Cons append_Nil append_assoc simp_thms; blast)
  qed
qed

end
