(* ===== verification/ProcInit.thy ===== *)
theory ProcInit
  imports RunscCmd
begin

text \<open>
  The init process of a container (\<open>proc/init.go\<close>): creation, start or restore, checkpoint, the
  goroutine that waits for its end, exit status, kill with back-off, deletion and the errors of the
  runtime. The methods that clients call take the process's mutex and go through its \<open>initState\<close>,
  an interface whose implementations are not part of this source: its methods are parameters
  (\<open>st_Start\<close>, \<open>st_Kill\<close>, ...), and the lower-case methods below are what those implementations
  call back.
\<close>

section \<open>Data\<close>

definition statusStopped :: string where
  "statusStopped = ''stopped''"

record stdio =
  so_Stdin :: string
  so_Stdout :: string
  so_Stderr :: string
  so_Terminal :: bool

record create_config =
  cc_ID :: string
  cc_Bundle :: string
  cc_Runtime :: string
  cc_Rootfs :: "mount list"
  cc_Terminal :: bool
  cc_Stdin :: string
  cc_Stdout :: string
  cc_Stderr :: string
  cc_FSRestoreImagePath :: string
  cc_FSRestoreDirect :: bool

record exec_config =
  xc_ID :: string
  xc_Terminal :: bool
  xc_Stdin :: string
  xc_Stdout :: string
  xc_Stderr :: string
  xc_Spec :: string

record restore_conf =
  rc_ImagePath :: string
  rc_Direct :: bool
  rc_Background :: bool

record proc_exit =
  ex_Timestamp :: time
  ex_ID :: string
  ex_Status :: int

record win_size =
  ws_Width :: u16
  ws_Height :: u16

text \<open>
  The process. \<open>'s\<close> is the type of the values of \<open>initState\<close>; handles of consoles, IO objects and
  closers are numbers; \<open>i_waitClosed\<close> says that the channel \<open>waitBlock\<close> is closed; \<open>i_exited\<close> is
  \<^const>\<open>None\<close> for the zero time.
\<close>

record 's init =
  i_id :: string
  i_initState :: 's
  i_waitClosed :: bool
  i_WorkDir :: string
  i_Bundle :: string
  i_console :: "nat option"
  i_io :: "nat option"
  i_runtime :: runsc
  i_status :: int
  i_exited :: "time option"
  i_pid :: int
  i_closers :: "nat list"
  i_stdin :: "nat option"
  i_stdio :: stdio
  i_Rootfs :: string
  i_IoUID :: int
  i_IoGID :: int
  i_Sandbox :: bool
  i_UserLog :: string

text \<open>A process started by exec, as \<open>Init.exec\<close> builds it.\<close>

record 's exec_process =
  xp_id :: string
  xp_path :: string
  xp_parent :: string
  xp_spec :: proc_spec
  xp_stdio :: stdio
  xp_waitClosed :: bool
  xp_execState :: 's

datatype 's process = PInit "'s init" | PExec "'s exec_process"

section \<open>The environment of a process\<close>

text \<open>
  Consoles, pipes, fifos, mounts, the clock and the pid file are the operating system's;
  \<open>has_no_io\<close>, \<open>last_runtime_error\<close> and \<open>internalErrorCode\<close> are \<open>hasNoIO\<close>, \<open>getLastRuntimeError\<close>
  and the constant of that name in other files of the package; \<open>created_state\<close> and
  \<open>exec_created_state\<close> are the initial values of the two state interfaces.
\<close>

record ('x, 's) proc_env = "'x cmd_env" +
  new_console_socket :: "'x \<Rightarrow> string result \<times> 'x"
  close_socket :: "string \<Rightarrow> 'x \<Rightarrow> unit \<times> 'x"
  new_null_io :: "'x \<Rightarrow> nat result \<times> 'x"
  new_pipe_io :: "int \<Rightarrow> int \<Rightarrow> bool \<times> bool \<times> bool \<Rightarrow> 'x \<Rightarrow> nat result \<times> 'x"
  open_fifo :: "string \<Rightarrow> 'x \<Rightarrow> nat result \<times> 'x"
  receive_master :: "string \<Rightarrow> 'x \<Rightarrow> nat result \<times> 'x"
  copy_console :: "nat \<Rightarrow> create_config \<Rightarrow> 'x \<Rightarrow> nat result \<times> 'x"
  copy_pipes :: "nat option \<Rightarrow> create_config \<Rightarrow> 'x \<Rightarrow> gerror option \<times> 'x"
  read_pid_file :: "string \<Rightarrow> 'x \<Rightarrow> int result \<times> 'x"
  has_no_io :: "create_config \<Rightarrow> bool"
  last_runtime_error :: "runsc \<Rightarrow> 'x \<Rightarrow> string result \<times> 'x"
  now :: "'x \<Rightarrow> time \<times> 'x"
  sleep_for :: "nat \<Rightarrow> 'x \<Rightarrow> unit \<times> 'x"
  wg_wait :: "'x \<Rightarrow> unit \<times> 'x"
  close_fd :: "nat \<Rightarrow> 'x \<Rightarrow> gerror option \<times> 'x"
  close_io :: "nat \<Rightarrow> 'x \<Rightarrow> unit \<times> 'x"
  unmount_all :: "string \<Rightarrow> 'x \<Rightarrow> gerror option \<times> 'x"
  shutdown_console :: "nat option \<Rightarrow> 'x \<Rightarrow> unit \<times> 'x"
  console_resize :: "nat \<Rightarrow> win_size \<Rightarrow> 'x \<Rightarrow> gerror option \<times> 'x"
  dec_process :: "string \<Rightarrow> proc_spec result"
  dec_resources :: "string \<Rightarrow> string result"
  internalErrorCode :: int
  created_state :: 's
  exec_created_state :: 's

text \<open>
  The methods of \<open>initState\<close>, applied to the process that holds it. Each may replace the process
  (its state changes, its exit status is set); \<open>st_SetExited\<close> gives \<^const>\<open>None\<close> when it panics.
\<close>

record ('x, 's) init_env = "('x, 's) proc_env" +
  st_State :: "'s init \<Rightarrow> ('x world, string result) state"

record ('x, 's) state_env = "('x, 's) init_env" +
  st_Start :: "'s init \<Rightarrow> restore_conf option \<Rightarrow> ('x world, gerror option \<times> 's init) state"
  st_Delete :: "'s init \<Rightarrow> ('x world, gerror option \<times> 's init) state"
  st_Kill :: "'s init \<Rightarrow> u32 \<Rightarrow> bool \<Rightarrow> ('x world, gerror option \<times> 's init) state"
  st_Exec :: "'s init \<Rightarrow> string \<Rightarrow> exec_config \<Rightarrow> ('x world, 's exec_process result \<times> 's init) state"
  st_SetExited :: "'s init \<Rightarrow> int \<Rightarrow> ('x world, 's init option) state"
  st_Stats :: "'s init \<Rightarrow> string \<Rightarrow> ('x world, run_stats result) state"

section \<open>Construction\<close>

text \<open>\<open>root0\<close> is \<open>RunscRoot\<close> and \<open>panicLog\<close> is \<open>utils.PanicLogPath(spec)\<close>.\<close>

definition NewRunsc ::
    "string \<Rightarrow> string \<Rightarrow> string \<Rightarrow> string \<Rightarrow> string \<Rightarrow> (string, string) gomap \<Rightarrow> string \<Rightarrow> runsc" where
  "NewRunsc root0 root path namespace runtime config panicLog =
     (let rt = (if root = [] then root0 else root) in
      \<lparr> Command = runtime, PdeathSignal = 9, Setpgid = False, Root = Join [rt, namespace],
        Log = Join [path, ''log.json''], LogFormat = ''json'', PanicLog = panicLog,
        Config = config \<rparr>)"

definition New :: "('x, 's, 'z) proc_env_scheme \<Rightarrow> string \<Rightarrow> runsc \<Rightarrow> stdio \<Rightarrow> 's init" where
  "New env cid runtime sio =
     \<lparr> i_id = cid, i_initState = created_state env, i_waitClosed = False, i_WorkDir = [],
       i_Bundle = [], i_console = None, i_io = None, i_runtime = runtime, i_status = 0,
       i_exited = None, i_pid = 0, i_closers = [], i_stdin = None, i_stdio = sio, i_Rootfs = [],
       i_IoUID = 0, i_IoGID = 0, i_Sandbox = False, i_UserLog = [] \<rparr>"

section \<open>Errors of the runtime\<close>

text \<open>\<open>runtimeError\<close> on a non-nil error.\<close>

definition runtime_error ::
    "('x, 's, 'z) proc_env_scheme \<Rightarrow> 's init \<Rightarrow> gerror \<Rightarrow> string \<Rightarrow> ('x world, gerror) state" where
  "runtime_error env p rErr msg = do {
     m \<leftarrow> ext_call (last_runtime_error env (i_runtime p));
     ret (case m of
            Inl err \<Rightarrow>
              Wrapf (msg @ '': '') rErr
                ('' (unable to retrieve OCI runtime error: '' @ err_text (errtxt env) err @ '')'')
          | Inr rMsg \<Rightarrow>
              if rMsg = [] then Wrapf (msg @ '': '') rErr [] else Msg (msg @ '': '' @ rMsg))
   }"

definition runtimeError ::
    "('x, 's, 'z) proc_env_scheme \<Rightarrow> 's init \<Rightarrow> gerror option \<Rightarrow> string \<Rightarrow>
     ('x world, gerror option) state" where
  "runtimeError env p rErr msg =
     (case rErr of
        None \<Rightarrow> ret None
      | Some e \<Rightarrow> do { r \<leftarrow> runtime_error env p e msg; ret (Some r) })"

definition convertStatus :: "('x, 's, 'z) proc_env_scheme \<Rightarrow> 's init \<Rightarrow> string \<Rightarrow> string" where
  "convertStatus env p status =
     (if status = ''created'' \<and> \<not> i_Sandbox p \<and> i_status p = internalErrorCode env
      then statusStopped else status)"

definition not_exist :: "('x, 's, 'z) proc_env_scheme \<Rightarrow> gerror \<Rightarrow> bool" where
  "not_exist env e = str_contains (err_text (errtxt env) e) ''does not exist''"

definition init_state ::
    "('x, 's, 'z) proc_env_scheme \<Rightarrow> 's init \<Rightarrow> ('x world, string result) state" where
  "init_state env p = do {
     c \<leftarrow> runsc_State env (i_runtime p) (i_id p);
     case c of
       Inl err \<Rightarrow>
         if not_exist env err then ret (Inr statusStopped)
         else do { e \<leftarrow> runtime_error env p err ''OCI runtime state failed''; ret (Inl e) }
     | Inr info \<Rightarrow> ret (Inr (convertStatus env p (ci_Status info)))
   }"

section \<open>Creation\<close>

definition conditional_io :: "stdio \<Rightarrow> bool \<times> bool \<times> bool" where
  "conditional_io c = (so_Stdin c \<noteq> [], so_Stdout c \<noteq> [], so_Stderr c \<noteq> [])"

text \<open>The first step: a console socket, or null IO, or pipes.\<close>

definition create_io ::
    "('x, 's, 'z) proc_env_scheme \<Rightarrow> 's init \<Rightarrow> create_config \<Rightarrow>
     ('x world, string option result \<times> 's init) state" where
  "create_io env p r =
     (if cc_Terminal r then do {
        s \<leftarrow> ext_call (new_console_socket env);
        case s of
          Inl e \<Rightarrow> ret (Inl (Wrapf ''failed to create OCI runtime console socket: '' e []), p)
        | Inr path \<Rightarrow> ret (Inr (Some path), p)
      } else if has_no_io env r then do {
        h \<leftarrow> ext_call (new_null_io env);
        case h of
          Inl e \<Rightarrow> ret (Inl (Wrapf ''creating new NULL IO: '' e []), p\<lparr>i_io := None\<rparr>)
        | Inr pio \<Rightarrow> ret (Inr None, p\<lparr>i_io := Some pio\<rparr>)
      } else do {
        h \<leftarrow> ext_call (new_pipe_io env (i_IoUID p) (i_IoGID p) (conditional_io (i_stdio p)));
        case h of
          Inl e \<Rightarrow> ret (Inl (Wrapf ''failed to create OCI runtime io pipes: '' e []), p\<lparr>i_io := None\<rparr>)
        | Inr pio \<Rightarrow> ret (Inr None, p\<lparr>i_io := Some pio\<rparr>)
      })"

definition init_create_opts :: "'s init \<Rightarrow> create_config \<Rightarrow> string option \<Rightarrow> create_opts" where
  "init_create_opts p r socket =
     \<lparr> co_IO = (if i_Sandbox p then i_io p else None),
       co_ConsoleSocket = socket,
       co_PidFile = Join [i_Bundle p, ''init.pid''],
       co_UserLog = (if i_Sandbox p then i_UserLog p else []),
       co_FSRestoreImagePath = cc_FSRestoreImagePath r,
       co_FSRestoreDirect = cc_FSRestoreDirect r \<rparr>"

definition create_stdin ::
    "('x, 's, 'z) proc_env_scheme \<Rightarrow> 's init \<Rightarrow> create_config \<Rightarrow>
     ('x world, gerror option \<times> 's init) state" where
  "create_stdin env p r =
     (if cc_Stdin r = [] then ret (None, p)
      else do {
        sc \<leftarrow> ext_call (open_fifo env (cc_Stdin r));
        case sc of
          Inl e \<Rightarrow> ret (Some (Wrapf (''failed to open stdin fifo '' @ cc_Stdin r @ '': '') e []), p)
        | Inr h \<Rightarrow> ret (None, p\<lparr>i_stdin := Some h, i_closers := i_closers p @ [h]\<rparr>)
      })"

definition create_copy ::
    "('x, 's, 'z) proc_env_scheme \<Rightarrow> 's init \<Rightarrow> create_config \<Rightarrow> string option \<Rightarrow>
     ('x world, gerror option \<times> 's init) state" where
  "create_copy env p r socket =
     (case socket of
        Some path \<Rightarrow> do {
          master \<leftarrow> ext_call (receive_master env path);
          case master of
            Inl e \<Rightarrow> ret (Some (Wrapf ''failed to retrieve console master: '' e []), p)
          | Inr m \<Rightarrow> do {
              cons \<leftarrow> ext_call (copy_console env m r);
              case cons of
                Inl e \<Rightarrow> ret (Some (Wrapf ''failed to start console copy: '' e []), p)
              | Inr c \<Rightarrow> ret (None, p\<lparr>i_console := Some c\<rparr>)
            }
        }
      | None \<Rightarrow>
          if \<not> has_no_io env r then do {
            ce \<leftarrow> ext_call (copy_pipes env (i_io p) r);
            ret (map_option (\<lambda>e. Wrapf ''failed to start io pipe copy: '' e []) ce, p)
          } else ret (None, p))"

definition create_body ::
    "('x, 's, 'z) proc_env_scheme \<Rightarrow> 's init \<Rightarrow> create_config \<Rightarrow> string option \<Rightarrow>
     ('x world, gerror option \<times> 's init) state" where
  "create_body env p r socket = do {
     err \<leftarrow> runsc_Create env (i_runtime p) (cc_ID r) (cc_Bundle r) (Some (init_create_opts p r socket));
     case err of
       Some e \<Rightarrow> do { e' \<leftarrow> runtime_error env p e ''OCI runtime create failed''; ret (Some e', p) }
     | None \<Rightarrow> do {
         (serr, p1) \<leftarrow> create_stdin env p r;
         case serr of
           Some e \<Rightarrow> ret (Some e, p1)
         | None \<Rightarrow> do {
             (cerr, p2) \<leftarrow> create_copy env p1 r socket;
             case cerr of
               Some e \<Rightarrow> ret (Some e, p2)
             | None \<Rightarrow> do {
                 pid \<leftarrow> ext_call (read_pid_file env (Join [i_Bundle p, ''init.pid'']));
                 case pid of
                   Inl e \<Rightarrow> ret (Some (Wrapf ''failed to retrieve OCI runtime container pid: '' e []), p2)
                 | Inr n \<Rightarrow> ret (None, p2\<lparr>i_pid := n\<rparr>)
               }
           }
       }
   }"

text \<open>\<open>defer socket.Close()\<close> runs on every path that has a socket.\<close>

definition init_Create ::
    "('x, 's, 'z) proc_env_scheme \<Rightarrow> 's init \<Rightarrow> create_config \<Rightarrow>
     ('x world, gerror option \<times> 's init) state" where
  "init_Create env p r = do {
     (io, p1) \<leftarrow> create_io env p r;
     case io of
       Inl e \<Rightarrow> ret (Some e, p1)
     | Inr socket \<Rightarrow> do {
         res \<leftarrow> create_body env p1 r socket;
         (case socket of
            None \<Rightarrow> ret ()
          | Some path \<Rightarrow> do { emit (ActCloseSocket path); ext_call (close_socket env path) });
         ret res
       }
   }"

section \<open>Start, restore, checkpoint\<close>

definition init_start ::
    "('x, 's, 'z) proc_env_scheme \<Rightarrow> 's init \<Rightarrow> restore_conf option \<Rightarrow> ('x world, gerror option) state" where
  "init_start env p restoreConf = do {
     let cio = (if i_Sandbox p then None else i_io p);
     (err, msg) \<leftarrow> (case restoreConf of
       None \<Rightarrow> do {
         e \<leftarrow> runsc_Start env (i_runtime p) (i_id p) cio;
         ret (e, ''OCI runtime start failed'')
       }
     | Some conf \<Rightarrow> do {
         e \<leftarrow> runsc_Restore env (i_runtime p) (i_id p) cio
                (Some \<lparr>ro_ImagePath = rc_ImagePath conf, ro_Detach = True,
                       ro_Direct = rc_Direct conf, ro_Background = rc_Background conf\<rparr>);
         ret (e, ''OCI runtime restore failed'')
       });
     case err of
       Some e \<Rightarrow> do { e' \<leftarrow> runtime_error env p e msg; ret (Some e') }
     | None \<Rightarrow> do { emit (ActGoWait (i_id p)); ret None }
   }"

definition sigkill :: int where
  "sigkill = 9"

definition killAllLocked ::
    "('x, 's, 'z) proc_env_scheme \<Rightarrow> 's init \<Rightarrow> ('x world, unit) state" where
  "killAllLocked env p = do {
     err \<leftarrow> runsc_Kill env (i_runtime p) (i_id p) sigkill (Some \<lparr>ko_All = True, ko_Pid = 0\<rparr>);
     ret ()
   }"

text \<open>The body of the goroutine that \<open>start\<close> spawns: it waits, then sends on \<open>ExitCh\<close>.\<close>

definition wait_goroutine ::
    "('x, 's, 'z) proc_env_scheme \<Rightarrow> 's init \<Rightarrow> ('x world, proc_exit) state" where
  "wait_goroutine env p = do {
     r \<leftarrow> runsc_Wait env (i_runtime p) (i_id p);
     status \<leftarrow> (case r of
       Inl err \<Rightarrow> do { killAllLocked env p; ret (internalErrorCode env) }
     | Inr status \<Rightarrow> ret status);
     t \<leftarrow> ext_call (now env);
     emit (ActExit (i_id p) status t);
     ret \<lparr>ex_Timestamp = t, ex_ID = i_id p, ex_Status = status\<rparr>
   }"

definition init_mu :: "'s init \<Rightarrow> mutex" where
  "init_mu p = MuInit (i_id p)"

definition init_Start ::
    "('x, 's, 'z) state_env_scheme \<Rightarrow> 's init \<Rightarrow> ('x world, gerror option \<times> 's init) state" where
  "init_Start env p = with_lock (init_mu p) (st_Start env p None)"

definition init_Restore ::
    "('x, 's, 'z) state_env_scheme \<Rightarrow> 's init \<Rightarrow> restore_conf \<Rightarrow>
     ('x world, gerror option \<times> 's init) state" where
  "init_Restore env p conf = with_lock (init_mu p) (st_Start env p (Some conf))"

definition init_Checkpoint ::
    "('x, 's, 'z) proc_env_scheme \<Rightarrow> 's init \<Rightarrow> checkpoint_opts \<Rightarrow> ('x world, gerror option) state" where
  "init_Checkpoint env p opts = runsc_Checkpoint env (i_runtime p) (i_id p) (Some opts)"

section \<open>Exit status\<close>

text \<open>
  \<open>setExited\<close>: only the first status is kept. Closing a closed channel panics, which is \<^const>\<open>None\<close>.
\<close>

definition init_setExited ::
    "('x, 's, 'z) proc_env_scheme \<Rightarrow> 's init \<Rightarrow> int \<Rightarrow> ('x world, 's init option) state" where
  "init_setExited env p status =
     (if i_exited p \<noteq> None then ret (Some p)
      else do {
        t \<leftarrow> ext_call (now env);
        let p1 = p\<lparr>i_exited := Some t, i_status := status\<rparr>;
        emit ActShutdownConsole;
        ext_call (shutdown_console env (i_console p1));
        if i_waitClosed p1 then ret None
        else do {
          emit (ActCloseWaitBlock (i_id p1));
          ret (Some (p1\<lparr>i_waitClosed := True\<rparr>))
        }
      })"

definition init_SetExited ::
    "('x, 's, 'z) state_env_scheme \<Rightarrow> 's init \<Rightarrow> int \<Rightarrow> ('x world, 's init option) state" where
  "init_SetExited env p status = with_lock (init_mu p) (st_SetExited env p status)"

definition init_ExitStatus :: "'s init \<Rightarrow> ('x world, int) state" where
  "init_ExitStatus p = with_lock (init_mu p) (ret (i_status p))"

definition init_ExitedAt :: "'s init \<Rightarrow> ('x world, time option) state" where
  "init_ExitedAt p = with_lock (init_mu p) (ret (i_exited p))"

definition init_Status ::
    "('x, 's, 'z) init_env_scheme \<Rightarrow> 's init \<Rightarrow> ('x world, string result) state" where
  "init_Status env p = with_lock (init_mu p) (st_State env p)"

text \<open>\<open>Wait\<close> receives from \<open>waitBlock\<close>: it returns when the channel is closed.\<close>

definition init_Wait_returns :: "'s init \<Rightarrow> bool" where
  "init_Wait_returns p = i_waitClosed p"

section \<open>Deletion\<close>

fun close_all :: "('x, 's, 'z) proc_env_scheme \<Rightarrow> nat list \<Rightarrow> ('x world, unit) state" where
  "close_all env [] = ret ()"
| "close_all env (c # cs) = do { emit (ActClose c); ext_call (close_fd env c); close_all env cs }"

definition close_streams ::
    "('x, 's, 'z) proc_env_scheme \<Rightarrow> 's init \<Rightarrow> ('x world, unit) state" where
  "close_streams env p =
     (case i_io p of
        None \<Rightarrow> ret ()
      | Some pio \<Rightarrow> do {
          close_all env (i_closers p);
          emit (ActCloseIO pio);
          ext_call (close_io env pio)
        })"

definition init_delete ::
    "('x, 's, 'z) proc_env_scheme \<Rightarrow> 's init \<Rightarrow> ('x world, gerror option) state" where
  "init_delete env p = do {
     killAllLocked env p;
     ext_call (wg_wait env);
     derr \<leftarrow> runsc_Delete env (i_runtime p) (i_id p) None;
     err \<leftarrow> (case derr of
       None \<Rightarrow> ret None
     | Some e \<Rightarrow>
         if not_exist env e then ret None
         else do { e' \<leftarrow> runtime_error env p e ''failed to delete task''; ret (Some e') });
     close_streams env p;
     emit (ActUnmountAll (i_Rootfs p));
     err2 \<leftarrow> ext_call (unmount_all env (i_Rootfs p));
     ret (case err2 of
            None \<Rightarrow> err
          | Some e2 \<Rightarrow> if err = None then Some (Wrapf ''failed rootfs umount: '' e2 []) else err)
   }"

definition init_Delete ::
    "('x, 's, 'z) state_env_scheme \<Rightarrow> 's init \<Rightarrow> ('x world, gerror option \<times> 's init) state" where
  "init_Delete env p = with_lock (init_mu p) (st_Delete env p)"

section \<open>Resize and kill\<close>

definition init_resize ::
    "('x, 's, 'z) proc_env_scheme \<Rightarrow> 's init \<Rightarrow> win_size \<Rightarrow> ('x world, gerror option) state" where
  "init_resize env p ws =
     (case i_console p of None \<Rightarrow> ret None | Some c \<Rightarrow> ext_call (console_resize env c ws))"

definition init_Resize ::
    "('x, 's, 'z) proc_env_scheme \<Rightarrow> 's init \<Rightarrow> win_size \<Rightarrow> ('x world, gerror option) state" where
  "init_Resize env p ws = with_lock (init_mu p) (init_resize env p ws)"

definition init_Kill ::
    "('x, 's, 'z) state_env_scheme \<Rightarrow> 's init \<Rightarrow> u32 \<Rightarrow> bool \<Rightarrow>
     ('x world, gerror option \<times> 's init) state" where
  "init_Kill env p signal al = with_lock (init_mu p) (st_Kill env p signal al)"

text \<open>
  The loop of \<open>kill\<close>: \<open>start\<close> is the time it began, \<open>killErr\<close> the last error, \<open>backoff\<close> the next
  sleep in nanoseconds. The first argument is fuel, one unit per evaluation of the loop condition;
  \<^const>\<open>None\<close> means that it ran out.
\<close>

definition millisecond :: nat where
  "millisecond = 1000000"

text \<open>Evaluation by \<open>code_simp\<close> keeps the constant folded: its unary numeral is too large.\<close>

declare millisecond_def [code del]

definition kill_timeout :: nat where
  "kill_timeout = 1000 * millisecond"

fun kill_loop ::
    "nat \<Rightarrow> ('x, 's, 'z) init_env_scheme \<Rightarrow> 's init \<Rightarrow> u32 \<Rightarrow> bool \<Rightarrow> time \<Rightarrow> gerror option \<Rightarrow> nat \<Rightarrow>
     ('x world, gerror option option) state" where
  "kill_loop 0 env p signal al start killErr backoff = ret None"
| "kill_loop (Suc n) env p signal al start killErr backoff = do {
     t \<leftarrow> ext_call (now env);
     if t - start < kill_timeout then do {
       st \<leftarrow> st_State env p;
       case st of
         Inl err \<Rightarrow> do {
           e \<leftarrow> runtime_error env p err ''OCI runtime state failed'';
           ret (Some (Some e))
         }
       | Inr s \<Rightarrow>
           if s = statusStopped then
             ret (Some (Some (Wrapf ''no such process: '' (Sentinel ErrNotFound) [])))
           else do {
             ke \<leftarrow> runsc_Kill env (i_runtime p) (i_id p) (uint signal) (Some \<lparr>ko_All = al, ko_Pid = 0\<rparr>);
             case ke of
               None \<Rightarrow> ret (Some None)
             | Some e \<Rightarrow> do {
                 emit (ActSleep backoff);
                 ext_call (sleep_for env backoff);
                 kill_loop n env p signal al start (Some e) (2 * backoff)
               }
           }
     } else do {
       e \<leftarrow> runtimeError env p killErr ''kill timeout'';
       ret (Some e)
     }
   }"

definition init_kill ::
    "nat \<Rightarrow> ('x, 's, 'z) init_env_scheme \<Rightarrow> 's init \<Rightarrow> u32 \<Rightarrow> bool \<Rightarrow>
     ('x world, gerror option option) state" where
  "init_kill fuel env p signal al = do {
     start \<leftarrow> ext_call (now env);
     kill_loop fuel env p signal al start None (100 * millisecond)
   }"

definition init_KillAll ::
    "('x, 's, 'z) proc_env_scheme \<Rightarrow> 's init \<Rightarrow> ('x world, unit) state" where
  "init_KillAll env p = with_lock (init_mu p) (killAllLocked env p)"

section \<open>Exec, stats, update\<close>

definition init_exec ::
    "('x, 's, 'z) proc_env_scheme \<Rightarrow> 's init \<Rightarrow> string \<Rightarrow> exec_config \<Rightarrow> 's exec_process result" where
  "init_exec env p path r =
     (case dec_process env (xc_Spec r) of
        Inl e \<Rightarrow> Inl e
      | Inr spec \<Rightarrow> Inr
          \<lparr> xp_id = xc_ID r, xp_path = path, xp_parent = i_id p,
            xp_spec = spec\<lparr>ps_Terminal := xc_Terminal r\<rparr>,
            xp_stdio = \<lparr>so_Stdin = xc_Stdin r, so_Stdout = xc_Stdout r, so_Stderr = xc_Stderr r,
                        so_Terminal = xc_Terminal r\<rparr>,
            xp_waitClosed = False, xp_execState = exec_created_state env \<rparr>)"

definition init_Exec ::
    "('x, 's, 'z) state_env_scheme \<Rightarrow> 's init \<Rightarrow> string \<Rightarrow> exec_config \<Rightarrow>
     ('x world, 's exec_process result \<times> 's init) state" where
  "init_Exec env p path r = with_lock (init_mu p) (st_Exec env p path r)"

definition init_stats ::
    "('x, 's, 'z) proc_env_scheme \<Rightarrow> 's init \<Rightarrow> string \<Rightarrow> ('x world, run_stats result) state" where
  "init_stats env p cid = runsc_Stats env (i_runtime p) cid"

definition init_Stats ::
    "('x, 's, 'z) state_env_scheme \<Rightarrow> 's init \<Rightarrow> string \<Rightarrow> ('x world, run_stats result) state" where
  "init_Stats env p cid = with_lock (init_mu p) (st_Stats env p cid)"

text \<open>\<open>Update\<close>: \<open>r\<close> is the value of the protobuf \<open>Any\<close>, \<^const>\<open>None\<close> for nil.\<close>

definition init_Update ::
    "('x, 's, 'z) proc_env_scheme \<Rightarrow> 's init \<Rightarrow> string option \<Rightarrow> ('x world, gerror option) state" where
  "init_Update env p r = with_lock (init_mu p)
     (case r of
        None \<Rightarrow> ret (Some (Wrapf ''resources are required: '' (Sentinel ErrInvalidArgument) []))
      | Some v \<Rightarrow>
          (case dec_resources env v of
             Inl e \<Rightarrow> ret (Some (Wrapf ''decoding resources: '' e []))
           | Inr res \<Rightarrow> runsc_Update env (i_runtime p) (i_id p) res))"

section \<open>The contract of an exit latch\<close>

text \<open>
  A latch holds at most one exit status: setting it fills it once and does nothing afterwards.
  Clients rely on the status being that of the first call, whatever calls follow.
\<close>

locale exit_latch =
  fixes set_exit :: "'p \<Rightarrow> int \<Rightarrow> ('x world, 'p option) state"
    and held :: "'p \<Rightarrow> int option"
    and wf :: "'p \<Rightarrow> bool"
  assumes set_held: "wf p \<Longrightarrow> held p \<noteq> None \<Longrightarrow> run_state (set_exit p s) w = (Some p, w)"
    and set_new: "wf p \<Longrightarrow> held p = None \<Longrightarrow>
      \<exists>q v. run_state (set_exit p s) w = (Some q, v) \<and> wf q \<and> held q = Some s"
begin

lemma set_never_panics: "wf p \<Longrightarrow> fst (run_state (set_exit p s) w) \<noteq> None"
  using set_held [of p s w] set_new [of p s w] by (cases "held p") auto

lemma sets_held:
  "wf p \<Longrightarrow> held p \<noteq> None \<Longrightarrow> run_state (fold_opt set_exit p ss) w = (Some p, w)"
  by (induction ss) (simp_all add: set_held)

lemma sets_first:
  assumes "wf p" "held p = None"
  shows "\<exists>q v. run_state (fold_opt set_exit p (s # ss)) w = (Some q, v) \<and>
    run_state (set_exit p s) w = (Some q, v) \<and> wf q \<and> held q = Some s"
proof -
  from set_new [OF assms] obtain q v where
    "run_state (set_exit p s) w = (Some q, v)" "wf q" "held q = Some s" by blast
  then show ?thesis by (simp add: sets_held)
qed

end

text \<open>The channel is closed exactly when an exit time is recorded; true of a new process.\<close>

definition wait_wf :: "'s init \<Rightarrow> bool" where
  "wait_wf p \<longleftrightarrow> (i_waitClosed p \<longleftrightarrow> i_exited p \<noteq> None)"

definition exit_status_of :: "'s init \<Rightarrow> int option" where
  "exit_status_of p = (if i_exited p = None then None else Some (i_status p))"

lemma wait_wf_New: "wait_wf (New env cid rt sio)"
  by (simp add: wait_wf_def New_def)

lemma run_setExited_exact:
  assumes "wait_wf p" "i_exited p = None"
  shows "run_state (init_setExited env p s) w =
    (Some (p\<lparr>i_exited := Some (fst (now env (ext w))), i_status := s, i_waitClosed := True\<rparr>),
     \<lparr>ext = snd (shutdown_console env (i_console p) (snd (now env (ext w)))),
      trace = trace w @ [ActShutdownConsole, ActCloseWaitBlock (i_id p)]\<rparr>)"
  using assms
  by (simp add: init_setExited_def wait_wf_def run_ext_call Let_def split: prod.split)

lemma run_setExited_new:
  assumes "wait_wf p" "i_exited p = None"
  shows "\<exists>t x. run_state (init_setExited env p s) w =
    (Some (p\<lparr>i_exited := Some t, i_status := s, i_waitClosed := True\<rparr>),
     \<lparr>ext = x, trace = trace w @ [ActShutdownConsole, ActCloseWaitBlock (i_id p)]\<rparr>)"
  using run_setExited_exact [OF assms] by blast

interpretation exl: exit_latch "init_setExited env" exit_status_of wait_wf for env
proof
  fix p :: "'b init" and s w
  show "run_state (init_setExited env p s) w = (Some p, w)" if "wait_wf p" "exit_status_of p \<noteq> None"
    using that by (auto simp: exit_status_of_def init_setExited_def split: if_splits)
  show "\<exists>q v. run_state (init_setExited env p s) w = (Some q, v) \<and> wait_wf q \<and>
      exit_status_of q = Some s" if h: "wait_wf p" "exit_status_of p = None"
  proof -
    have "i_exited p = None" using h(2) by (simp add: exit_status_of_def split: if_splits)
    from run_setExited_new [OF h(1) this, of env s w] obtain t x where
      "run_state (init_setExited env p s) w =
        (Some (p\<lparr>i_exited := Some t, i_status := s, i_waitClosed := True\<rparr>),
         \<lparr>ext = x, trace = trace w @ [ActShutdownConsole, ActCloseWaitBlock (i_id p)]\<rparr>)" by blast
    then show ?thesis
      by (intro exI conjI) (assumption, simp_all add: exit_status_of_def wait_wf_def)
  qed
qed

section \<open>What the operations append to the trace\<close>

lemma emits_runtime_error [emits_intros]: "emits P (runtime_error env p e msg)"
  unfolding runtime_error_def by (intro emits_intros)

lemma emits_runtimeError [emits_intros]: "emits P (runtimeError env p e msg)"
  unfolding runtimeError_def by (intro emits_intros)

lemma emits_runsc_Kill [emits_intros]: "emits is_run (runsc_Kill env r cid sig op)"
  unfolding runsc_Kill_def by (intro emits_intros)

lemma emits_runsc_Delete [emits_intros]: "emits is_run (runsc_Delete env r cid op)"
  unfolding runsc_Delete_def by (intro emits_intros)

lemma emits_killAllLocked [emits_intros]: "emits is_run (killAllLocked env p)"
  unfolding killAllLocked_def by (intro emits_intros)

lemma emits_runsc_State [emits_intros]: "emits is_run (runsc_State env r cid)"
  unfolding runsc_State_def by (intro emits_intros) simp_all

lemma emits_init_state [emits_intros]: "emits is_run (init_state env p)"
  unfolding init_state_def by (intro emits_intros)

lemma run_close_all: "\<exists>x. run_state (close_all env cs) w = ((), \<lparr>ext = x, trace = trace w @ map ActClose cs\<rparr>)"
proof (induction cs arbitrary: w)
  case Nil
  show ?case by (rule exI [of _ "ext w"]) simp
next
  case (Cons c cs)
  obtain r x1 where c: "close_fd env c (ext w) = (r, x1)" by fastforce
  from Cons [of "\<lparr>ext = x1, trace = trace w @ [ActClose c]\<rparr>"] c
  show ?case by (simp add: run_ext_call)
qed

definition stream_closes :: "'s init \<Rightarrow> action list" where
  "stream_closes p =
     (case i_io p of None \<Rightarrow> [] | Some pio \<Rightarrow> map ActClose (i_closers p) @ [ActCloseIO pio])"

lemma run_close_streams:
  "\<exists>x. run_state (close_streams env p) w = ((), \<lparr>ext = x, trace = trace w @ stream_closes p\<rparr>)"
proof (cases "i_io p")
  case None
  then show ?thesis
    by (intro exI [of _ "ext w"]) (simp add: close_streams_def stream_closes_def)
next
  case (Some h)
  obtain x where "run_state (close_all env (i_closers p)) w =
      ((), \<lparr>ext = x, trace = trace w @ map ActClose (i_closers p)\<rparr>)"
    using run_close_all [of env "i_closers p" w] by auto
  with Some show ?thesis
    by (simp add: close_streams_def stream_closes_def run_ext_call split: prod.split)
qed

section \<open>The time a kill may take\<close>

text \<open>
  \<open>clk\<close> reads a clock off the world: it never runs backwards, \<open>time.Now\<close> reads it, and a sleep of
  \<open>d\<close> nanoseconds advances it by at least \<open>d\<close>. A state query does not sleep.
\<close>

definition is_sleep :: "action \<Rightarrow> bool" where
  "is_sleep a = (case a of ActSleep d \<Rightarrow> True | _ \<Rightarrow> False)"

definition sleeps :: "action list \<Rightarrow> nat list" where
  "sleeps as = [d. ActSleep d \<leftarrow> as]"

lemma sleeps_simps [simp]:
  "sleeps [] = []" "sleeps (as @ bs) = sleeps as @ sleeps bs" "sleeps (ActSleep d # as) = d # sleeps as"
  by (simp_all add: sleeps_def)

lemma sleeps_none: "\<forall>a \<in> set as. \<not> is_sleep a \<Longrightarrow> sleeps as = []"
  by (induction as) (auto simp: sleeps_def is_sleep_def split: action.splits)

definition clocked ::
    "('x, 's, 'z) init_env_scheme \<Rightarrow> ('x \<Rightarrow> time) \<Rightarrow> bool" where
  "clocked env clk \<longleftrightarrow>
     (\<forall>x. fst (now env x) \<le> clk (snd (now env x)) \<and> clk x \<le> fst (now env x)) \<and>
     (\<forall>d x. clk x + d \<le> clk (snd (sleep_for env d x))) \<and>
     (\<forall>c x. clk x \<le> clk (snd (mon_start env c x))) \<and>
     (\<forall>c ch x. clk x \<le> clk (snd (mon_wait env c ch x))) \<and>
     (\<forall>p w. clk (ext w) \<le> clk (ext (snd (run_state (st_State env p) w)))) \<and>
     (\<forall>p. emits (\<lambda>a. \<not> is_sleep a) (st_State env p))"

lemma clock_run_once:
  assumes "clocked env clk"
  shows "clk (ext w) \<le> clk (ext (snd (run_once env no_step c w)))"
proof -
  obtain r x1 where s: "mon_start env c (ext w) = (r, x1)" by fastforce
  have 1: "clk (ext w) \<le> clk x1" using assms s unfolding clocked_def by (metis snd_conv)
  show ?thesis
  proof (cases r)
    case (Inl e)
    with s 1 show ?thesis by (simp add: run_once_def)
  next
    case (Inr ch)
    obtain q x2 where w: "mon_wait env c ch x1 = (q, x2)" by fastforce
    have "clk x1 \<le> clk x2" using assms w unfolding clocked_def by (metis snd_conv)
    with s w Inr 1 show ?thesis by (simp add: run_once_def)
  qed
qed

lemma clock_kill:
  assumes "clocked env clk" "run_state (runsc_Kill env r cid sig op) w = (e, v)"
  shows "clk (ext w) \<le> clk (ext v)"
proof -
  have "v = snd (run_state (runsc_Kill env r cid sig op) w)" using assms(2) by simp
  then show ?thesis
    unfolding runsc_Kill_def roe.run_world using clock_run_once [OF assms(1)] by simp
qed

text \<open>
  \<open>kill_ok n el b sl\<close>: entered with \<open>el\<close> nanoseconds gone and back-off \<open>b\<close>, the loop returns within
  \<open>n\<close> evaluations of its condition and sleeps a prefix of \<open>sl\<close>.
\<close>

definition kill_ok ::
    "nat \<Rightarrow> ('x, 's, 'z) init_env_scheme \<Rightarrow> ('x \<Rightarrow> time) \<Rightarrow> 's init \<Rightarrow> u32 \<Rightarrow> bool \<Rightarrow> time \<Rightarrow> nat \<Rightarrow> nat \<Rightarrow>
     nat list \<Rightarrow> bool" where
  "kill_ok n env clk p signal al start el b sl \<longleftrightarrow>
     (\<forall>w ke. start + el \<le> clk (ext w) \<longrightarrow>
        (\<exists>r v as. run_state (kill_loop n env p signal al start ke b) w = (Some r, v) \<and>
                  trace v = trace w @ as \<and> prefix (sleeps as) sl))"

lemma emits_runtimeError_False: "run_state (runtimeError env p e msg) w = (r, v) \<Longrightarrow> trace v = trace w"
  by (rule trace_silent [OF emits_runtimeError])

lemma emits_runtime_error_False: "run_state (runtime_error env p e msg) w = (r, v) \<Longrightarrow> trace v = trace w"
  by (rule trace_silent [OF emits_runtime_error])

lemma kill_ok_timeout:
  fixes env :: "('x, 's, 'z) init_env_scheme"
  assumes "clocked env clk" "kill_timeout \<le> el"
  shows "kill_ok (Suc n) env clk p signal al start el b []"
  unfolding kill_ok_def
proof (intro allI impI)
  fix w :: "'x world" and ke :: "gerror option"
  assume el: "start + el \<le> clk (ext w)"
  obtain t x where t: "now env (ext w) = (t, x)" by fastforce
  have "clk (ext w) \<le> t" using assms(1) t unfolding clocked_def by (metis fst_conv)
  with el assms(2) have late: "\<not> t - start < kill_timeout" by simp
  obtain e v where e: "run_state (runtimeError env p ke ''kill timeout'') \<lparr>ext = x, trace = trace w\<rparr> = (e, v)"
    by fastforce
  with emits_runtimeError_False [OF e] t late
  show "\<exists>r v as. run_state (kill_loop (Suc n) env p signal al start ke b) w = (Some r, v) \<and>
      trace v = trace w @ as \<and> prefix (sleeps as) []"
    by (simp add: run_ext_call)
qed

lemma kill_ok_step:
  fixes env :: "('x, 's, 'z) init_env_scheme"
  assumes clk: "clocked env clk"
    and IH: "kill_ok n env clk p signal al start (el + b) (2 * b) sl"
  shows "kill_ok (Suc n) env clk p signal al start el b (b # sl)"
  unfolding kill_ok_def
proof (intro allI impI)
  fix w :: "'x world" and ke :: "gerror option"
  assume el: "start + el \<le> clk (ext w)"
  let ?goal = "\<exists>r v as. run_state (kill_loop (Suc n) env p signal al start ke b) w = (Some r, v) \<and>
      trace v = trace w @ as \<and> prefix (sleeps as) (b # sl)"
  obtain t x where t: "now env (ext w) = (t, x)" by fastforce
  have x: "clk (ext w) \<le> clk x"
    using clk t unfolding clocked_def by (metis fst_conv snd_conv le_trans)
  let ?w1 = "\<lparr>ext = x, trace = trace w\<rparr>"
  show ?goal
  proof (cases "t - start < kill_timeout")
    case False
    obtain e v where e: "run_state (runtimeError env p ke ''kill timeout'') ?w1 = (e, v)" by fastforce
    with emits_runtimeError_False [OF e] t False show ?thesis by (simp add: run_ext_call)
  next
    case True
    obtain st w2 where st: "run_state (st_State env p) ?w1 = (st, w2)" by fastforce
    have "emits (\<lambda>a. \<not> is_sleep a) (st_State env p)" using clk by (simp add: clocked_def)
    then obtain as where as: "trace w2 = trace w @ as" "\<forall>a \<in> set as. \<not> is_sleep a"
      using emitsD [OF _ st] by auto
    have c2: "clk x \<le> clk (ext w2)"
      using clk st unfolding clocked_def by (metis snd_conv world.select_convs(1))
    note ns = sleeps_none [OF as(2)]
    show ?thesis
    proof (cases st)
      case (Inl err)
      obtain e v where e: "run_state (runtime_error env p err ''OCI runtime state failed'') w2 = (e, v)"
        by fastforce
      with emits_runtime_error_False [OF e] t True st Inl as ns show ?thesis by (simp add: run_ext_call)
    next
      case (Inr s)
      show ?thesis
      proof (cases "s = statusStopped")
        case True
        with \<open>t - start < kill_timeout\<close> t st Inr as ns show ?thesis by (simp add: run_ext_call)
      next
        case False
        obtain k w3 where k: "run_state (runsc_Kill env (i_runtime p) (i_id p) (uint signal)
            (Some \<lparr>ko_All = al, ko_Pid = 0\<rparr>)) w2 = (k, w3)" by fastforce
        from emitsD [OF emits_runsc_Kill k] obtain bs where
          bs: "trace w3 = trace w2 @ bs" "\<forall>a \<in> set bs. is_run a" by blast
        have nb: "sleeps bs = []"
          using bs(2) by (intro sleeps_none) (auto simp: is_run_def is_sleep_def)
        have c3: "clk (ext w2) \<le> clk (ext w3)" by (rule clock_kill [OF clk k])
        show ?thesis
        proof (cases k)
          case None
          with False True t st Inr k as bs ns nb show ?thesis by (simp add: run_ext_call)
        next
          case (Some e)
          obtain u x4 where sl: "sleep_for env b (ext w3) = (u, x4)" by (metis surj_pair)
          have "clk (ext w3) + b \<le> clk x4" using clk sl unfolding clocked_def by (metis snd_conv)
          with x c2 c3 el have "start + (el + b) \<le> clk x4" by simp
          with IH obtain r v cs where r: "run_state (kill_loop n env p signal al start (Some e) (2 * b))
              \<lparr>ext = x4, trace = trace w3 @ [ActSleep b]\<rparr> = (Some r, v)"
            "trace v = (trace w3 @ [ActSleep b]) @ cs" "prefix (sleeps cs) sl"
            unfolding kill_ok_def by (metis world.select_convs)
          have "run_state (kill_loop (Suc n) env p signal al start ke b) w = (Some r, v)"
            using False True t st Inr k Some sl r(1) by (simp add: run_ext_call)
          moreover have "trace v = trace w @ (as @ bs @ ActSleep b # cs)"
            using r(2) as(1) bs(1) by simp
          moreover have "prefix (sleeps (as @ bs @ ActSleep b # cs)) (b # sl)"
            using ns nb r(3) by simp
          ultimately show ?thesis by blast
        qed
      qed
    qed
  qed
qed

definition kill_sleeps :: "nat list" where
  "kill_sleeps = map (\<lambda>n. n * millisecond) [100, 200, 400, 800]"

lemma kill_loop_returns:
  assumes "clocked env clk"
  shows "kill_ok (5 + n) env clk p signal al start 0 (100 * millisecond) kill_sleeps"
proof -
  let ?ms = "\<lambda>k. k * millisecond"
  let ?ok = "\<lambda>n el b sl. kill_ok n env clk p signal al start (?ms el) (?ms b) (map ?ms sl)"
  have step: "?ok (Suc n) el b (b # sl)" if "?ok n (el + b) (2 * b) sl" for n el b sl
    using kill_ok_step [OF assms, of n p signal al start "?ms el" "?ms b" "map ?ms sl"] that
    by (simp add: distrib_right mult.assoc)
  have "?ok (Suc n) 1500 1600 []"
    using kill_ok_timeout [OF assms, of "?ms 1500"] by (simp add: kill_timeout_def)
  then have "?ok (Suc (Suc n)) 700 800 [800]" by (intro step) simp
  then have "?ok (Suc (Suc (Suc n))) 300 400 [400, 800]" by (intro step) simp
  then have "?ok (Suc (Suc (Suc (Suc n)))) 100 200 [200, 400, 800]" by (intro step) simp
  then have "?ok (Suc (Suc (Suc (Suc (Suc n))))) 0 100 [100, 200, 400, 800]" by (intro step) simp
  then show ?thesis by (simp add: numeral_eq_Suc kill_sleeps_def)
qed

section \<open>A concrete environment\<close>

text \<open>
  The world is a clock, in nanoseconds: \<open>time.Now\<close> reads it and \<open>time.Sleep\<close> moves it; \<open>tick\<close> is
  how far one reading moves it. Nothing else fails. \<open>St\<close> is the status every process has.
\<close>

definition sample_proc_env :: "int \<Rightarrow> string \<Rightarrow> nat \<Rightarrow> (nat, unit) proc_env" where
  "sample_proc_env st out tick = cmd_env.extend (sample_cmd_env st out)
     (proc_env.fields
       (\<lambda>x. (Inr ''/tmp/pty.sock'', x)) (\<lambda>s x. ((), x)) (\<lambda>x. (Inr 10, x)) (\<lambda>u g c x. (Inr 11, x))
       (\<lambda>f x. (Inr 12, x)) (\<lambda>s x. (Inr 13, x)) (\<lambda>m r x. (Inr 14, x)) (\<lambda>i r x. (None, x))
       (\<lambda>f x. (Inr 42, x)) (\<lambda>r. cc_Stdin r = [] \<and> cc_Stdout r = [] \<and> cc_Stderr r = [])
       (\<lambda>r x. (Inr [], x)) (\<lambda>x. (x, x + tick)) (\<lambda>d x. ((), x + d)) (\<lambda>x. ((), x))
       (\<lambda>h x. (None, x)) (\<lambda>h x. ((), x)) (\<lambda>f x. (None, x)) (\<lambda>c x. ((), x)) (\<lambda>c ws x. (None, x))
       (\<lambda>s. Inr \<lparr>ps_Terminal = False, ps_rest = s\<rparr>) (\<lambda>s. Inr s) 128 () ())"

definition sample_init_env :: "int \<Rightarrow> string \<Rightarrow> nat \<Rightarrow> string \<Rightarrow> (nat, unit) init_env" where
  "sample_init_env st out tick status =
     proc_env.extend (sample_proc_env st out tick) (init_env.fields (\<lambda>p. ret (Inr status)))"

definition sample_init :: "unit init" where
  "sample_init = (New (sample_proc_env 0 [] 0) ''c1'' sample_runsc
      \<lparr>so_Stdin = [], so_Stdout = [], so_Stderr = [], so_Terminal = False\<rparr>)
     \<lparr>i_Bundle := ''/run/b'', i_Rootfs := ''/run/b/rootfs'', i_io := Some 11, i_closers := [12],
      i_pid := 42\<rparr>"

section \<open>Properties\<close>

text \<open>
  C21: The first exit status of a process wins. Whatever exits are reported, in whatever number, the
  recorded status is that of the first and the recorded time is the clock's when the first was
  recorded; the console is shut down once, \<open>waitBlock\<close> is closed once (a second close would panic),
  and nothing else happens, to the process or outside.
\<close>

theorem first_exit_wins:
  assumes "wait_wf p" "i_exited p = None"
  shows "run_state (fold_opt (init_setExited env) p (s # ss)) w =
    (Some (p\<lparr>i_exited := Some (fst (now env (ext w))), i_status := s, i_waitClosed := True\<rparr>),
     \<lparr>ext = snd (shutdown_console env (i_console p) (snd (now env (ext w)))),
      trace = trace w @ [ActShutdownConsole, ActCloseWaitBlock (i_id p)]\<rparr>)"
proof -
  have "exit_status_of p = None" using assms(2) by (simp add: exit_status_of_def)
  from exl.sets_first [OF assms(1) this, of env s ss w] run_setExited_exact [OF assms, of env s w]
  show ?thesis by auto
qed

lemma first_exit_wins_witness:
  "run_state (fold_opt (init_setExited (sample_proc_env 0 [] 1)) sample_init [137, 0, 9])
      \<lparr>ext = 5, trace = []\<rparr> =
    (Some (sample_init\<lparr>i_exited := Some 5, i_status := 137, i_waitClosed := True\<rparr>),
     \<lparr>ext = 6, trace = [ActShutdownConsole, ActCloseWaitBlock ''c1'']\<rparr>)"
  using first_exit_wins [of sample_init "sample_proc_env 0 [] 1" 137 "[0, 9]" "\<lparr>ext = 5, trace = []\<rparr>"]
  by (simp add: sample_init_def New_def wait_wf_def sample_proc_env_def sample_cmd_env_def
      cmd_env.defs proc_env.defs)


text \<open>The arguments of the command \<open>start\<close> runs, and the message of its failure.\<close>

definition start_argv :: "'s init \<Rightarrow> restore_conf option \<Rightarrow> string list" where
  "start_argv p conf =
     (case conf of
        None \<Rightarrow> [''start'', i_id p]
      | Some c \<Rightarrow>
          [''restore''] @ (if rc_ImagePath c = [] then [] else [''--image-path='' @ rc_ImagePath c]) @
          [''--detach''] @ (if rc_Direct c then [''--direct''] else []) @
          (if rc_Background c then [''--background''] else []) @ [i_id p])"

definition start_io :: "'s init \<Rightarrow> nat option" where
  "start_io p = (if i_Sandbox p then None else i_io p)"

definition start_command :: "('x, 'z) cmd_env_scheme \<Rightarrow> 's init \<Rightarrow> restore_conf option \<Rightarrow> cmd" where
  "start_command env p conf =
     start_final env (start_io p) (runsc_command env (i_runtime p) (start_argv p conf))"

lemma init_start_eq:
  "init_start env p conf = do {
     err \<leftarrow> start_cmd env (start_io p) (runsc_command env (i_runtime p) (start_argv p conf));
     case err of
       Some e \<Rightarrow> do {
         e' \<leftarrow> runtime_error env p e
           (if conf = None then ''OCI runtime start failed'' else ''OCI runtime restore failed'');
         ret (Some e') }
     | None \<Rightarrow> do { emit (ActGoWait (i_id p)); ret None } }"
  by (cases conf) (simp_all add: init_start_def runsc_Start_def runsc_Restore_def opt_args_def
      restore_opts_args_def start_argv_def start_io_def if_distrib cong: if_cong)

lemma run_init_start:
  "\<exists>bs. trace (snd (run_state (init_start env p conf) w)) = trace w @ bs @
        (if fst (run_state (init_start env p conf) w) = None then [ActGoWait (i_id p)] else []) \<and>
     list_all is_run bs \<and> started bs = [start_command env p conf] \<and>
     (fst (run_state (init_start env p conf) w) = None \<longrightarrow>
        bs = [ActStart (start_command env p conf), ActWait (start_command env p conf)])"
proof -
  let ?cmd = "runsc_command env (i_runtime p) (start_argv p conf)"
  let ?c = "start_command env p conf"
  obtain e w1 where e: "run_state (start_cmd env (start_io p) ?cmd) w = (e, w1)" by fastforce
  have c: "start_final env (start_io p) ?cmd = ?c" by (simp add: start_command_def)
  show ?thesis
  proof (cases e)
    case None
    from stc.run_ok_waits [of env "start_io p" ?cmd w] e None
    have "trace w1 = trace w @ [ActStart ?c, ActWait ?c]" by (simp add: c)
    with e None show ?thesis unfolding init_start_eq
      by (intro exI [of _ "[ActStart ?c, ActWait ?c]"]) simp
  next
    case (Some er)
    from stc.run_trace [of env "start_io p" ?cmd w] e obtain bs where
      bs: "trace w1 = trace w @ ActStart ?c # bs" "bs = [] \<or> bs = [ActWait ?c]" by (auto simp: c)
    obtain e' v where v: "run_state (runtime_error env p er
       (if conf = None then ''OCI runtime start failed'' else ''OCI runtime restore failed'')) w1 = (e', v)"
      by fastforce
    have "trace v = trace w1" by (rule emits_runtime_error_False [OF v])
    with e v bs Some show ?thesis unfolding init_start_eq
      by (intro exI [of _ "ActStart ?c # bs"]) auto
  qed
qed

text \<open>
  C19: \<open>start\<close> runs one command and spawns the waiter exactly on success. A cold start runs
  \<open>runsc start\<close>; a restore runs \<open>runsc restore\<close> with the image path, always detached, with the
  request's direct and background switches. A sub-container passes its IO, the sandbox none. Nothing
  else is run, and the goroutine that waits for the end is spawned last, and only if the error is nil.
\<close>

theorem start_runs_start_or_restore:
  "\<exists>bs. trace (snd (run_state (init_start env p conf) w)) = trace w @ bs @
        (if fst (run_state (init_start env p conf) w) = None then [ActGoWait (i_id p)] else []) \<and>
     list_all is_run bs \<and>
     started bs = [start_final env (if i_Sandbox p then None else i_io p)
       (runsc_command env (i_runtime p)
         (case conf of
            None \<Rightarrow> [''start'', i_id p]
          | Some c \<Rightarrow> [''restore''] @ (if rc_ImagePath c = [] then [] else [''--image-path='' @ rc_ImagePath c]) @
              [''--detach''] @ (if rc_Direct c then [''--direct''] else []) @
              (if rc_Background c then [''--background''] else []) @ [i_id p]))]"
  using run_init_start [of env p conf w]
  unfolding start_command_def start_io_def start_argv_def by blast


text \<open>Between two worlds exactly the commands \<open>cs\<close> were run, in this order, and nothing else done.\<close>

definition runs_only :: "cmd list \<Rightarrow> 'x world \<Rightarrow> 'x world \<Rightarrow> bool" where
  "runs_only cs w v \<longleftrightarrow> (\<exists>as. trace v = trace w @ as \<and> list_all is_run as \<and> started as = cs)"

lemma runs_only_refl: "trace v = trace w \<Longrightarrow> runs_only [] w v"
  by (simp add: runs_only_def)

lemma runs_only_trans: "runs_only cs w v \<Longrightarrow> runs_only ds v u \<Longrightarrow> runs_only (cs @ ds) w u"
  unfolding runs_only_def by (metis append.assoc list_all_append started_simps(2))

lemma runs_only_ext: "runs_only cs w v \<Longrightarrow> trace u = trace v \<Longrightarrow> runs_only cs w u"
  by (simp add: runs_only_def)

lemma runs_only_once:
  "trace v = trace w @ ActStart c # bs \<Longrightarrow> bs = [] \<or> bs = [ActWait c] \<Longrightarrow> runs_only [c] w v"
  unfolding runs_only_def by (intro exI [of _ "ActStart c # bs"]) auto

lemma runs_runOrError:
  "no_streams c \<Longrightarrow> run_state (runOrError env c) w = (r, v) \<Longrightarrow> runs_only [buffered c] w v"
  using roe.run_trace [of env c w] runs_only_once [of v w "buffered c"] by auto

definition split_buffered :: "cmd \<Rightarrow> cmd" where
  "split_buffered c = c\<lparr>c_Stdout := Some Stdout_buf, c_Stderr := Some Stderr_buf\<rparr>"

lemma runs_output_of:
  assumes "run_state (output_of env c dec) w = (r, v)"
  shows "runs_only [split_buffered c] w v"
proof -
  have v: "v = snd (run_once env no_step (split_buffered c) w)"
    using assms by (auto simp: output_of_def run_cmdOutput Let_def split_buffered_def
        split: prod.splits sum.splits option.splits)
  show ?thesis
    using run_once_trace [of env no_step "split_buffered c" w] runs_only_once [of v w "split_buffered c"]
    unfolding v by (auto split: sum.splits)
qed

definition kill_all_command :: "('x, 'z) cmd_env_scheme \<Rightarrow> 's init \<Rightarrow> cmd" where
  "kill_all_command env p =
     buffered (runsc_command env (i_runtime p) [''kill'', ''--all'', i_id p, ''9''])"

lemma itoa_9: "itoa 9 = ''9''"
  by code_simp

lemma runs_killAllLocked:
  assumes "run_state (killAllLocked env p) w = (r, v)"
  shows "runs_only [kill_all_command env p] w v"
  using assms
  by (auto simp: killAllLocked_def runsc_Kill_def opt_args_def kill_opts_args_def sigkill_def itoa_9
      kill_all_command_def split: prod.splits intro: runs_runOrError)

text \<open>
  C20: The waiter always reports one exit, last. \<open>runsc wait\<close> is run; if it answers, its status is the
  exit's, and nothing else is run; if it fails, every process of the container is killed with SIGKILL
  and the exit carries the internal error code. The exit names the process and the time read.
\<close>

theorem waiter_reports_exit:
  "\<exists>bs t v. run_state (wait_goroutine env p) w =
      (\<lparr>ex_Timestamp = t, ex_ID = i_id p,
        ex_Status = (case fst (run_state (runsc_Wait env (i_runtime p) (i_id p)) w) of
                       Inl e \<Rightarrow> internalErrorCode env | Inr s \<Rightarrow> s)\<rparr>, v) \<and>
     trace v = trace w @ bs @ [ActExit (i_id p)
        (case fst (run_state (runsc_Wait env (i_runtime p) (i_id p)) w) of
           Inl e \<Rightarrow> internalErrorCode env | Inr s \<Rightarrow> s) t] \<and>
     list_all is_run bs \<and>
     started bs = split_buffered (runsc_command env (i_runtime p) [''wait'', i_id p]) #
       (case fst (run_state (runsc_Wait env (i_runtime p) (i_id p)) w) of
          Inl e \<Rightarrow> [buffered (runsc_command env (i_runtime p) [''kill'', ''--all'', i_id p, ''9''])]
        | Inr s \<Rightarrow> [])"
proof -
  obtain r w1 where r: "run_state (runsc_Wait env (i_runtime p) (i_id p)) w = (r, w1)" by fastforce
  then have w1: "runs_only [split_buffered (runsc_command env (i_runtime p) [''wait'', i_id p])] w w1"
    unfolding runsc_Wait_def by (rule runs_output_of)
  show ?thesis
  proof (cases r)
    case (Inl e)
    obtain u w2 where k: "run_state (killAllLocked env p) w1 = (u, w2)" by (metis surj_pair)
    from runs_only_trans [OF w1 runs_killAllLocked [OF k]] obtain bs where
      bs: "trace w2 = trace w @ bs" "list_all is_run bs"
        "started bs = [split_buffered (runsc_command env (i_runtime p) [''wait'', i_id p]),
          kill_all_command env p]" unfolding runs_only_def by auto
    obtain t x where t: "now env (ext w2) = (t, x)" by fastforce
    from r Inl k bs t show ?thesis
      by (intro exI [of _ bs] exI [of _ t])
        (simp add: wait_goroutine_def kill_all_command_def run_ext_call)
  next
    case (Inr s)
    from w1 obtain bs where
      bs: "trace w1 = trace w @ bs" "list_all is_run bs"
        "started bs = [split_buffered (runsc_command env (i_runtime p) [''wait'', i_id p])]"
      unfolding runs_only_def by auto
    obtain t x where t: "now env (ext w1) = (t, x)" by fastforce
    from r Inr bs t show ?thesis
      by (intro exI [of _ bs] exI [of _ t]) (simp add: wait_goroutine_def run_ext_call)
  qed
qed

text \<open>
  C11: A kill returns, and soon. With a clock that does not run backwards and state queries that do
  not sleep, five evaluations of the loop's condition are enough: the loop returns, and it has slept a
  prefix of 100, 200, 400 and 800 milliseconds. Whatever larger fuel is given, the same holds.
\<close>

theorem kill_terminates:
  assumes "clocked env clk"
  shows "\<exists>r v as. run_state (init_kill (5 + n) env p signal al) w = (Some r, v) \<and>
    trace v = trace w @ as \<and> prefix (sleeps as) (map (\<lambda>k. k * millisecond) [100, 200, 400, 800])"
proof -
  obtain t x where t: "now env (ext w) = (t, x)" by fastforce
  have "t \<le> clk x" using assms t unfolding clocked_def by (metis fst_conv snd_conv)
  with kill_loop_returns [OF assms, of n p signal al t, unfolded kill_ok_def, rule_format,
      of "\<lparr>ext = x, trace = trace w\<rparr>" None, unfolded kill_sleeps_def] t
  show ?thesis by (auto simp: init_kill_def run_ext_call)
qed

lemma sample_clocked: "clocked (sample_init_env st out tick s) (\<lambda>x. x)"
  by (simp add: clocked_def sample_init_env_def sample_proc_env_def sample_cmd_env_def emits_ret
      cmd_env.defs proc_env.defs init_env.defs)

lemma kill_terminates_witness:
  "\<exists>r v as. run_state (init_kill 5 (sample_init_env 1 [] 0 ''running'') sample_init 15 False)
      \<lparr>ext = 0, trace = []\<rparr> = (Some r, v) \<and>
    trace v = as \<and> prefix (sleeps as) (map (\<lambda>k. k * millisecond) [100, 200, 400, 800])"
  using kill_terminates [OF sample_clocked [of 1 "[]" 0 "''running''"], of 0 sample_init 15 False
      "\<lparr>ext = 0, trace = []\<rparr>"] by simp


lemma runtimeError_Some: "fst (run_state (runtimeError env p (Some e) msg) w) \<noteq> None"
  by (simp add: runtimeError_def split: prod.split)

text \<open>A nil result of the loop is that of its last kill, or the loop never tried one.\<close>

lemma kill_loop_nil:
  assumes "run_state (kill_loop n env p signal al start ke b) w = (Some None, v)"
  shows "(\<exists>w1. run_state (runsc_Kill env (i_runtime p) (i_id p) (uint signal)
             (Some \<lparr>ko_All = al, ko_Pid = 0\<rparr>)) w1 = (None, v)) \<or>
    (ke = None \<and> kill_timeout \<le> fst (now env (ext w)) - start \<and> trace v = trace w)"
  using assms
proof (induction n arbitrary: ke b w)
  case 0
  then show ?case by simp
next
  case (Suc n)
  obtain t x where t: "now env (ext w) = (t, x)" by fastforce
  let ?w1 = "\<lparr>ext = x, trace = trace w\<rparr>"
  show ?case
  proof (cases "t - start < kill_timeout")
    case False
    obtain e u where e: "run_state (runtimeError env p ke ''kill timeout'') ?w1 = (e, u)" by fastforce
    with Suc.prems t False have "e = None" "u = v" by (simp_all add: run_ext_call)
    then have "ke = None" using e runtimeError_Some by (metis fst_conv not_Some_eq)
    moreover have "trace v = trace w" using emits_runtimeError_False [OF e] \<open>u = v\<close> by simp
    ultimately show ?thesis using t False by simp
  next
    case True
    obtain st w2 where st: "run_state (st_State env p) ?w1 = (st, w2)" by fastforce
    obtain k w3 where k: "run_state (runsc_Kill env (i_runtime p) (i_id p) (uint signal)
        (Some \<lparr>ko_All = al, ko_Pid = 0\<rparr>)) w2 = (k, w3)" by fastforce
    have "\<exists>s. st = Inr s \<and> s \<noteq> statusStopped"
      using Suc.prems t True st by (auto simp: run_ext_call split: sum.splits prod.splits if_splits)
    then obtain s where s: "st = Inr s" "s \<noteq> statusStopped" by blast
    show ?thesis
    proof (cases k)
      case None
      with Suc.prems t True st s k have "v = w3" by (simp add: run_ext_call)
      with k None show ?thesis by blast
    next
      case (Some e)
      obtain u x4 where sl: "sleep_for env b (ext w3) = (u, x4)" by (metis surj_pair)
      with Suc.prems t True st s k Some
      have "run_state (kill_loop n env p signal al start (Some e) (2 * b))
          \<lparr>ext = x4, trace = trace w3 @ [ActSleep b]\<rparr> = (Some None, v)"
        by (simp add: run_ext_call)
      from Suc.IH [OF this] show ?thesis by blast
    qed
  qed
qed

text \<open>
  C12: A nil kill has delivered its signal. When \<open>kill\<close> returns nil, the last thing done was a
  \<open>runsc kill\<close> for this container, signal and switch that succeeded, unless the clock showed a second
  or more gone at the very first check, in which case nothing at all was done.
\<close>

theorem kill_nil_means_killed:
  assumes "run_state (init_kill n env p signal al) w = (Some None, v)"
  shows "(\<exists>w1. run_state (runsc_Kill env (i_runtime p) (i_id p) (uint signal)
             (Some \<lparr>ko_All = al, ko_Pid = 0\<rparr>)) w1 = (None, v)) \<or>
    (kill_timeout \<le> fst (now env (snd (now env (ext w)))) - fst (now env (ext w)) \<and> trace v = trace w)"
proof -
  obtain t x where t: "now env (ext w) = (t, x)" by fastforce
  with assms have "run_state (kill_loop n env p signal al t None (100 * millisecond)) \<lparr>ext = x, trace = trace w\<rparr> = (Some None, v)"
    by (simp add: init_kill_def run_ext_call)
  from kill_loop_nil [OF this] t show ?thesis by simp
qed

lemma kill_nil_means_killed_witness:
  "\<exists>v. run_state (init_kill 5 (sample_init_env 0 [] 1 ''running'') sample_init 15 False)
      \<lparr>ext = 0, trace = []\<rparr> = (Some None, v) \<and>
    (\<exists>w1. run_state (runsc_Kill (sample_init_env 0 [] 1 ''running'') sample_runsc ''c1'' 15
       (Some \<lparr>ko_All = False, ko_Pid = 0\<rparr>)) w1 = (None, v))"
proof -
  let ?env = "sample_init_env 0 [] 1 ''running''"
  let ?w = "\<lparr>ext = 0, trace = []\<rparr> :: nat world"
  let ?r = "run_state (init_kill 5 ?env sample_init 15 False) ?w"
  have r: "fst ?r = Some None"
    by (simp add: init_kill_def kill_loop.simps(2) [of 4, unfolded Suc_numeral semiring_norm] kill_timeout_def millisecond_def run_ext_call
        runsc_Kill_def runOrError_def run_cmdOutput_combined run_once_def output_error_def statusStopped_def
        runsc_command_def wait_error_def sample_init_env_def sample_proc_env_def sample_cmd_env_def
        cmd_env.defs proc_env.defs init_env.defs)
  then have "?r = (Some None, snd ?r)" by (simp add: prod_eq_iff)
  from kill_nil_means_killed [OF this] have
    "(\<exists>w1. run_state (runsc_Kill ?env (i_runtime sample_init) (i_id sample_init) (uint (15 :: u32))
             (Some \<lparr>ko_All = False, ko_Pid = 0\<rparr>)) w1 = (None, snd ?r)) \<or>
     kill_timeout \<le> fst (now ?env (snd (now ?env (ext ?w)))) - fst (now ?env (ext ?w))" by blast
  moreover have "\<not> kill_timeout \<le> fst (now ?env (snd (now ?env (ext ?w)))) - fst (now ?env (ext ?w))"
    by (simp add: kill_timeout_def millisecond_def sample_init_env_def sample_proc_env_def sample_cmd_env_def
        cmd_env.defs proc_env.defs init_env.defs)
  moreover have "i_runtime sample_init = sample_runsc" "i_id sample_init = ''c1''"
    by (simp_all add: sample_init_def New_def)
  ultimately show ?thesis using \<open>?r = (Some None, snd ?r)\<close> by auto
qed

text \<open>
  C33: The other way of returning nil happens. If the clock moves a second between the two readings
  that \<open>kill\<close> takes before its first attempt, it returns nil and has sent no signal: \<open>killErr\<close> is
  still nil and \<open>runtimeError\<close> maps nil to nil.
\<close>

theorem kill_nil_without_signal:
  assumes "now env (ext w) = (t0, x1)" "now env x1 = (t1, x2)" "t0 + 1000 * millisecond \<le> t1"
  shows "run_state (init_kill (Suc n) env p signal al) w = (Some None, \<lparr>ext = x2, trace = trace w\<rparr>)"
proof -
  have "\<not> t1 - t0 < kill_timeout" using assms(3) by (simp add: kill_timeout_def)
  with assms(1,2) show ?thesis by (simp add: init_kill_def run_ext_call runtimeError_def)
qed

lemma kill_nil_without_signal_witness:
  "run_state (init_kill 5 (sample_init_env 0 [] 1000000000 ''running'') sample_init 9 True)
      \<lparr>ext = 0, trace = []\<rparr> = (Some None, \<lparr>ext = 2000000000, trace = []\<rparr>)"
  using kill_nil_without_signal [of "sample_init_env 0 [] 1000000000 ''running''" "\<lparr>ext = 0, trace = []\<rparr>"
      0 1000000000 1000000000 2000000000 4 sample_init 9 True]
  by (simp add: millisecond_def sample_init_env_def sample_proc_env_def sample_cmd_env_def
      cmd_env.defs proc_env.defs init_env.defs)


lemma run_init_delete:
  "\<exists>bs w1 derr w2 x3 err2 r v.
     run_state (init_delete env p) w = (r, v) \<and>
     trace v = trace w @ bs @
       (case i_io p of None \<Rightarrow> [] | Some h \<Rightarrow> map ActClose (i_closers p) @ [ActCloseIO h]) @
       [ActUnmountAll (i_Rootfs p)] \<and>
     list_all is_run bs \<and>
     started bs = [buffered (runsc_command env (i_runtime p) [''kill'', ''--all'', i_id p, ''9'']),
                   buffered (runsc_command env (i_runtime p) [''delete'', i_id p])] \<and>
     run_state (killAllLocked env p \<bind> (\<lambda>_. ext_call (wg_wait env))) w = ((), w1) \<and>
     run_state (runsc_Delete env (i_runtime p) (i_id p) None) w1 = (derr, w2) \<and>
     unmount_all env (i_Rootfs p) x3 = (err2, ext v) \<and>
     (r = None \<longleftrightarrow> err2 = None \<and> (case derr of None \<Rightarrow> True | Some e \<Rightarrow> not_exist env e))"
proof -
  let ?derror = "\<lambda>derr. case derr of
       None \<Rightarrow> ret None
     | Some e \<Rightarrow>
         if not_exist env e then ret None
         else do { e' \<leftarrow> runtime_error env p e ''failed to delete task''; ret (Some e') }"
  obtain u w0 where k: "run_state (killAllLocked env p) w = (u, w0)" by (metis surj_pair)
  obtain u' x1 where g: "wg_wait env (ext w0) = (u', x1)" by (metis surj_pair)
  let ?w1 = "\<lparr>ext = x1, trace = trace w0\<rparr>"
  obtain derr w2 where d: "run_state (runsc_Delete env (i_runtime p) (i_id p) None) ?w1 = (derr, w2)"
    by fastforce
  then have rd: "runs_only [buffered (runsc_command env (i_runtime p) [''delete'', i_id p])] ?w1 w2"
    unfolding runsc_Delete_def by (intro runs_runOrError) (simp_all add: opt_args_def)
  have rk: "runs_only [kill_all_command env p] w ?w1"
    by (rule runs_only_ext [OF runs_killAllLocked [OF k]]) simp
  obtain bs where bs: "trace w2 = trace w @ bs" "list_all is_run bs" "started bs =
      [kill_all_command env p, buffered (runsc_command env (i_runtime p) [''delete'', i_id p])]"
    using runs_only_trans [OF rk rd] unfolding runs_only_def by auto
  obtain err w3 where e: "run_state (?derror derr) w2 = (err, w3)" by fastforce
  have "emits (\<lambda>_. False) (?derror derr)" by (intro emits_intros)
  then have t3: "trace w3 = trace w2" by (rule trace_silent [OF _ e])
  have err: "err = None \<longleftrightarrow> (case derr of None \<Rightarrow> True | Some e \<Rightarrow> not_exist env e)"
    using e by (auto split: option.splits if_splits prod.splits)
  obtain x4 where c: "run_state (close_streams env p) w3 =
      ((), \<lparr>ext = x4, trace = trace w3 @ stream_closes p\<rparr>)"
    using run_close_streams [of env p w3] by blast
  obtain err2 x5 where m: "unmount_all env (i_Rootfs p) x4 = (err2, x5)" by fastforce
  let ?v = "\<lparr>ext = x5, trace = trace w3 @ stream_closes p @ [ActUnmountAll (i_Rootfs p)]\<rparr>"
  let ?r = "case err2 of
      None \<Rightarrow> err
    | Some e2 \<Rightarrow> if err = None then Some (Wrapf ''failed rootfs umount: '' e2 []) else err"
  have 0: "run_state (killAllLocked env p \<bind> (\<lambda>_. ext_call (wg_wait env))) w = ((), ?w1)"
    using k g by (simp add: run_ext_call)
  have 1: "run_state (init_delete env p) w = (?r, ?v)"
    using k g d e c m by (simp add: init_delete_def run_ext_call)
  have 2: "trace ?v = trace w @ bs @ (case i_io p of None \<Rightarrow> []
      | Some h \<Rightarrow> map ActClose (i_closers p) @ [ActCloseIO h]) @ [ActUnmountAll (i_Rootfs p)]"
    using bs(1) t3 by (simp add: stream_closes_def)
  have 3: "unmount_all env (i_Rootfs p) x4 = (err2, ext ?v)" using m by simp
  have 4: "?r = None \<longleftrightarrow> err2 = None \<and> (case derr of None \<Rightarrow> True | Some e \<Rightarrow> not_exist env e)"
    using err by (cases err2) auto
  show ?thesis
    by (intro exI conjI) (rule 1, rule 2, rule bs(2), rule bs(3) [unfolded kill_all_command_def], rule 0, rule d,
      rule 3, rule 4)
qed

text \<open>
  C8: Deleting cleans up in order, whatever fails. Every process is killed, then \<open>runsc delete\<close> is
  run, then, for a process that has an IO, its closers and the IO are closed, and unmounting the rootfs
  is last; a process without IO (a terminal's) has nothing closed. The error is nil exactly when the
  unmount succeeded and \<open>runsc delete\<close> succeeded or said that the container does not exist.
\<close>

theorem delete_cleans_up:
  "\<exists>bs w1 derr w2 x3 err2 r v.
     run_state (init_delete env p) w = (r, v) \<and>
     trace v = trace w @ bs @
       (case i_io p of None \<Rightarrow> [] | Some h \<Rightarrow> map ActClose (i_closers p) @ [ActCloseIO h]) @
       [ActUnmountAll (i_Rootfs p)] \<and>
     list_all is_run bs \<and>
     started bs = [buffered (runsc_command env (i_runtime p) [''kill'', ''--all'', i_id p, ''9'']),
                   buffered (runsc_command env (i_runtime p) [''delete'', i_id p])] \<and>
     run_state (killAllLocked env p \<bind> (\<lambda>_. ext_call (wg_wait env))) w = ((), w1) \<and>
     run_state (runsc_Delete env (i_runtime p) (i_id p) None) w1 = (derr, w2) \<and>
     unmount_all env (i_Rootfs p) x3 = (err2, ext v) \<and>
     (r = None \<longleftrightarrow> err2 = None \<and> (case derr of None \<Rightarrow> True | Some e \<Rightarrow> not_exist env e))"
  by (rule run_init_delete)

lemma emits_create_stdin [emits_intros]: "emits is_run (create_stdin env p r)"
  unfolding create_stdin_def by (intro emits_intros)

lemma emits_create_copy [emits_intros]: "emits is_run (create_copy env p r socket)"
  unfolding create_copy_def by (intro emits_intros)

lemma emits_runsc_Create [emits_intros]: "emits is_run (runsc_Create env r cid b op)"
  unfolding runsc_Create_def by (intro emits_intros)

lemma emits_create_body [emits_intros]: "emits is_run (create_body env p r socket)"
  unfolding create_body_def by (intro emits_intros)

lemma run_create_io:
  "run_state (create_io env p r) w = (res, v) \<Longrightarrow> trace v = trace w"
  by (auto simp: create_io_def run_ext_call split: if_splits prod.splits sum.splits)

lemma create_io_socket:
  assumes "run_state (create_io env p r) w = ((Inr socket, p1), v)"
  shows "socket \<noteq> None \<longleftrightarrow> cc_Terminal r" "cc_Terminal r \<Longrightarrow> p1 = p"
  using assms by (auto simp: create_io_def run_ext_call split: if_splits prod.splits sum.splits)

text \<open>
  C22: \<open>Create\<close> closes its console socket on every path. A terminal creation that obtained a socket
  ends by closing it, whether the rest succeeded or failed; without one there is nothing to close.
  Before that only runs of a command are left in the trace.
\<close>

theorem create_closes_socket:
  "\<exists>bs. list_all is_run bs \<and> trace (snd (run_state (init_Create env p r) w)) = trace w @ bs @
     (if cc_Terminal r then
        (case fst (new_console_socket env (ext w)) of Inl e \<Rightarrow> [] | Inr path \<Rightarrow> [ActCloseSocket path])
      else [])"
proof -
  obtain res p1 v where io: "run_state (create_io env p r) w = ((res, p1), v)"
    by (metis surj_pair)
  note tv = run_create_io [OF io]
  show ?thesis
  proof (cases res)
    case (Inl e)
    with io tv show ?thesis
      by (intro exI [of _ "[]"]) (auto simp: init_Create_def create_io_def run_ext_call
          split: prod.splits sum.splits)
  next
    case (Inr socket)
    obtain q u where b: "run_state (create_body env p1 r socket) v = (q, u)" by fastforce
    from emitsD [OF emits_create_body b] obtain bs where
      bs: "trace u = trace v @ bs" "list_all is_run bs" by (auto simp: list_all_iff)
    show ?thesis
    proof (cases socket)
      case None
      with create_io_socket(1) [OF io [unfolded Inr]] have "\<not> cc_Terminal r" by simp
      with io Inr None b bs tv show ?thesis
        by (intro exI [of _ bs]) (simp add: init_Create_def)
    next
      case (Some path)
      with create_io_socket(1) [OF io [unfolded Inr]] have "cc_Terminal r" by simp
      moreover from this io Inr Some have "fst (new_console_socket env (ext w)) = Inr path"
        by (auto simp: create_io_def run_ext_call split: prod.splits sum.splits)
      ultimately show ?thesis using io Inr Some b bs tv
        by (intro exI [of _ bs]) (simp add: init_Create_def run_ext_call split: prod.split)
    qed
  qed
qed


text \<open>What a successful creation leaves in the process.\<close>

lemma init_Create_ok:
  assumes "run_state (init_Create env p r) w = ((None, q), v)"
  obtains p1 p2 p3 socket w0 w1 w2 w3 n x where
    "run_state (create_io env p r) w = ((Inr socket, p1), w0)"
    "run_state (runsc_Create env (i_runtime p1) (cc_ID r) (cc_Bundle r)
       (Some (init_create_opts p1 r socket))) w0 = (None, w1)"
    "run_state (create_stdin env p1 r) w1 = ((None, p2), w2)"
    "run_state (create_copy env p2 r socket) w2 = ((None, p3), w3)"
    "read_pid_file env (Join [i_Bundle p1, ''init.pid'']) (ext w3) = (Inr n, x)"
    "q = p3\<lparr>i_pid := n\<rparr>"
proof -
  obtain res p1 w0 where io: "run_state (create_io env p r) w = ((res, p1), w0)" by (metis surj_pair)
  with assms obtain socket where res: "res = Inr socket"
    by (auto simp: init_Create_def split: sum.splits)
  obtain e q' u where b: "run_state (create_body env p1 r socket) w0 = ((e, q'), u)" by (metis surj_pair)
  with io res assms have eq: "e = None" "q' = q"
    by (auto simp: init_Create_def run_ext_call split: option.splits prod.splits)
  from b[unfolded eq] show thesis
    by (auto simp: create_body_def run_ext_call io res intro: that
        split: option.splits sum.splits prod.splits)
qed

text \<open>
  C34: A terminal's stdin fifo is never closed by \<open>Delete\<close>. After a successful creation of a terminal
  process with a stdin, the fifo is in \<open>closers\<close> and \<open>io\<close> is nil; \<open>delete\<close> closes the closers only
  when \<open>io\<close> is not nil, so no deletion of that process closes anything.
\<close>

theorem terminal_stdin_left_open:
  assumes "run_state (init_Create env p r) w = ((None, q), v)"
    and "cc_Terminal r" "cc_Stdin r \<noteq> []" "i_io p = None"
  shows "\<exists>h as. i_stdin q = Some h \<and> h \<in> set (i_closers q) \<and>
    trace (snd (run_state (init_delete env q) u)) = trace u @ as \<and>
    list_all (\<lambda>a. \<forall>h. a \<noteq> ActClose h) as"
proof -
  obtain p1 p2 p3 socket w0 w1 w2 w3 n x where
    c: "run_state (create_io env p r) w = ((Inr socket, p1), w0)"
    "run_state (create_stdin env p1 r) w1 = ((None, p2), w2)"
    "run_state (create_copy env p2 r socket) w2 = ((None, p3), w3)" "q = p3\<lparr>i_pid := n\<rparr>"
    by (rule init_Create_ok [OF assms(1)])
  have p1: "p1 = p" by (rule create_io_socket(2) [OF c(1) assms(2)])
  obtain h where p2: "p2 = p1\<lparr>i_stdin := Some h, i_closers := i_closers p1 @ [h]\<rparr>"
    using c(2) assms(3) by (auto simp: create_stdin_def run_ext_call split: prod.splits sum.splits)
  have "i_io p3 = i_io p2 \<and> i_closers p3 = i_closers p2 \<and> i_stdin p3 = i_stdin p2"
    using c(3) by (auto simp: create_copy_def run_ext_call split: if_splits option.splits prod.splits sum.splits)
  with p1 p2 c(4) assms(4) have q: "i_io q = None" "i_stdin q = Some h" "h \<in> set (i_closers q)" by simp_all
  obtain bs where bs: "trace (snd (run_state (init_delete env q) u)) = trace u @ bs @ [ActUnmountAll (i_Rootfs q)]"
    "list_all is_run bs"
    using run_init_delete [of env q u] q(1) by auto
  have "list_all (\<lambda>a. \<forall>h. a \<noteq> ActClose h) (bs @ [ActUnmountAll (i_Rootfs q)])"
    using bs(2) by (auto simp: list_all_iff is_run_def)
  with q bs(1) show ?thesis by (intro exI conjI)
qed

definition sample_create_config :: "bool \<Rightarrow> string \<Rightarrow> create_config" where
  "sample_create_config terminal stdin =
     \<lparr> cc_ID = ''c1'', cc_Bundle = ''/run/b'', cc_Runtime = ''runsc'', cc_Rootfs = [],
       cc_Terminal = terminal, cc_Stdin = stdin, cc_Stdout = [], cc_Stderr = [],
       cc_FSRestoreImagePath = [], cc_FSRestoreDirect = False \<rparr>"

definition created_sample :: "(gerror option \<times> unit init) \<times> nat world" where
  "created_sample = run_state (init_Create (sample_proc_env 0 [] 0)
     (sample_init\<lparr>i_io := None, i_closers := []\<rparr>) (sample_create_config True ''/run/in''))
     \<lparr>ext = 0, trace = []\<rparr>"

lemma terminal_stdin_left_open_witness:
  "i_stdin (snd (fst created_sample)) = Some 12 \<and>
   (\<exists>as. trace (snd (run_state (init_delete (sample_proc_env 0 [] 0) (snd (fst created_sample)))
      \<lparr>ext = 0, trace = []\<rparr>)) = as \<and> list_all (\<lambda>a. \<forall>h. a \<noteq> ActClose h) as)"
proof -
  have ok: "fst (fst created_sample) = None" by code_simp
  have stdin: "i_stdin (snd (fst created_sample)) = Some 12" by code_simp
  have "run_state (init_Create (sample_proc_env 0 [] 0) (sample_init\<lparr>i_io := None, i_closers := []\<rparr>)
      (sample_create_config True ''/run/in'')) \<lparr>ext = 0, trace = []\<rparr> =
    ((None, snd (fst created_sample)), snd created_sample)"
    using ok by (metis created_sample_def prod.collapse)
  from terminal_stdin_left_open [OF this, of "\<lparr>ext = 0, trace = []\<rparr>"] stdin
  show ?thesis by (simp add: sample_create_config_def)
qed


lemma IsAbs_Clean: "IsAbs p \<Longrightarrow> IsAbs (Clean p)"
  by (simp add: Clean_def Let_def)

lemma Join_IsAbs:
  assumes "IsAbs b"
  shows "IsAbs (Join (b # es))"
proof -
  obtain cs where "b = slash # cs" using assms by (cases b) auto
  then show ?thesis by (cases es) (simp_all add: Join_def IsAbs_Clean)
qed

lemma Clean_Join: "Join es \<noteq> [] \<Longrightarrow> Clean (Join es) = Join es"
  by (cases "dropWhile (\<lambda>e. e = []) es") (simp_all add: Join_def Clean_idem)

text \<open>The arguments of the command a creation runs, for an absolute bundle.\<close>

definition create_argv :: "'s init \<Rightarrow> create_config \<Rightarrow> string option \<Rightarrow> string list" where
  "create_argv p r socket =
     [''create'', ''--bundle'', cc_Bundle r, ''--pid-file'', Join [i_Bundle p, ''init.pid'']] @
     (case socket of None \<Rightarrow> [] | Some s \<Rightarrow> [''--console-socket'', s]) @
     (if i_Sandbox p \<and> i_UserLog p \<noteq> [] then [''--user-log'', i_UserLog p] else []) @
     (if cc_FSRestoreImagePath r = [] then []
      else [''--fs-restore-image-path'', cc_FSRestoreImagePath r]) @
     (if cc_FSRestoreDirect r then [''--fs-restore-direct''] else []) @ [cc_ID r]"

lemma runsc_Create_init:
  assumes "IsAbs (i_Bundle p)"
  shows "run_state (runsc_Create env rt (cc_ID r) (cc_Bundle r) (Some (init_create_opts p r socket))) w =
    run_state (start_cmd env (if i_Sandbox p then i_io p else None)
      (runsc_command env rt (create_argv p r socket))) w"
proof -
  let ?pf = "Join [i_Bundle p, ''init.pid'']"
  have abs: "IsAbs ?pf" by (rule Join_IsAbs [OF assms])
  then have "?pf \<noteq> []" by auto
  with abs Clean_Join [of "[i_Bundle p, ''init.pid'']"]
  have "run_state (opt_args_result (create_opts_args env) (Some (init_create_opts p r socket))) w =
    (Inr (drop 3 (butlast (create_argv p r socket))), w)"
    by (simp add: opt_args_result_def create_opts_args_def path_flag_def abs_path_def
        init_create_opts_def create_argv_def butlast_append split: option.split)
  then show ?thesis
    by (simp add: runsc_Create_def init_create_opts_def create_argv_def butlast_append
        split: option.split)
qed


text \<open>
  C18: A successful \<open>Create\<close> ran one \<open>runsc create\<close> and took the pid it wrote. For an absolute bundle
  the command names the bundle, the pid file in it, the console socket of a terminal, for a sandbox
  the user log and its IO, the filesystem image and its direct switch, and the container; it is
  waited for, and the process gets the pid read from that pid file.
\<close>

theorem create_runs_create:
  assumes "run_state (init_Create env p r) w = ((None, q), v)" "IsAbs (i_Bundle p)"
  shows "\<exists>socket pio x x'. (socket \<noteq> None \<longleftrightarrow> cc_Terminal r) \<and>
    trace v = trace w @
      (let c = start_final env (if i_Sandbox p then pio else None) (runsc_command env (i_runtime p)
         ([''create'', ''--bundle'', cc_Bundle r, ''--pid-file'', Join [i_Bundle p, ''init.pid'']] @
          (case socket of None \<Rightarrow> [] | Some s \<Rightarrow> [''--console-socket'', s]) @
          (if i_Sandbox p \<and> i_UserLog p \<noteq> [] then [''--user-log'', i_UserLog p] else []) @
          (if cc_FSRestoreImagePath r = [] then []
           else [''--fs-restore-image-path'', cc_FSRestoreImagePath r]) @
          (if cc_FSRestoreDirect r then [''--fs-restore-direct''] else []) @ [cc_ID r]))
       in [ActStart c, ActWait c]) @
      (case socket of None \<Rightarrow> [] | Some s \<Rightarrow> [ActCloseSocket s]) \<and>
    read_pid_file env (Join [i_Bundle p, ''init.pid'']) x = (Inr (i_pid q), x')"
proof -
  obtain p1 p2 p3 socket w0 w1 w2 w3 n x where
    c: "run_state (create_io env p r) w = ((Inr socket, p1), w0)"
    "run_state (runsc_Create env (i_runtime p1) (cc_ID r) (cc_Bundle r)
       (Some (init_create_opts p1 r socket))) w0 = (None, w1)"
    "run_state (create_stdin env p1 r) w1 = ((None, p2), w2)"
    "run_state (create_copy env p2 r socket) w2 = ((None, p3), w3)"
    "read_pid_file env (Join [i_Bundle p1, ''init.pid'']) (ext w3) = (Inr n, x)"
    "q = p3\<lparr>i_pid := n\<rparr>"
    by (rule init_Create_ok [OF assms(1)])
  have p1: "i_Bundle p1 = i_Bundle p" "i_runtime p1 = i_runtime p" "i_Sandbox p1 = i_Sandbox p"
    "i_UserLog p1 = i_UserLog p"
    using c(1) by (auto simp: create_io_def run_ext_call split: if_splits prod.splits sum.splits)
  let ?cio = "if i_Sandbox p then i_io p1 else None"
  let ?cmd = "runsc_command env (i_runtime p) (create_argv p r socket)"
  let ?c = "start_final env ?cio ?cmd"
  have argv: "create_argv p1 r socket = create_argv p r socket" by (simp add: create_argv_def p1)
  have "run_state (start_cmd env ?cio ?cmd) w0 = (None, w1)"
    using c(2) runsc_Create_init [of p1 env "i_runtime p1" r socket w0] assms(2) by (simp add: p1 argv)
  with stc.run_ok_waits [of env ?cio ?cmd w0] have t1: "trace w1 = trace w0 @ [ActStart ?c, ActWait ?c]"
    by simp
  have t2: "trace w2 = trace w1"
    using c(3) by (auto simp: create_stdin_def run_ext_call split: if_splits prod.splits sum.splits)
  have t3: "trace w3 = trace w2"
    using c(4) by (auto simp: create_copy_def run_ext_call
        split: if_splits option.splits prod.splits sum.splits)
  have "trace v = trace w3 @ (case socket of None \<Rightarrow> [] | Some s \<Rightarrow> [ActCloseSocket s])"
    using assms(1) c(1-5) by (auto simp: init_Create_def create_body_def run_ext_call
        split: option.splits prod.splits)
  with run_create_io [OF c(1)] t1 t2 t3
  have tv: "trace v = trace w @ [ActStart ?c, ActWait ?c] @
      (case socket of None \<Rightarrow> [] | Some s \<Rightarrow> [ActCloseSocket s])" by simp
  show ?thesis
    unfolding Let_def
    by (intro exI conjI, rule create_io_socket(1) [OF c(1)],
      rule tv [unfolded create_argv_def], use c(5,6) p1 in simp)
qed

lemma create_runs_create_witness:
  "\<exists>x x'. read_pid_file (sample_proc_env 0 [] 0) ''/run/b/init.pid'' x =
     (Inr (i_pid (snd (fst created_sample))), x') \<and> i_pid (snd (fst created_sample)) = 42"
proof -
  have ok: "fst (fst created_sample) = None" by code_simp
  have "run_state (init_Create (sample_proc_env 0 [] 0) (sample_init\<lparr>i_io := None, i_closers := []\<rparr>)
      (sample_create_config True ''/run/in'')) \<lparr>ext = 0, trace = []\<rparr> =
    ((None, snd (fst created_sample)), snd created_sample)"
    using ok by (metis created_sample_def prod.collapse)
  moreover have "i_Bundle (sample_init\<lparr>i_io := None, i_closers := []\<rparr>) = ''/run/b''"
    by (simp add: sample_init_def)
  moreover have "Join [''/run/b'', ''init.pid''] = ''/run/b/init.pid''" by code_simp
  moreover have "i_pid (snd (fst created_sample)) = 42" by code_simp
  ultimately show ?thesis
    using create_runs_create [of "sample_proc_env 0 [] 0" "sample_init\<lparr>i_io := None, i_closers := []\<rparr>"
        "sample_create_config True ''/run/in''" "\<lparr>ext = 0, trace = []\<rparr>" "snd (fst created_sample)"
        "snd created_sample"] by auto
qed

end
