(* ===== verification/OciSpec.thy ===== *)
theory OciSpec
  imports Filepath
begin

text \<open>
  The OCI runtime spec as far as the shim reads and writes it, and the two decisions it takes from
  it (\<open>runsc/service.go\<close>): \<open>shouldRestore\<close>, the checkpoint image a container is to be restored from,
  and \<open>setPodCgroup\<close>, the annotation that puts the sandbox into the pod's cgroup.
\<close>

section \<open>The spec\<close>

text \<open>
  \<open>sp_Annotations\<close> is nil-able as the Go map is; \<open>sp_Linux\<close> is \<open>Linux.CgroupsPath\<close>, \<^const>\<open>None\<close> when
  \<open>Linux\<close> is nil; \<open>sp_rest\<close> is everything else, which the shim passes on unread.
\<close>

record oci_spec =
  sp_Annotations :: "(string, string) gomap option"
  sp_Linux :: "string option"
  sp_rest :: string

text \<open>Reading a Go map: a nil map and a missing key both give the zero value.\<close>

definition annotation :: "oci_spec \<Rightarrow> string \<Rightarrow> string" where
  "annotation spec key =
     (case sp_Annotations spec of
        None \<Rightarrow> []
      | Some m \<Rightarrow> (case gm_get m key of None \<Rightarrow> [] | Some v \<Rightarrow> v))"

definition set_annotation :: "string \<Rightarrow> string \<Rightarrow> oci_spec \<Rightarrow> oci_spec" where
  "set_annotation key v spec =
     spec\<lparr>sp_Annotations :=
       Some (gm_put key v (case sp_Annotations spec of None \<Rightarrow> [] | Some m \<Rightarrow> m))\<rparr>"

lemma annotation_set [simp]:
  "annotation (set_annotation key v spec) k = (if k = key then v else annotation spec k)"
  by (simp add: annotation_def set_annotation_def gm.get_put split: option.splits)

lemma set_annotation_frame [simp]:
  "sp_Linux (set_annotation key v spec) = sp_Linux spec"
  "sp_rest (set_annotation key v spec) = sp_rest spec"
  by (simp_all add: set_annotation_def)

section \<open>The restore annotation\<close>

definition restoreImagePathAnnotation :: string where
  "restoreImagePathAnnotation = ''dev.neevcloud.restore-image-path''"

definition shouldRestore :: "oci_spec \<Rightarrow> string" where
  "shouldRestore spec = annotation spec restoreImagePathAnnotation"

section \<open>The pod cgroup\<close>

definition cgroupParentAnnotation :: string where
  "cgroupParentAnnotation = ''dev.gvisor.spec.cgroup-parent''"

text \<open>The inner loop: \<open>path = filepath.Join(path, parts[j])\<close> for \<open>j\<close> from 0 to \<open>i\<close>.\<close>

definition join_parts :: "string list \<Rightarrow> string" where
  "join_parts ps = foldl (\<lambda>path p. Join [path, p]) [] ps"

text \<open>The outer loop, from \<open>i = len(parts) - 1\<close> down to 0; the last argument is \<open>i + 1\<close>.\<close>

fun pod_search :: "bool \<Rightarrow> string list \<Rightarrow> nat \<Rightarrow> string option" where
  "pod_search rooted parts 0 = None"
| "pod_search rooted parts (Suc i) =
     (if has_prefix (parts ! i) ''pod'' then
        (let path = join_parts (take (Suc i) parts)
         in Some (if rooted then slash # path else path))
      else pod_search rooted parts i)"

text \<open>\<open>sandbox\<close> is \<open>utils.IsSandbox\<close>. Returns whether the spec was modified, and the spec.\<close>

definition setPodCgroup :: "(oci_spec \<Rightarrow> bool) \<Rightarrow> oci_spec \<Rightarrow> bool \<times> oci_spec" where
  "setPodCgroup sandbox spec =
     (if \<not> sandbox spec then (False, spec)
      else (case sp_Linux spec of
        None \<Rightarrow> (False, spec)
      | Some cg \<Rightarrow>
          if length cg = 0 then (False, spec)
          else
            (let parts = split_on slash cg
             in case pod_search (IsAbs cg) parts (length parts) of
                  None \<Rightarrow> (False, spec)
                | Some path \<Rightarrow>
                    if cg = path then (False, spec)
                    else (True, set_annotation cgroupParentAnnotation path spec))))"

section \<open>Joining normal elements\<close>

lemma join_with_snoc: "es \<noteq> [] \<Longrightarrow> join_with c (es @ [e]) = join_with c es @ c # e"
  by (induction c es rule: join_with.induct) auto

lemma normal_shape: "\<forall>e \<in> set es. normal_elem e \<Longrightarrow> clean_shape False es"
  unfolding clean_shape_def by (intro exI [of _ 0] exI [of _ es]) simp

lemma Clean_normal:
  assumes "es \<noteq> []" "\<forall>e \<in> set es. normal_elem e"
  shows "Clean (join_with slash es) = join_with slash es"
  using Clean_elems [OF normal_shape [OF assms(2)]] assms(1) by simp

lemma join_with_normal_nonempty:
  assumes "es \<noteq> []" "\<forall>e \<in> set es. normal_elem e"
  shows "join_with slash es \<noteq> []"
  using assms by (cases es; cases "tl es") (auto simp: normal_elem_def)

lemma join_parts_normal:
  assumes "\<forall>e \<in> set es. normal_elem e"
  shows "join_parts es = join_with slash es"
  using assms
proof (induction es rule: rev_induct)
  case Nil
  then show ?case by (simp add: join_parts_def)
next
  case (snoc e es)
  then have n: "\<forall>x \<in> set (es @ [e]). normal_elem x" and e: "e \<noteq> []"
    by (auto simp: normal_elem_def)
  have step: "join_parts (es @ [e]) = Join [join_with slash es, e]"
    using snoc by (simp add: join_parts_def)
  show ?case
  proof (cases "es = []")
    case True
    with n e Clean_normal [of "[e]"] step show ?thesis by (simp add: Join_def)
  next
    case False
    with n e Clean_normal [of "es @ [e]"] join_with_normal_nonempty [of es] step
    show ?thesis by (simp add: Join_def join_with_snoc)
  qed
qed

lemma join_parts_rooted: "join_parts ([] # es) = join_parts es"
  by (simp add: join_parts_def Join_def)

lemma pod_search_skip:
  assumes "\<forall>p \<in> set post. \<not> has_prefix p ''pod''"
  shows "pod_search rooted (pre @ post) (length (pre @ post)) = pod_search rooted (pre @ post) (length pre)"
  using assms
proof (induction post rule: rev_induct)
  case Nil
  then show ?case by simp
next
  case (snoc p post)
  have "pod_search rooted (pre @ post @ [p]) n = pod_search rooted (pre @ post) n"
    if "n \<le> length (pre @ post)" for n
    using that by (induction n) (auto simp: nth_append Let_def)
  with snoc show ?case by (simp add: nth_append)
qed

lemma pod_search_found:
  assumes "has_prefix pod ''pod''" "\<forall>p \<in> set post. \<not> has_prefix p ''pod''"
  shows "pod_search rooted (pre @ pod # post) (length (pre @ pod # post)) =
    Some ((if rooted then [slash] else []) @ join_parts (pre @ [pod]))"
  using assms pod_search_skip [of post rooted "pre @ [pod]"] by simp

lemma setPodCgroup_eq:
  assumes "sandbox spec" "sp_Linux spec = Some cg" "cg \<noteq> []"
    and "pod_search (IsAbs cg) (split_on slash cg) (length (split_on slash cg)) = Some path"
  shows "setPodCgroup sandbox spec =
    (if cg = path then (False, spec) else (True, set_annotation cgroupParentAnnotation path spec))"
  using assms by (simp add: setPodCgroup_def Let_def)

section \<open>Properties\<close>

text \<open>
  C26: The pod cgroup is found. For a sandbox whose cgroup path (absolute or relative, of normal
  elements) contains an element that starts with \<open>pod\<close>, the last such element ends the pod's cgroup:
  the annotation is set to the path up to it, with the leading slash exactly when the path has one,
  and every other part of the spec stays; when it is the last element the spec is not modified.
\<close>

theorem setPodCgroup_finds_pod:
  assumes "sandbox spec"
    and "sp_Linux spec = Some ((if rooted then [slash] else []) @ join_with slash (pre @ pod # post))"
    and "\<forall>e \<in> set (pre @ pod # post). normal_elem e"
    and "has_prefix pod ''pod''" "\<forall>p \<in> set post. \<not> has_prefix p ''pod''"
  shows "setPodCgroup sandbox spec =
    (if post = [] then (False, spec)
     else (True, set_annotation cgroupParentAnnotation
             ((if rooted then [slash] else []) @ join_with slash (pre @ [pod])) spec))"
proof -
  let ?es = "pre @ pod # post"
  let ?lead = "if rooted then [slash] else []"
  let ?cg = "?lead @ join_with slash ?es"
  have ns: "\<forall>e \<in> set ?es. slash \<notin> set e \<and> e \<noteq> []"
    using assms(3) by (auto simp: normal_elem_def)
  have split: "split_on slash (join_with slash ?es) = ?es"
    using ns by (intro split_join) auto
  have parts: "split_on slash ?cg = (if rooted then [] # ?es else ?es)"
    using split by simp
  have abs: "IsAbs ?cg = rooted"
    using IsAbs_join_clean [OF ns] by (cases rooted) simp_all
  have jp: "join_parts (pre @ [pod]) = join_with slash (pre @ [pod])"
    using assms(3) by (intro join_parts_normal) simp
  have found: "pod_search (IsAbs ?cg) (split_on slash ?cg) (length (split_on slash ?cg)) =
      Some (?lead @ join_with slash (pre @ [pod]))"
    using pod_search_found [OF assms(4,5), of True "[] # pre"]
      pod_search_found [OF assms(4,5), of False pre] jp join_parts_rooted [of "pre @ [pod]"]
    unfolding abs parts by (cases rooted) simp_all
  have last: "?cg = ?lead @ join_with slash (pre @ [pod]) \<longleftrightarrow> post = []"
  proof
    assume "?cg = ?lead @ join_with slash (pre @ [pod])"
    then have "join_with slash ?es = join_with slash (pre @ [pod])" by simp
    then have "?es = pre @ [pod]"
      using ns split split_join [of "pre @ [pod]" slash] by (metis Un_iff append_is_Nil_conv
          list.distinct(1) list.set_intros(1) set_append set_ConsD empty_iff list.set(1))
    then show "post = []" by simp
  qed simp
  have "?cg \<noteq> []"
    using join_with_normal_nonempty [OF _ assms(3)] by simp
  from setPodCgroup_eq [of sandbox spec, OF assms(1,2) this found] last show ?thesis
    by (simp only:)
qed

lemma setPodCgroup_finds_pod_witness:
  "setPodCgroup (\<lambda>s. True)
     \<lparr>sp_Annotations = None, sp_Linux = Some ''/kubepods/burstable/pod123/container123'', sp_rest = []\<rparr> =
   (True, \<lparr>sp_Annotations = Some [(cgroupParentAnnotation, ''/kubepods/burstable/pod123'')],
           sp_Linux = Some ''/kubepods/burstable/pod123/container123'', sp_rest = []\<rparr>)"
  using setPodCgroup_finds_pod [of "\<lambda>s. True"
      "\<lparr>sp_Annotations = None, sp_Linux = Some ''/kubepods/burstable/pod123/container123'', sp_rest = []\<rparr>"
      True "[''kubepods'', ''burstable'']" "''pod123''" "[''container123'']"]
  by (simp add: normal_elem_def has_prefix_def set_annotation_def)

lemma pod_search_sound:
  assumes "pod_search rooted parts n = Some path"
  shows "\<exists>i < n. has_prefix (parts ! i) ''pod'' \<and> (\<forall>j. i < j \<and> j < n \<longrightarrow> \<not> has_prefix (parts ! j) ''pod'') \<and>
    path = (if rooted then [slash] else []) @ join_parts (take (Suc i) parts)"
  using assms
proof (induction n)
  case 0
  then show ?case by simp
next
  case (Suc n)
  show ?case
  proof (cases "has_prefix (parts ! n) ''pod''")
    case True
    with Suc.prems show ?thesis by (intro exI [of _ n]) (auto simp: Let_def split: if_splits)
  next
    case False
    with Suc.prems have "pod_search rooted parts n = Some path" by simp
    from Suc.IH [OF this] obtain i where "i < n" "has_prefix (parts ! i) ''pod''"
      "\<forall>j. i < j \<and> j < n \<longrightarrow> \<not> has_prefix (parts ! j) ''pod''"
      "path = (if rooted then [slash] else []) @ join_parts (take (Suc i) parts)" by blast
    with False show ?thesis by (intro exI [of _ i]) (auto simp: less_Suc_eq)
  qed
qed

lemma pod_search_None:
  "pod_search rooted parts n = None \<longleftrightarrow> (\<forall>i < n. \<not> has_prefix (parts ! i) ''pod'')"
  by (induction n) (auto simp: Let_def less_Suc_eq)

text \<open>
  C27: \<open>setPodCgroup\<close> answers whether it wrote the annotation, and writes nothing else. It answers
  true exactly for a sandbox whose cgroup path has an element starting with \<open>pod\<close> (the last of them at
  \<open>i\<close>) and is not itself the path up to that element; then that path, which is not the container's own,
  is the annotation's new value. Otherwise the spec is left as it is. The cgroup path, the rest of the
  spec, every other annotation and the restore decision are never affected.
\<close>

theorem setPodCgroup_frame:
  "(fst (setPodCgroup sandbox spec) \<longleftrightarrow>
      sandbox spec \<and> (\<exists>cg i path. sp_Linux spec = Some cg \<and> i < length (split_on slash cg) \<and>
        has_prefix (split_on slash cg ! i) ''pod'' \<and>
        (\<forall>j. i < j \<and> j < length (split_on slash cg) \<longrightarrow> \<not> has_prefix (split_on slash cg ! j) ''pod'') \<and>
        path = (if IsAbs cg then [slash] else []) @ join_parts (take (Suc i) (split_on slash cg)) \<and>
        path \<noteq> cg \<and> snd (setPodCgroup sandbox spec) = set_annotation cgroupParentAnnotation path spec \<and>
        annotation (snd (setPodCgroup sandbox spec)) cgroupParentAnnotation = path)) \<and>
   (\<not> fst (setPodCgroup sandbox spec) \<longrightarrow> snd (setPodCgroup sandbox spec) = spec) \<and>
   sp_Linux (snd (setPodCgroup sandbox spec)) = sp_Linux spec \<and>
   sp_rest (snd (setPodCgroup sandbox spec)) = sp_rest spec \<and>
   (\<forall>k. k \<noteq> cgroupParentAnnotation \<longrightarrow>
      annotation (snd (setPodCgroup sandbox spec)) k = annotation spec k) \<and>
   shouldRestore (snd (setPodCgroup sandbox spec)) = shouldRestore spec"
proof -
  let ?p = "setPodCgroup sandbox spec"
  have frame: "sp_Linux (snd ?p) = sp_Linux spec" "sp_rest (snd ?p) = sp_rest spec"
    "\<forall>k. k \<noteq> cgroupParentAnnotation \<longrightarrow> annotation (snd ?p) k = annotation spec k"
    "\<not> fst ?p \<longrightarrow> snd ?p = spec"
    by (simp_all add: setPodCgroup_def Let_def split: option.split)
  have "restoreImagePathAnnotation \<noteq> cgroupParentAnnotation"
    by (simp add: restoreImagePathAnnotation_def cgroupParentAnnotation_def)
  with frame(3) have sr: "shouldRestore (snd ?p) = shouldRestore spec" by (simp add: shouldRestore_def)
  let ?wrote = "sandbox spec \<and> (\<exists>cg i path. sp_Linux spec = Some cg \<and> i < length (split_on slash cg) \<and>
        has_prefix (split_on slash cg ! i) ''pod'' \<and>
        (\<forall>j. i < j \<and> j < length (split_on slash cg) \<longrightarrow> \<not> has_prefix (split_on slash cg ! j) ''pod'') \<and>
        path = (if IsAbs cg then [slash] else []) @ join_parts (take (Suc i) (split_on slash cg)) \<and>
        path \<noteq> cg \<and> snd ?p = set_annotation cgroupParentAnnotation path spec \<and>
        annotation (snd ?p) cgroupParentAnnotation = path)"
  have 1: "?wrote" if t: "fst ?p"
  proof -
    from t obtain cg path where c: "sandbox spec" "sp_Linux spec = Some cg"
      "pod_search (IsAbs cg) (split_on slash cg) (length (split_on slash cg)) = Some path" "cg \<noteq> path"
      "snd ?p = set_annotation cgroupParentAnnotation path spec"
      by (auto simp: setPodCgroup_def Let_def split: option.splits if_splits)
    from pod_search_sound [OF c(3)] c show ?thesis by auto
  qed
  have 2: "fst ?p" if w: "?wrote"
  proof (rule ccontr)
    assume "\<not> fst ?p"
    with frame(4) have same: "snd ?p = spec" by simp
    from w obtain cg i path where c: "sandbox spec" "sp_Linux spec = Some cg" "i < length (split_on slash cg)"
      "has_prefix (split_on slash cg ! i) ''pod''"
      "\<forall>j. i < j \<and> j < length (split_on slash cg) \<longrightarrow> \<not> has_prefix (split_on slash cg ! j) ''pod''"
      "path = (if IsAbs cg then [slash] else []) @ join_parts (take (Suc i) (split_on slash cg))"
      "path \<noteq> cg" by blast
    from c(3,4) have "cg \<noteq> []" by (auto simp: has_prefix_def)
    from c(3,4) obtain path' where
      s: "pod_search (IsAbs cg) (split_on slash cg) (length (split_on slash cg)) = Some path'"
      using pod_search_None by (metis not_None_eq)
    from pod_search_sound [OF s] obtain i' where i': "i' < length (split_on slash cg)"
      "has_prefix (split_on slash cg ! i') ''pod''"
      "\<forall>j. i' < j \<and> j < length (split_on slash cg) \<longrightarrow> \<not> has_prefix (split_on slash cg ! j) ''pod''"
      "path' = (if IsAbs cg then [slash] else []) @ join_parts (take (Suc i') (split_on slash cg))" by blast
    have "i' = i" using c(3-5) i'(1-3) by (metis linorder_neqE_nat)
    with i'(4) c(6) have "path' = path" by simp
    with setPodCgroup_eq [of sandbox spec, OF c(1,2) \<open>cg \<noteq> []\<close> s] c(7) \<open>\<not> fst ?p\<close> show False by simp
  qed
  have "fst ?p \<longleftrightarrow> ?wrote" by (rule iffI [OF 1 2])
  then show ?thesis
    by (intro conjI, assumption) (rule frame(4), rule frame(1), rule frame(2), rule frame(3), rule sr)
qed

lemma setPodCgroup_frame_witness:
  "annotation (snd (setPodCgroup (\<lambda>s. True)
     \<lparr>sp_Annotations = Some [(''k'', ''v'')], sp_Linux = Some ''/a/pod1/c'', sp_rest = []\<rparr>)) ''k'' = ''v''"
proof -
  let ?spec = "\<lparr>sp_Annotations = Some [(''k'', ''v'')], sp_Linux = Some ''/a/pod1/c'', sp_rest = []\<rparr>"
  have "annotation ?spec ''k'' = ''v''" "''k'' \<noteq> cgroupParentAnnotation"
    by (simp_all add: annotation_def cgroupParentAnnotation_def)
  moreover have "\<forall>k. k \<noteq> cgroupParentAnnotation \<longrightarrow>
      annotation (snd (setPodCgroup (\<lambda>s. True) ?spec)) k = annotation ?spec k"
    using setPodCgroup_frame [of "\<lambda>s. True" ?spec] by (elim conjE)
  ultimately show ?thesis by metis
qed

end
