(* ===== verification/Container.thy ===== *)
theory Container
  imports ProcInit OciSpec
begin

text \<open>
  A container (\<open>runsc/container.go\<close>) and \<open>newInit\<close> (\<open>runsc/service.go\<close>), which builds its init
  process from the OCI spec. A container owns the init process and the table of the processes that
  exec added; each method looks a process up by its exec ID and forwards to it. Processes are
  pointers in the code: an operation on one returns the process as it leaves it, which is stored back
  where it was found. The methods of exec'd processes (\<open>proc/exec.go\<close>) are not part of this source and
  are parameters, as are the TOML and protobuf decoders, the disk and \<open>mount(2)\<close>.
\<close>

section \<open>Requests and options\<close>

record create_request =
  cr_ID :: string
  cr_Bundle :: string
  cr_Rootfs :: "mount list"
  cr_Terminal :: bool
  cr_Stdin :: string
  cr_Stdout :: string
  cr_Stderr :: string
  cr_Options :: "string option"

record options =
  op_Root :: string
  op_BinaryName :: string
  op_LogLevel :: string
  op_LogPath :: string
  op_IoUID :: u32
  op_IoGID :: u32
  op_RunscConfig :: "(string, string) gomap"

record start_request =
  sr_ID :: string
  sr_ExecID :: string

record delete_request =
  dr_ID :: string
  dr_ExecID :: string

record exec_request =
  er_ID :: string
  er_ExecID :: string
  er_Terminal :: bool
  er_Stdin :: string
  er_Stdout :: string
  er_Stderr :: string
  er_Spec :: string

record resize_request =
  zr_ID :: string
  zr_ExecID :: string
  zr_Width :: u32
  zr_Height :: u32

record kill_request =
  kr_ID :: string
  kr_ExecID :: string
  kr_Signal :: u32
  kr_All :: bool

record close_io_request =
  ir_ID :: string
  ir_ExecID :: string

record update_request =
  ur_ID :: string
  ur_Resources :: "string option"

record restore_request =
  rr_Start :: start_request
  rr_Conf :: restore_conf

record checkpoint_request =
  pr_ID :: string
  pr_Path :: string

section \<open>Metrics\<close>

record v1_entry =
  v1e_Limit :: u64
  v1e_Usage :: u64
  v1e_Max :: u64
  v1e_Failcnt :: u64

record v1_metrics =
  v1_Total :: u64
  v1_KernelCPU :: u64
  v1_User :: u64
  v1_PerCPU :: "u64 list"
  v1_Periods :: u64
  v1_ThrottledPeriods :: u64
  v1_ThrottledTime :: u64
  v1_Cache :: u64
  v1_Usage :: v1_entry
  v1_Swap :: v1_entry
  v1_Kernel :: v1_entry
  v1_KernelTCP :: v1_entry
  v1_PidsCurrent :: u64
  v1_PidsLimit :: u64

record v2_metrics =
  v2_UsageUsec :: u64
  v2_UserUsec :: u64
  v2_SystemUsec :: u64
  v2_NrPeriods :: u64
  v2_NrThrottled :: u64
  v2_ThrottledUsec :: u64
  v2_Usage :: u64
  v2_UsageLimit :: u64
  v2_SwapUsage :: u64
  v2_SwapLimit :: u64
  v2_Slab :: u64
  v2_File :: u64
  v2_PidsCurrent :: u64
  v2_PidsLimit :: u64

section \<open>The environment of a container\<close>

text \<open>
  \<open>ep_...\<close>: the methods of \<open>execProcess\<close>, each giving the process it leaves. \<open>parse_level\<close>: the error
  of \<open>logrus.ParseLevel\<close>. \<open>mk_dir\<close>: \<open>os.Mkdir\<close>, whose error comes with \<open>os.IsExist\<close> of it.
  \<open>update_volumes\<close>: \<open>utils.UpdateVolumeAnnotations\<close>, which modifies the spec it is given.
  \<open>is_sandbox\<close> is \<open>utils.IsSandbox\<close>, \<open>sandbox_type\<close> the test that \<open>specutils.SpecContainerType\<close> is the
  sandbox type. \<open>marshal_v1\<close>, \<open>marshal_v2\<close>: \<open>typeurl.MarshalAnyToProto\<close> on the two metrics.
\<close>

record ('x, 's) ctr_env = "('x, 's) state_env" +
  ep_Pid :: "'s exec_process \<Rightarrow> int"
  ep_ExitStatus :: "'s exec_process \<Rightarrow> int"
  ep_ExitedAt :: "'s exec_process \<Rightarrow> time option"
  ep_Stdin :: "'s exec_process \<Rightarrow> nat option"
  ep_Wait_returns :: "'s exec_process \<Rightarrow> bool"
  ep_Status :: "'s exec_process \<Rightarrow> ('x world, string result) state"
  ep_Start :: "'s exec_process \<Rightarrow> ('x world, gerror option \<times> 's exec_process) state"
  ep_Restore :: "'s exec_process \<Rightarrow> restore_conf \<Rightarrow> ('x world, gerror option \<times> 's exec_process) state"
  ep_Delete :: "'s exec_process \<Rightarrow> ('x world, gerror option \<times> 's exec_process) state"
  ep_Kill :: "'s exec_process \<Rightarrow> u32 \<Rightarrow> bool \<Rightarrow> ('x world, gerror option \<times> 's exec_process) state"
  ep_Resize :: "'s exec_process \<Rightarrow> win_size \<Rightarrow> ('x world, gerror option) state"
  ep_SetExited :: "'s exec_process \<Rightarrow> int \<Rightarrow> ('x world, 's exec_process option) state"
  namespace_required :: "'x \<Rightarrow> string result \<times> 'x"
  unmarshal_options :: "string \<Rightarrow> string result"
  decode_config :: "string \<Rightarrow> 'x \<Rightarrow> options result \<times> 'x"
  parse_level :: "string \<Rightarrow> gerror option"
  format_log_path :: "string \<Rightarrow> string \<Rightarrow> string"
  mkdir_all :: "string \<Rightarrow> 'x \<Rightarrow> gerror option \<times> 'x"
  create_file :: "string \<Rightarrow> 'x \<Rightarrow> gerror option \<times> 'x"
  save_state :: "string \<Rightarrow> options \<Rightarrow> string \<Rightarrow> 'x \<Rightarrow> gerror option \<times> 'x"
  mk_dir :: "string \<Rightarrow> 'x \<Rightarrow> (gerror \<times> bool) option \<times> 'x"
  do_mount :: "mount \<Rightarrow> string \<Rightarrow> 'x \<Rightarrow> gerror option \<times> 'x"
  show_mount :: "mount \<Rightarrow> string"
  read_spec :: "string \<Rightarrow> 'x \<Rightarrow> oci_spec result \<times> 'x"
  write_spec :: "string \<Rightarrow> oci_spec \<Rightarrow> 'x \<Rightarrow> gerror option \<times> 'x"
  update_volumes :: "oci_spec \<Rightarrow> 'x \<Rightarrow> (bool result \<times> oci_spec) \<times> 'x"
  is_sandbox :: "oci_spec \<Rightarrow> bool"
  sandbox_type :: "oci_spec \<Rightarrow> bool"
  user_log_path :: "oci_spec \<Rightarrow> string"
  panic_log_path :: "oci_spec \<Rightarrow> string"
  RunscRoot :: string
  marshal_v1 :: "v1_metrics \<Rightarrow> string result"
  marshal_v2 :: "v2_metrics \<Rightarrow> string result"

section \<open>The init process of a container\<close>

definition newInit ::
    "('x, 's, 'z) ctr_env_scheme \<Rightarrow> string \<Rightarrow> string \<Rightarrow> create_config \<Rightarrow> options \<Rightarrow> string \<Rightarrow>
     ('x world, 's init result) state" where
  "newInit env workDir namespace r opts rootfs = do {
     rs \<leftarrow> ext_call (read_spec env (cc_Bundle r));
     case rs of
       Inl e \<Rightarrow> ret (Inl (Wrapf ''read oci spec: '' e []))
     | Inr spec0 \<Rightarrow> do {
         (uv, spec1) \<leftarrow> ext_call (update_volumes env spec0);
         case uv of
           Inl e \<Rightarrow> ret (Inl (Wrapf ''update volume annotations: '' e []))
         | Inr updated0 \<Rightarrow> do {
             let (pod, spec) = setPodCgroup (is_sandbox env) spec1;
             let updated = (pod \<or> updated0);
             we \<leftarrow> (if updated then do {
                 emit (ActWriteSpec (cc_Bundle r));
                 ext_call (write_spec env (cc_Bundle r) spec)
               } else ret None);
             case we of
               Some e \<Rightarrow> ret (Inl e)
             | None \<Rightarrow> do {
                 let runtime = NewRunsc (RunscRoot env) (op_Root opts) (cc_Bundle r) namespace
                       (op_BinaryName opts) (op_RunscConfig opts) (panic_log_path env spec);
                 let p = New env (cc_ID r) runtime
                       \<lparr>so_Stdin = cc_Stdin r, so_Stdout = cc_Stdout r, so_Stderr = cc_Stderr r,
                        so_Terminal = cc_Terminal r\<rparr>;
                 ret (Inr (p\<lparr>i_Bundle := cc_Bundle r, i_Rootfs := rootfs, i_WorkDir := workDir,
                            i_IoUID := uint (op_IoUID opts), i_IoGID := uint (op_IoGID opts),
                            i_Sandbox := sandbox_type env spec, i_UserLog := user_log_path env spec\<rparr>))
               }
           }
       }
   }"


section \<open>Containers\<close>

text \<open>
  \<open>CgroupMode\<close> has the values of the cgroups package's type; \<open>ct_task\<close> is \<^const>\<open>None\<close> for nil; the
  values of \<open>ct_processes\<close> are exec'd processes, the only ones the code puts there.
\<close>

datatype CgroupMode = Unavailable | Legacy | Hybrid | Unified

record 's container =
  ct_ID :: string
  ct_Bundle :: string
  ct_task :: "'s init option"
  ct_processes :: "(string, 's exec_process) gomap"
  ct_cgroup :: CgroupMode

definition ct_mu :: "'s container \<Rightarrow> mutex" where
  "ct_mu c = MuContainer (ct_ID c)"

subsection \<open>Creation\<close>

definition no_options :: options where
  "no_options = \<lparr>op_Root = [], op_BinaryName = [], op_LogLevel = [], op_LogPath = [],
     op_IoUID = 0, op_IoGID = 0, op_RunscConfig = []\<rparr>"

definition read_options ::
    "('x, 's, 'z) ctr_env_scheme \<Rightarrow> create_request \<Rightarrow> ('x world, options result) state" where
  "read_options env r =
     (case cr_Options r of
        None \<Rightarrow> ret (Inr no_options)
      | Some any \<Rightarrow>
          (case unmarshal_options env any of
             Inl e \<Rightarrow> ret (Inl (Wrapf ''unmarshal runtime options: '' e []))
           | Inr path \<Rightarrow>
               if path \<noteq> [] then do {
                 d \<leftarrow> ext_call (decode_config env path);
                 case d of
                   Inl e \<Rightarrow> ret (Inl (Wrapf (''decode config file '' @ go_quote path @ '': '') e []))
                 | Inr opts \<Rightarrow> ret (Inr opts)
               } else ret (Inr no_options)))"

text \<open>Log level and log file. What is then logged, and where, is not modelled.\<close>

definition open_log ::
    "('x, 's, 'z) ctr_env_scheme \<Rightarrow> create_request \<Rightarrow> options \<Rightarrow> ('x world, gerror option) state" where
  "open_log env r opts =
     (case (if op_LogLevel opts \<noteq> [] then parse_level env (op_LogLevel opts) else None) of
        Some e \<Rightarrow> ret (Some e)
      | None \<Rightarrow>
          if op_LogPath opts \<noteq> [] then do {
            let logPath = format_log_path env (op_LogPath opts) (cr_ID r);
            emit (ActMkdir (Dir logPath));
            de \<leftarrow> ext_call (mkdir_all env (Dir logPath));
            case de of
              Some e \<Rightarrow> ret (Some (Wrapf ''failed to create log dir: '' e []))
            | None \<Rightarrow> do {
                fe \<leftarrow> ext_call (create_file env logPath);
                ret (map_option (\<lambda>e. Wrapf ''failed to create log file: '' e []) fe)
              }
          } else ret None)"

text \<open>The state file that \<open>Cleanup\<close> reads, and the rootfs directory, which may already exist.\<close>

definition prepare_bundle ::
    "('x, 's, 'z) ctr_env_scheme \<Rightarrow> create_request \<Rightarrow> options \<Rightarrow> string \<Rightarrow>
     ('x world, gerror option) state" where
  "prepare_bundle env r opts rootfs = do {
     emit (ActSaveState (cr_Bundle r));
     se \<leftarrow> ext_call (save_state env rootfs opts (cr_Bundle r));
     case se of
       Some e \<Rightarrow> ret (Some e)
     | None \<Rightarrow> do {
         emit (ActMkdir rootfs);
         me \<leftarrow> ext_call (mk_dir env rootfs);
         ret (case me of None \<Rightarrow> None | Some (e, isExist) \<Rightarrow> if isExist then None else Some e)
       }
   }"

text \<open>The mounts, in the request's order. The mount that is made has no target of its own.\<close>

fun mount_rootfs ::
    "('x, 's, 'z) ctr_env_scheme \<Rightarrow> mount list \<Rightarrow> string \<Rightarrow> ('x world, gerror option) state" where
  "mount_rootfs env [] rootfs = ret None"
| "mount_rootfs env (rm # rms) rootfs = do {
     let m = \<lparr>m_Type = m_Type rm, m_Source = m_Source rm, m_Target = [], m_Options = m_Options rm\<rparr>;
     emit (ActMount m rootfs);
     me \<leftarrow> ext_call (do_mount env m rootfs);
     case me of
       Some e \<Rightarrow>
         ret (Some (Wrapf (''failed to mount rootfs component '' @ show_mount env m @ '': '') e []))
     | None \<Rightarrow> mount_rootfs env rms rootfs
   }"

definition container_config ::
    "create_request \<Rightarrow> options \<Rightarrow> string \<Rightarrow> bool \<Rightarrow> create_config" where
  "container_config r opts fsImage fsDirect =
     \<lparr> cc_ID = cr_ID r, cc_Bundle = cr_Bundle r, cc_Runtime = op_BinaryName opts,
       cc_Rootfs = cr_Rootfs r, cc_Terminal = cr_Terminal r, cc_Stdin = cr_Stdin r,
       cc_Stdout = cr_Stdout r, cc_Stderr = cr_Stderr r,
       cc_FSRestoreImagePath = fsImage, cc_FSRestoreDirect = fsDirect \<rparr>"

definition cgroup_mode :: "options \<Rightarrow> CgroupMode" where
  "cgroup_mode opts =
     (if gm_get (op_RunscConfig opts) ''systemd-cgroup'' = Some ''true'' then Unified else Legacy)"

text \<open>The steps between the making of the cleanup and its release.\<close>

definition build_container ::
    "('x, 's, 'z) ctr_env_scheme \<Rightarrow> string \<Rightarrow> create_request \<Rightarrow> options \<Rightarrow> string \<Rightarrow> string \<Rightarrow> bool \<Rightarrow>
     ('x world, 's container result) state" where
  "build_container env ns r opts rootfs fsImage fsDirect = do {
     me \<leftarrow> mount_rootfs env (cr_Rootfs r) rootfs;
     case me of
       Some e \<Rightarrow> ret (Inl e)
     | None \<Rightarrow> do {
         let config = container_config r opts fsImage fsDirect;
         np \<leftarrow> newInit env (Join [cr_Bundle r, ''work'']) ns config opts rootfs;
         case np of
           Inl e \<Rightarrow> ret (Inl e)
         | Inr p0 \<Rightarrow> do {
             (ce, p) \<leftarrow> init_Create env p0 config;
             case ce of
               Some e \<Rightarrow> ret (Inl e)
             | None \<Rightarrow> ret (Inr
                 \<lparr> ct_ID = cr_ID r, ct_Bundle = cr_Bundle r, ct_task = Some p, ct_processes = [],
                   ct_cgroup = cgroup_mode opts \<rparr>)
           }
       }
   }"

text \<open>\<open>defer cu.Clean()\<close>: the rootfs is unmounted unless the cleanup was released.\<close>

definition with_cleanup ::
    "('x, 's, 'z) ctr_env_scheme \<Rightarrow> string \<Rightarrow> ('x world, 'a result) state \<Rightarrow> ('x world, 'a result) state" where
  "with_cleanup env rootfs body = do {
     res \<leftarrow> body;
     case res of
       Inr a \<Rightarrow> ret (Inr a)
     | Inl e \<Rightarrow> do {
         emit (ActUnmountAll rootfs);
         ue \<leftarrow> ext_call (unmount_all env rootfs);
         ret (Inl e)
       }
   }"

definition NewContainer ::
    "('x, 's, 'z) ctr_env_scheme \<Rightarrow> create_request \<Rightarrow> string \<Rightarrow> bool \<Rightarrow>
     ('x world, 's container result) state" where
  "NewContainer env r fsImage fsDirect = do {
     nr \<leftarrow> ext_call (namespace_required env);
     case nr of
       Inl e \<Rightarrow> ret (Inl (Wrapf ''create namespace: '' e []))
     | Inr ns \<Rightarrow> do {
         ro \<leftarrow> read_options env r;
         case ro of
           Inl e \<Rightarrow> ret (Inl e)
         | Inr opts \<Rightarrow> do {
             le \<leftarrow> open_log env r opts;
             case le of
               Some e \<Rightarrow> ret (Inl e)
             | None \<Rightarrow> do {
                 let rootfs = Join [cr_Bundle r, ''rootfs''];
                 pe \<leftarrow> prepare_bundle env r opts rootfs;
                 case pe of
                   Some e \<Rightarrow> ret (Inl e)
                 | None \<Rightarrow>
                     with_cleanup env rootfs (build_container env ns r opts rootfs fsImage fsDirect)
               }
           }
       }
   }"


subsection \<open>The interface of processes\<close>

text \<open>\<open>extension.Process\<close>: its methods on the init process and on an exec'd one.\<close>

definition process_ID :: "'s process \<Rightarrow> string" where
  "process_ID p = (case p of PInit i \<Rightarrow> i_id i | PExec e \<Rightarrow> xp_id e)"

definition process_Pid :: "('x, 's, 'z) ctr_env_scheme \<Rightarrow> 's process \<Rightarrow> int" where
  "process_Pid env p = (case p of PInit i \<Rightarrow> i_pid i | PExec e \<Rightarrow> ep_Pid env e)"

definition process_Stdin :: "('x, 's, 'z) ctr_env_scheme \<Rightarrow> 's process \<Rightarrow> nat option" where
  "process_Stdin env p = (case p of PInit i \<Rightarrow> i_stdin i | PExec e \<Rightarrow> ep_Stdin env e)"

definition process_Stdio :: "'s process \<Rightarrow> stdio" where
  "process_Stdio p = (case p of PInit i \<Rightarrow> i_stdio i | PExec e \<Rightarrow> xp_stdio e)"

definition process_Wait_returns :: "('x, 's, 'z) ctr_env_scheme \<Rightarrow> 's process \<Rightarrow> bool" where
  "process_Wait_returns env p =
     (case p of PInit i \<Rightarrow> init_Wait_returns i | PExec e \<Rightarrow> ep_Wait_returns env e)"

definition process_ExitStatus ::
    "('x, 's, 'z) ctr_env_scheme \<Rightarrow> 's process \<Rightarrow> ('x world, int) state" where
  "process_ExitStatus env p =
     (case p of PInit i \<Rightarrow> init_ExitStatus i | PExec e \<Rightarrow> ret (ep_ExitStatus env e))"

definition process_ExitedAt ::
    "('x, 's, 'z) ctr_env_scheme \<Rightarrow> 's process \<Rightarrow> ('x world, time option) state" where
  "process_ExitedAt env p =
     (case p of PInit i \<Rightarrow> init_ExitedAt i | PExec e \<Rightarrow> ret (ep_ExitedAt env e))"

definition process_Status ::
    "('x, 's, 'z) ctr_env_scheme \<Rightarrow> 's process \<Rightarrow> ('x world, string result) state" where
  "process_Status env p = (case p of PInit i \<Rightarrow> init_Status env i | PExec e \<Rightarrow> ep_Status env e)"

text \<open>A method that may change the process, on either kind of process.\<close>

definition on_process ::
    "('s init \<Rightarrow> ('x world, 'a \<times> 's init) state) \<Rightarrow>
     ('s exec_process \<Rightarrow> ('x world, 'a \<times> 's exec_process) state) \<Rightarrow>
     's process \<Rightarrow> ('x world, 'a \<times> 's process) state" where
  "on_process f g p =
     (case p of
        PInit i \<Rightarrow> do { (a, i') \<leftarrow> f i; ret (a, PInit i') }
      | PExec e \<Rightarrow> do { (a, e') \<leftarrow> g e; ret (a, PExec e') })"

definition process_Start ::
    "('x, 's, 'z) ctr_env_scheme \<Rightarrow> 's process \<Rightarrow> ('x world, gerror option \<times> 's process) state" where
  "process_Start env = on_process (init_Start env) (ep_Start env)"

definition process_Restore ::
    "('x, 's, 'z) ctr_env_scheme \<Rightarrow> 's process \<Rightarrow> restore_conf \<Rightarrow>
     ('x world, gerror option \<times> 's process) state" where
  "process_Restore env p conf =
     on_process (\<lambda>i. init_Restore env i conf) (\<lambda>e. ep_Restore env e conf) p"

definition process_Delete ::
    "('x, 's, 'z) ctr_env_scheme \<Rightarrow> 's process \<Rightarrow> ('x world, gerror option \<times> 's process) state" where
  "process_Delete env = on_process (init_Delete env) (ep_Delete env)"

definition process_Kill ::
    "('x, 's, 'z) ctr_env_scheme \<Rightarrow> 's process \<Rightarrow> u32 \<Rightarrow> bool \<Rightarrow>
     ('x world, gerror option \<times> 's process) state" where
  "process_Kill env p signal al =
     on_process (\<lambda>i. init_Kill env i signal al) (\<lambda>e. ep_Kill env e signal al) p"

definition process_Resize ::
    "('x, 's, 'z) ctr_env_scheme \<Rightarrow> 's process \<Rightarrow> win_size \<Rightarrow> ('x world, gerror option) state" where
  "process_Resize env p ws =
     (case p of PInit i \<Rightarrow> init_Resize env i ws | PExec e \<Rightarrow> ep_Resize env e ws)"

text \<open>\<^const>\<open>None\<close> is a panic.\<close>

definition process_SetExited ::
    "('x, 's, 'z) ctr_env_scheme \<Rightarrow> 's process \<Rightarrow> int \<Rightarrow> ('x world, 's process option) state" where
  "process_SetExited env p status =
     (case p of
        PInit i \<Rightarrow> do { r \<leftarrow> init_SetExited env i status; ret (map_option PInit r) }
      | PExec e \<Rightarrow> do { r \<leftarrow> ep_SetExited env e status; ret (map_option PExec r) })"

subsection \<open>The process table\<close>

definition container_Pid :: "'s container \<Rightarrow> ('x world, int option) state" where
  "container_Pid c = with_lock (ct_mu c) (ret (map_option i_pid (ct_task c)))"

definition ct_all :: "'s container \<Rightarrow> 's process list" where
  "ct_all c =
     map (PExec \<circ> snd) (ct_processes c) @ (case ct_task c of None \<Rightarrow> [] | Some i \<Rightarrow> [PInit i])"

definition container_All :: "'s container \<Rightarrow> ('x world, 's process list) state" where
  "container_All c = with_lock (ct_mu c) (ret (ct_all c))"

definition container_ExecdProcesses :: "'s container \<Rightarrow> ('x world, 's exec_process list) state" where
  "container_ExecdProcesses c = with_lock (ct_mu c) (ret (map snd (ct_processes c)))"

definition ct_init :: "'s container \<Rightarrow> 's init result" where
  "ct_init c =
     (case ct_task c of
        None \<Rightarrow> Inl (Wrapf ''container must be created: '' (Sentinel ErrFailedPrecondition) [])
      | Some i \<Rightarrow> Inr i)"

definition ct_lookup :: "'s container \<Rightarrow> string \<Rightarrow> 's process result" where
  "ct_lookup c pid =
     (if pid = [] then (case ct_init c of Inl e \<Rightarrow> Inl e | Inr i \<Rightarrow> Inr (PInit i))
      else
        (case gm_get (ct_processes c) pid of
           None \<Rightarrow> Inl (Wrapf (''process does not exist '' @ pid @ '': '') (Sentinel ErrNotFound) [])
         | Some e \<Rightarrow> Inr (PExec e)))"

definition container_Process :: "'s container \<Rightarrow> string \<Rightarrow> ('x world, 's process result) state" where
  "container_Process c pid = with_lock (ct_mu c) (ret (ct_lookup c pid))"

text \<open>
  \<open>c.Process("")\<close> followed by the assertion \<open>.(*proc.Init)\<close>, which never fails: what is found under
  the empty ID is the init process.
\<close>

definition container_init :: "'s container \<Rightarrow> ('x world, 's init result) state" where
  "container_init c = with_lock (ct_mu c) (ret (ct_init c))"

lemma container_init_Process:
  "container_Process c [] =
    container_init c \<bind> (\<lambda>r. ret (case r of Inl e \<Rightarrow> Inl e | Inr i \<Rightarrow> Inr (PInit i)))"
  by (rule state.expand, rule ext)
    (simp add: container_Process_def container_init_def ct_lookup_def with_lock_def)

text \<open>The process found under \<open>pid\<close>, changed in place.\<close>

definition ct_store :: "string \<Rightarrow> 's process \<Rightarrow> 's container \<Rightarrow> 's container" where
  "ct_store pid p c =
     (case p of
        PInit i \<Rightarrow> c\<lparr>ct_task := Some i\<rparr>
      | PExec e \<Rightarrow> c\<lparr>ct_processes := gm_put pid e (ct_processes c)\<rparr>)"

definition container_ProcessAdd :: "'s container \<Rightarrow> 's exec_process \<Rightarrow> ('x world, 's container) state" where
  "container_ProcessAdd c p =
     with_lock (ct_mu c) (ret (c\<lparr>ct_processes := gm_put (xp_id p) p (ct_processes c)\<rparr>))"

definition container_ProcessRemove :: "'s container \<Rightarrow> string \<Rightarrow> ('x world, 's container) state" where
  "container_ProcessRemove c pid =
     with_lock (ct_mu c) (ret (c\<lparr>ct_processes := gm_del pid (ct_processes c)\<rparr>))"

subsection \<open>Operations\<close>

text \<open>Look up, call a method that may fail and change the process, and put the process back.\<close>

definition forward_to ::
    "'s container \<Rightarrow> string \<Rightarrow> ('s process \<Rightarrow> ('x world, gerror option \<times> 's process) state) \<Rightarrow>
     ('x world, 's process result \<times> 's container) state" where
  "forward_to c pid f = do {
     rp \<leftarrow> container_Process c pid;
     case rp of
       Inl e \<Rightarrow> ret (Inl e, c)
     | Inr p \<Rightarrow> do {
         (err, p') \<leftarrow> f p;
         let c' = ct_store pid p' c;
         ret (case err of Some e \<Rightarrow> (Inl e, c') | None \<Rightarrow> (Inr p', c'))
       }
   }"

definition container_Start ::
    "('x, 's, 'z) ctr_env_scheme \<Rightarrow> 's container \<Rightarrow> start_request \<Rightarrow>
     ('x world, 's process result \<times> 's container) state" where
  "container_Start env c r = forward_to c (sr_ExecID r) (process_Start env)"

definition container_Delete ::
    "('x, 's, 'z) ctr_env_scheme \<Rightarrow> 's container \<Rightarrow> delete_request \<Rightarrow>
     ('x world, 's process result \<times> 's container) state" where
  "container_Delete env c r = do {
     (rp, c1) \<leftarrow> forward_to c (dr_ExecID r) (process_Delete env);
     case rp of
       Inl e \<Rightarrow> ret (Inl e, c1)
     | Inr p \<Rightarrow>
         if dr_ExecID r \<noteq> [] then do {
           c2 \<leftarrow> container_ProcessRemove c1 (dr_ExecID r);
           ret (Inr p, c2)
         } else ret (Inr p, c1)
   }"

definition not_created :: gerror where
  "not_created = Msg ''container must be created''"

definition container_Exec ::
    "('x, 's, 'z) ctr_env_scheme \<Rightarrow> 's container \<Rightarrow> exec_request \<Rightarrow>
     ('x world, 's exec_process result \<times> 's container) state" where
  "container_Exec env c r =
     (case ct_task c of
        None \<Rightarrow> ret (Inl not_created, c)
      | Some i \<Rightarrow> do {
          (rp, i') \<leftarrow> init_Exec env i (ct_Bundle c)
             \<lparr>xc_ID = er_ExecID r, xc_Terminal = er_Terminal r, xc_Stdin = er_Stdin r,
              xc_Stdout = er_Stdout r, xc_Stderr = er_Stderr r, xc_Spec = er_Spec r\<rparr>;
          let c1 = c\<lparr>ct_task := Some i'\<rparr>;
          case rp of
            Inl e \<Rightarrow> ret (Inl e, c1)
          | Inr p \<Rightarrow> do { c2 \<leftarrow> container_ProcessAdd c1 p; ret (Inr p, c2) }
        })"

text \<open>\<open>uint16(r.Width)\<close> keeps the low 16 bits.\<close>

definition container_ResizePty ::
    "('x, 's, 'z) ctr_env_scheme \<Rightarrow> 's container \<Rightarrow> resize_request \<Rightarrow> ('x world, gerror option) state" where
  "container_ResizePty env c r = do {
     rp \<leftarrow> container_Process c (zr_ExecID r);
     case rp of
       Inl e \<Rightarrow> ret (Some e)
     | Inr p \<Rightarrow>
         process_Resize env p \<lparr>ws_Width = ucast (zr_Width r), ws_Height = ucast (zr_Height r)\<rparr>
   }"

definition container_Pause ::
    "('x, 's, 'z) ctr_env_scheme \<Rightarrow> 's container \<Rightarrow> string \<Rightarrow> ('x world, gerror option) state" where
  "container_Pause env c rid =
     (case ct_task c of
        None \<Rightarrow> ret (Some not_created)
      | Some i \<Rightarrow> runsc_Pause env (i_runtime i) rid)"

definition container_Resume ::
    "('x, 's, 'z) ctr_env_scheme \<Rightarrow> 's container \<Rightarrow> string \<Rightarrow> ('x world, gerror option) state" where
  "container_Resume env c rid =
     (case ct_task c of
        None \<Rightarrow> ret (Some not_created)
      | Some i \<Rightarrow> runsc_Resume env (i_runtime i) rid)"

definition container_Kill ::
    "('x, 's, 'z) ctr_env_scheme \<Rightarrow> 's container \<Rightarrow> kill_request \<Rightarrow>
     ('x world, gerror option \<times> 's container) state" where
  "container_Kill env c r = do {
     (rp, c') \<leftarrow> forward_to c (kr_ExecID r) (\<lambda>p. process_Kill env p (kr_Signal r) (kr_All r));
     ret (case rp of Inl e \<Rightarrow> Some e | Inr p \<Rightarrow> None, c')
   }"

definition container_CloseIO ::
    "('x, 's, 'z) ctr_env_scheme \<Rightarrow> 's container \<Rightarrow> close_io_request \<Rightarrow> ('x world, gerror option) state" where
  "container_CloseIO env c r = do {
     rp \<leftarrow> container_Process c (ir_ExecID r);
     case rp of
       Inl e \<Rightarrow> ret (Some e)
     | Inr p \<Rightarrow>
         (case process_Stdin env p of
            None \<Rightarrow> ret None
          | Some h \<Rightarrow> do {
              emit (ActClose h);
              ce \<leftarrow> ext_call (close_fd env h);
              ret (map_option (\<lambda>e. Wrapf ''close stdin: '' e []) ce)
            })
   }"

definition container_Update ::
    "('x, 's, 'z) ctr_env_scheme \<Rightarrow> 's container \<Rightarrow> update_request \<Rightarrow> ('x world, gerror option) state" where
  "container_Update env c r =
     (case ur_Resources r of
        None \<Rightarrow> ret (Some (Wrapf ''resources are required: '' (Sentinel ErrInvalidArgument) []))
      | Some res \<Rightarrow> do {
          rp \<leftarrow> container_init c;
          case rp of Inl e \<Rightarrow> ret (Some e) | Inr i \<Rightarrow> init_Update env i (Some res)
        })"

definition container_Restore ::
    "('x, 's, 'z) ctr_env_scheme \<Rightarrow> 's container \<Rightarrow> restore_request \<Rightarrow>
     ('x world, 's process result \<times> 's container) state" where
  "container_Restore env c r =
     forward_to c (sr_ExecID (rr_Start r)) (\<lambda>p. process_Restore env p (rr_Conf r))"

definition container_Checkpoint ::
    "('x, 's, 'z) ctr_env_scheme \<Rightarrow> 's container \<Rightarrow> checkpoint_request \<Rightarrow> ('x world, gerror option) state" where
  "container_Checkpoint env c r =
     (case ct_task c of
        None \<Rightarrow> ret (Some not_created)
      | Some i \<Rightarrow> init_Checkpoint env i \<lparr>cp_ImagePath = pr_Path r, cp_LeaveRunning = True\<rparr>)"

subsection \<open>Statistics\<close>

definition v1_entry_of :: "mem_entry \<Rightarrow> v1_entry" where
  "v1_entry_of m = \<lparr>v1e_Limit = me_Limit m, v1e_Usage = me_Usage m, v1e_Max = me_Max m,
     v1e_Failcnt = me_Failcnt m\<rparr>"

definition v1_of :: "run_stats \<Rightarrow> v1_metrics" where
  "v1_of st =
     \<lparr> v1_Total = cu_Total (rs_Cpu st), v1_KernelCPU = cu_Kernel (rs_Cpu st),
       v1_User = cu_User (rs_Cpu st), v1_PerCPU = cu_Percpu (rs_Cpu st),
       v1_Periods = th_Periods (rs_Throttling st),
       v1_ThrottledPeriods = th_ThrottledPeriods (rs_Throttling st),
       v1_ThrottledTime = th_ThrottledTime (rs_Throttling st),
       v1_Cache = rs_Cache st, v1_Usage = v1_entry_of (rs_Usage st),
       v1_Swap = v1_entry_of (rs_Swap st), v1_Kernel = v1_entry_of (rs_Kernel st),
       v1_KernelTCP = v1_entry_of (rs_KernelTCP st),
       v1_PidsCurrent = rs_PidsCurrent st, v1_PidsLimit = rs_PidsLimit st \<rparr>"

definition getV1Stats :: "('x, 's, 'z) ctr_env_scheme \<Rightarrow> run_stats \<Rightarrow> string result" where
  "getV1Stats env st = (case marshal_v1 env (v1_of st) of Inl e \<Rightarrow> Inl e | Inr data \<Rightarrow> Inr data)"

definition v2_of :: "run_stats \<Rightarrow> v2_metrics" where
  "v2_of st =
     \<lparr> v2_UsageUsec = cu_Total (rs_Cpu st) div 1000, v2_UserUsec = cu_User (rs_Cpu st) div 1000,
       v2_SystemUsec = cu_Kernel (rs_Cpu st) div 1000,
       v2_NrPeriods = th_Periods (rs_Throttling st),
       v2_NrThrottled = th_ThrottledPeriods (rs_Throttling st),
       v2_ThrottledUsec = th_ThrottledTime (rs_Throttling st) div 1000,
       v2_Usage = me_Usage (rs_Usage st), v2_UsageLimit = me_Limit (rs_Usage st),
       v2_SwapUsage = me_Usage (rs_Swap st), v2_SwapLimit = me_Limit (rs_Swap st),
       v2_Slab = me_Usage (rs_Kernel st), v2_File = rs_Cache st,
       v2_PidsCurrent = rs_PidsCurrent st, v2_PidsLimit = rs_PidsLimit st \<rparr>"

definition getV2Stats :: "('x, 's, 'z) ctr_env_scheme \<Rightarrow> run_stats \<Rightarrow> string result" where
  "getV2Stats env st = (case marshal_v2 env (v2_of st) of Inl e \<Rightarrow> Inl e | Inr data \<Rightarrow> Inr data)"

definition container_Stats ::
    "('x, 's, 'z) ctr_env_scheme \<Rightarrow> 's container \<Rightarrow> ('x world, string result) state" where
  "container_Stats env c = do {
     rp \<leftarrow> container_init c;
     case rp of
       Inl e \<Rightarrow> ret (Inl (ToGRPC e))
     | Inr i \<Rightarrow> do {
         st \<leftarrow> init_Stats env i (ct_ID c);
         ret (case st of
                Inl e \<Rightarrow> Inl e
              | Inr stats \<Rightarrow>
                  (case ct_cgroup c of
                     Legacy \<Rightarrow> getV1Stats env stats
                   | Unified \<Rightarrow> getV2Stats env stats
                   | _ \<Rightarrow> Inl (Sentinel ErrInvalidArgument)))
       }
   }"


section \<open>The contract of a process table\<close>

text \<open>
  What clients of a container rely on: storing under an ID changes the view of that ID only, and
  removing takes only that ID away. \<open>fits k p\<close>: a process of this kind is kept under such an ID.
\<close>

locale process_table =
  fixes view :: "'c \<Rightarrow> string \<Rightarrow> 'p option"
    and store :: "string \<Rightarrow> 'p \<Rightarrow> 'c \<Rightarrow> 'c"
    and remove :: "string \<Rightarrow> 'c \<Rightarrow> 'c"
    and fits :: "string \<Rightarrow> 'p \<Rightarrow> bool"
  assumes view_store: "fits k p \<Longrightarrow> view (store k p c) = (view c)(k \<mapsto> p)"
    and view_remove: "k \<noteq> [] \<Longrightarrow> view (remove k c) = (view c)(k := None)"
    and view_fits: "view c k = Some p \<Longrightarrow> fits k p"
begin

lemma remove_store: "fits k p \<Longrightarrow> k \<noteq> [] \<Longrightarrow> view (remove k (store k p c)) = (view c)(k := None)"
  by (simp add: view_remove view_store)

lemma store_frame: "fits k p \<Longrightarrow> k' \<noteq> k \<Longrightarrow> view (store k p c) k' = view c k'"
  by (simp add: view_store)

lemma add_then_remove:
  assumes "fits k p" "k \<noteq> []" "view c k = None"
  shows "view (remove k (store k p c)) = view c"
  using assms by (auto simp: remove_store)

end

definition ct_view :: "'s container \<Rightarrow> string \<Rightarrow> 's process option" where
  "ct_view c k = (case ct_lookup c k of Inl e \<Rightarrow> None | Inr p \<Rightarrow> Some p)"

definition ct_remove :: "string \<Rightarrow> 's container \<Rightarrow> 's container" where
  "ct_remove k c = c\<lparr>ct_processes := gm_del k (ct_processes c)\<rparr>"

definition kind_fits :: "string \<Rightarrow> 's process \<Rightarrow> bool" where
  "kind_fits k p = (case p of PInit i \<Rightarrow> k = [] | PExec e \<Rightarrow> k \<noteq> [])"

lemma ct_view_eq:
  "ct_view c k = (if k = [] then map_option PInit (ct_task c)
                  else map_option PExec (gm_get (ct_processes c) k))"
  by (simp add: ct_view_def ct_lookup_def ct_init_def split: option.split)

lemma ct_lookup_view: "ct_lookup c k = Inr p \<longleftrightarrow> ct_view c k = Some p"
  by (simp add: ct_view_def split: sum.split)

interpretation ct: process_table ct_view ct_store ct_remove kind_fits
proof
  fix c :: "'a container" and k and p :: "'a process"
  show "ct_view (ct_store k p c) = (ct_view c)(k \<mapsto> p)" if "kind_fits k p"
    using that by (auto simp: fun_eq_iff ct_view_eq ct_store_def kind_fits_def gm.get_put
        split: process.splits)
  show "ct_view (ct_remove k c) = (ct_view c)(k := None)" if "k \<noteq> []"
    using that by (auto simp: fun_eq_iff ct_view_eq ct_remove_def gm.get_del)
  show "kind_fits k p" if "ct_view c k = Some p"
    using that by (auto simp: ct_view_eq kind_fits_def split: if_splits)
qed

section \<open>What creation does to the rootfs\<close>

definition mounts :: "action list \<Rightarrow> (mount \<times> string) list" where
  "mounts as = [(m, d). ActMount m d \<leftarrow> as]"

text \<open>Actions that neither mount nor unmount.\<close>

definition quiet :: "action \<Rightarrow> bool" where
  "quiet a = (case a of ActMount m d \<Rightarrow> False | ActUnmountAll d \<Rightarrow> False | _ \<Rightarrow> True)"

lemma quiet_simps [simp]:
  "quiet (ActMkdir d)" "quiet (ActSaveState d)" "quiet (ActWriteSpec d)" "quiet (ActCloseSocket s)"
  "\<not> quiet (ActMount m d)" "\<not> quiet (ActUnmountAll d)"
  by (simp_all add: quiet_def)

lemma is_run_quiet: "is_run a \<Longrightarrow> quiet a"
  by (auto simp: is_run_def quiet_def)

lemma mounts_append [simp]: "mounts (as @ bs) = mounts as @ mounts bs"
  by (simp add: mounts_def)

lemma mounts_quiet: "list_all quiet as \<Longrightarrow> mounts as = []"
  by (induction as) (auto simp: mounts_def quiet_def split: action.splits)

lemmas emits_run_quiet = emits_mono [OF _ is_run_quiet]

lemma emits_create_io [emits_intros]: "emits P (create_io env p r)"
  unfolding create_io_def by (intro emits_intros)

lemma emits_init_Create [emits_intros]:
  assumes "\<And>s. P (ActCloseSocket s)" "\<And>c. P (ActStart c)" "\<And>c. P (ActWait c)"
  shows "emits P (init_Create env p r)"
proof -
  have "emits P (create_body env p r s)" for p s
    by (rule emits_mono [OF emits_create_body]) (auto simp: is_run_def assms)
  then show ?thesis unfolding init_Create_def by (intro emits_intros assms)
qed

lemma emits_newInit [emits_intros]: "(\<And>b. P (ActWriteSpec b)) \<Longrightarrow> emits P (newInit env wd ns r opts rootfs)"
  unfolding newInit_def by (intro emits_intros)

lemma emits_read_options [emits_intros]: "emits P (read_options env r)"
  unfolding read_options_def by (intro emits_intros)

lemma emits_open_log [emits_intros]: "(\<And>d. P (ActMkdir d)) \<Longrightarrow> emits P (open_log env r opts)"
  unfolding open_log_def by (intro emits_intros)

lemma emits_prepare_bundle [emits_intros]:
  "(\<And>d. P (ActMkdir d)) \<Longrightarrow> (\<And>d. P (ActSaveState d)) \<Longrightarrow> emits P (prepare_bundle env r opts rootfs)"
  unfolding prepare_bundle_def by (intro emits_intros)

text \<open>The mount that is made for an entry of the request: its target is dropped.\<close>

definition rootfs_mount :: "string \<Rightarrow> mount \<Rightarrow> mount \<times> string" where
  "rootfs_mount rootfs m = (m\<lparr>m_Target := []\<rparr>, rootfs)"

definition mount_acts :: "(mount \<times> string) list \<Rightarrow> action list" where
  "mount_acts ms = map (\<lambda>(m, d). ActMount m d) ms"

lemma mount_acts_simps [simp]:
  "mount_acts [] = []" "mount_acts ((m, d) # ms) = ActMount m d # mount_acts ms"
  by (simp_all add: mount_acts_def)

lemma mounts_mount_acts [simp]: "mounts (mount_acts ms) = ms"
  by (induction ms) (auto simp: mounts_def mount_acts_def)

lemma unmount_mount_acts [simp]: "ActUnmountAll d \<notin> set (mount_acts ms)"
  by (auto simp: mount_acts_def)

lemma run_mount_rootfs:
  "\<exists>ms v r. run_state (mount_rootfs env rms rootfs) w = (r, v) \<and> trace v = trace w @ mount_acts ms \<and>
     prefix ms (map (rootfs_mount rootfs) rms) \<and> (r = None \<longrightarrow> ms = map (rootfs_mount rootfs) rms)"
proof (induction rms arbitrary: w)
  case Nil
  show ?case by (intro exI [of _ "[]"]) simp
next
  case (Cons rm rms)
  let ?m = "\<lparr>m_Type = m_Type rm, m_Source = m_Source rm, m_Target = [], m_Options = m_Options rm\<rparr>"
  have m: "rootfs_mount rootfs rm = (?m, rootfs)" by (simp add: rootfs_mount_def)
  obtain e x where e: "do_mount env ?m rootfs (ext w) = (e, x)" by fastforce
  let ?w1 = "\<lparr>ext = x, trace = trace w @ [ActMount ?m rootfs]\<rparr>"
  show ?case
  proof (cases e)
    case (Some er)
    with e m show ?thesis by (intro exI [of _ "[(?m, rootfs)]"]) (simp add: run_ext_call)
  next
    case None
    from Cons [of ?w1] obtain ms v r where
      1: "run_state (mount_rootfs env rms rootfs) ?w1 = (r, v)" "trace v = trace ?w1 @ mount_acts ms"
        "prefix ms (map (rootfs_mount rootfs) rms)" "r = None \<longrightarrow> ms = map (rootfs_mount rootfs) rms"
      by blast
    have "run_state (mount_rootfs env (rm # rms) rootfs) w = (r, v)"
      using e None 1(1) by (simp add: run_ext_call)
    moreover have "trace v = trace w @ mount_acts ((?m, rootfs) # ms)" using 1(2) by simp
    ultimately show ?thesis using 1(3,4) m by (intro exI [of _ "(?m, rootfs) # ms"]) simp
  qed
qed

text \<open>The part after the cleanup is made: mounts first, and nothing that unmounts.\<close>

lemma run_build_container:
  "\<exists>as v res. run_state (build_container env ns r opts rootfs fi fd) w = (res, v) \<and>
     trace v = trace w @ as \<and> (\<forall>d. ActUnmountAll d \<notin> set as) \<and>
     prefix (mounts as) (map (rootfs_mount rootfs) (cr_Rootfs r)) \<and>
     (\<forall>c. res = Inr c \<longrightarrow> mounts as = map (rootfs_mount rootfs) (cr_Rootfs r))"
proof -
  from run_mount_rootfs [of env "cr_Rootfs r" rootfs w] obtain ms me w1 where
    me: "run_state (mount_rootfs env (cr_Rootfs r) rootfs) w = (me, w1)" and
    ms: "trace w1 = trace w @ mount_acts ms" "prefix ms (map (rootfs_mount rootfs) (cr_Rootfs r))"
      "me = None \<longrightarrow> ms = map (rootfs_mount rootfs) (cr_Rootfs r)" by blast
  let ?config = "container_config r opts fi fd"
  let ?rest = "newInit env (Join [cr_Bundle r, ''work'']) ns ?config opts rootfs \<bind>
    case_sum (\<lambda>e. ret (Inl e)) (\<lambda>p0. init_Create env p0 ?config \<bind> (\<lambda>(ce, p).
      case ce of Some e \<Rightarrow> ret (Inl e)
      | None \<Rightarrow> ret (Inr \<lparr>ct_ID = cr_ID r, ct_Bundle = cr_Bundle r, ct_task = Some p,
                        ct_processes = [], ct_cgroup = cgroup_mode opts\<rparr>)))"
  have q: "emits quiet ?rest" by (intro emits_intros) (simp_all add: is_run_quiet)
  show ?thesis
  proof (cases me)
    case (Some e)
    then have "run_state (build_container env ns r opts rootfs fi fd) w = (Inl e, w1)"
      using me by (simp add: build_container_def)
    with ms(1,2) show ?thesis by (intro exI [of _ "mount_acts ms"]) simp
  next
    case None
    obtain res v where res: "run_state ?rest w1 = (res, v)" by fastforce
    from emitsD [OF q res] obtain bs where bs: "trace v = trace w1 @ bs" "list_all quiet bs"
      by (auto simp: list_all_iff)
    then have nb: "mounts bs = []" "\<forall>d. ActUnmountAll d \<notin> set bs"
      by (auto simp: mounts_quiet list_all_iff)
    have "run_state (build_container env ns r opts rootfs fi fd) w = (res, v)"
      using me None res by (simp add: build_container_def Let_def)
    with None ms bs(1) nb show ?thesis by (intro exI [of _ "mount_acts ms @ bs"]) simp
  qed
qed


section \<open>Operations as updates of the view\<close>

lemma run_with_lock_ret [simp]:
  "run_state (with_lock m (ret a)) w = (a, \<lparr>ext = ext w, trace = trace w @ [ActLock m, ActUnlock m]\<rparr>)"
  by (simp add: with_lock_def)

text \<open>A method keeps the kind of its process.\<close>

definition keeps_kind ::
    "('s process \<Rightarrow> ('x world, 'a \<times> 's process) state) \<Rightarrow> bool" where
  "keeps_kind f \<longleftrightarrow> (\<forall>p w a p' v k. run_state (f p) w = ((a, p'), v) \<longrightarrow> kind_fits k p \<longrightarrow> kind_fits k p')"

lemma keeps_kind_on_process: "keeps_kind (on_process f g)"
  by (auto simp: keeps_kind_def on_process_def kind_fits_def split: process.splits prod.splits)

lemma keeps_kind_methods:
  "keeps_kind (process_Start env)" "keeps_kind (\<lambda>p. process_Restore env p conf)"
  "keeps_kind (process_Delete env)" "keeps_kind (\<lambda>p. process_Kill env p sig al)"
  by (simp_all add: process_Start_def process_Restore_def process_Delete_def process_Kill_def
      keeps_kind_on_process)

text \<open>
  The abstract operation: the method, applied to what the view holds under the ID, in the world the
  lookup left.
\<close>

definition after_lookup :: "'s container \<Rightarrow> 'x world \<Rightarrow> 'x world" where
  "after_lookup c w = \<lparr>ext = ext w, trace = trace w @ [ActLock (ct_mu c), ActUnlock (ct_mu c)]\<rparr>"

definition method_outcome ::
    "('s process \<Rightarrow> ('x world, gerror option \<times> 's process) state) \<Rightarrow> string \<Rightarrow> 'x world \<Rightarrow>
     (string \<Rightarrow> 's process option) \<Rightarrow> 's process result \<Rightarrow> (string \<Rightarrow> 's process option) \<Rightarrow> bool" where
  "method_outcome f k w view res view' \<longleftrightarrow>
     (case view k of
        None \<Rightarrow> (\<exists>e. res = Inl e) \<and> view' = view
      | Some p \<Rightarrow>
          (\<exists>e p' v. run_state (f p) w = ((e, p'), v) \<and> view' = view(k \<mapsto> p') \<and>
             res = (case e of None \<Rightarrow> Inr p' | Some er \<Rightarrow> Inl er)))"

lemma forward_outcome:
  assumes "keeps_kind f" "run_state (forward_to c k f) w = ((res, c'), v)"
  shows "method_outcome f k (after_lookup c w) (ct_view c) res (ct_view c')"
proof (cases "ct_view c k")
  case None
  then obtain er where "ct_lookup c k = Inl er" by (auto simp: ct_view_def split: sum.splits)
  with assms(2) have "res = Inl er" "c' = c"
    by (simp_all add: forward_to_def container_Process_def)
  with None show ?thesis by (simp add: method_outcome_def)
next
  case (Some p)
  then have l: "ct_lookup c k = Inr p" by (simp add: ct_lookup_view)
  obtain e p' u where f: "run_state (f p) (after_lookup c w) = ((e, p'), u)" by (metis surj_pair)
  have "kind_fits k p'" using assms(1) f ct.view_fits [OF Some] unfolding keeps_kind_def by blast
  then have "ct_view (ct_store k p' c) = (ct_view c)(k \<mapsto> p')" by (rule ct.view_store)
  moreover have "c' = ct_store k p' c" "res = (case e of None \<Rightarrow> Inr p' | Some er \<Rightarrow> Inl er)"
    using assms(2) l f
    by (auto simp: forward_to_def container_Process_def after_lookup_def Let_def split: option.splits)
  ultimately show ?thesis using Some f by (auto simp: method_outcome_def)
qed

lemma container_ids [simp]:
  "ct_ID (ct_store k p c) = ct_ID c" "ct_Bundle (ct_store k p c) = ct_Bundle c"
  by (simp_all add: ct_store_def split: process.split)

lemma run_container_Delete:
  assumes "run_state (container_Delete env c r) w = ((res, c'), v)"
  obtains c1 where "method_outcome (process_Delete env) (dr_ExecID r) (after_lookup c w) (ct_view c) res (ct_view c1)"
    "ct_view c' = (if dr_ExecID r \<noteq> [] \<and> (\<exists>p. res = Inr p) then (ct_view c1)(dr_ExecID r := None)
                   else ct_view c1)"
proof -
  obtain rp c1 w1 where f: "run_state (forward_to c (dr_ExecID r) (process_Delete env)) w = ((rp, c1), w1)"
    by (metis surj_pair)
  note o1 = forward_outcome [OF keeps_kind_methods(3) f]
  from assms f have "rp = res" and "c' = (if dr_ExecID r \<noteq> [] \<and> (\<exists>p. res = Inr p)
      then ct_remove (dr_ExecID r) c1 else c1)"
    by (auto simp: container_Delete_def container_ProcessRemove_def ct_remove_def split: sum.splits if_splits)
  with o1 show thesis by (intro that [of c1]) (auto simp: ct.view_remove)
qed

lemma run_container_Exec:
  assumes "run_state (container_Exec env c r) w = ((res, c'), v)" "ct_task c = Some i"
  obtains i' u where "run_state (init_Exec env i (ct_Bundle c)
       \<lparr>xc_ID = er_ExecID r, xc_Terminal = er_Terminal r, xc_Stdin = er_Stdin r,
        xc_Stdout = er_Stdout r, xc_Stderr = er_Stderr r, xc_Spec = er_Spec r\<rparr>) w = ((res, i'), u)"
    "c' = (case res of
       Inl e \<Rightarrow> c\<lparr>ct_task := Some i'\<rparr>
     | Inr p \<Rightarrow> c\<lparr>ct_task := Some i', ct_processes := gm_put (xp_id p) p (ct_processes c)\<rparr>)"
  using assms
  by (auto simp: container_Exec_def container_ProcessAdd_def Let_def split: prod.splits sum.splits)

section \<open>A concrete environment\<close>

text \<open>
  The clock world of the process environment, with states of the init process that do what the
  created and running states forward to, and an OCI spec read from every bundle. \<open>sp\<close> is that spec,
  \<open>mountable\<close> the types of mount that succeed.
\<close>

text \<open>
  The created state of the sample: a container that is not the sandbox and fails to start is given the
  internal error code as its exit, so that it can be deleted.
\<close>

definition sample_start ::
    "('x, unit, 'z) proc_env_scheme \<Rightarrow> unit init \<Rightarrow> restore_conf option \<Rightarrow>
     ('x world, gerror option \<times> unit init) state" where
  "sample_start env p conf = do {
     e \<leftarrow> init_start env p conf;
     case e of
       None \<Rightarrow> ret (None, p)
     | Some err \<Rightarrow>
         if i_Sandbox p then ret (Some err, p)
         else do {
           q \<leftarrow> init_setExited env p (internalErrorCode env);
           ret (Some err, case q of None \<Rightarrow> p | Some p' \<Rightarrow> p')
         }
   }"

definition sample_state_env :: "int \<Rightarrow> string \<Rightarrow> nat \<Rightarrow> string \<Rightarrow> (nat, unit) state_env" where
  "sample_state_env st out tick status =
    (let env = sample_init_env st out tick status in init_env.extend env
       (state_env.fields
          (sample_start env)
          (\<lambda>p. do { e \<leftarrow> init_delete env p; ret (e, p) })
          (\<lambda>p sig al. do { r \<leftarrow> init_kill 5 env p sig al; ret (case r of None \<Rightarrow> None | Some e \<Rightarrow> e, p) })
          (\<lambda>p path r. ret (init_exec env p path r, p))
          (\<lambda>p s. init_setExited env p s)
          (\<lambda>p cid. init_stats env p cid)))"

definition sample_ctr_env ::
    "int \<Rightarrow> string \<Rightarrow> nat \<Rightarrow> string \<Rightarrow> oci_spec \<Rightarrow> string list \<Rightarrow> (nat, unit) ctr_env" where
  "sample_ctr_env st out tick status sp mountable =
     state_env.extend (sample_state_env st out tick status)
       (ctr_env.fields (\<lambda>e. 50) (\<lambda>e. 0) (\<lambda>e. None) (\<lambda>e. None) (\<lambda>e. xp_waitClosed e)
          (\<lambda>e. ret (Inr status)) (\<lambda>e. ret (None, e)) (\<lambda>e conf. ret (Some (Msg ''no restore''), e))
          (\<lambda>e. ret (None, e)) (\<lambda>e s a. ret (None, e)) (\<lambda>e ws. ret None)
          (\<lambda>e s. ret (Some (e\<lparr>xp_waitClosed := True\<rparr>)))
          (\<lambda>x. (Inr ''k8s.io'', x)) (\<lambda>a. Inr a) (\<lambda>f x. (Inr no_options, x)) (\<lambda>l. None)
          (\<lambda>p i. p @ i) (\<lambda>d x. (None, x)) (\<lambda>f x. (None, x)) (\<lambda>r opt b x. (None, x))
          (\<lambda>d x. (Some (Msg ''exists'', True), x))
          (\<lambda>m d x. (if m_Type m \<in> set mountable then None else Some (Msg ''no such device''), x))
          (\<lambda>m. m_Type m) (\<lambda>b x. (Inr sp, x)) (\<lambda>b sp x. (None, x)) (\<lambda>s x. ((Inr False, s), x))
          (\<lambda>s. True) (\<lambda>s. True) (\<lambda>s. []) (\<lambda>s. []) ''/run/runsc'' (\<lambda>m. Inr []) (\<lambda>m. Inr []))"

definition sample_container :: "unit container" where
  "sample_container = \<lparr>ct_ID = ''c1'', ct_Bundle = ''/run/b'', ct_task = Some sample_init,
     ct_processes = [], ct_cgroup = Legacy\<rparr>"

definition plain_spec :: oci_spec where
  "plain_spec = \<lparr>sp_Annotations = None, sp_Linux = None, sp_rest = []\<rparr>"

definition sample_create_request :: create_request where
  "sample_create_request = \<lparr>cr_ID = ''c1'', cr_Bundle = ''/run/b'',
     cr_Rootfs = [\<lparr>m_Type = ''overlay'', m_Source = ''overlay'', m_Target = ''t'', m_Options = [''ro'']\<rparr>],
     cr_Terminal = False, cr_Stdin = [], cr_Stdout = ''/run/out'', cr_Stderr = [], cr_Options = None\<rparr>"

definition sample_exec_request :: "string \<Rightarrow> exec_request" where
  "sample_exec_request xid = \<lparr>er_ID = ''c1'', er_ExecID = xid, er_Terminal = False, er_Stdin = [],
     er_Stdout = [], er_Stderr = [], er_Spec = ''sh''\<rparr>"

section \<open>Properties\<close>

text \<open>
  C9: A container's mounts are kept on success and undone on failure. Whatever step fails
  (namespace, options, log, state file, rootfs directory, a mount, the spec, the init process),
  \<open>NewContainer\<close> mounts a prefix of the requested mounts in order, and the last thing it does is to
  unmount the rootfs, unless it failed before the first mount could be attempted. On success every
  mount was made and none undone.
\<close>

theorem new_container_mounts:
  "\<exists>as v res. run_state (NewContainer env r fi fd) w = (res, v) \<and> trace v = trace w @ as \<and>
     (case res of
        Inr c \<Rightarrow> (\<forall>d. ActUnmountAll d \<notin> set as) \<and>
          mounts as = map (\<lambda>m. (m\<lparr>m_Target := []\<rparr>, Join [cr_Bundle r, ''rootfs''])) (cr_Rootfs r)
      | Inl e \<Rightarrow> list_all quiet as \<or>
          (\<exists>bs. as = bs @ [ActUnmountAll (Join [cr_Bundle r, ''rootfs''])] \<and> (\<forall>d. ActUnmountAll d \<notin> set bs) \<and>
             prefix (mounts bs)
               (map (\<lambda>m. (m\<lparr>m_Target := []\<rparr>, Join [cr_Bundle r, ''rootfs''])) (cr_Rootfs r))))"
proof -
  let ?rootfs = "Join [cr_Bundle r, ''rootfs'']"
  have rm: "rootfs_mount ?rootfs = (\<lambda>m. (m\<lparr>m_Target := []\<rparr>, ?rootfs))"
    by (simp add: rootfs_mount_def fun_eq_iff)
  let ?pre = "ext_call (namespace_required env) \<bind> case_sum (\<lambda>e. ret (Inl (Wrapf ''create namespace: '' e [])))
    (\<lambda>ns. read_options env r \<bind> case_sum (\<lambda>e. ret (Inl e)) (\<lambda>opts. open_log env r opts \<bind>
      case_option (prepare_bundle env r opts ?rootfs \<bind>
        case_option (ret (Inr (ns, opts))) (\<lambda>e. ret (Inl e))) (\<lambda>e. ret (Inl e))))"
  have eq: "run_state (NewContainer env r fi fd) w = (case run_state ?pre w of
      (Inl e, w1) \<Rightarrow> (Inl e, w1)
    | (Inr (ns, opts), w1) \<Rightarrow>
        run_state (with_cleanup env ?rootfs (build_container env ns r opts ?rootfs fi fd)) w1)"
    by (simp add: NewContainer_def Let_def split: prod.split sum.split option.split)
  have q: "emits quiet ?pre" by (intro emits_intros) simp_all
  obtain pr w1 where pr: "run_state ?pre w = (pr, w1)" by fastforce
  from emitsD [OF q pr] obtain qs where qs: "trace w1 = trace w @ qs" "list_all quiet qs"
    by (auto simp: list_all_iff)
  then have nq: "mounts qs = []" "\<forall>d. ActUnmountAll d \<notin> set qs"
    by (auto simp: mounts_quiet list_all_iff)
  show ?thesis
  proof (cases pr)
    case (Inl e)
    with eq pr have "run_state (NewContainer env r fi fd) w = (Inl e, w1)" by simp
    with qs show ?thesis by (intro exI [of _ qs]) simp
  next
    case (Inr no)
    obtain ns opts where no: "no = (ns, opts)" by fastforce
    from run_build_container [of env ns r opts ?rootfs fi fd w1] obtain as v res where
      b: "run_state (build_container env ns r opts ?rootfs fi fd) w1 = (res, v)"
        "trace v = trace w1 @ as" "\<forall>d. ActUnmountAll d \<notin> set as"
        "prefix (mounts as) (map (rootfs_mount ?rootfs) (cr_Rootfs r))"
        "\<forall>c. res = Inr c \<longrightarrow> mounts as = map (rootfs_mount ?rootfs) (cr_Rootfs r)" by blast
    show ?thesis
    proof (cases res)
      case (Inr c)
      with eq pr no \<open>pr = Inr no\<close> b(1) have "run_state (NewContainer env r fi fd) w = (Inr c, v)"
        by (simp add: with_cleanup_def)
      with b(2,3,5) Inr qs(1) nq rm show ?thesis by (intro exI [of _ "qs @ as"]) simp
    next
      case (Inl e)
      obtain ue x where "unmount_all env ?rootfs (ext v) = (ue, x)" by fastforce
      with eq pr no \<open>pr = Inr no\<close> b(1) Inl have "run_state (NewContainer env r fi fd) w =
          (Inl e, \<lparr>ext = x, trace = trace v @ [ActUnmountAll ?rootfs]\<rparr>)"
        by (simp add: with_cleanup_def run_ext_call)
      with b(2-4) qs(1) nq rm show ?thesis
        by (intro exI [of _ "(qs @ as) @ [ActUnmountAll ?rootfs]"]) auto
    qed
  qed
qed


text \<open>
  C10: The container's methods refine operations on an abstract process table. \<open>Start\<close>, \<open>Restore\<close> and
  \<open>Kill\<close> apply the process's method to what the table holds under the ID (the empty ID being the init
  process) and change that entry only; an unknown ID is an error and changes nothing. \<open>Delete\<close> does the
  same and then, for an exec ID and only on success, takes the entry away; \<open>Exec\<close> adds the new process
  under its own ID and leaves every other exec'd process as it was.
\<close>

theorem process_table_refinement:
  "(\<forall>res c' v. run_state (container_Start env c sr) w = ((res, c'), v) \<longrightarrow>
      method_outcome (process_Start env) (sr_ExecID sr) (after_lookup c w) (ct_view c) res (ct_view c')) \<and>
   (\<forall>res c' v. run_state (container_Restore env c rr) w = ((res, c'), v) \<longrightarrow>
      method_outcome (\<lambda>p. process_Restore env p (rr_Conf rr)) (sr_ExecID (rr_Start rr)) (after_lookup c w) (ct_view c)
        res (ct_view c')) \<and>
   (\<forall>err c' v. run_state (container_Kill env c kr) w = ((err, c'), v) \<longrightarrow>
      (\<exists>res. method_outcome (\<lambda>p. process_Kill env p (kr_Signal kr) (kr_All kr)) (kr_ExecID kr) (after_lookup c w)
         (ct_view c) res (ct_view c') \<and> (err = None \<longleftrightarrow> (\<exists>p. res = Inr p)))) \<and>
   (\<forall>res c' v. run_state (container_Delete env c dr) w = ((res, c'), v) \<longrightarrow>
      (\<exists>view1. method_outcome (process_Delete env) (dr_ExecID dr) (after_lookup c w) (ct_view c) res view1 \<and>
         ct_view c' = (if dr_ExecID dr \<noteq> [] \<and> (\<exists>p. res = Inr p) then view1(dr_ExecID dr := None)
                       else view1))) \<and>
   (\<forall>p c' v k. run_state (container_Exec env c er) w = ((Inr p, c'), v) \<longrightarrow> k \<noteq> [] \<longrightarrow>
      ct_view c' k = (if k = xp_id p then Some (PExec p) else ct_view c k))"
proof (intro conjI allI impI)
  fix res c' v
  assume "run_state (container_Start env c sr) w = ((res, c'), v)"
  then show "method_outcome (process_Start env) (sr_ExecID sr) (after_lookup c w) (ct_view c) res (ct_view c')"
    unfolding container_Start_def by (rule forward_outcome [OF keeps_kind_methods(1)])
next
  fix res c' v
  assume "run_state (container_Restore env c rr) w = ((res, c'), v)"
  then show "method_outcome (\<lambda>p. process_Restore env p (rr_Conf rr)) (sr_ExecID (rr_Start rr)) (after_lookup c w) (ct_view c)
      res (ct_view c')"
    unfolding container_Restore_def by (rule forward_outcome [OF keeps_kind_methods(2)])
next
  fix err c' v
  assume k: "run_state (container_Kill env c kr) w = ((err, c'), v)"
  let ?f = "\<lambda>p. process_Kill env p (kr_Signal kr) (kr_All kr)"
  obtain res c1 w1 where f: "run_state (forward_to c (kr_ExecID kr) ?f) w = ((res, c1), w1)"
    by (metis surj_pair)
  with k have "c1 = c'" "err = (case res of Inl e \<Rightarrow> Some e | Inr p \<Rightarrow> None)"
    by (simp_all add: container_Kill_def)
  with forward_outcome [OF keeps_kind_methods(4) f]
  show "\<exists>res. method_outcome ?f (kr_ExecID kr) (after_lookup c w) (ct_view c) res (ct_view c') \<and>
      (err = None \<longleftrightarrow> (\<exists>p. res = Inr p))" by (intro exI [of _ res]) (auto split: sum.splits)
next
  fix res c' v
  assume "run_state (container_Delete env c dr) w = ((res, c'), v)"
  from run_container_Delete [OF this] show "\<exists>view1. method_outcome (process_Delete env) (dr_ExecID dr) (after_lookup c w)
      (ct_view c) res view1 \<and> ct_view c' = (if dr_ExecID dr \<noteq> [] \<and> (\<exists>p. res = Inr p)
        then view1(dr_ExecID dr := None) else view1)" by metis
next
  fix p c' v and k :: string
  assume x: "run_state (container_Exec env c er) w = ((Inr p, c'), v)" and k: "k \<noteq> []"
  then obtain i where i: "ct_task c = Some i" by (auto simp: container_Exec_def split: option.splits)
  from run_container_Exec [OF x i] obtain i' where
    "c' = c\<lparr>ct_task := Some i', ct_processes := gm_put (xp_id p) p (ct_processes c)\<rparr>" by auto
  with k show "ct_view c' k = (if k = xp_id p then Some (PExec p) else ct_view c k)"
    by (simp add: ct_view_eq gm.get_put)
qed

lemma process_table_refinement_witness:
  "\<exists>p c' v. run_state (container_Exec (sample_ctr_env 0 [] 1 ''running'' plain_spec []) sample_container
       (sample_exec_request ''e1'')) \<lparr>ext = 0, trace = []\<rparr> = ((Inr p, c'), v) \<and>
     ct_view c' ''e1'' = Some (PExec p) \<and> ct_view c' ''e2'' = None"
proof -
  let ?env = "sample_ctr_env 0 [] 1 ''running'' plain_spec []"
  let ?w = "\<lparr>ext = 0, trace = []\<rparr> :: nat world"
  let ?x = "run_state (container_Exec ?env sample_container (sample_exec_request ''e1'')) ?w"
  have ok: "(case fst (fst ?x) of Inl e \<Rightarrow> False | Inr p \<Rightarrow> xp_id p = ''e1'')" by code_simp
  then obtain p c' v where x: "?x = ((Inr p, c'), v)" "xp_id p = ''e1''"
    by (cases ?x; cases "fst ?x"; cases "fst (fst ?x)") auto
  from process_table_refinement [of ?env sample_container _ ?w _ _ _ "sample_exec_request ''e1''"] x(1)
  have "ct_view c' k = (if k = xp_id p then Some (PExec p) else ct_view sample_container k)" if "k \<noteq> []" for k
    using that by blast
  moreover have "ct_view sample_container ''e2'' = None" by code_simp
  ultimately show ?thesis using x by auto
qed

text \<open>
  C30: The two metrics agree. What \<open>getV2Stats\<close> reports in microseconds is \<open>getV1Stats\<close>'s nanoseconds
  rounded down, never more than a microsecond off, with no wrap-around at 64 bits; the counters,
  limits and pids are the same numbers in both.
\<close>

theorem v1_v2_agree:
  "unat (v2_UsageUsec (v2_of st)) = unat (v1_Total (v1_of st)) div 1000 \<and>
   unat (v2_UserUsec (v2_of st)) = unat (v1_User (v1_of st)) div 1000 \<and>
   unat (v2_SystemUsec (v2_of st)) = unat (v1_KernelCPU (v1_of st)) div 1000 \<and>
   unat (v2_ThrottledUsec (v2_of st)) = unat (v1_ThrottledTime (v1_of st)) div 1000 \<and>
   v2_NrPeriods (v2_of st) = v1_Periods (v1_of st) \<and>
   v2_NrThrottled (v2_of st) = v1_ThrottledPeriods (v1_of st) \<and>
   v2_Usage (v2_of st) = v1e_Usage (v1_Usage (v1_of st)) \<and>
   v2_UsageLimit (v2_of st) = v1e_Limit (v1_Usage (v1_of st)) \<and>
   v2_SwapUsage (v2_of st) = v1e_Usage (v1_Swap (v1_of st)) \<and>
   v2_SwapLimit (v2_of st) = v1e_Limit (v1_Swap (v1_of st)) \<and>
   v2_Slab (v2_of st) = v1e_Usage (v1_Kernel (v1_of st)) \<and> v2_File (v2_of st) = v1_Cache (v1_of st) \<and>
   v2_PidsCurrent (v2_of st) = v1_PidsCurrent (v1_of st) \<and>
   v2_PidsLimit (v2_of st) = v1_PidsLimit (v1_of st)"
  by (simp add: v1_of_def v2_of_def v1_entry_of_def unat_div)

text \<open>
  C31: A resize reaches the console modulo 65536. The window the init process's console is given has
  the request's width and height truncated to 16 bits, so that exactly the sizes below 65536 arrive
  as they were asked for.
\<close>

theorem resize_truncates:
  assumes "ct_task c = Some i" "i_console i = Some h" "zr_ExecID r = []"
  shows "\<exists>ws. fst (run_state (container_ResizePty env c r) w) = fst (console_resize env h ws (ext w)) \<and>
    uint (ws_Width ws) = uint (zr_Width r) mod 65536 \<and> uint (ws_Height ws) = uint (zr_Height r) mod 65536 \<and>
    (uint (ws_Width ws) = uint (zr_Width r) \<longleftrightarrow> zr_Width r < 65536)"
proof -
  let ?ws = "\<lparr>ws_Width = ucast (zr_Width r), ws_Height = ucast (zr_Height r)\<rparr> :: win_size"
  have t: "uint (ucast n :: u16) = uint n mod 65536" for n :: u32
    by (simp add: unsigned_ucast_eq take_bit_eq_mod)
  have "fst (run_state (container_ResizePty env c r) w) = fst (console_resize env h ?ws (ext w))"
    using assms by (simp add: container_ResizePty_def container_Process_def ct_lookup_def ct_init_def
        process_Resize_def init_Resize_def init_resize_def with_lock_def run_ext_call split: prod.split)
  moreover have "uint (zr_Width r) mod 65536 = uint (zr_Width r) \<longleftrightarrow> zr_Width r < 65536"
  proof -
    have "zr_Width r < 65536 \<longleftrightarrow> uint (zr_Width r) < 65536" by (simp add: word_less_def)
    moreover have "0 \<le> uint (zr_Width r)" by simp
    ultimately show ?thesis by (metis mod_pos_pos_trivial pos_mod_bound zero_less_numeral)
  qed
  ultimately show ?thesis by (intro exI [of _ ?ws]) (simp add: t)
qed


lemma resize_truncates_witness:
  "\<exists>ws. fst (run_state (container_ResizePty (sample_ctr_env 0 [] 1 ''running'' plain_spec [])
      (sample_container\<lparr>ct_task := Some (sample_init\<lparr>i_console := Some 14\<rparr>)\<rparr>)
      \<lparr>zr_ID = ''c1'', zr_ExecID = [], zr_Width = 65616, zr_Height = 24\<rparr>) \<lparr>ext = 0, trace = []\<rparr>) =
    fst (console_resize (sample_ctr_env 0 [] 1 ''running'' plain_spec []) 14 ws 0) \<and>
    uint (ws_Width ws) = 80"
  using resize_truncates [of "sample_container\<lparr>ct_task := Some (sample_init\<lparr>i_console := Some 14\<rparr>)\<rparr>"
      "sample_init\<lparr>i_console := Some 14\<rparr>" 14
      "\<lparr>zr_ID = ''c1'', zr_ExecID = [], zr_Width = 65616, zr_Height = 24\<rparr>"
      "sample_ctr_env 0 [] 1 ''running'' plain_spec []" "\<lparr>ext = 0, trace = []\<rparr>"]
  by fastforce

end
