(* ===== verification/Service.thy ===== *)
theory Service
  imports Container
begin

text \<open>
  The task service (\<open>runsc/service.go\<close>): the registry of containers, one handler per call of
  containerd's shim API, the routing of \<open>Start\<close> to a restore, the dispatch of exits and the
  forwarding of events. A handler takes the service and gives it back as it leaves it. Responses are
  records of the protobuf messages' fields. The OOM poller, the cgroup packages, the publisher and the
  console platform are parameters. The entries of a Go map are visited in the order of the list
  that stands for it; no property below depends on that order.
\<close>

section \<open>State and responses\<close>

text \<open>\<open>sv_platform\<close> says that \<open>platform\<close> is not nil.\<close>

record 's service =
  sv_containers :: "(string, 's container) gomap"
  sv_root :: string
  sv_runtime :: runsc
  sv_platform :: bool

datatype task_status =
  Status_UNKNOWN | Status_CREATED | Status_RUNNING | Status_STOPPED | Status_PAUSED | Status_PAUSING

record state_response =
  st_ID :: string
  st_Bundle :: string
  st_Pid :: u32
  st_Status :: task_status
  st_Stdin :: string
  st_Stdout :: string
  st_Stderr :: string
  st_Terminal :: bool
  st_ExitStatus :: u32
  st_ExitedAt :: timestamp

record delete_response =
  dl_ExitStatus :: u32
  dl_ExitedAt :: timestamp
  dl_Pid :: u32

record wait_response =
  wt_ExitStatus :: u32
  wt_ExitedAt :: timestamp

record connect_response =
  cn_ShimPid :: u32
  cn_TaskPid :: u32

record process_info =
  pi_Pid :: u32
  pi_Info :: "string option"

text \<open>The topics of containerd's runtime package.\<close>

datatype topic =
    TaskCreateEventTopic | TaskStartEventTopic | TaskOOMEventTopic | TaskExitEventTopic
  | TaskDeleteEventTopic | TaskExecAddedEventTopic | TaskExecStartedEventTopic | TaskPausedEventTopic
  | TaskResumedEventTopic | TaskUnknownTopic

record ('x, 's) svc_env = "('x, 's) ctr_env" +
  cgroup_unified :: bool
  pid_group_path :: "int \<Rightarrow> 'x \<Rightarrow> string result \<times> 'x"
  load_v2 :: "string \<Rightarrow> 'x \<Rightarrow> nat result \<times> 'x"
  load_v1 :: "int \<Rightarrow> 'x \<Rightarrow> nat result \<times> 'x"
  new_oom_poller :: "bool \<Rightarrow> 'x \<Rightarrow> gerror option \<times> 'x"
  oom_add :: "string \<Rightarrow> nat \<Rightarrow> 'x \<Rightarrow> gerror option \<times> 'x"
  is_oom :: "string \<Rightarrow> 'x \<Rightarrow> bool \<times> 'x"
  init_platform :: "'x \<Rightarrow> bool result \<times> 'x"
  platform_close :: "'x \<Rightarrow> unit \<times> 'x"
  shim_pid :: int
  marshal_details :: "string \<Rightarrow> string result"
  publish :: "topic \<Rightarrow> event \<Rightarrow> 'x \<Rightarrow> gerror option \<times> 'x"

section \<open>The registry\<close>

text \<open>
  \<open>NewTaskService\<close>; the goroutines it starts are \<open>processExits\<close>, \<open>forward\<close> and the poller's own, and
  the channel it makes is \<open>make_events\<close> (\<open>EventChan\<close>).
  \<open>init_platform\<close> gives whether the platform it sets is not nil.
\<close>

definition NewTaskService ::
    "('x, 's, 'z) svc_env_scheme \<Rightarrow> ('x world, 's service result) state" where
  "NewTaskService env = do {
     oe \<leftarrow> ext_call (new_oom_poller env (cgroup_unified env));
     case oe of
       Some e \<Rightarrow> ret (Inl e)
     | None \<Rightarrow> do {
         pe \<leftarrow> ext_call (init_platform env);
         case pe of
           Inl e \<Rightarrow> ret (Inl (Wrapf ''failed to initialized platform behavior: '' e []))
         | Inr platform \<Rightarrow> do {
             emit ActOnShutdown;
             ret (Inr
               \<lparr> sv_containers = [], sv_root = RunscRoot env,
                 sv_runtime = \<lparr>Command = [], PdeathSignal = 0, Setpgid = False, Root = RunscRoot env,
                   Log = [], LogFormat = [], PanicLog = [], Config = []\<rparr>,
                 sv_platform = platform \<rparr>)
           }
       }
   }"

text \<open>The callback it registers with the shutdown service: \<open>close(s.events)\<close>.\<close>

definition shutdown_callback :: "('x world, gerror option) state" where
  "shutdown_callback = do { emit ActCloseEvents; ret None }"

definition getContainer :: "'s service \<Rightarrow> string \<Rightarrow> ('x world, 's container result) state" where
  "getContainer s cid = with_lock MuService
     (ret (case gm_get (sv_containers s) cid of
             None \<Rightarrow> Inl (ToGRPCf ErrNotFound ''container not created'')
           | Some c \<Rightarrow> Inr c))"

lemma run_getContainer [simp]:
  "run_state (getContainer s cid) w =
    (case gm_get (sv_containers s) cid of
       None \<Rightarrow> Inl (ToGRPCf ErrNotFound ''container not created'') | Some c \<Rightarrow> Inr c,
     \<lparr>ext = ext w, trace = trace w @ [ActLock MuService, ActUnlock MuService]\<rparr>)"
  by (simp add: getContainer_def)

text \<open>The container registered under \<open>cid\<close>, changed in place.\<close>

definition sv_put :: "string \<Rightarrow> 's container \<Rightarrow> 's service \<Rightarrow> 's service" where
  "sv_put cid c s = s\<lparr>sv_containers := gm_put cid c (sv_containers s)\<rparr>"

text \<open>
  \<open>s.events <- event\<close>. The trace records the send where the handler makes it; the channel, which holds at
  most 128 events, makes the sender wait when it is full and panics when it is closed, is run on that
  trace in the theory \<open>EventChan\<close>.
\<close>

definition send :: "event \<Rightarrow> ('x world, unit) state" where
  "send ev = emit (ActSend ev)"

definition uint32 :: "int \<Rightarrow> u32" where
  "uint32 n = word_of_int n"

section \<open>Creation\<close>

definition load_cgroup ::
    "('x, 's, 'z) svc_env_scheme \<Rightarrow> int \<Rightarrow> ('x world, nat result) state" where
  "load_cgroup env pid =
     (if cgroup_unified env then do {
        p \<leftarrow> ext_call (pid_group_path env pid);
        case p of Inl e \<Rightarrow> ret (Inl e) | Inr path \<Rightarrow> ext_call (load_v2 env path)
      } else ext_call (load_v1 env pid))"

definition CreateWithFSRestore ::
    "('x, 's, 'z) svc_env_scheme \<Rightarrow> 's service \<Rightarrow> create_request \<Rightarrow> string \<Rightarrow> bool \<Rightarrow>
     ('x world, u32 result \<times> 's service) state" where
  "CreateWithFSRestore env s r fsImage fsDirect = with_lock MuService (do {
     nc \<leftarrow> NewContainer env r fsImage fsDirect;
     case nc of
       Inl e \<Rightarrow> ret (Inl e, s)
     | Inr c \<Rightarrow> do {
         let s1 = sv_put (cr_ID r) c s;
         rp \<leftarrow> container_init c;
         case rp of
           Inl e \<Rightarrow> ret (Inl e, s1)
         | Inr p \<Rightarrow> do {
             let s2 = (if i_Sandbox p
                       then s1\<lparr>sv_root := Root (i_runtime p), sv_runtime := i_runtime p\<rparr> else s1);
             if i_pid p > 0 then do {
               cg \<leftarrow> load_cgroup env (i_pid p);
               case cg of
                 Inl e \<Rightarrow> ret (Inl (Wrapf (''loading cgroup for '' @ itoa (i_pid p) @ '': '') e []), s2)
               | Inr h \<Rightarrow> do {
                   emit (ActOomAdd (cr_ID r) (i_pid p));
                   ae \<leftarrow> ext_call (oom_add env (cr_ID r) h);
                   case ae of
                     Some e \<Rightarrow> ret (Inl (Wrapf ''add cg to OOM monitor: '' e []), s2)
                   | None \<Rightarrow> ret (Inr (uint32 (i_pid p)), s2)
                 }
             } else ret (Inr (uint32 (i_pid p)), s2)
           }
       }
   })"

definition service_Create ::
    "('x, 's, 'z) svc_env_scheme \<Rightarrow> 's service \<Rightarrow> create_request \<Rightarrow>
     ('x world, u32 result \<times> 's service) state" where
  "service_Create env s r = CreateWithFSRestore env s r [] False"

section \<open>Start, restore, checkpoint\<close>

text \<open>
  The checkpoint image \<open>Start\<close> restores from, empty for a cold start: only the init process is ever
  restored, and a spec that cannot be read is logged and counts as having no annotation.
\<close>

definition restore_route ::
    "('x, 's, 'z) svc_env_scheme \<Rightarrow> 's container \<Rightarrow> start_request \<Rightarrow> ('x world, string) state" where
  "restore_route env c r =
     (if sr_ExecID r = [] then do {
        rs \<leftarrow> ext_call (read_spec env (ct_Bundle c));
        ret (case rs of Inl e \<Rightarrow> [] | Inr spec \<Rightarrow> shouldRestore spec)
      } else ret [])"

definition service_Start ::
    "('x, 's, 'z) svc_env_scheme \<Rightarrow> 's service \<Rightarrow> start_request \<Rightarrow>
     ('x world, u32 result \<times> 's service) state" where
  "service_Start env s r = do {
     gc \<leftarrow> getContainer s (sr_ID r);
     case gc of
       Inl e \<Rightarrow> ret (Inl e, s)
     | Inr c \<Rightarrow> do {
         imagePath \<leftarrow> restore_route env c r;
         (rp, c') \<leftarrow>
           (if imagePath \<noteq> [] then
              container_Restore env c
                \<lparr>rr_Start = r,
                 rr_Conf = \<lparr>rc_ImagePath = imagePath, rc_Direct = False, rc_Background = False\<rparr>\<rparr>
            else container_Start env c r);
         let s' = sv_put (sr_ID r) c' s;
         ret (case rp of
                Inl e \<Rightarrow> (Inl (ToGRPC e), s')
              | Inr p \<Rightarrow> (Inr (uint32 (process_Pid env p)), s'))
       }
   }"

definition service_Restore ::
    "('x, 's, 'z) svc_env_scheme \<Rightarrow> 's service \<Rightarrow> restore_request \<Rightarrow>
     ('x world, u32 result \<times> 's service) state" where
  "service_Restore env s r = do {
     gc \<leftarrow> getContainer s (sr_ID (rr_Start r));
     case gc of
       Inl e \<Rightarrow> ret (Inl e, s)
     | Inr c \<Rightarrow> do {
         (rp, c') \<leftarrow> container_Restore env c r;
         let s' = sv_put (sr_ID (rr_Start r)) c' s;
         ret (case rp of
                Inl e \<Rightarrow> (Inl e, s')
              | Inr p \<Rightarrow> (Inr (uint32 (process_Pid env p)), s'))
       }
   }"

text \<open>A handler that only reads the container: an error of the call goes through \<open>errgrpc.ToGRPC\<close>.\<close>

definition on_container ::
    "'s service \<Rightarrow> string \<Rightarrow> ('s container \<Rightarrow> ('x world, gerror option) state) \<Rightarrow>
     ('x world, gerror option) state" where
  "on_container s cid f = do {
     gc \<leftarrow> getContainer s cid;
     case gc of
       Inl e \<Rightarrow> ret (Some e)
     | Inr c \<Rightarrow> do { e \<leftarrow> f c; ret (map_option ToGRPC e) }
   }"

definition service_Checkpoint ::
    "('x, 's, 'z) svc_env_scheme \<Rightarrow> 's service \<Rightarrow> checkpoint_request \<Rightarrow>
     ('x world, gerror option) state" where
  "service_Checkpoint env s r = on_container s (pr_ID r) (\<lambda>c. container_Checkpoint env c r)"


section \<open>Deletion and exec\<close>

definition service_Delete ::
    "('x, 's, 'z) svc_env_scheme \<Rightarrow> 's service \<Rightarrow> delete_request \<Rightarrow>
     ('x world, delete_response result \<times> 's service) state" where
  "service_Delete env s r = do {
     gc \<leftarrow> getContainer s (dr_ID r);
     case gc of
       Inl e \<Rightarrow> ret (Inl e, s)
     | Inr c \<Rightarrow> do {
         (rp, c') \<leftarrow> container_Delete env c r;
         let s1 = sv_put (dr_ID r) c' s;
         case rp of
           Inl e \<Rightarrow> ret (Inl (ToGRPC e), s1)
         | Inr p \<Rightarrow> do {
             s2 \<leftarrow> (if dr_ExecID r = [] then do {
                 s2 \<leftarrow> with_lock MuService
                   (ret (s1\<lparr>sv_containers := gm_del (dr_ID r) (sv_containers s1)\<rparr>));
                 (if sv_containers s2 = [] \<and> sv_platform s2 then do {
                    emit ActPlatformClose;
                    ext_call (platform_close env)
                  } else ret ());
                 ret s2
               } else ret s1);
             status \<leftarrow> process_ExitStatus env p;
             exited \<leftarrow> process_ExitedAt env p;
             ret (Inr \<lparr>dl_ExitStatus = uint32 status, dl_ExitedAt = ToTimestamp exited,
                       dl_Pid = uint32 (process_Pid env p)\<rparr>, s2)
           }
       }
   }"

definition service_Exec ::
    "('x, 's, 'z) svc_env_scheme \<Rightarrow> 's service \<Rightarrow> exec_request \<Rightarrow>
     ('x world, gerror option \<times> 's service) state" where
  "service_Exec env s r = do {
     gc \<leftarrow> getContainer s (er_ID r);
     case gc of
       Inl e \<Rightarrow> ret (Some e, s)
     | Inr c \<Rightarrow> do {
         found \<leftarrow> container_Process c (er_ExecID r);
         case found of
           Inr p \<Rightarrow> ret (Some (ToGRPCf ErrAlreadyExists (''id '' @ er_ExecID r)), s)
         | Inl nf \<Rightarrow> do {
             (rp, c') \<leftarrow> container_Exec env c r;
             let s' = sv_put (er_ID r) c' s;
             case rp of
               Inl e \<Rightarrow> ret (Some e, s')
             | Inr p \<Rightarrow> do { send (TaskExecAdded (er_ID r) (xp_id p)); ret (None, s') }
           }
       }
   }"

section \<open>The other handlers\<close>

definition service_ResizePty ::
    "('x, 's, 'z) svc_env_scheme \<Rightarrow> 's service \<Rightarrow> resize_request \<Rightarrow> ('x world, gerror option) state" where
  "service_ResizePty env s r = do {
     gc \<leftarrow> getContainer s (zr_ID r);
     case gc of
       Inl e \<Rightarrow> ret (Some (ToGRPCf ErrFailedPrecondition ''container must be created''))
     | Inr c \<Rightarrow> do { e \<leftarrow> container_ResizePty env c r; ret (map_option ToGRPC e) }
   }"

definition status_of :: "string \<Rightarrow> task_status" where
  "status_of st =
     (if st = ''created'' then Status_CREATED else if st = ''running'' then Status_RUNNING
      else if st = ''stopped'' then Status_STOPPED else if st = ''pausing'' then Status_PAUSING
      else if st = ''paused'' then Status_PAUSED else Status_UNKNOWN)"

definition service_State ::
    "('x, 's, 'z) svc_env_scheme \<Rightarrow> 's service \<Rightarrow> string \<Rightarrow> string \<Rightarrow>
     ('x world, state_response result) state" where
  "service_State env s cid xid = do {
     gc \<leftarrow> getContainer s cid;
     case gc of
       Inl e \<Rightarrow> ret (Inl e)
     | Inr c \<Rightarrow> do {
         rp \<leftarrow> container_Process c xid;
         case rp of
           Inl e \<Rightarrow> ret (Inl (ToGRPC e))
         | Inr p \<Rightarrow> do {
             rs \<leftarrow> process_Status env p;
             case rs of
               Inl e \<Rightarrow> ret (Inl e)
             | Inr st \<Rightarrow> do {
                 let sio = process_Stdio p;
                 status \<leftarrow> process_ExitStatus env p;
                 exited \<leftarrow> process_ExitedAt env p;
                 ret (Inr \<lparr>st_ID = process_ID p, st_Bundle = ct_Bundle c,
                   st_Pid = uint32 (process_Pid env p), st_Status = status_of st,
                   st_Stdin = so_Stdin sio, st_Stdout = so_Stdout sio, st_Stderr = so_Stderr sio,
                   st_Terminal = so_Terminal sio, st_ExitStatus = uint32 status,
                   st_ExitedAt = ToTimestamp exited\<rparr>)
               }
           }
       }
   }"

text \<open>\<open>Pause\<close> and \<open>Resume\<close>: the call, and the event only when it succeeded.\<close>

definition announce ::
    "'s service \<Rightarrow> string \<Rightarrow> ('s container \<Rightarrow> ('x world, gerror option) state) \<Rightarrow>
     (string \<Rightarrow> event) \<Rightarrow> ('x world, gerror option) state" where
  "announce s cid f ev = do {
     gc \<leftarrow> getContainer s cid;
     case gc of
       Inl e \<Rightarrow> ret (Some e)
     | Inr c \<Rightarrow> do {
         e \<leftarrow> f c;
         case e of
           Some err \<Rightarrow> ret (Some (ToGRPC err))
         | None \<Rightarrow> do { send (ev (ct_ID c)); ret None }
       }
   }"

definition service_Pause ::
    "('x, 's, 'z) svc_env_scheme \<Rightarrow> 's service \<Rightarrow> string \<Rightarrow> ('x world, gerror option) state" where
  "service_Pause env s cid = announce s cid (\<lambda>c. container_Pause env c cid) TaskPaused"

definition service_Resume ::
    "('x, 's, 'z) svc_env_scheme \<Rightarrow> 's service \<Rightarrow> string \<Rightarrow> ('x world, gerror option) state" where
  "service_Resume env s cid = announce s cid (\<lambda>c. container_Resume env c cid) TaskResumed"

definition service_Kill ::
    "('x, 's, 'z) svc_env_scheme \<Rightarrow> 's service \<Rightarrow> kill_request \<Rightarrow>
     ('x world, gerror option \<times> 's service) state" where
  "service_Kill env s r = do {
     gc \<leftarrow> getContainer s (kr_ID r);
     case gc of
       Inl e \<Rightarrow> ret (Some e, s)
     | Inr c \<Rightarrow> do {
         (e, c') \<leftarrow> container_Kill env c r;
         ret (map_option ToGRPC e, sv_put (kr_ID r) c' s)
       }
   }"

definition getContainerPids ::
    "('x, 's, 'z) svc_env_scheme \<Rightarrow> 's container \<Rightarrow> ('x world, u32 list result) state" where
  "getContainerPids env c = do {
     rp \<leftarrow> container_init c;
     case rp of
       Inl e \<Rightarrow> ret (Inl e)
     | Inr i \<Rightarrow> do {
         ps \<leftarrow> runsc_Ps env (i_runtime i) (ct_ID c);
         ret (case ps of Inl e \<Rightarrow> Inl e | Inr pids \<Rightarrow> Inr (map uint32 pids))
       }
   }"

text \<open>One process info per pid: the first exec'd process with that pid gives the details.\<close>

fun process_infos ::
    "('x, 's, 'z) svc_env_scheme \<Rightarrow> 's container \<Rightarrow> u32 list \<Rightarrow>
     ('x world, process_info list result) state" where
  "process_infos env c [] = ret (Inr [])"
| "process_infos env c (pid # pids) = do {
     execs \<leftarrow> container_ExecdProcesses c;
     case find (\<lambda>e. ep_Pid env e = uint pid) execs of
       None \<Rightarrow> do {
         rest \<leftarrow> process_infos env c pids;
         ret (case rest of Inl e \<Rightarrow> Inl e | Inr is \<Rightarrow> Inr (\<lparr>pi_Pid = pid, pi_Info = None\<rparr> # is))
       }
     | Some e \<Rightarrow>
         (case marshal_details env (xp_id e) of
            Inl er \<Rightarrow>
              ret (Inl (Wrapf (''failed to marshal process '' @ itoa (uint pid) @ '' info: '') er []))
          | Inr a \<Rightarrow> do {
              rest \<leftarrow> process_infos env c pids;
              ret (case rest of Inl e \<Rightarrow> Inl e | Inr is \<Rightarrow> Inr (\<lparr>pi_Pid = pid, pi_Info = Some a\<rparr> # is))
            })
   }"

definition service_Pids ::
    "('x, 's, 'z) svc_env_scheme \<Rightarrow> 's service \<Rightarrow> string \<Rightarrow>
     ('x world, process_info list result) state" where
  "service_Pids env s cid = do {
     gc \<leftarrow> getContainer s cid;
     case gc of
       Inl e \<Rightarrow> ret (Inl e)
     | Inr c \<Rightarrow> do {
         ps \<leftarrow> getContainerPids env c;
         case ps of Inl e \<Rightarrow> ret (Inl (ToGRPC e)) | Inr pids \<Rightarrow> process_infos env c pids
       }
   }"

definition service_CloseIO ::
    "('x, 's, 'z) svc_env_scheme \<Rightarrow> 's service \<Rightarrow> close_io_request \<Rightarrow> ('x world, gerror option) state" where
  "service_CloseIO env s r = on_container s (ir_ID r) (\<lambda>c. container_CloseIO env c r)"

text \<open>\<^const>\<open>None\<close> is the nil pointer dereference of \<open>c.Pid()\<close> on a container without a task.\<close>

definition service_Connect ::
    "('x, 's, 'z) svc_env_scheme \<Rightarrow> 's service \<Rightarrow> string \<Rightarrow> ('x world, connect_response option) state" where
  "service_Connect env s cid = do {
     gc \<leftarrow> getContainer s cid;
     pid \<leftarrow> (case gc of Inl e \<Rightarrow> ret (Some 0) | Inr c \<Rightarrow> container_Pid c);
     ret (map_option (\<lambda>n. \<lparr>cn_ShimPid = uint32 (shim_pid env), cn_TaskPid = uint32 n\<rparr>) pid)
   }"

definition service_Shutdown :: "'s service \<Rightarrow> ('x world, gerror option) state" where
  "service_Shutdown s = with_lock MuService
     (ret (if length (sv_containers s) > 0 then
             Some (Msg (''shim still servicing '' @ itoa (int (length (sv_containers s))) @ '' containers''))
           else None))"

definition service_Stats ::
    "('x, 's, 'z) svc_env_scheme \<Rightarrow> 's service \<Rightarrow> string \<Rightarrow> ('x world, string result) state" where
  "service_Stats env s cid = do {
     gc \<leftarrow> getContainer s cid;
     case gc of Inl e \<Rightarrow> ret (Inl e) | Inr c \<Rightarrow> container_Stats env c
   }"

definition service_Update ::
    "('x, 's, 'z) svc_env_scheme \<Rightarrow> 's service \<Rightarrow> update_request \<Rightarrow> ('x world, gerror option) state" where
  "service_Update env s r = on_container s (ur_ID r) (\<lambda>c. container_Update env c r)"

text \<open>\<open>Wait\<close>: \<^const>\<open>None\<close> while the process has not exited, and the caller is blocked.\<close>

definition service_Wait ::
    "('x, 's, 'z) svc_env_scheme \<Rightarrow> 's service \<Rightarrow> string \<Rightarrow> string \<Rightarrow>
     ('x world, wait_response result option) state" where
  "service_Wait env s cid xid = do {
     gc \<leftarrow> getContainer s cid;
     case gc of
       Inl e \<Rightarrow> ret (Some (Inl e))
     | Inr c \<Rightarrow> do {
         rp \<leftarrow> container_Process c xid;
         case rp of
           Inl e \<Rightarrow> ret (Some (Inl (ToGRPC e)))
         | Inr p \<Rightarrow>
             if process_Wait_returns env p then do {
               status \<leftarrow> process_ExitStatus env p;
               exited \<leftarrow> process_ExitedAt env p;
               ret (Some (Inr \<lparr>wt_ExitStatus = uint32 status, wt_ExitedAt = ToTimestamp exited\<rparr>))
             } else ret None
       }
   }"

section \<open>Exits\<close>

text \<open>The processes of a container with the IDs they are kept under, in the order of \<open>All\<close>.\<close>

definition ct_keyed :: "'s container \<Rightarrow> (string \<times> 's process) list" where
  "ct_keyed c =
     map (\<lambda>(k, e). (k, PExec e)) (ct_processes c) @
     (case ct_task c of None \<Rightarrow> [] | Some i \<Rightarrow> [([], PInit i)])"

text \<open>The first process with the ID of the exit, and its container.\<close>

fun find_exiting ::
    "(string \<times> 's container) list \<Rightarrow> string \<Rightarrow>
     ('x world, (string \<times> string \<times> 's process) option) state" where
  "find_exiting [] eid = ret None"
| "find_exiting ((cid, c) # cs) eid = do {
     all \<leftarrow> with_lock (ct_mu c) (ret (ct_keyed c));
     case find (\<lambda>(k, p). process_ID p = eid) all of
       Some (k, p) \<Rightarrow> ret (Some (cid, k, p))
     | None \<Rightarrow> find_exiting cs eid
   }"

definition is_init :: "'s process \<Rightarrow> bool" where
  "is_init p = (case p of PInit i \<Rightarrow> True | PExec e \<Rightarrow> False)"

text \<open>\<open>checkProcesses\<close>; \<^const>\<open>None\<close> is a panic of \<open>SetExited\<close>.\<close>

definition checkProcesses ::
    "('x, 's, 'z) svc_env_scheme \<Rightarrow> 's service \<Rightarrow> proc_exit \<Rightarrow> ('x world, 's service option) state" where
  "checkProcesses env s e = do {
     found \<leftarrow> with_lock MuService (find_exiting (sv_containers s) (ex_ID e));
     case found of
       None \<Rightarrow> ret (Some s)
     | Some (cid, k, p) \<Rightarrow> do {
         (case p of PInit ip \<Rightarrow> init_KillAll env ip | PExec x \<Rightarrow> ret ());
         r \<leftarrow> process_SetExited env p (ex_Status e);
         case r of
           None \<Rightarrow> ret None
         | Some p' \<Rightarrow> do {
             oom \<leftarrow> (if is_init p then ext_call (is_oom env cid) else ret False);
             (if oom then send (TaskOOM cid) else ret ());
             exited \<leftarrow> process_ExitedAt env p';
             send (TaskExit cid (process_ID p') (uint32 (process_Pid env p'))
                     (uint32 (ex_Status e)) (ToTimestamp exited));
             ret (Some (case gm_get (sv_containers s) cid of
                          None \<Rightarrow> s | Some c \<Rightarrow> sv_put cid (ct_store k p' c) s))
           }
       }
   }"

text \<open>\<open>processExits\<close> on the exits received so far.\<close>

definition processExits ::
    "('x, 's, 'z) svc_env_scheme \<Rightarrow> 's service \<Rightarrow> proc_exit list \<Rightarrow> ('x world, 's service option) state" where
  "processExits env s es = fold_opt (checkProcesses env) s es"

definition allProcessesForAllContainers :: "'s service \<Rightarrow> ('x world, 's process list) state" where
  "allProcessesForAllContainers s = with_lock MuService
     (fold (\<lambda>(cid, c) acc. do { o1 \<leftarrow> acc; ps \<leftarrow> container_All c; ret (o1 @ ps) })
        (sv_containers s) (ret []))"

section \<open>Events\<close>

definition getTopic :: "event \<Rightarrow> topic" where
  "getTopic e =
     (case e of
        TaskCreate \<Rightarrow> TaskCreateEventTopic
      | TaskStart \<Rightarrow> TaskStartEventTopic
      | TaskOOM cid \<Rightarrow> TaskOOMEventTopic
      | TaskExit cid pid n st t \<Rightarrow> TaskExitEventTopic
      | TaskDelete \<Rightarrow> TaskDeleteEventTopic
      | TaskExecAdded cid xid \<Rightarrow> TaskExecAddedEventTopic
      | TaskExecStarted \<Rightarrow> TaskExecStartedEventTopic
      | TaskPaused cid \<Rightarrow> TaskPausedEventTopic
      | TaskResumed cid \<Rightarrow> TaskResumedEventTopic
      | OtherEvent \<Rightarrow> TaskUnknownTopic)"

text \<open>\<open>forward\<close> on the events received so far; \<^const>\<open>None\<close> is its panic when publishing fails.\<close>

fun forward_events ::
    "('x, 's, 'z) svc_env_scheme \<Rightarrow> event list \<Rightarrow> ('x world, unit option) state" where
  "forward_events env [] = ret (Some ())"
| "forward_events env (e # es) = do {
     err \<leftarrow> ext_call (publish env (getTopic e) e);
     case err of Some er \<Rightarrow> ret None | None \<Rightarrow> forward_events env es
   }"

section \<open>A concrete environment\<close>

text \<open>The clock world, a poller that accepts every container and sees no OOM, a publisher that works.\<close>

definition sample_svc_env ::
    "int \<Rightarrow> string \<Rightarrow> nat \<Rightarrow> string \<Rightarrow> oci_spec \<Rightarrow> string list \<Rightarrow> (nat, unit) svc_env" where
  "sample_svc_env st out tick status sp mountable =
     ctr_env.extend (sample_ctr_env st out tick status sp mountable)
       (svc_env.fields True (\<lambda>p x. (Inr ''/cg'', x)) (\<lambda>p x. (Inr 3, x)) (\<lambda>p x. (Inr 3, x))
          (\<lambda>u x. (None, x)) (\<lambda>i g x. (None, x)) (\<lambda>i x. (True, x)) (\<lambda>x. (Inr True, x)) (\<lambda>x. ((), x))
          99 (\<lambda>i. Inr i) (\<lambda>t e x. (None, x)))"

lemmas sample_env_defs =
  sample_svc_env_def sample_ctr_env_def sample_state_env_def sample_init_env_def sample_proc_env_def
  sample_cmd_env_def cmd_env.defs proc_env.defs init_env.defs state_env.defs ctr_env.defs svc_env.defs

definition pod_spec :: "string \<Rightarrow> oci_spec" where
  "pod_spec img = \<lparr>sp_Annotations = Some [(restoreImagePathAnnotation, img)], sp_Linux = None, sp_rest = []\<rparr>"

definition sample_service :: "unit service" where
  "sample_service = \<lparr>sv_containers =
      [(''pause'', sample_container\<lparr>ct_ID := ''pause'', ct_task := Some (sample_init\<lparr>i_id := ''pause'', i_Sandbox := True\<rparr>)\<rparr>),
       (''app'', sample_container\<lparr>ct_ID := ''app'', ct_task := Some (sample_init\<lparr>i_id := ''app''\<rparr>)\<rparr>)],
     sv_root = ''/run/runsc'', sv_runtime = sample_runsc, sv_platform = True\<rparr>"

end
