(* ===== verification/Exits.thy ===== *)
theory Exits
  imports Service
begin

text \<open>
  Exits: from the report of a process's end to the events that are published, the status that is
  recorded and the callers of \<open>Wait\<close> that are released.
\<close>

section \<open>The registry's invariant\<close>

text \<open>
  A registered container has the ID it is registered under, a task with that ID whose wait channel is
  closed exactly when it has exited, and exec'd processes kept under their own, non-empty, IDs.
\<close>

definition container_ok :: "string \<Rightarrow> 's container \<Rightarrow> bool" where
  "container_ok cid c \<longleftrightarrow>
     ct_ID c = cid \<and> gm_wf (ct_processes c) \<and>
     (case ct_task c of None \<Rightarrow> False | Some i \<Rightarrow> i_id i = cid \<and> wait_wf i) \<and>
     list_all (\<lambda>(k, e). xp_id e = k \<and> k \<noteq> []) (ct_processes c)"

definition registry_ok :: "'s service \<Rightarrow> bool" where
  "registry_ok s \<longleftrightarrow>
     gm_wf (sv_containers s) \<and> list_all (\<lambda>(cid, c). container_ok cid c) (sv_containers s)"

lemma registry_ok_get: "registry_ok s \<Longrightarrow> gm_get (sv_containers s) cid = Some c \<Longrightarrow> container_ok cid c"
  by (auto simp: registry_ok_def list_all_iff dest: map_of_SomeD)

lemma list_all_gm_put:
  assumes "list_all (\<lambda>(k, v). P k v) m" "P k v"
  shows "list_all (\<lambda>(k, v). P k v) (gm_put k v m)"
  using assms by (induction m) auto

lemma list_all_gm_del: "list_all P m \<Longrightarrow> list_all P (gm_del k m)"
  by (induction m) (auto simp: AList.delete_eq list_all_iff)

lemma registry_ok_put: "registry_ok s \<Longrightarrow> container_ok cid c \<Longrightarrow> registry_ok (sv_put cid c s)"
  by (simp add: registry_ok_def sv_put_def gm.wf_put list_all_gm_put)

lemma container_ok_task:
  assumes "container_ok cid c" obtains i where "ct_task c = Some i" "i_id i = cid" "wait_wf i"
  using assms by (auto simp: container_ok_def split: option.splits)

lemma keyed_view:
  assumes "container_ok cid c"
  shows "(k, p) \<in> set (ct_keyed c) \<longleftrightarrow> ct_view c k = Some p"
proof -
  have wf: "gm_wf (ct_processes c)" and k: "([], e) \<notin> set (ct_processes c)" for e
    using assms by (auto simp: container_ok_def list_all_iff)
  have "gm_get (ct_processes c) k = Some e \<longleftrightarrow> (k, e) \<in> set (ct_processes c)" for e
    using gm.entries_get [OF wf] by simp
  then show ?thesis using k
    by (cases p; cases "ct_task c") (auto simp: ct_keyed_def ct_view_eq)
qed

section \<open>Finding the process that exited\<close>

fun find_exit :: "(string \<times> 's container) list \<Rightarrow> string \<Rightarrow> (string \<times> string \<times> 's process) option" where
  "find_exit [] eid = None"
| "find_exit ((cid, c) # cs) eid =
     (case find (\<lambda>(k, p). process_ID p = eid) (ct_keyed c) of
        Some (k, p) \<Rightarrow> Some (cid, k, p) | None \<Rightarrow> find_exit cs eid)"

definition is_lock :: "action \<Rightarrow> bool" where
  "is_lock a = (case a of ActLock m \<Rightarrow> True | ActUnlock m \<Rightarrow> True | _ \<Rightarrow> False)"

lemma is_lock_simps [simp]: "is_lock (ActLock m)" "is_lock (ActUnlock m)" "\<not> is_lock (ActSend e)"
  "\<not> is_lock (ActStart c)"
  by (simp_all add: is_lock_def)

lemma run_find_exiting:
  "\<exists>as. run_state (find_exiting cs eid) w = (find_exit cs eid, \<lparr>ext = ext w, trace = trace w @ as\<rparr>) \<and>
    list_all is_lock as"
proof (induction cs arbitrary: w)
  case Nil
  show ?case by (intro exI [of _ "[]"]) simp
next
  case (Cons e cs)
  obtain cid c where e: "e = (cid, c)" by fastforce
  let ?ls = "[ActLock (ct_mu c), ActUnlock (ct_mu c)]"
  from Cons [of "\<lparr>ext = ext w, trace = trace w @ ?ls\<rparr>"] obtain as where
    "run_state (find_exiting cs eid) \<lparr>ext = ext w, trace = trace w @ ?ls\<rparr> =
      (find_exit cs eid, \<lparr>ext = ext w, trace = trace w @ ?ls @ as\<rparr>)" "list_all is_lock as" by auto
  then show ?case unfolding e
    by (cases "find (\<lambda>(k, p). process_ID p = eid) (ct_keyed c)")
      (auto intro: exI [of _ "?ls @ as"] exI [of _ ?ls])
qed

text \<open>Somewhere in the service, under this container and key, there is this process.\<close>

definition holds :: "'s service \<Rightarrow> string \<Rightarrow> string \<Rightarrow> 's process \<Rightarrow> bool" where
  "holds s cid k p \<longleftrightarrow>
     (case gm_get (sv_containers s) cid of None \<Rightarrow> False | Some c \<Rightarrow> ct_view c k = Some p)"

lemma find_exit_sound:
  assumes "find_exit cs eid = Some (cid, k, p)"
  shows "\<exists>c. (cid, c) \<in> set cs \<and> (k, p) \<in> set (ct_keyed c) \<and> process_ID p = eid"
  using assms
proof (induction cs)
  case (Cons e cs)
  obtain cid0 c where e: "e = (cid0, c)" by fastforce
  show ?case
  proof (cases "find (\<lambda>(k, p). process_ID p = eid) (ct_keyed c)")
    case None
    with Cons e show ?thesis by auto
  next
    case (Some kp)
    then have "kp \<in> set (ct_keyed c)" "(\<lambda>(k, p). process_ID p = eid) kp"
      by (auto simp: find_Some_iff intro: nth_mem)
    with Cons.prems Some e show ?thesis by (cases kp) auto
  qed
qed simp

lemma find_exit_None:
  assumes "find_exit cs eid = None" "(cid, c) \<in> set cs" "(k, p) \<in> set (ct_keyed c)"
  shows "process_ID p \<noteq> eid"
  using assms
proof (induction cs)
  case (Cons e cs)
  obtain cid0 c0 where e: "e = (cid0, c0)" by fastforce
  have n: "find (\<lambda>(k, p). process_ID p = eid) (ct_keyed c0) = None" "find_exit cs eid = None"
    using Cons.prems(1) e by (auto split: option.splits)
  from n(1) have "\<forall>x \<in> set (ct_keyed c0). \<not> (\<lambda>(k, p). process_ID p = eid) x"
    by (auto simp: find_None_iff)
  with Cons n(2) e show ?case by auto
qed simp

lemma find_exit_holds:
  assumes "registry_ok s"
  shows "find_exit (sv_containers s) eid = Some (cid, k, p) \<Longrightarrow> holds s cid k p \<and> process_ID p = eid"
    and "find_exit (sv_containers s) eid = None \<Longrightarrow> holds s cid' k' p' \<Longrightarrow> process_ID p' \<noteq> eid"
proof -
  have get: "(cid, c) \<in> set (sv_containers s) \<longleftrightarrow> gm_get (sv_containers s) cid = Some c" for cid c
    using assms by (simp add: registry_ok_def gm.entries_get)
  have kv: "(k, p) \<in> set (ct_keyed c) \<longleftrightarrow> ct_view c k = Some p"
    if "gm_get (sv_containers s) cid = Some c" for cid c k p
    using keyed_view [OF registry_ok_get [OF assms that]] .
  show "holds s cid k p \<and> process_ID p = eid" if "find_exit (sv_containers s) eid = Some (cid, k, p)"
    using find_exit_sound [OF that] by (auto simp: get holds_def kv)
  show "process_ID p' \<noteq> eid" if "find_exit (sv_containers s) eid = None" "holds s cid' k' p'"
    using find_exit_None [OF that(1), of cid' _ k' p'] that(2)
    by (auto simp: get holds_def kv split: option.splits)
qed

text \<open>No two processes of the service have this ID.\<close>

definition unique_exit :: "'s service \<Rightarrow> string \<Rightarrow> bool" where
  "unique_exit s eid \<longleftrightarrow>
     (\<forall>cid k p cid' k' p'. holds s cid k p \<longrightarrow> holds s cid' k' p' \<longrightarrow>
        process_ID p = eid \<longrightarrow> process_ID p' = eid \<longrightarrow> cid = cid' \<and> k = k')"

lemma find_exit_unique:
  assumes "registry_ok s" "unique_exit s (process_ID p)" "holds s cid k p"
  shows "find_exit (sv_containers s) (process_ID p) = Some (cid, k, p)"
proof (cases "find_exit (sv_containers s) (process_ID p)")
  case None
  with find_exit_holds(2) [OF assms(1) None assms(3)] show ?thesis by simp
next
  case (Some f)
  obtain cid' k' p' where f: "f = (cid', k', p')" by (metis prod_cases3)
  with find_exit_holds(1) [OF assms(1)] Some have h: "holds s cid' k' p'" "process_ID p' = process_ID p" by auto
  with assms(2,3) have "cid' = cid" "k' = k" unfolding unique_exit_def by blast+
  with h(1) assms(3) have "p' = p" by (simp add: holds_def split: option.splits)
  with Some f \<open>cid' = cid\<close> \<open>k' = k\<close> show ?thesis by simp
qed


section \<open>The events of a trace\<close>

definition events :: "action list \<Rightarrow> event list" where
  "events as = [e. ActSend e \<leftarrow> as]"

definition silent :: "action \<Rightarrow> bool" where
  "silent a = (case a of ActSend e \<Rightarrow> False | _ \<Rightarrow> True)"

lemma events_simps [simp]:
  "events [] = []" "events (as @ bs) = events as @ events bs" "events (ActSend e # as) = e # events as"
  by (simp_all add: events_def)

lemma events_silent: "list_all silent as \<Longrightarrow> events as = []"
  by (induction as) (auto simp: events_def silent_def split: action.splits)

lemma events_Cons_silent [simp]: "silent a \<Longrightarrow> events (a # as) = events as"
  by (cases a) (simp_all add: events_def silent_def)

lemma silent_simps [simp]:
  "silent (ActLock m)" "silent (ActUnlock m)" "silent ActShutdownConsole" "silent (ActCloseWaitBlock cid)"
  "silent (ActStart c)" "silent (ActWait c)" "\<not> silent (ActSend e)" "silent (ActGoWait cid)"
  by (simp_all add: silent_def)

lemma is_lock_silent: "list_all is_lock as \<Longrightarrow> events as = [] \<and> started as = []"
  by (induction as) (auto simp: events_def is_lock_def started_def split: action.splits)

lemma is_run_silent: "list_all is_run as \<Longrightarrow> events as = []"
  by (rule events_silent) (auto simp: list_all_iff is_run_def)

section \<open>Recording an exit\<close>

text \<open>
  A state of the init process that forwards \<open>SetExited\<close> to \<open>setExited\<close> (\<open>proc/init_state.go\<close>): the
  process gets the exit status as \<open>setExited\<close> gives it, and a new state.
\<close>

definition exit_forwards :: "('x, 's, 'z) state_env_scheme \<Rightarrow> 's init \<Rightarrow> bool" where
  "exit_forwards env i \<longleftrightarrow>
     (\<forall>status w. \<exists>st. run_state (st_SetExited env i status) w =
        (map_option (\<lambda>q. q\<lparr>i_initState := st\<rparr>) (fst (run_state (init_setExited env i status) w)),
         snd (run_state (init_setExited env i status) w)))"

text \<open>An exec'd process that takes its exit without panic, events of its own or a change of ID.\<close>

definition exec_exit_ok :: "('x, 's, 'z) ctr_env_scheme \<Rightarrow> 's exec_process \<Rightarrow> bool" where
  "exec_exit_ok env x \<longleftrightarrow>
     (\<forall>status w. \<exists>x' v as. run_state (ep_SetExited env x status) w = (Some x', v) \<and>
        xp_id x' = xp_id x \<and> trace v = trace w @ as \<and> list_all silent as)"

definition exited_as :: "int \<Rightarrow> time \<Rightarrow> 's init \<Rightarrow> 's init" where
  "exited_as status t i =
     (if i_exited i = None then i\<lparr>i_exited := Some t, i_status := status, i_waitClosed := True\<rparr> else i)"

lemma exited_as_simps [simp]:
  "i_id (exited_as status t i) = i_id i" "i_pid (exited_as status t i) = i_pid i"
  "wait_wf i \<Longrightarrow> i_waitClosed (exited_as status t i)"
  "wait_wf i \<Longrightarrow> wait_wf (exited_as status t i)"
  "i_exited (exited_as status t i) \<noteq> None"
  by (auto simp: exited_as_def wait_wf_def)

lemma run_SetExited_init:
  assumes "wait_wf i" "exit_forwards env i"
  shows "\<exists>t st v as. run_state (process_SetExited env (PInit i) status) w =
      (Some (PInit ((exited_as status t i)\<lparr>i_initState := st\<rparr>)), v) \<and>
    trace v = trace w @ as \<and> events as = [] \<and> started as = []"
proof -
  let ?w1 = "\<lparr>ext = ext w, trace = trace w @ [ActLock (init_mu i)]\<rparr>"
  have "\<exists>t v as. run_state (init_setExited env i status) ?w1 = (Some (exited_as status t i), v) \<and>
      trace v = trace ?w1 @ as \<and> list_all silent as \<and> started as = []"
  proof (cases "i_exited i")
    case None
    from run_setExited_new [OF assms(1) None, of env status ?w1] obtain t x where
      "run_state (init_setExited env i status) ?w1 =
        (Some (i\<lparr>i_exited := Some t, i_status := status, i_waitClosed := True\<rparr>),
         \<lparr>ext = x, trace = trace ?w1 @ [ActShutdownConsole, ActCloseWaitBlock (i_id i)]\<rparr>)" by blast
    with None show ?thesis
      by (intro exI [of _ t] exI [of _ "\<lparr>ext = x, trace = trace ?w1 @
          [ActShutdownConsole, ActCloseWaitBlock (i_id i)]\<rparr>"]
        exI [of _ "[ActShutdownConsole, ActCloseWaitBlock (i_id i)]"])
        (simp add: exited_as_def started_def)
  next
    case (Some t)
    then have "exit_status_of i \<noteq> None" by (simp add: exit_status_of_def)
    from exl.set_held [OF assms(1) this, of env status ?w1] Some show ?thesis
      by (intro exI [of _ t] exI [of _ ?w1] exI [of _ "[]"]) (simp add: exited_as_def)
  qed
  then obtain t v as where 1: "run_state (init_setExited env i status) ?w1 = (Some (exited_as status t i), v)"
    "trace v = trace ?w1 @ as" "list_all silent as" "started as = []" by blast
  from assms(2) [unfolded exit_forwards_def, rule_format, of status ?w1] 1(1) obtain st where
    "run_state (st_SetExited env i status) ?w1 = (Some ((exited_as status t i)\<lparr>i_initState := st\<rparr>), v)"
    by auto
  then have "run_state (process_SetExited env (PInit i) status) w =
      (Some (PInit ((exited_as status t i)\<lparr>i_initState := st\<rparr>)),
       \<lparr>ext = ext v, trace = trace v @ [ActUnlock (init_mu i)]\<rparr>)"
    by (simp add: process_SetExited_def init_SetExited_def with_lock_def)
  moreover have "events (ActLock (init_mu i) # as @ [ActUnlock (init_mu i)]) = []"
    using events_silent [OF 1(3)] by simp
  ultimately show ?thesis using 1(2,4)
    by (intro exI [of _ t] exI [of _ st] exI [of _ "\<lparr>ext = ext v, trace = trace v @ [ActUnlock (init_mu i)]\<rparr>"]
      exI [of _ "ActLock (init_mu i) # as @ [ActUnlock (init_mu i)]"]) simp
qed

lemma run_init_KillAll:
  "\<exists>u v as. run_state (init_KillAll env i) w = (u, v) \<and> trace v = trace w @ as \<and> events as = [] \<and>
    started as = [kill_all_command env i]"
proof -
  let ?w1 = "\<lparr>ext = ext w, trace = trace w @ [ActLock (init_mu i)]\<rparr>"
  obtain u w2 where k: "run_state (killAllLocked env i) ?w1 = (u, w2)" by (metis surj_pair)
  from runs_killAllLocked [OF k] obtain as where
    "trace w2 = trace ?w1 @ as" "list_all is_run as" "started as = [kill_all_command env i]"
    unfolding runs_only_def by blast
  with k show ?thesis
    by (intro exI [of _ u] exI [of _ "\<lparr>ext = ext w2, trace = trace w2 @ [ActUnlock (init_mu i)]\<rparr>"]
      exI [of _ "ActLock (init_mu i) # as @ [ActUnlock (init_mu i)]"])
      (simp add: init_KillAll_def with_lock_def is_run_silent)
qed


section \<open>Dispatching an exit\<close>

lemma run_find_locked:
  "\<exists>as. run_state (with_lock MuService (find_exiting cs eid)) w =
      (find_exit cs eid, \<lparr>ext = ext w, trace = trace w @ as\<rparr>) \<and> events as = [] \<and> started as = []"
proof -
  from run_find_exiting [of cs eid "\<lparr>ext = ext w, trace = trace w @ [ActLock MuService]\<rparr>"]
  obtain as where "run_state (find_exiting cs eid) \<lparr>ext = ext w, trace = trace w @ [ActLock MuService]\<rparr> =
      (find_exit cs eid, \<lparr>ext = ext w, trace = trace w @ ActLock MuService # as\<rparr>)" "list_all is_lock as"
    by auto
  then show ?thesis
    by (intro exI [of _ "ActLock MuService # as @ [ActUnlock MuService]"])
      (simp add: with_lock_def is_lock_silent)
qed

lemma checkProcesses_unknown:
  assumes "find_exit (sv_containers s) (ex_ID e) = None"
  shows "\<exists>as. run_state (checkProcesses env s e) w = (Some s, \<lparr>ext = ext w, trace = trace w @ as\<rparr>) \<and>
    events as = [] \<and> started as = []"
  using run_find_locked [of "sv_containers s" "ex_ID e" w] assms by (auto simp: checkProcesses_def)

text \<open>The exit of a task: its container after it, and the world in between.\<close>

lemma run_checkProcesses_init:
  assumes found: "find_exit (sv_containers s) (ex_ID e) = Some (cid, [], PInit i)"
    and c: "gm_get (sv_containers s) cid = Some c" "ct_task c = Some i" "wait_wf i" "exit_forwards env i"
  shows "\<exists>t st v as x.
    run_state (checkProcesses env s e) w =
      (Some (sv_put cid (c\<lparr>ct_task := Some ((exited_as (ex_Status e) t i)\<lparr>i_initState := st\<rparr>)\<rparr>) s), v) \<and>
    trace v = trace w @ as \<and> started as = [kill_all_command env i] \<and>
    events as = (if fst (is_oom env cid x) then [TaskOOM cid] else []) @
      [TaskExit cid (i_id i) (uint32 (i_pid i)) (uint32 (ex_Status e))
         (ToTimestamp (i_exited (exited_as (ex_Status e) t i)))]"
proof -
  from run_find_locked [of "sv_containers s" "ex_ID e" w] found obtain as1 where
    1: "run_state (with_lock MuService (find_exiting (sv_containers s) (ex_ID e))) w =
      (Some (cid, [], PInit i), \<lparr>ext = ext w, trace = trace w @ as1\<rparr>)" "events as1 = []" "started as1 = []"
    by auto
  obtain u w2 as2 where
    2: "run_state (init_KillAll env i) \<lparr>ext = ext w, trace = trace w @ as1\<rparr> = (u, w2)"
    "trace w2 = trace w @ as1 @ as2" "events as2 = []" "started as2 = [kill_all_command env i]"
    using run_init_KillAll [of env i "\<lparr>ext = ext w, trace = trace w @ as1\<rparr>"] by auto
  obtain t st w3 as3 where
    3: "run_state (process_SetExited env (PInit i) (ex_Status e)) w2 =
      (Some (PInit ((exited_as (ex_Status e) t i)\<lparr>i_initState := st\<rparr>)), w3)"
    "trace w3 = trace w2 @ as3" "events as3 = []" "started as3 = []"
    using run_SetExited_init [OF c(3,4), of "ex_Status e" w2] by blast
  obtain oom x where o: "is_oom env cid (ext w3) = (oom, x)" by fastforce
  let ?i' = "(exited_as (ex_Status e) t i)\<lparr>i_initState := st\<rparr>"
  let ?ev = "(if oom then [TaskOOM cid] else []) @ [TaskExit cid (i_id i) (uint32 (i_pid i))
     (uint32 (ex_Status e)) (ToTimestamp (i_exited (exited_as (ex_Status e) t i)))]"
  let ?tail = "(if oom then [ActSend (TaskOOM cid)] else []) @ [ActLock (init_mu ?i'), ActUnlock (init_mu ?i'),
     ActSend (TaskExit cid (i_id i) (uint32 (i_pid i))
     (uint32 (ex_Status e)) (ToTimestamp (i_exited (exited_as (ex_Status e) t i))))]"
  have "run_state (checkProcesses env s e) w =
      (Some (sv_put cid (c\<lparr>ct_task := Some ?i'\<rparr>) s), \<lparr>ext = x, trace = trace w3 @ ?tail\<rparr>)"
    using 1(1) 2(1) 3(1) o c(1)
    by (cases oom) (simp_all add: checkProcesses_def is_init_def run_ext_call send_def process_ExitedAt_def
        init_ExitedAt_def process_ID_def process_Pid_def ct_store_def)
  moreover have "events (as1 @ as2 @ as3 @ ?tail) = ?ev" using 1(2) 2(3) 3(3) by simp
  moreover have "started (as1 @ as2 @ as3 @ ?tail) = [kill_all_command env i]"
  proof -
    have "started ?tail = []" by (simp add: started_def)
    with 1(3) 2(4) 3(4) show ?thesis by simp
  qed
  ultimately show ?thesis using 2(2) 3(2) o
    by (intro exI [of _ t] exI [of _ st] exI [of _ "\<lparr>ext = x, trace = trace w3 @ ?tail\<rparr>"]
      exI [of _ "as1 @ as2 @ as3 @ ?tail"] exI [of _ "ext w3"]) simp
qed

lemma run_checkProcesses_exec:
  assumes found: "find_exit (sv_containers s) (ex_ID e) = Some (cid, k, PExec x)"
    and c: "gm_get (sv_containers s) cid = Some c" "exec_exit_ok env x"
  shows "\<exists>x' v as. run_state (checkProcesses env s e) w =
      (Some (sv_put cid (c\<lparr>ct_processes := gm_put k x' (ct_processes c)\<rparr>) s), v) \<and>
    xp_id x' = xp_id x \<and> trace v = trace w @ as \<and>
    events as = [TaskExit cid (xp_id x) (uint32 (ep_Pid env x')) (uint32 (ex_Status e))
                   (ToTimestamp (ep_ExitedAt env x'))]"
proof -
  from run_find_locked [of "sv_containers s" "ex_ID e" w] found obtain as1 where
    1: "run_state (with_lock MuService (find_exiting (sv_containers s) (ex_ID e))) w =
      (Some (cid, k, PExec x), \<lparr>ext = ext w, trace = trace w @ as1\<rparr>)" "events as1 = []"
    by auto
  from c(2) [unfolded exec_exit_ok_def, rule_format, of "ex_Status e" "\<lparr>ext = ext w, trace = trace w @ as1\<rparr>"]
  obtain x' v as2 where
    2: "run_state (ep_SetExited env x (ex_Status e)) \<lparr>ext = ext w, trace = trace w @ as1\<rparr> = (Some x', v)"
    "xp_id x' = xp_id x" "trace v = trace w @ as1 @ as2" "list_all silent as2" by auto
  let ?ev = "TaskExit cid (xp_id x) (uint32 (ep_Pid env x')) (uint32 (ex_Status e)) (ToTimestamp (ep_ExitedAt env x'))"
  have "run_state (checkProcesses env s e) w =
      (Some (sv_put cid (c\<lparr>ct_processes := gm_put k x' (ct_processes c)\<rparr>) s),
       \<lparr>ext = ext v, trace = trace v @ [ActSend ?ev]\<rparr>)"
    using 1(1) 2(1,2) c(1) by (simp add: checkProcesses_def is_init_def send_def process_SetExited_def
        process_ExitedAt_def process_ID_def process_Pid_def ct_store_def)
  with 1(2) 2 show ?thesis
    by (intro exI [of _ x'] exI [of _ "\<lparr>ext = ext v, trace = trace v @ [ActSend ?ev]\<rparr>"]
      exI [of _ "as1 @ as2 @ [ActSend ?ev]"]) (simp add: events_silent)
qed


section \<open>Repeated reports\<close>

lemma holds_put_task:
  assumes "gm_get (sv_containers s) cid = Some c" "ct_task c = Some i" "i_id j = i_id i"
    and "holds (sv_put cid (c\<lparr>ct_task := Some j\<rparr>) s) a k p"
  shows "\<exists>p0. holds s a k p0 \<and> process_ID p0 = process_ID p"
  using assms
  by (auto simp: holds_def sv_put_def gm.get_put ct_view_eq process_ID_def split: if_splits option.splits)

lemma unique_exit_put_task:
  assumes "gm_get (sv_containers s) cid = Some c" "ct_task c = Some i" "i_id j = i_id i"
    and "unique_exit s eid"
  shows "unique_exit (sv_put cid (c\<lparr>ct_task := Some j\<rparr>) s) eid"
  unfolding unique_exit_def
proof (intro allI impI)
  fix a k p a' k' p'
  assume "holds (sv_put cid (c\<lparr>ct_task := Some j\<rparr>) s) a k p" "holds (sv_put cid (c\<lparr>ct_task := Some j\<rparr>) s) a' k' p'"
    and id: "process_ID p = eid" "process_ID p' = eid"
  then obtain p0 p0' where "holds s a k p0" "process_ID p0 = process_ID p"
    "holds s a' k' p0'" "process_ID p0' = process_ID p'"
    using holds_put_task [OF assms(1-3)] by metis
  with id assms(4) show "a = a' \<and> k = k'" unfolding unique_exit_def by metis
qed

text \<open>The task of \<open>cid\<close> has exited with this status, at this time.\<close>

definition exited_task :: "'s service \<Rightarrow> string \<Rightarrow> int \<Rightarrow> time \<Rightarrow> bool" where
  "exited_task s cid status t \<longleftrightarrow> registry_ok s \<and> unique_exit s cid \<and>
     (\<exists>c i. gm_get (sv_containers s) cid = Some c \<and> ct_task c = Some i \<and>
        i_exited i = Some t \<and> i_status i = status)"

lemma task_unique_exit:
  assumes "registry_ok s" "unique_exit s cid" "gm_get (sv_containers s) cid = Some c" "ct_task c = Some i"
  shows "find_exit (sv_containers s) cid = Some (cid, [], PInit i)"
proof -
  have "i_id i = cid" using registry_ok_get [OF assms(1,3)] assms(4) by (simp add: container_ok_def)
  moreover have "holds s cid [] (PInit i)" using assms(3,4) by (simp add: holds_def ct_view_eq)
  ultimately show ?thesis
    using find_exit_unique [OF assms(1), of "PInit i" cid "[]"] assms(2) by (simp add: process_ID_def)
qed

lemma check_task_exit:
  assumes "registry_ok s" "unique_exit s (ex_ID e)" "gm_get (sv_containers s) (ex_ID e) = Some c"
    and "ct_task c = Some i" "exit_forwards env i"
  shows "\<exists>s' v t. run_state (checkProcesses env s e) w = (Some s', v) \<and>
    exited_task s' (ex_ID e) (if i_exited i = None then ex_Status e else i_status i)
      (case i_exited i of None \<Rightarrow> t | Some t0 \<Rightarrow> t0)"
proof -
  note ok = registry_ok_get [OF assms(1,3)]
  have i: "i_id i = ex_ID e" "wait_wf i" using ok assms(4) by (simp_all add: container_ok_def)
  note run_checkProcesses_init [OF task_unique_exit [OF assms(1-4)] assms(3,4) i(2) assms(5), of w]
  then obtain t st v where
    r: "run_state (checkProcesses env s e) w = (Some (sv_put (ex_ID e)
        (c\<lparr>ct_task := Some ((exited_as (ex_Status e) t i)\<lparr>i_initState := st\<rparr>)\<rparr>) s), v)" by blast
  let ?i' = "(exited_as (ex_Status e) t i)\<lparr>i_initState := st\<rparr>"
  have "wait_wf (exited_as (ex_Status e) t i)" by (simp add: i(2))
  then have "wait_wf ?i'" by (simp add: wait_wf_def)
  then have "container_ok (ex_ID e) (c\<lparr>ct_task := Some ?i'\<rparr>)"
    using ok i(1) by (simp add: container_ok_def)
  then have "registry_ok (sv_put (ex_ID e) (c\<lparr>ct_task := Some ?i'\<rparr>) s)"
    by (rule registry_ok_put [OF assms(1)])
  moreover have "unique_exit (sv_put (ex_ID e) (c\<lparr>ct_task := Some ?i'\<rparr>) s) (ex_ID e)"
    by (rule unique_exit_put_task [OF assms(3,4) _ assms(2)]) simp
  ultimately have "exited_task (sv_put (ex_ID e) (c\<lparr>ct_task := Some ?i'\<rparr>) s) (ex_ID e)
      (if i_exited i = None then ex_Status e else i_status i) (case i_exited i of None \<Rightarrow> t | Some t0 \<Rightarrow> t0)"
    by (cases "i_exited i") (simp_all add: exited_task_def sv_put_def gm.get_put exited_as_def)
  with r show ?thesis by blast
qed

lemma processExits_held:
  assumes "exited_task s cid status t" "\<forall>j. i_id j = cid \<longrightarrow> exit_forwards env j"
    and "\<forall>e \<in> set es. ex_ID e = cid"
  shows "\<exists>s' v. run_state (processExits env s es) w = (Some s', v) \<and> exited_task s' cid status t"
  using assms(1,3)
proof (induction es arbitrary: s w)
  case Nil
  then show ?case by (simp add: processExits_def)
next
  case (Cons e es)
  then obtain c i where c: "registry_ok s" "unique_exit s cid" "gm_get (sv_containers s) cid = Some c"
    "ct_task c = Some i" "i_exited i = Some t" "i_status i = status" "ex_ID e = cid"
    by (auto simp: exited_task_def)
  have "i_id i = cid" using registry_ok_get [OF c(1,3)] c(4) by (simp add: container_ok_def)
  with assms(2) have "exit_forwards env i" by blast
  with check_task_exit [of s e c i env w] c obtain s' v where
    1: "run_state (checkProcesses env s e) w = (Some s', v)" "exited_task s' cid status t" by auto
  from Cons.IH [OF 1(2), of v] Cons.prems(2) obtain s'' v' where
    "run_state (processExits env s' es) v = (Some s'', v')" "exited_task s'' cid status t" by auto
  with 1(1) show ?case by (simp add: processExits_def)
qed

lemma wait_exited:
  assumes "exited_task s cid status t"
  shows "fst (run_state (service_Wait env s cid []) w) =
    Some (Inr \<lparr>wt_ExitStatus = uint32 status, wt_ExitedAt = ToTimestamp (Some t)\<rparr>)"
proof -
  obtain c i where c: "registry_ok s" "gm_get (sv_containers s) cid = Some c"
    "ct_task c = Some i" "i_exited i = Some t" "i_status i = status"
    using assms by (auto simp: exited_task_def)
  have "i_waitClosed i" using registry_ok_get [OF c(1,2)] c(3,4) by (simp add: container_ok_def wait_wf_def)
  with c show ?thesis
    by (simp add: service_Wait_def getContainer_def container_Process_def ct_lookup_def ct_init_def
        process_Wait_returns_def init_Wait_returns_def process_ExitStatus_def process_ExitedAt_def
        init_ExitStatus_def init_ExitedAt_def)
qed

section \<open>A concrete service\<close>

text \<open>The processes that have the ID, as a list: with at most one, the ID is unique.\<close>

definition exits_of :: "'s service \<Rightarrow> string \<Rightarrow> (string \<times> string) list" where
  "exits_of s eid =
     concat (map (\<lambda>(cid, c). map (\<lambda>(k, p). (cid, k)) (filter (\<lambda>(k, p). process_ID p = eid) (ct_keyed c)))
       (sv_containers s))"

lemma exits_of_holds:
  assumes "registry_ok s" "holds s cid k p" "process_ID p = eid"
  shows "(cid, k) \<in> set (exits_of s eid)"
proof -
  obtain c where c: "gm_get (sv_containers s) cid = Some c" "ct_view c k = Some p"
    using assms(2) by (auto simp: holds_def split: option.splits)
  have "(k, p) \<in> set (ct_keyed c)"
    using keyed_view [OF registry_ok_get [OF assms(1) c(1)], of k p] c(2) by (rule iffD2)
  with assms(3) have "(k, p) \<in> set (filter (\<lambda>(k, p). process_ID p = eid) (ct_keyed c))" by simp
  from imageI [OF this, of "\<lambda>(k, p). (cid, k)"]
  have "(cid, k) \<in> set (map (\<lambda>(k, p). (cid, k)) (filter (\<lambda>(k, p). process_ID p = eid) (ct_keyed c)))"
    by (simp only: set_map prod.case)
  then show ?thesis
    unfolding exits_of_def set_concat set_map
    by (intro UN_I [OF imageI [OF map_of_SomeD [OF c(1)]]]) (simp only: prod.case set_map)
qed

lemma unique_exitI:
  assumes "registry_ok s" "length (exits_of s eid) \<le> 1"
  shows "unique_exit s eid"
proof -
  have "x = y" if "x \<in> set xs" "y \<in> set xs" "length xs \<le> 1" for x y and xs :: "(string \<times> string) list"
    using that by (cases xs; cases "tl xs") auto
  with assms show ?thesis unfolding unique_exit_def by (metis exits_of_holds prod.inject)
qed

definition exec_service :: "unit service" where
  "exec_service = sv_put ''app''
     (sample_container\<lparr>ct_ID := ''app'', ct_task := Some (sample_init\<lparr>i_id := ''app''\<rparr>),
        ct_processes := [(''e1'', \<lparr>xp_id = ''e1'', xp_path = ''/run/b'', xp_parent = ''app'',
          xp_spec = \<lparr>ps_Terminal = False, ps_rest = []\<rparr>,
          xp_stdio = \<lparr>so_Stdin = [], so_Stdout = [], so_Stderr = [], so_Terminal = False\<rparr>,
          xp_waitClosed = False, xp_execState = ()\<rparr>)]\<rparr>) sample_service"

lemma exec_service_ok: "registry_ok exec_service"
  by code_simp

lemma exec_service_unique: "unique_exit exec_service ''app''" "unique_exit exec_service ''e1''"
  by (rule unique_exitI [OF exec_service_ok], code_simp)+

lemma sample_exit_forwards: "exit_forwards (sample_svc_env st out tick status sp ms) i"
proof -
  have 1: "st_SetExited (sample_svc_env st out tick status sp ms) =
      init_setExited (sample_init_env st out tick status)"
    by (simp add: sample_svc_env_def sample_ctr_env_def sample_state_env_def init_env.defs state_env.defs
      ctr_env.defs svc_env.defs Let_def)
  have "now (sample_svc_env st out tick status sp ms) = now (sample_init_env st out tick status)"
    "shutdown_console (sample_svc_env st out tick status sp ms) =
     shutdown_console (sample_init_env st out tick status)"
    by (simp_all add: sample_env_defs Let_def)
  then have 2: "init_setExited (sample_svc_env st out tick status sp ms) i x =
      init_setExited (sample_init_env st out tick status) i x" for x
    by (simp add: init_setExited_def)
  have "map_option (\<lambda>q. q\<lparr>i_initState := ()\<rparr>) r = r" for r :: "unit init option"
    by (cases r) simp_all
  then show ?thesis unfolding exit_forwards_def 1 2 by (intro allI exI [of _ "()"]) simp
qed

lemma sample_exec_exit_ok: "exec_exit_ok (sample_svc_env st out tick status sp ms) x"
  by (simp add: exec_exit_ok_def sample_env_defs Let_def)

section \<open>Properties\<close>

text \<open>
  C4: The exit of a container's init process. Every process of the container is killed first; the
  status and time are recorded in that container and no other, as \<open>setExited\<close> keeps them; then a TaskOOM
  is published exactly when the poller reports one for this container, and always before it the TaskExit
  that follows: one TaskExit, for this container, with the task's ID and pid, the reported status and
  the recorded time.
\<close>

theorem init_exit_published:
  assumes "registry_ok s" "unique_exit s (ex_ID e)"
    and "gm_get (sv_containers s) (ex_ID e) = Some c" "ct_task c = Some i" "exit_forwards env i"
  shows "\<exists>s' c' i' v as x. run_state (checkProcesses env s e) w = (Some s', v) \<and> trace v = trace w @ as \<and>
    started as = [buffered (runsc_command env (i_runtime i) [''kill'', ''--all'', i_id i, ''9''])] \<and>
    events as = (if fst (is_oom env (ex_ID e) x) then [TaskOOM (ex_ID e)] else []) @
      [TaskExit (ex_ID e) (ex_ID e) (uint32 (i_pid i)) (uint32 (ex_Status e)) (ToTimestamp (i_exited i'))] \<and>
    s' = s\<lparr>sv_containers := gm_put (ex_ID e) c' (sv_containers s)\<rparr> \<and> c' = c\<lparr>ct_task := Some i'\<rparr> \<and>
    i_exited i' \<noteq> None \<and> i_status i' = (if i_exited i = None then ex_Status e else i_status i)"
proof -
  have ok: "i_id i = ex_ID e" "wait_wf i"
    using registry_ok_get [OF assms(1,3)] assms(4) by (simp_all add: container_ok_def)
  note run_checkProcesses_init [OF task_unique_exit [OF assms(1-4)] assms(3,4) ok(2) assms(5), of w]
  then obtain t st v as x where
    r: "run_state (checkProcesses env s e) w = (Some (sv_put (ex_ID e)
        (c\<lparr>ct_task := Some ((exited_as (ex_Status e) t i)\<lparr>i_initState := st\<rparr>)\<rparr>) s), v)"
      "trace v = trace w @ as" "started as = [kill_all_command env i]"
      "events as = (if fst (is_oom env (ex_ID e) x) then [TaskOOM (ex_ID e)] else []) @
      [TaskExit (ex_ID e) (i_id i) (uint32 (i_pid i)) (uint32 (ex_Status e))
         (ToTimestamp (i_exited (exited_as (ex_Status e) t i)))]" by blast
  let ?i' = "(exited_as (ex_Status e) t i)\<lparr>i_initState := st\<rparr>"
  have i': "i_exited ?i' = i_exited (exited_as (ex_Status e) t i)" "i_exited ?i' \<noteq> None"
    "i_status ?i' = (if i_exited i = None then ex_Status e else i_status i)"
    by (simp_all add: exited_as_def)
  show ?thesis
    by (rule exI [of _ "sv_put (ex_ID e) (c\<lparr>ct_task := Some ?i'\<rparr>) s"],
      rule exI [of _ "c\<lparr>ct_task := Some ?i'\<rparr>"], rule exI [of _ ?i'], rule exI [of _ v],
      rule exI [of _ as], rule exI [of _ x], intro conjI, rule r(1), rule r(2),
      rule r(3) [unfolded kill_all_command_def], rule r(4) [unfolded ok(1) i'(1) [symmetric]],
      simp add: sv_put_def, rule refl, rule i'(2), rule i'(3))
qed

lemma init_exit_published_witness:
  "\<exists>s' v as i'. run_state (checkProcesses (sample_svc_env 0 [] 1 ''running'' plain_spec []) exec_service
      \<lparr>ex_Timestamp = 0, ex_ID = ''app'', ex_Status = 137\<rparr>) \<lparr>ext = 5, trace = []\<rparr> = (Some s', v) \<and>
    trace v = as \<and> events as = [TaskOOM ''app'', TaskExit ''app'' ''app'' 42 137 (ToTimestamp i')]"
proof -
  let ?env = "sample_svc_env 0 [] 1 ''running'' plain_spec []"
  let ?e = "\<lparr>ex_Timestamp = 0, ex_ID = ''app'', ex_Status = 137\<rparr>"
  let ?i = "sample_init\<lparr>i_id := ''app''\<rparr>"
  obtain c where c: "gm_get (sv_containers exec_service) (ex_ID ?e) = Some c" "ct_task c = Some ?i"
    by (simp add: exec_service_def sv_put_def sample_service_def)
  have "is_oom ?env ''app'' x = (True, x)" for x by (simp add: sample_env_defs Let_def)
  moreover have "uint32 137 = 137" "uint32 (i_pid ?i) = 42" by (simp_all add: uint32_def sample_init_def)
  ultimately show ?thesis
    using init_exit_published [OF exec_service_ok _ c sample_exit_forwards, of 0 "[]" 1 "''running''"
        plain_spec "[]" "\<lparr>ext = 5, trace = []\<rparr>"] exec_service_unique(1) by auto
qed

text \<open>
  C13: The exit of an exec'd process publishes exactly one TaskExit, for the container the process is in
  and with its own ID, and never a TaskOOM, even when the poller would report one; only that process of
  that container changes.
\<close>

theorem exec_exit_published:
  assumes "registry_ok s" "unique_exit s (ex_ID e)" "holds s cid k (PExec x)" "xp_id x = ex_ID e"
    and "exec_exit_ok env x"
  shows "\<exists>s' c x' v as. run_state (checkProcesses env s e) w = (Some s', v) \<and> trace v = trace w @ as \<and>
    events as = [TaskExit cid (ex_ID e) (uint32 (ep_Pid env x')) (uint32 (ex_Status e))
                   (ToTimestamp (ep_ExitedAt env x'))] \<and>
    gm_get (sv_containers s) cid = Some c \<and>
    s' = s\<lparr>sv_containers := gm_put cid (c\<lparr>ct_processes := gm_put k x' (ct_processes c)\<rparr>) (sv_containers s)\<rparr>"
proof -
  obtain c where c: "gm_get (sv_containers s) cid = Some c"
    using assms(3) by (auto simp: holds_def split: option.splits)
  have "find_exit (sv_containers s) (ex_ID e) = Some (cid, k, PExec x)"
    using find_exit_unique [OF assms(1) _ assms(3)] assms(2,4) by (simp add: process_ID_def)
  from run_checkProcesses_exec [OF this c assms(5), of w] c assms(4) show ?thesis
    by (auto simp: sv_put_def)
qed

lemma exec_exit_published_witness:
  "\<exists>s' v as. run_state (checkProcesses (sample_svc_env 0 [] 1 ''running'' plain_spec []) exec_service
      \<lparr>ex_Timestamp = 0, ex_ID = ''e1'', ex_Status = 1\<rparr>) \<lparr>ext = 5, trace = []\<rparr> = (Some s', v) \<and>
    trace v = as \<and> events as = [TaskExit ''app'' ''e1'' 50 1 (ToTimestamp None)]"
proof -
  let ?env = "sample_svc_env 0 [] 1 ''running'' plain_spec []"
  let ?e = "\<lparr>ex_Timestamp = 0, ex_ID = ''e1'', ex_Status = 1\<rparr>"
  obtain x where x: "holds exec_service ''app'' ''e1'' (PExec x)" "xp_id x = ''e1''"
    by (simp add: exec_service_def sv_put_def sample_service_def holds_def ct_view_eq)
  have "ep_Pid ?env y = 50" "ep_ExitedAt ?env y = None" for y by (simp_all add: sample_env_defs Let_def)
  moreover have "uint32 50 = 50" "uint32 1 = 1" by (simp_all add: uint32_def)
  ultimately show ?thesis
    using exec_exit_published [of exec_service ?e "''app''" "''e1''" x ?env "\<lparr>ext = 5, trace = []\<rparr>"]
      exec_service_ok exec_service_unique(2) x sample_exec_exit_ok by fastforce
qed

text \<open>
  C5: Until its process exits, \<open>Wait\<close> blocks; from then on it answers with the first status. For a
  running task, \<open>Wait\<close> gives no answer; once exits have been reported for the container, in whatever
  number, it answers with the status of the first of them, and the service has not panicked.
\<close>

theorem wait_answers_first_exit:
  assumes "registry_ok s" "unique_exit s cid" "gm_get (sv_containers s) cid = Some c" "ct_task c = Some i"
    and "i_exited i = None" "\<forall>j. i_id j = cid \<longrightarrow> exit_forwards env j"
    and "ex_ID e = cid" "\<forall>e' \<in> set es. ex_ID e' = cid"
  shows "fst (run_state (service_Wait env s cid []) w0) = None \<and>
    (\<exists>s' v t. run_state (processExits env s (e # es)) w = (Some s', v) \<and>
       fst (run_state (service_Wait env s' cid []) w1) =
         Some (Inr \<lparr>wt_ExitStatus = uint32 (ex_Status e), wt_ExitedAt = ToTimestamp (Some t)\<rparr>))"
proof
  have ok: "i_id i = cid" "wait_wf i"
    using registry_ok_get [OF assms(1,3)] assms(4) by (simp_all add: container_ok_def)
  then have "\<not> i_waitClosed i" using assms(5) by (simp add: wait_wf_def)
  with assms(3,4) show "fst (run_state (service_Wait env s cid []) w0) = None"
    by (simp add: service_Wait_def getContainer_def container_Process_def ct_lookup_def ct_init_def
        process_Wait_returns_def init_Wait_returns_def)
  have "exit_forwards env i" using assms(6) ok(1) by blast
  with check_task_exit [of s e c i env w] assms(1-5,7) obtain s1 v1 t where
    1: "run_state (checkProcesses env s e) w = (Some s1, v1)" "exited_task s1 cid (ex_Status e) t"
    by auto
  from processExits_held [OF 1(2) assms(6,8), of v1] obtain s2 v2 where
    2: "run_state (processExits env s1 es) v1 = (Some s2, v2)" "exited_task s2 cid (ex_Status e) t" by blast
  have "run_state (processExits env s (e # es)) w = (Some s2, v2)"
    using 1(1) 2(1) by (simp add: processExits_def)
  with wait_exited [OF 2(2)] show "\<exists>s' v t. run_state (processExits env s (e # es)) w = (Some s', v) \<and>
       fst (run_state (service_Wait env s' cid []) w1) =
         Some (Inr \<lparr>wt_ExitStatus = uint32 (ex_Status e), wt_ExitedAt = ToTimestamp (Some t)\<rparr>)" by blast
qed


lemma wait_answers_first_exit_witness:
  "\<exists>s' v t. run_state (processExits (sample_svc_env 0 [] 1 ''running'' plain_spec []) exec_service
      [\<lparr>ex_Timestamp = 0, ex_ID = ''app'', ex_Status = 137\<rparr>, \<lparr>ex_Timestamp = 9, ex_ID = ''app'', ex_Status = 0\<rparr>])
      \<lparr>ext = 5, trace = []\<rparr> = (Some s', v) \<and>
    fst (run_state (service_Wait (sample_svc_env 0 [] 1 ''running'' plain_spec []) s' ''app'' []) v) =
      Some (Inr \<lparr>wt_ExitStatus = 137, wt_ExitedAt = ToTimestamp (Some t)\<rparr>)"
proof -
  let ?env = "sample_svc_env 0 [] 1 ''running'' plain_spec []"
  let ?e = "\<lparr>ex_Timestamp = 0, ex_ID = ''app'', ex_Status = 137\<rparr>"
  let ?e' = "\<lparr>ex_Timestamp = 9, ex_ID = ''app'', ex_Status = 0\<rparr>"
  let ?v = "snd (run_state (processExits ?env exec_service [?e, ?e']) \<lparr>ext = 5, trace = []\<rparr>)"
  obtain c i where c: "gm_get (sv_containers exec_service) ''app'' = Some c" "ct_task c = Some i" "i_exited i = None"
    by (simp add: exec_service_def sv_put_def sample_service_def sample_init_def New_def)
  have "uint32 137 = 137" by (simp add: uint32_def)
  with wait_answers_first_exit [OF exec_service_ok exec_service_unique(1) c, of ?env ?e "[?e']"
      "\<lparr>ext = 5, trace = []\<rparr>" "\<lparr>ext = 5, trace = []\<rparr>" ?v] sample_exit_forwards
  show ?thesis by fastforce
qed

end
