(* ===== verification/Registry.thy ===== *)
theory Registry
  imports Exits
begin

text \<open>
  The registry over time: the handlers that change the service and the reports of exits as steps of a
  state machine that starts with \<open>NewTaskService\<close>, the invariant of its reachable states and what
  follows from it; creation, deletion and exec on the registry.
\<close>

section \<open>What the states of processes do\<close>

text \<open>
  The states of the init process and the exec'd processes (\<open>proc/init_state.go\<close>, \<open>proc/exec.go\<close>) are not
  part of this source. What is relied on: the wait channel and the exit of an init process are touched by
  nothing but \<open>setExited\<close> (the fields \<open>waitBlock\<close> and \<open>exited\<close> are written nowhere else in the package), no
  ID ever changes, a state passes \<open>SetExited\<close> on to \<open>setExited\<close> or ignores it, and a state that accepts
  an \<open>Exec\<close> answers with what \<open>Init.exec\<close> builds and sends no event (the package does not hold the
  service's channel). That \<open>setExited\<close> itself keeps the channel and the exit together and does not panic
  is not assumed: it is proved of \<open>init_setExited\<close>.
\<close>

definition same_exit :: "'s init \<Rightarrow> 's init \<Rightarrow> bool" where
  "same_exit p q \<longleftrightarrow> i_id q = i_id p \<and> i_exited q = i_exited p \<and> i_waitClosed q = i_waitClosed p"

definition exits_by_setExited ::
    "('x, 's, 'z) proc_env_scheme \<Rightarrow> ('s init \<Rightarrow> ('x world, 'a \<times> 's init) state) \<Rightarrow> bool" where
  "exits_by_setExited env f \<longleftrightarrow> (\<forall>i w. let q = snd (fst (run_state (f i) w)) in
     same_exit i q \<or> (\<exists>st w1 i'. fst (run_state (init_setExited env i st) w1) = Some i' \<and> same_exit i' q))"

definition set_forwards :: "('x, 's, 'z) state_env_scheme \<Rightarrow> 's init \<Rightarrow> int \<Rightarrow> 'x world \<Rightarrow> bool" where
  "set_forwards env i st w \<longleftrightarrow>
     (\<exists>s'. run_state (st_SetExited env i st) w =
        (map_option (\<lambda>q. q\<lparr>i_initState := s'\<rparr>) (fst (run_state (init_setExited env i st) w)),
         snd (run_state (init_setExited env i st) w))) \<or>
     run_state (st_SetExited env i st) w = (Some i, w)"

definition keeps_exec ::
    "('s exec_process \<Rightarrow> ('x world, 'a \<times> 's exec_process) state) \<Rightarrow> bool" where
  "keeps_exec f \<longleftrightarrow> (\<forall>e w. xp_id (snd (fst (run_state (f e) w))) = xp_id e)"

definition states_forward :: "('x, 's, 'z) ctr_env_scheme \<Rightarrow> bool" where
  "states_forward env \<longleftrightarrow>
     (\<forall>conf. exits_by_setExited env (\<lambda>i. st_Start env i conf)) \<and> exits_by_setExited env (st_Delete env) \<and>
     (\<forall>sig al. exits_by_setExited env (\<lambda>i. st_Kill env i sig al)) \<and>
     (\<forall>path r. exits_by_setExited env (\<lambda>i. st_Exec env i path r)) \<and>
     (\<forall>i st w. set_forwards env i st w) \<and>
     (\<forall>i path r. emits silent (st_Exec env i path r)) \<and>
     (\<forall>i path r w x. fst (fst (run_state (st_Exec env i path r) w)) = Inr x \<longrightarrow>
        init_exec env i path r = Inr x) \<and>
     keeps_exec (ep_Start env) \<and> (\<forall>conf. keeps_exec (\<lambda>e. ep_Restore env e conf)) \<and>
     keeps_exec (ep_Delete env) \<and> (\<forall>sig al. keeps_exec (\<lambda>e. ep_Kill env e sig al)) \<and>
     (\<forall>e st w q. fst (run_state (ep_SetExited env e st) w) = Some q \<longrightarrow> xp_id q = xp_id e)"

text \<open>What follows, with \<open>setExited\<close> as the code has it.\<close>

definition keeps_init :: "('s init \<Rightarrow> ('x world, 'a \<times> 's init) state) \<Rightarrow> bool" where
  "keeps_init f \<longleftrightarrow> (\<forall>i w. wait_wf i \<longrightarrow>
     wait_wf (snd (fst (run_state (f i) w))) \<and> i_id (snd (fst (run_state (f i) w))) = i_id i)"

lemma setExited_wf:
  assumes "wait_wf i"
  shows "\<exists>q v. run_state (init_setExited env i st) w = (Some q, v) \<and> wait_wf q \<and> i_id q = i_id i"
proof (cases "i_exited i")
  case None
  from run_setExited_exact [OF assms None, of env st w] show ?thesis by (simp add: wait_wf_def)
next
  case (Some t)
  then have "exit_status_of i \<noteq> None" by (simp add: exit_status_of_def)
  from exl.set_held [OF assms this, of env st w] assms show ?thesis by simp
qed

lemma same_exit_wf: "wait_wf i \<Longrightarrow> same_exit i q \<Longrightarrow> wait_wf q \<and> i_id q = i_id i"
  by (simp add: same_exit_def wait_wf_def)

lemma keeps_init_setExited:
  fixes env :: "('x, 's, 'z) proc_env_scheme"
  assumes "exits_by_setExited env f"
  shows "keeps_init f"
  unfolding keeps_init_def
proof (intro allI impI)
  fix i :: "'s init" and w
  assume i: "wait_wf i"
  let ?q = "snd (fst (run_state (f i) w))"
  from assms consider "same_exit i ?q"
    | st w1 i' where "fst (run_state (init_setExited env i st) w1) = Some i'" "same_exit i' ?q"
    unfolding exits_by_setExited_def Let_def by blast
  then show "wait_wf ?q \<and> i_id ?q = i_id i"
  proof cases
    case 1
    with i show ?thesis by (rule same_exit_wf)
  next
    case 2
    with setExited_wf [OF i, of env st w1] have "wait_wf i'" "i_id i' = i_id i" by auto
    with same_exit_wf [OF _ 2(2)] show ?thesis by simp
  qed
qed

lemma states_keep_init:
  assumes "states_forward env"
  shows "keeps_init (\<lambda>i. st_Start env i conf)" "keeps_init (st_Delete env)"
    "keeps_init (\<lambda>i. st_Kill env i sig al)" "keeps_init (\<lambda>i. st_Exec env i path r)"
  using assms unfolding states_forward_def by (intro keeps_init_setExited [of env]; simp)+

lemma states_set_exited:
  assumes "states_forward env" "wait_wf i"
  shows "\<exists>q v. run_state (st_SetExited env i st) w = (Some q, v) \<and> wait_wf q \<and> i_id q = i_id i"
proof -
  have "set_forwards env i st w" using assms(1) by (simp add: states_forward_def)
  moreover obtain q v where q: "run_state (init_setExited env i st) w = (Some q, v)" "wait_wf q" "i_id q = i_id i"
    using setExited_wf [OF assms(2)] by blast
  ultimately show ?thesis using assms(2) unfolding set_forwards_def by (auto simp: wait_wf_def)
qed

section \<open>One container\<close>

definition process_ok :: "string \<Rightarrow> string \<Rightarrow> 's process \<Rightarrow> bool" where
  "process_ok cid k p = (case p of
       PInit i \<Rightarrow> k = [] \<and> i_id i = cid \<and> wait_wf i
     | PExec e \<Rightarrow> k \<noteq> [] \<and> xp_id e = k)"

lemma container_ok_store:
  assumes "container_ok cid c" "process_ok cid k p"
  shows "container_ok cid (ct_store k p c)"
proof (cases p)
  case (PInit i)
  with assms show ?thesis by (simp add: container_ok_def process_ok_def ct_store_def)
next
  case (PExec e)
  from assms have "gm_wf (gm_put k e (ct_processes c))"
    by (intro gm.wf_put) (simp add: container_ok_def)
  moreover have "list_all (\<lambda>(k, e). xp_id e = k \<and> k \<noteq> []) (gm_put k e (ct_processes c))"
    using assms PExec by (intro list_all_gm_put) (simp_all add: container_ok_def process_ok_def)
  ultimately show ?thesis using assms PExec by (simp add: container_ok_def ct_store_def)
qed

lemma process_ok_view:
  assumes "container_ok cid c" "ct_view c k = Some p"
  shows "process_ok cid k p"
proof (cases "k = []")
  case True
  with assms show ?thesis by (auto simp: container_ok_def ct_view_eq process_ok_def split: option.splits)
next
  case False
  then obtain e where e: "gm_get (ct_processes c) k = Some e" "p = PExec e"
    using assms(2) by (auto simp: ct_view_eq)
  have "xp_id e = k \<and> k \<noteq> []"
    using assms(1) map_of_SomeD [OF e(1)] by (auto simp: container_ok_def list_all_iff)
  with e(2) show ?thesis by (simp add: process_ok_def)
qed

lemma container_ok_remove: "container_ok cid c \<Longrightarrow> container_ok cid (ct_remove k c)"
  by (simp add: container_ok_def ct_remove_def gm.wf_del list_all_gm_del)

definition keeps_process :: "('s process \<Rightarrow> ('x world, 'a \<times> 's process) state) \<Rightarrow> bool" where
  "keeps_process f \<longleftrightarrow> (\<forall>cid k p w. process_ok cid k p \<longrightarrow> process_ok cid k (snd (fst (run_state (f p) w))))"

lemma keeps_with_lock: "keeps_init f \<Longrightarrow> keeps_init (\<lambda>i. with_lock (init_mu i) (f i))"
  by (simp add: keeps_init_def with_lock_def split: prod.split prod.split_asm) (metis fst_conv snd_conv)

lemma keeps_on_process:
  assumes "keeps_init f" "keeps_exec g"
  shows "keeps_process (on_process f g)"
  unfolding keeps_process_def
proof (intro allI impI)
  fix cid k w and p :: "'a process"
  assume ok: "process_ok cid k p"
  show "process_ok cid k (snd (fst (run_state (on_process f g p) w)))"
  proof (cases p)
    case (PInit i)
    obtain a i' v where "run_state (f i) w = ((a, i'), v)" by (metis surj_pair)
    with assms(1) ok PInit show ?thesis unfolding keeps_init_def process_ok_def on_process_def
      by (auto split: prod.split) (metis fst_conv snd_conv)+
  next
    case (PExec e)
    obtain a e' v where "run_state (g e) w = ((a, e'), v)" by (metis surj_pair)
    with assms(2) ok PExec show ?thesis unfolding keeps_exec_def process_ok_def on_process_def
      by (auto split: prod.split) (metis fst_conv snd_conv)+
  qed
qed

lemma methods_keep:
  assumes "states_forward env"
  shows "keeps_process (process_Start env)" "keeps_process (\<lambda>p. process_Restore env p conf)"
    "keeps_process (process_Delete env)" "keeps_process (\<lambda>p. process_Kill env p sig al)"
  using assms states_keep_init [OF assms]
  unfolding states_forward_def process_Start_def process_Restore_def process_Delete_def
    process_Kill_def init_Start_def [abs_def] init_Restore_def init_Delete_def [abs_def] init_Kill_def
  by (intro keeps_on_process keeps_with_lock; simp)+

lemma forward_ok:
  assumes "keeps_process f" "container_ok cid c" "run_state (forward_to c k f) w = ((res, c'), v)"
  shows "container_ok cid c'"
proof (cases "ct_lookup c k")
  case (Inl e)
  with assms(2,3) show ?thesis by (auto simp: forward_to_def container_Process_def)
next
  case (Inr p)
  then have "process_ok cid k p" using process_ok_view [OF assms(2)] by (simp add: ct_lookup_view)
  obtain e p' u where f: "run_state (f p) (after_lookup c w) = ((e, p'), u)" by (metis surj_pair)
  with assms(1) \<open>process_ok cid k p\<close> have "process_ok cid k p'" unfolding keeps_process_def by (metis fst_conv snd_conv)
  then have "container_ok cid (ct_store k p' c)" by (rule container_ok_store [OF assms(2)])
  with assms(3) Inr f show ?thesis
    by (auto simp: forward_to_def container_Process_def after_lookup_def Let_def split: option.splits)
qed


section \<open>A new container\<close>

lemma init_Create_keeps:
  assumes "run_state (init_Create env p r) w = ((None, q), v)"
  shows "i_id q = i_id p" "i_exited q = i_exited p" "i_waitClosed q = i_waitClosed p"
    "i_initState q = i_initState p" "i_Bundle q = i_Bundle p"
proof -
  obtain p1 p2 p3 socket w0 w1 w2 w3 n x where c:
    "run_state (create_io env p r) w = ((Inr socket, p1), w0)"
    "run_state (create_stdin env p1 r) w1 = ((None, p2), w2)"
    "run_state (create_copy env p2 r socket) w2 = ((None, p3), w3)" "q = p3\<lparr>i_pid := n\<rparr>"
    by (rule init_Create_ok [OF assms])
  have 1: "p1 = p\<lparr>i_io := i_io p1\<rparr>"
    using c(1) by (auto simp: create_io_def run_ext_call split: if_splits prod.splits sum.splits)
  have 2: "p2 = p1\<lparr>i_stdin := i_stdin p2, i_closers := i_closers p2\<rparr>"
    using c(2) by (auto simp: create_stdin_def run_ext_call split: if_splits prod.splits sum.splits)
  have 3: "p3 = p2\<lparr>i_console := i_console p3\<rparr>"
    using c(3) by (auto simp: create_copy_def run_ext_call split: if_splits option.splits prod.splits sum.splits)
  have "i_id p1 = i_id p \<and> i_exited p1 = i_exited p \<and> i_waitClosed p1 = i_waitClosed p \<and>
      i_initState p1 = i_initState p \<and> i_Bundle p1 = i_Bundle p"
    by (subst (1 2 3 4 5) 1) simp
  moreover have "i_id p2 = i_id p1 \<and> i_exited p2 = i_exited p1 \<and> i_waitClosed p2 = i_waitClosed p1 \<and>
      i_initState p2 = i_initState p1 \<and> i_Bundle p2 = i_Bundle p1"
    by (subst (1 2 3 4 5) 2) simp
  moreover have "i_id p3 = i_id p2 \<and> i_exited p3 = i_exited p2 \<and> i_waitClosed p3 = i_waitClosed p2 \<and>
      i_initState p3 = i_initState p2 \<and> i_Bundle p3 = i_Bundle p2"
    by (subst (1 2 3 4 5) 3) simp
  ultimately show "i_id q = i_id p" "i_exited q = i_exited p" "i_waitClosed q = i_waitClosed p"
    "i_initState q = i_initState p" "i_Bundle q = i_Bundle p" by (simp_all add: c(4))
qed

lemma newInit_fresh:
  assumes "run_state (newInit env wd ns r opts rootfs) w = (Inr p, v)"
  shows "i_id p = cc_ID r" "i_exited p = None" "\<not> i_waitClosed p" "i_initState p = created_state env"
    "i_Bundle p = cc_Bundle r" "i_Rootfs p = rootfs"
  using assms
  by (auto simp: newInit_def New_def run_ext_call Let_def split: prod.splits sum.splits option.splits)

text \<open>The container a successful \<open>NewContainer\<close> gives.\<close>

definition fresh_container :: "('x, 's, 'z) ctr_env_scheme \<Rightarrow> create_request \<Rightarrow> 's container \<Rightarrow> bool" where
  "fresh_container env r c \<longleftrightarrow>
     ct_ID c = cr_ID r \<and> ct_Bundle c = cr_Bundle r \<and> ct_processes c = [] \<and>
     (case ct_task c of None \<Rightarrow> False
      | Some i \<Rightarrow> i_id i = cr_ID r \<and> i_exited i = None \<and> \<not> i_waitClosed i \<and>
          i_initState i = created_state env \<and> i_Bundle i = cr_Bundle r)"

lemma build_container_fresh:
  assumes "run_state (build_container env ns r opts rootfs fi fd) w = (Inr c, v)"
  shows "fresh_container env r c"
proof -
  let ?config = "container_config r opts fi fd"
  obtain me w1 where me: "run_state (mount_rootfs env (cr_Rootfs r) rootfs) w = (me, w1)" by fastforce
  have "me = None" using assms me by (cases me) (simp_all add: build_container_def)
  obtain np w2 where np: "run_state (newInit env (Join [cr_Bundle r, ''work'']) ns ?config opts rootfs) w1 = (np, w2)"
    by fastforce
  obtain p0 where p0: "np = Inr p0"
    using assms me np \<open>me = None\<close> by (cases np) (simp_all add: build_container_def Let_def)
  obtain ce p w3 where ce: "run_state (init_Create env p0 ?config) w2 = ((ce, p), w3)" by (metis surj_pair)
  have "ce = None" and c: "c = \<lparr>ct_ID = cr_ID r, ct_Bundle = cr_Bundle r, ct_task = Some p,
      ct_processes = [], ct_cgroup = cgroup_mode opts\<rparr>"
    using assms me np p0 ce \<open>me = None\<close>
    by (cases ce; simp add: build_container_def Let_def)+
  from init_Create_keeps [OF ce [unfolded \<open>ce = None\<close>]] newInit_fresh [OF np [unfolded p0]]
  show ?thesis by (simp add: fresh_container_def c container_config_def)
qed

lemma NewContainer_fresh:
  assumes "run_state (NewContainer env r fi fd) w = (Inr c, v)"
  shows "fresh_container env r c"
proof -
  have "\<exists>ns opts rootfs w1 v1. run_state (build_container env ns r opts rootfs fi fd) w1 = (Inr c, v1)"
    using assms
    by (auto simp: NewContainer_def with_cleanup_def Let_def run_ext_call
        split: prod.splits sum.splits option.splits) blast
  then show ?thesis using build_container_fresh by blast
qed

lemma fresh_container_ok: "fresh_container env r c \<Longrightarrow> container_ok (cr_ID r) c"
  by (auto simp: fresh_container_def container_ok_def wait_wf_def gm.wf_empty split: option.splits)

section \<open>The handlers keep the registry\<close>

lemma registry_ok_fields [simp]:
  "registry_ok (s\<lparr>sv_root := a, sv_runtime := b\<rparr>) = registry_ok s"
  by (simp add: registry_ok_def)

lemma run_Create:
  assumes "run_state (CreateWithFSRestore env s r fi fd) w = ((resp, s'), v)"
  shows "sv_containers s' = sv_containers s \<and> (\<exists>e. resp = Inl e) \<or>
    (\<exists>c. fresh_container env r c \<and> sv_containers s' = gm_put (cr_ID r) c (sv_containers s))"
proof -
  obtain nc w1 where nc: "run_state (NewContainer env r fi fd)
      \<lparr>ext = ext w, trace = trace w @ [ActLock MuService]\<rparr> = (nc, w1)" by fastforce
  show ?thesis
  proof (cases nc)
    case (Inl e)
    with assms nc show ?thesis by (auto simp: CreateWithFSRestore_def with_lock_def)
  next
    case (Inr c)
    have f: "fresh_container env r c" by (rule NewContainer_fresh [OF nc [unfolded Inr]])
    then obtain i where i: "ct_task c = Some i" by (auto simp: fresh_container_def split: option.splits)
    have "sv_containers s' = gm_put (cr_ID r) c (sv_containers s)"
      using assms nc Inr i
      by (auto simp: CreateWithFSRestore_def with_lock_def container_init_def ct_init_def sv_put_def
          load_cgroup_def run_ext_call Let_def split: prod.splits sum.splits option.splits if_splits)
    with f show ?thesis by blast
  qed
qed

lemma Create_keeps:
  assumes "registry_ok s" "run_state (CreateWithFSRestore env s r fi fd) w = ((resp, s'), v)"
  shows "registry_ok s'"
  using run_Create [OF assms(2)]
proof (elim disjE exE conjE)
  assume "sv_containers s' = sv_containers s"
  with assms(1) show ?thesis by (simp add: registry_ok_def)
next
  fix c
  assume c: "fresh_container env r c" "sv_containers s' = gm_put (cr_ID r) c (sv_containers s)"
  have "registry_ok (sv_put (cr_ID r) c s)" by (rule registry_ok_put [OF assms(1) fresh_container_ok [OF c(1)]])
  with c(2) show ?thesis by (simp add: registry_ok_def sv_put_def)
qed

lemma container_Start_ok:
  assumes "states_forward env" "container_ok cid c" "run_state (container_Start env c r) w = ((res, c'), v)"
  shows "container_ok cid c'"
  using forward_ok [OF methods_keep(1) [OF assms(1)] assms(2)] assms(3)
  unfolding container_Start_def .

lemma container_Restore_ok:
  assumes "states_forward env" "container_ok cid c" "run_state (container_Restore env c r) w = ((res, c'), v)"
  shows "container_ok cid c'"
  using forward_ok [OF methods_keep(2) [OF assms(1)] assms(2)] assms(3)
  unfolding container_Restore_def .

lemma container_Kill_ok:
  assumes "states_forward env" "container_ok cid c" "run_state (container_Kill env c r) w = ((err, c'), v)"
  shows "container_ok cid c'"
proof -
  obtain res c1 w1 where f: "run_state (forward_to c (kr_ExecID r)
      (\<lambda>p. process_Kill env p (kr_Signal r) (kr_All r))) w = ((res, c1), w1)" by (metis surj_pair)
  with assms(3) have "c' = c1" by (simp add: container_Kill_def)
  with forward_ok [OF methods_keep(4) [OF assms(1)] assms(2) f] show ?thesis by simp
qed

lemma container_Delete_ok:
  assumes "states_forward env" "container_ok cid c" "run_state (container_Delete env c r) w = ((res, c'), v)"
  shows "container_ok cid c'"
proof -
  obtain rp c1 w1 where f: "run_state (forward_to c (dr_ExecID r) (process_Delete env)) w = ((rp, c1), w1)"
    by (metis surj_pair)
  have "container_ok cid c1" by (rule forward_ok [OF methods_keep(3) [OF assms(1)] assms(2) f])
  moreover have "c' = c1 \<or> c' = ct_remove (dr_ExecID r) c1"
    using assms(3) f by (auto simp: container_Delete_def container_ProcessRemove_def ct_remove_def
        split: sum.splits if_splits)
  ultimately show ?thesis using container_ok_remove by blast
qed

lemma init_exec_id: "init_exec env i path r = Inr x \<Longrightarrow> xp_id x = xc_ID r"
  by (auto simp: init_exec_def split: sum.splits)

lemma container_Exec_ok:
  assumes "states_forward env" "container_ok cid c" "er_ExecID r \<noteq> []"
    and "run_state (container_Exec env c r) w = ((res, c'), v)"
  shows "container_ok cid c'"
proof -
  obtain i where i: "ct_task c = Some i" "i_id i = cid" "wait_wf i"
    by (rule container_ok_task [OF assms(2)])
  let ?cfg = "\<lparr>xc_ID = er_ExecID r, xc_Terminal = er_Terminal r, xc_Stdin = er_Stdin r,
        xc_Stdout = er_Stdout r, xc_Stderr = er_Stderr r, xc_Spec = er_Spec r\<rparr>"
  obtain i' u where x: "run_state (init_Exec env i (ct_Bundle c) ?cfg) w = ((res, i'), u)"
    "c' = (case res of
       Inl e \<Rightarrow> c\<lparr>ct_task := Some i'\<rparr>
     | Inr p \<Rightarrow> c\<lparr>ct_task := Some i', ct_processes := gm_put (xp_id p) p (ct_processes c)\<rparr>)"
    by (rule run_container_Exec [OF assms(4) i(1)])
  obtain w1 where st: "fst (run_state (st_Exec env i (ct_Bundle c) ?cfg) w1) = (res, i')"
    using x(1) by (auto simp: init_Exec_def with_lock_def split: prod.splits) (metis fst_conv)
  have "keeps_init (\<lambda>i. st_Exec env i (ct_Bundle c) ?cfg)" by (rule states_keep_init(4) [OF assms(1)])
  with st i have i': "i_id i' = cid" "wait_wf i'" unfolding keeps_init_def by (metis snd_conv)+
  then have ok1: "container_ok cid (c\<lparr>ct_task := Some i'\<rparr>)" using assms(2) by (simp add: container_ok_def)
  show ?thesis
  proof (cases res)
    case (Inl e)
    with x(2) ok1 show ?thesis by simp
  next
    case (Inr p)
    have "fst (fst (run_state (st_Exec env i (ct_Bundle c) ?cfg) w1)) = Inr p" using st Inr by simp
    then have "init_exec env i (ct_Bundle c) ?cfg = Inr p" using assms(1) unfolding states_forward_def by blast
    then have "xp_id p = xc_ID ?cfg" by (rule init_exec_id)
    then have "process_ok cid (xp_id p) (PExec p)" using assms(3) by (simp add: process_ok_def)
    from container_ok_store [OF ok1 this] x(2) Inr show ?thesis by (simp add: ct_store_def)
  qed
qed

text \<open>Handlers that put back the container they worked on.\<close>

lemma Start_keeps:
  assumes "states_forward env" "registry_ok s" "run_state (service_Start env s r) w = ((resp, s'), v)"
  shows "registry_ok s'"
proof (cases "gm_get (sv_containers s) (sr_ID r)")
  case None
  with assms show ?thesis by (simp add: service_Start_def)
next
  case (Some c)
  note ok = registry_ok_get [OF assms(2) Some]
  obtain img w1 where img: "run_state (restore_route env c r)
      \<lparr>ext = ext w, trace = trace w @ [ActLock MuService, ActUnlock MuService]\<rparr> = (img, w1)" by fastforce
  let ?rr = "\<lparr>rr_Start = r, rr_Conf = \<lparr>rc_ImagePath = img, rc_Direct = False, rc_Background = False\<rparr>\<rparr>"
  obtain rp c' w2 where c': "run_state (if img \<noteq> [] then container_Restore env c ?rr else container_Start env c r) w1 =
      ((rp, c'), w2)" by (metis surj_pair)
  then have "container_ok (sr_ID r) c'"
    using container_Start_ok [OF assms(1) ok] container_Restore_ok [OF assms(1) ok] by (auto split: if_splits)
  moreover have "s' = sv_put (sr_ID r) c' s"
    using assms(3) Some img c' by (auto simp: service_Start_def Let_def split: sum.splits)
  ultimately show ?thesis using registry_ok_put [OF assms(2)] by simp
qed

lemma Restore_keeps:
  assumes "states_forward env" "registry_ok s" "run_state (service_Restore env s r) w = ((resp, s'), v)"
  shows "registry_ok s'"
proof (cases "gm_get (sv_containers s) (sr_ID (rr_Start r))")
  case None
  with assms show ?thesis by (simp add: service_Restore_def)
next
  case (Some c)
  obtain rp c' w2 where c': "run_state (container_Restore env c r)
      \<lparr>ext = ext w, trace = trace w @ [ActLock MuService, ActUnlock MuService]\<rparr> = ((rp, c'), w2)"
    by (metis surj_pair)
  have "s' = sv_put (sr_ID (rr_Start r)) c' s"
    using assms(3) Some c' by (auto simp: service_Restore_def Let_def split: sum.splits)
  with registry_ok_put [OF assms(2) container_Restore_ok [OF assms(1) registry_ok_get [OF assms(2) Some] c']]
  show ?thesis by simp
qed

lemma Kill_keeps:
  assumes "states_forward env" "registry_ok s" "run_state (service_Kill env s r) w = ((resp, s'), v)"
  shows "registry_ok s'"
proof (cases "gm_get (sv_containers s) (kr_ID r)")
  case None
  with assms show ?thesis by (simp add: service_Kill_def)
next
  case (Some c)
  obtain e c' w2 where c': "run_state (container_Kill env c r)
      \<lparr>ext = ext w, trace = trace w @ [ActLock MuService, ActUnlock MuService]\<rparr> = ((e, c'), w2)"
    by (metis surj_pair)
  have "s' = sv_put (kr_ID r) c' s" using assms(3) Some c' by (simp add: service_Kill_def)
  with registry_ok_put [OF assms(2) container_Kill_ok [OF assms(1) registry_ok_get [OF assms(2) Some] c']]
  show ?thesis by simp
qed

lemma registry_ok_del:
  "registry_ok s \<Longrightarrow> registry_ok (s\<lparr>sv_containers := gm_del cid (sv_containers s)\<rparr>)"
  by (simp add: registry_ok_def gm.wf_del list_all_gm_del)


lemma run_Delete:
  assumes "gm_get (sv_containers s) (dr_ID r) = Some c"
    and "run_state (service_Delete env s r) w = ((resp, s'), v)"
  obtains rp c' w1 where "run_state (container_Delete env c r)
      \<lparr>ext = ext w, trace = trace w @ [ActLock MuService, ActUnlock MuService]\<rparr> = ((rp, c'), w1)"
    "s' = (if dr_ExecID r = [] \<and> (\<exists>p. rp = Inr p)
           then s\<lparr>sv_containers := gm_del (dr_ID r) (sv_containers (sv_put (dr_ID r) c' s))\<rparr>
           else sv_put (dr_ID r) c' s)"
    "(\<exists>e. resp = Inl e) \<longleftrightarrow> (\<exists>e. rp = Inl e)"
proof -
  obtain rp c' w1 where c': "run_state (container_Delete env c r)
      \<lparr>ext = ext w, trace = trace w @ [ActLock MuService, ActUnlock MuService]\<rparr> = ((rp, c'), w1)"
    by (metis surj_pair)
  show thesis
  proof (cases rp)
    case (Inl e)
    with assms c' have "s' = sv_put (dr_ID r) c' s" "resp = Inl (ToGRPC e)"
      by (simp_all add: service_Delete_def Let_def)
    with Inl that [OF c'] show thesis by simp
  next
    case (Inr p)
    with assms c' have "(s' = (if dr_ExecID r = []
        then s\<lparr>sv_containers := gm_del (dr_ID r) (sv_containers (sv_put (dr_ID r) c' s))\<rparr>
        else sv_put (dr_ID r) c' s)) \<and> (\<exists>d. resp = Inr d)"
      by (auto simp: service_Delete_def Let_def run_ext_call sv_put_def split: prod.splits if_splits)
    with Inr that [OF c'] show thesis by auto
  qed
qed

lemma Delete_keeps:
  assumes "states_forward env" "registry_ok s" "run_state (service_Delete env s r) w = ((resp, s'), v)"
  shows "registry_ok s'"
proof (cases "gm_get (sv_containers s) (dr_ID r)")
  case None
  with assms show ?thesis by (simp add: service_Delete_def)
next
  case (Some c)
  obtain rp c' w1 where c': "run_state (container_Delete env c r)
      \<lparr>ext = ext w, trace = trace w @ [ActLock MuService, ActUnlock MuService]\<rparr> = ((rp, c'), w1)"
    "s' = (if dr_ExecID r = [] \<and> (\<exists>p. rp = Inr p)
           then s\<lparr>sv_containers := gm_del (dr_ID r) (sv_containers (sv_put (dr_ID r) c' s))\<rparr>
           else sv_put (dr_ID r) c' s)"
    by (rule run_Delete [OF Some assms(3)])
  have ok: "registry_ok (sv_put (dr_ID r) c' s)"
    by (rule registry_ok_put [OF assms(2) container_Delete_ok [OF assms(1) registry_ok_get [OF assms(2) Some] c'(1)]])
  from registry_ok_del [OF this, of "dr_ID r"] ok c'(2) show ?thesis
    by (simp add: sv_put_def split: if_splits)
qed

lemma Exec_keeps:
  assumes "states_forward env" "registry_ok s" "run_state (service_Exec env s r) w = ((resp, s'), v)"
  shows "registry_ok s'"
proof (cases "gm_get (sv_containers s) (er_ID r)")
  case None
  with assms show ?thesis by (simp add: service_Exec_def)
next
  case (Some c)
  note ok = registry_ok_get [OF assms(2) Some]
  let ?w1 = "\<lparr>ext = ext w, trace = trace w @ [ActLock MuService, ActUnlock MuService]\<rparr>"
  show ?thesis
  proof (cases "ct_lookup c (er_ExecID r)")
    case (Inr p)
    with assms Some show ?thesis by (simp add: service_Exec_def container_Process_def)
  next
    case (Inl e)
    have ne: "er_ExecID r \<noteq> []"
    proof
      assume "er_ExecID r = []"
      moreover obtain i where "ct_task c = Some i" by (rule container_ok_task [OF ok])
      ultimately show False using Inl by (simp add: ct_lookup_def ct_init_def)
    qed
    obtain rp c' w2 where c': "run_state (container_Exec env c r) (after_lookup c ?w1) = ((rp, c'), w2)"
      by (metis surj_pair)
    have "s' = sv_put (er_ID r) c' s"
      using assms(3) Some Inl c'
      by (cases rp) (simp_all add: service_Exec_def container_Process_def after_lookup_def send_def Let_def)
    with registry_ok_put [OF assms(2) container_Exec_ok [OF assms(1) ok ne c']] show ?thesis by simp
  qed
qed

lemma SetExited_ok:
  assumes "states_forward env" "process_ok cid k p"
  obtains (exited) p' v where "run_state (process_SetExited env p st) w = (Some p', v)" "process_ok cid k p'"
  | (panic) x v where "run_state (process_SetExited env p st) w = (None, v)" "p = PExec x"
      "fst (run_state (ep_SetExited env x st) w) = None"
proof (cases p)
  case (PInit i)
  have i: "wait_wf i" "i_id i = cid" "k = []" using assms(2) PInit by (simp_all add: process_ok_def)
  from states_set_exited [OF assms(1) i(1)] obtain q u where
    q: "run_state (st_SetExited env i st) \<lparr>ext = ext w, trace = trace w @ [ActLock (init_mu i)]\<rparr> = (Some q, u)"
      "wait_wf q" "i_id q = i_id i" by blast
  then have r: "run_state (process_SetExited env p st) w =
      (Some (PInit q), \<lparr>ext = ext u, trace = trace u @ [ActUnlock (init_mu i)]\<rparr>)"
    by (simp add: PInit process_SetExited_def init_SetExited_def with_lock_def)
  show thesis by (rule exited [OF r]) (use q i in \<open>simp add: process_ok_def\<close>)
next
  case (PExec x)
  obtain r u where r: "run_state (ep_SetExited env x st) w = (r, u)" by fastforce
  show thesis
  proof (cases r)
    case None
    with r PExec show thesis by (intro panic [of u x]) (simp_all add: process_SetExited_def)
  next
    case (Some q)
    then have "fst (run_state (ep_SetExited env x st) w) = Some q" using r by simp
    then have "xp_id q = xp_id x" using assms(1) unfolding states_forward_def by blast
    with assms(2) PExec have "process_ok cid k (PExec q)" by (simp add: process_ok_def)
    moreover have "run_state (process_SetExited env p st) w = (Some (PExec q), u)"
      using r Some PExec by (simp add: process_SetExited_def)
    ultimately show thesis by (rule exited [rotated])
  qed
qed

text \<open>An exit is dispatched and the registry stays sound, or an exec'd process's own \<open>SetExited\<close> panics.\<close>

lemma checkProcesses_keeps:
  assumes "states_forward env" "registry_ok s"
  obtains (dispatched) s' v where "run_state (checkProcesses env s e) w = (Some s', v)" "registry_ok s'"
  | (panic) cid k x w1 where "fst (run_state (checkProcesses env s e) w) = None" "holds s cid k (PExec x)"
      "xp_id x = ex_ID e" "fst (run_state (ep_SetExited env x (ex_Status e)) w1) = None"
proof (cases "find_exit (sv_containers s) (ex_ID e)")
  case None
  from checkProcesses_unknown [OF this] assms(2) show thesis using dispatched by blast
next
  case (Some f)
  obtain cid k p where f: "f = (cid, k, p)" by (metis prod_cases3)
  note found = find_exit_holds(1) [OF assms(2) Some [unfolded f]]
  then obtain c where c: "gm_get (sv_containers s) cid = Some c" "ct_view c k = Some p"
    by (auto simp: holds_def split: option.splits)
  have ok: "container_ok cid c" "process_ok cid k p"
    using registry_ok_get [OF assms(2) c(1)] process_ok_view [OF _ c(2)] by blast+
  from run_find_locked [of "sv_containers s" "ex_ID e" w] Some f obtain as1 where
    1: "run_state (with_lock MuService (find_exiting (sv_containers s) (ex_ID e))) w =
      (Some (cid, k, p), \<lparr>ext = ext w, trace = trace w @ as1\<rparr>)" by auto
  obtain u w2 where 2: "run_state (case p of PInit ip \<Rightarrow> init_KillAll env ip | PExec x \<Rightarrow> ret ())
      \<lparr>ext = ext w, trace = trace w @ as1\<rparr> = (u, w2)" by (metis surj_pair)
  show thesis
  proof (rule SetExited_ok [OF assms(1) ok(2), of "ex_Status e" w2])
    fix p' w3
    assume 3: "run_state (process_SetExited env p (ex_Status e)) w2 = (Some p', w3)" "process_ok cid k p'"
    obtain oom w4 where 4: "run_state (if is_init p then ext_call (is_oom env cid) else ret False) w3 = (oom, w4)"
      by fastforce
    obtain u5 w5 where 5: "run_state (if oom then send (TaskOOM cid) else ret ()) w4 = (u5, w5)" by (metis surj_pair)
    obtain t w6 where 6: "run_state (process_ExitedAt env p') w5 = (t, w6)" by fastforce
    have "\<exists>v. run_state (checkProcesses env s e) w = (Some (sv_put cid (ct_store k p' c) s), v)"
      unfolding checkProcesses_def run_state_bind 1 prod.case option.case 2 3(1) 4 5 6
      by (simp add: send_def c(1))
    with registry_ok_put [OF assms(2) container_ok_store [OF ok(1) 3(2)]] show thesis using dispatched by blast
  next
    fix x w3
    assume 3: "run_state (process_SetExited env p (ex_Status e)) w2 = (None, w3)" "p = PExec x"
      "fst (run_state (ep_SetExited env x (ex_Status e)) w2) = None"
    have "fst (run_state (checkProcesses env s e) w) = None"
      unfolding checkProcesses_def run_state_bind 1 prod.case option.case 2 3(1) by simp
    with found 3 show thesis using panic by (auto simp: process_ID_def)
  qed
qed


section \<open>The service as a state machine\<close>

text \<open>
  A step is one handler that changes the service, or the report of one exit, run to its end; between
  two steps the world may change in any way.
\<close>

inductive step :: "('x, 's, 'z) svc_env_scheme \<Rightarrow> 's service \<times> 'x world \<Rightarrow> 's service \<times> 'x world \<Rightarrow> bool"
  for env where
  step_world: "step env (s, w) (s, w')"
| step_create: "run_state (CreateWithFSRestore env s r fi fd) w = ((resp, s'), w') \<Longrightarrow> step env (s, w) (s', w')"
| step_start: "run_state (service_Start env s sr) w = ((resp, s'), w') \<Longrightarrow> step env (s, w) (s', w')"
| step_restore: "run_state (service_Restore env s rr) w = ((resp, s'), w') \<Longrightarrow> step env (s, w) (s', w')"
| step_kill: "run_state (service_Kill env s kr) w = ((err, s'), w') \<Longrightarrow> step env (s, w) (s', w')"
| step_delete: "run_state (service_Delete env s dr) w = ((dresp, s'), w') \<Longrightarrow> step env (s, w) (s', w')"
| step_exec: "run_state (service_Exec env s er) w = ((err, s'), w') \<Longrightarrow> step env (s, w) (s', w')"
| step_exit: "run_state (checkProcesses env s e) w = (Some s', w') \<Longrightarrow> step env (s, w) (s', w')"

inductive reachable :: "('x, 's, 'z) svc_env_scheme \<Rightarrow> 's service \<times> 'x world \<Rightarrow> bool" for env where
  boot: "run_state (NewTaskService env) w0 = (Inr s, w) \<Longrightarrow> reachable env (s, w)"
| more: "reachable env c \<Longrightarrow> step env c c' \<Longrightarrow> reachable env c'"

inductive_cases stepE [consumes 1, case_names step_world step_create step_start step_restore step_kill
    step_delete step_exec step_exit]: "step env (s, w) c'"

lemma boot_ok: "run_state (NewTaskService env) w0 = (Inr s, w) \<Longrightarrow> registry_ok s"
  by (auto simp: NewTaskService_def run_ext_call registry_ok_def gm.wf_empty
      split: option.splits sum.splits prod.splits)

lemma step_keeps:
  assumes "states_forward env" "step env (s, w) c'" "registry_ok s"
  shows "registry_ok (fst c')"
  using assms(2)
proof (cases rule: stepE)
  case (step_world w')
  then show ?thesis using assms(3) by simp
next
  case (step_create r fi fd resp s' w')
  show ?thesis using Create_keeps [OF assms(3) step_create(2)] step_create(1) by simp
next
  case (step_start sr resp s' w')
  show ?thesis using Start_keeps [OF assms(1,3) step_start(2)] step_start(1) by simp
next
  case (step_restore rr resp s' w')
  show ?thesis using Restore_keeps [OF assms(1,3) step_restore(2)] step_restore(1) by simp
next
  case (step_kill kr err s' w')
  show ?thesis using Kill_keeps [OF assms(1,3) step_kill(2)] step_kill(1) by simp
next
  case (step_delete dr dresp s' w')
  show ?thesis using Delete_keeps [OF assms(1,3) step_delete(2)] step_delete(1) by simp
next
  case (step_exec er err s' w')
  show ?thesis using Exec_keeps [OF assms(1,3) step_exec(2)] step_exec(1) by simp
next
  case (step_exit e s' w')
  show ?thesis
    by (rule checkProcesses_keeps [OF assms(1,3), of e w]) (use step_exit in simp_all)
qed

lemma reachable_ok: "states_forward env \<Longrightarrow> reachable env c \<Longrightarrow> registry_ok (fst c)"
proof (rotate_tac, induction rule: reachable.induct)
  case (boot w0 s w)
  then show ?case using boot_ok by simp
next
  case (more c c')
  then show ?case using step_keeps [of env "fst c" "snd c" c'] by simp
qed

section \<open>The sample environment keeps its states\<close>

lemma sample_states_forward: "states_forward (sample_svc_env st out tick status sp ms)"
proof -
  let ?env = "sample_svc_env st out tick status sp ms"
  let ?e = "sample_init_env st out tick status"
  have 1: "st_Start ?env = sample_start ?e"
    "st_Delete ?env = (\<lambda>p. do { e \<leftarrow> init_delete ?e p; ret (e, p) })"
    "st_Kill ?env = (\<lambda>p sig al. do { r \<leftarrow> init_kill 5 ?e p sig al;
        ret (case r of None \<Rightarrow> None | Some e \<Rightarrow> e, p) })"
    "st_Exec ?env = (\<lambda>p path r. ret (init_exec ?e p path r, p))"
    "st_SetExited ?env = init_setExited ?e"
    by (simp_all add: sample_svc_env_def sample_ctr_env_def sample_state_env_def init_env.defs
        state_env.defs ctr_env.defs svc_env.defs Let_def)
  have 2: "ep_Start ?env = (\<lambda>e. ret (None, e))" "ep_Restore ?env = (\<lambda>e conf. ret (Some (Msg ''no restore''), e))"
    "ep_Delete ?env = (\<lambda>e. ret (None, e))" "ep_Kill ?env = (\<lambda>e s a. ret (None, e))"
    "ep_SetExited ?env = (\<lambda>e s. ret (Some (e\<lparr>xp_waitClosed := True\<rparr>)))"
    by (simp_all add: sample_env_defs Let_def)
  have "now ?env = now ?e" "shutdown_console ?env = shutdown_console ?e" "dec_process ?env = dec_process ?e"
    "exec_created_state ?env = exec_created_state ?e"
    by (simp_all add: sample_env_defs Let_def)
  then have 3: "init_setExited ?env i s = init_setExited ?e i s" "init_exec ?env i p r = init_exec ?e i p r" for i s p r
    by (simp_all add: init_setExited_def init_exec_def cong: sum.case_cong)
  have same: "exits_by_setExited ?env (\<lambda>i. m i \<bind> (\<lambda>a. ret (g a, i)))"
    for m :: "unit init \<Rightarrow> (nat world, 'b) state" and g :: "'b \<Rightarrow> 'c"
    by (simp add: exits_by_setExited_def same_exit_def split: prod.split)
  have start: "exits_by_setExited ?env (\<lambda>i. sample_start ?e i conf)" for conf
    unfolding exits_by_setExited_def Let_def 3
  proof (intro allI)
    fix i w
    let ?q = "snd (fst (run_state (sample_start ?e i conf) w))"
    obtain err u where s: "run_state (init_start ?e i conf) w = (err, u)" by fastforce
    obtain r v where r: "run_state (init_setExited ?e i (internalErrorCode ?e)) u = (r, v)" by fastforce
    have "?q = i \<or> r = Some ?q"
      using s r by (cases err; cases r; cases "i_Sandbox i") (simp_all add: sample_start_def)
    then show "same_exit i ?q \<or>
        (\<exists>st w1 i'. fst (run_state (init_setExited ?e i st) w1) = Some i' \<and> same_exit i' ?q)"
    proof
      assume "r = Some ?q"
      with r have "fst (run_state (init_setExited ?e i (internalErrorCode ?e)) u) = Some ?q" by simp
      moreover have "same_exit ?q ?q" by (simp add: same_exit_def)
      ultimately show ?thesis by blast
    qed (simp add: same_exit_def)
  qed
  have set: "set_forwards ?env i s w" for i s w
  proof -
    have "map_option (\<lambda>q. q\<lparr>i_initState := ()\<rparr>) r = r" for r :: "unit init option"
      by (cases r) simp_all
    then show ?thesis unfolding set_forwards_def 1 3 by (intro disjI1 exI [of _ "()"]) simp
  qed
  show ?thesis
    unfolding states_forward_def keeps_exec_def 1 2 3
    using start set same [of "\<lambda>p. init_delete ?e p" "\<lambda>e. e"]
      same [of "\<lambda>p. init_kill 5 ?e p _ _" "\<lambda>r. case r of None \<Rightarrow> None | Some e \<Rightarrow> e"]
    by (auto simp: emits_ret exits_by_setExited_def same_exit_def split: prod.split)
qed

text \<open>A service that has just created a container, and the same after the creation's last step failed.\<close>

abbreviation sample_env :: "(nat, unit) svc_env" where
  "sample_env \<equiv> sample_svc_env 0 [] 1 ''running'' plain_spec [''overlay'']"

definition booted :: "unit service" where
  "booted = \<lparr>sv_containers = [], sv_root = ''/run/runsc'',
     sv_runtime = \<lparr>Command = [], PdeathSignal = 0, Setpgid = False, Root = ''/run/runsc'',
       Log = [], LogFormat = [], PanicLog = [], Config = []\<rparr>, sv_platform = True\<rparr>"

definition after_create :: "(u32 result \<times> unit service) \<times> nat world" where
  "after_create = run_state (CreateWithFSRestore sample_env booted sample_create_request [] False)
     \<lparr>ext = 0, trace = []\<rparr>"

lemma after_create_response: "fst (fst after_create) = Inr 42"
  by code_simp

lemma after_create_run:
  "run_state (CreateWithFSRestore sample_env booted sample_create_request [] False) \<lparr>ext = 0, trace = []\<rparr> =
    ((Inr 42, snd (fst after_create)), snd after_create)"
  using after_create_response by (metis after_create_def prod.collapse)

lemma sample_boot:
  "run_state (NewTaskService sample_env) w = (Inr booted, \<lparr>ext = ext w, trace = trace w @ [ActOnShutdown]\<rparr>)"
  by (simp add: NewTaskService_def run_ext_call sample_env_defs Let_def booted_def)

lemma after_create_reachable: "reachable sample_env (snd (fst after_create), snd after_create)"
  by (rule reachable.more [OF reachable.more [OF reachable.boot [OF sample_boot] step_world]
      step_create [OF after_create_run]])

section \<open>Properties\<close>

text \<open>
  C6: The registry is sound in every reachable state. Whatever calls are handled and exits reported, in
  whatever order and with whatever results, each container is registered once and under its own ID,
  has a task with that ID whose wait channel is closed exactly when its exit is recorded, and keeps each
  exec'd process under its own, non-empty, ID.
\<close>

theorem reachable_registry_ok:
  assumes "states_forward env" "reachable env (s, w)"
  shows "distinct (map fst (sv_containers s)) \<and>
    list_all (\<lambda>(cid, c). ct_ID c = cid \<and> distinct (map fst (ct_processes c)) \<and>
      (case ct_task c of None \<Rightarrow> False
       | Some i \<Rightarrow> i_id i = cid \<and> (i_waitClosed i \<longleftrightarrow> i_exited i \<noteq> None)) \<and>
      list_all (\<lambda>(k, e). xp_id e = k \<and> k \<noteq> []) (ct_processes c)) (sv_containers s)"
proof -
  have ok: "gm_wf (sv_containers s)" "list_all (\<lambda>(cid, c). container_ok cid c) (sv_containers s)"
    using reachable_ok [OF assms] by (simp_all add: registry_ok_def)
  show ?thesis
    by (intro conjI, use ok(1) in \<open>simp add: gm_wf_def\<close>, rule list.pred_mono_strong [OF ok(2)])
      (auto simp: container_ok_def gm_wf_def wait_wf_def split: option.splits)
qed

lemma reachable_registry_ok_witness:
  "\<exists>c i. sv_containers (snd (fst after_create)) = [(''c1'', c)] \<and> ct_ID c = ''c1'' \<and>
     ct_task c = Some i \<and> i_id i = ''c1''"
proof -
  have keys: "map fst (sv_containers (snd (fst after_create))) = [''c1'']" by code_simp
  then obtain c where c: "sv_containers (snd (fst after_create)) = [(''c1'', c)]" by auto
  from reachable_registry_ok [OF sample_states_forward after_create_reachable] c show ?thesis
    by (auto split: option.splits)
qed

text \<open>
  C7: No reachable state panics on a connect or on the exit of an init process. \<open>Connect\<close> answers for every
  ID, known or not (no registered container lacks a task), with the task's pid or 0. The dispatch of a
  reported exit, whatever exits were reported before it, panics only when an exec'd process with the ID of
  the exit panics in its own \<open>SetExited\<close>, which is not part of this source: \<open>setExited\<close> never closes the
  wait channel of an init process twice.
\<close>

theorem reachable_never_panics:
  assumes "states_forward env" "reachable env (s, w)"
  shows "(\<exists>resp. fst (run_state (service_Connect env s cid) w) = Some resp \<and>
      cn_TaskPid resp = (case gm_get (sv_containers s) cid of
        None \<Rightarrow> 0 | Some c \<Rightarrow> (case ct_task c of None \<Rightarrow> 0 | Some i \<Rightarrow> uint32 (i_pid i)))) \<and>
    (fst (run_state (checkProcesses env s e) w) = None \<longrightarrow>
      (\<exists>a k x w1. holds s a k (PExec x) \<and> xp_id x = ex_ID e \<and>
         fst (run_state (ep_SetExited env x (ex_Status e)) w1) = None))"
proof
  have ok: "registry_ok s" using reachable_ok [OF assms] by simp
  show "\<exists>resp. fst (run_state (service_Connect env s cid) w) = Some resp \<and>
      cn_TaskPid resp = (case gm_get (sv_containers s) cid of
        None \<Rightarrow> 0 | Some c \<Rightarrow> (case ct_task c of None \<Rightarrow> 0 | Some i \<Rightarrow> uint32 (i_pid i)))"
  proof (cases "gm_get (sv_containers s) cid")
    case None
    then show ?thesis by (simp add: service_Connect_def uint32_def)
  next
    case (Some c)
    obtain i where "ct_task c = Some i" by (rule container_ok_task [OF registry_ok_get [OF ok Some]])
    with Some show ?thesis by (simp add: service_Connect_def container_Pid_def)
  qed
  show "fst (run_state (checkProcesses env s e) w) = None \<longrightarrow>
      (\<exists>a k x w1. holds s a k (PExec x) \<and> xp_id x = ex_ID e \<and>
         fst (run_state (ep_SetExited env x (ex_Status e)) w1) = None)"
    by (rule checkProcesses_keeps [OF assms(1) ok, of e w]) (simp, blast)
qed

lemma reachable_never_panics_witness:
  "(\<exists>resp. fst (run_state (service_Connect sample_env (snd (fst after_create)) ''nobody'')
      (snd after_create)) = Some resp \<and> cn_TaskPid resp = 0) \<and>
   fst (run_state (checkProcesses sample_env (snd (fst after_create))
      \<lparr>ex_Timestamp = 0, ex_ID = ''c1'', ex_Status = 137\<rparr>) (snd after_create)) \<noteq> None"
proof -
  have "map fst (sv_containers (snd (fst after_create))) = [''c1'']" by code_simp
  then have none: "gm_get (sv_containers (snd (fst after_create))) ''nobody'' = None"
    by (auto simp: map_of_eq_None_iff simp flip: set_map)
  have ep: "fst (run_state (ep_SetExited sample_env x n) w) \<noteq> None" for x n w
    by (simp add: sample_env_defs Let_def)
  note t = reachable_never_panics [OF sample_states_forward after_create_reachable, of "''nobody''"
      "\<lparr>ex_Timestamp = 0, ex_ID = ''c1'', ex_Status = 137\<rparr>"]
  have "fst (run_state (checkProcesses sample_env (snd (fst after_create))
      \<lparr>ex_Timestamp = 0, ex_ID = ''c1'', ex_Status = 137\<rparr>) (snd after_create)) \<noteq> None"
    using conjunct2 [OF t] ep by blast
  moreover have "\<exists>resp. fst (run_state (service_Connect sample_env (snd (fst after_create)) ''nobody'')
      (snd after_create)) = Some resp \<and> cn_TaskPid resp = 0"
    using conjunct1 [OF t] none by simp
  ultimately show ?thesis by blast
qed

text \<open>
  C15: Creating a container and deleting it leaves the registry as it was. For an ID that is not
  registered, a successful creation followed by a successful deletion of the init process gives back
  exactly the containers there were; so \<open>Shutdown\<close> answers nil after it exactly when it would have before.
\<close>

theorem create_delete_round_trip:
  assumes "gm_wf (sv_containers s)" "gm_get (sv_containers s) (cr_ID r) = None"
    and "run_state (CreateWithFSRestore env s r fi fd) w = ((Inr pid, s1), w1)"
    and "run_state (service_Delete env s1 \<lparr>dr_ID = cr_ID r, dr_ExecID = []\<rparr>) w2 = ((Inr resp, s2), w3)"
  shows "sv_containers s2 = sv_containers s \<and>
    (fst (run_state (service_Shutdown s2) u) = None \<longleftrightarrow> fst (run_state (service_Shutdown s) u) = None) \<and>
    (fst (run_state (service_Shutdown s) u) = None \<longleftrightarrow> sv_containers s = [])"
proof -
  obtain c where c: "sv_containers s1 = gm_put (cr_ID r) c (sv_containers s)"
    using run_Create [OF assms(3)] by auto
  let ?d = "\<lparr>dr_ID = cr_ID r, dr_ExecID = []\<rparr>"
  have g: "gm_get (sv_containers s1) (dr_ID ?d) = Some c" by (simp add: c gm.get_put)
  obtain rp c' v where "run_state (container_Delete env c ?d)
      \<lparr>ext = ext w2, trace = trace w2 @ [ActLock MuService, ActUnlock MuService]\<rparr> = ((rp, c'), v)"
    "s2 = (if dr_ExecID ?d = [] \<and> (\<exists>p. rp = Inr p)
           then s1\<lparr>sv_containers := gm_del (dr_ID ?d) (sv_containers (sv_put (dr_ID ?d) c' s1))\<rparr>
           else sv_put (dr_ID ?d) c' s1)" "(\<exists>e. (Inr resp :: delete_response result) = Inl e) \<longleftrightarrow> (\<exists>e. rp = Inl e)"
    by (rule run_Delete [OF g assms(4)])
  then have "sv_containers s2 = gm_del (cr_ID r) (gm_put (cr_ID r) c' (gm_put (cr_ID r) c (sv_containers s)))"
    by (cases rp) (auto simp: sv_put_def c)
  then have "sv_containers s2 = sv_containers s" by (simp add: gm_len_del_put [OF assms(1,2)])
  then show ?thesis by (simp add: service_Shutdown_def)
qed


lemma create_delete_round_trip_witness:
  "\<exists>s2. fst (run_state (service_Delete sample_env (snd (fst after_create)) \<lparr>dr_ID = ''c1'', dr_ExecID = []\<rparr>)
       (snd after_create)) =
     (Inr \<lparr>dl_ExitStatus = 0, dl_ExitedAt = ToTimestamp None, dl_Pid = 42\<rparr>, s2) \<and>
     sv_containers s2 = [] \<and> fst (run_state (service_Shutdown s2) (snd after_create)) = None"
proof -
  let ?d = "\<lparr>dr_ID = ''c1'', dr_ExecID = []\<rparr>"
  let ?r = "run_state (service_Delete sample_env (snd (fst after_create)) ?d) (snd after_create)"
  have ok: "fst (fst ?r) = Inr \<lparr>dl_ExitStatus = 0, dl_ExitedAt = ToTimestamp None, dl_Pid = 42\<rparr>" by code_simp
  then have r: "?r = ((Inr \<lparr>dl_ExitStatus = 0, dl_ExitedAt = ToTimestamp None, dl_Pid = 42\<rparr>, snd (fst ?r)), snd ?r)"
    by (metis prod.collapse)
  have id: "cr_ID sample_create_request = ''c1''" by (simp add: sample_create_request_def)
  have b: "gm_wf (sv_containers booted)" "gm_get (sv_containers booted) (cr_ID sample_create_request) = None"
    "sv_containers booted = []" by (simp_all add: booted_def gm.wf_empty)
  note rt = create_delete_round_trip [OF b(1,2) after_create_run r [folded id], of "snd after_create"]
  have 1: "sv_containers (snd (fst ?r)) = []"
    using conjunct1 [OF rt] unfolding b(3) id .
  have "fst (run_state (service_Shutdown (snd (fst ?r))) (snd after_create)) = None"
    using conjunct2 [OF rt] unfolding id b(3) simp_thms by (rule conjE) simp
  with 1 r show ?thesis by (metis fst_conv)
qed

text \<open>
  C32: A failed \<open>Create\<close> can leave its container registered. When the container was built but its cgroup
  cannot be loaded or handed to the OOM poller, the call fails and the container stays in the registry:
  \<open>Shutdown\<close> refuses until it is deleted.
\<close>

theorem failed_create_stays_registered:
  assumes "run_state (CreateWithFSRestore env s r fi fd) w = ((Inl e, s'), v)"
    and "\<exists>c. fst (run_state (NewContainer env r fi fd) \<lparr>ext = ext w, trace = trace w @ [ActLock MuService]\<rparr>) = Inr c"
  shows "(\<exists>c. gm_get (sv_containers s') (cr_ID r) = Some c \<and> ct_Bundle c = cr_Bundle r) \<and>
    fst (run_state (service_Shutdown s') u) \<noteq> None"
proof -
  obtain c w1 where nc: "run_state (NewContainer env r fi fd)
      \<lparr>ext = ext w, trace = trace w @ [ActLock MuService]\<rparr> = (Inr c, w1)"
    using assms(2) by (metis prod.collapse)
  note f = NewContainer_fresh [OF nc]
  then obtain i where i: "ct_task c = Some i" by (auto simp: fresh_container_def split: option.splits)
  have s': "sv_containers s' = gm_put (cr_ID r) c (sv_containers s)"
    using assms(1) nc i
    by (auto simp: CreateWithFSRestore_def with_lock_def container_init_def ct_init_def sv_put_def
        load_cgroup_def run_ext_call Let_def split: prod.splits sum.splits option.splits if_splits)
  then have "sv_containers s' \<noteq> []" by (cases "sv_containers s") auto
  with s' f show ?thesis by (simp add: service_Shutdown_def gm.get_put fresh_container_def)
qed

lemma failed_create_stays_registered_witness:
  "\<exists>e s' v. run_state (CreateWithFSRestore (sample_env\<lparr>oom_add := \<lambda>i g x. (Some (Msg ''no memory controller''), x)\<rparr>)
      booted sample_create_request [] False) \<lparr>ext = 0, trace = []\<rparr> = ((Inl e, s'), v) \<and>
    fst (run_state (service_Shutdown s') v) \<noteq> None"
proof -
  let ?env = "sample_env\<lparr>oom_add := \<lambda>i g x. (Some (Msg ''no memory controller''), x)\<rparr>"
  let ?r = "run_state (CreateWithFSRestore ?env booted sample_create_request [] False) \<lparr>ext = 0, trace = []\<rparr>"
  let ?w = "\<lparr>ext = 0, trace = []\<rparr> :: nat world"
  let ?n = "fst (run_state (NewContainer ?env sample_create_request [] False)
     \<lparr>ext = ext ?w, trace = trace ?w @ [ActLock MuService]\<rparr>)"
  have "case fst (fst ?r) of Inl e \<Rightarrow> True | Inr p \<Rightarrow> False" by code_simp
  then obtain e s' v where r: "?r = ((Inl e, s'), v)" by (cases ?r; cases "fst ?r"; cases "fst (fst ?r)") auto
  have "case ?n of Inl e \<Rightarrow> False | Inr p \<Rightarrow> True" by code_simp
  then have "\<exists>c. ?n = Inr c" by (cases ?n) auto
  with failed_create_stays_registered [OF r] r show ?thesis by blast
qed

lemma emits_container_Exec:
  assumes "states_forward env"
  shows "emits silent (container_Exec env c r)"
proof -
  have "emits silent (st_Exec env i path x)" for i path x using assms by (simp add: states_forward_def)
  then show ?thesis
    unfolding container_Exec_def init_Exec_def container_ProcessAdd_def
    by (intro emits_intros) simp_all
qed

text \<open>What a successful \<open>Exec\<close> adds to its container.\<close>

lemma container_Exec_added:
  assumes "states_forward env" "ct_task c = Some i"
    and "run_state (container_Exec env c r) w = ((Inr x, c'), v)"
  shows "xp_id x = er_ExecID r" "gm_get (ct_processes c') (er_ExecID r) = Some x"
proof -
  let ?conf = "\<lparr>xc_ID = er_ExecID r, xc_Terminal = er_Terminal r, xc_Stdin = er_Stdin r,
      xc_Stdout = er_Stdout r, xc_Stderr = er_Stderr r, xc_Spec = er_Spec r\<rparr>"
  obtain i' u where x: "run_state (init_Exec env i (ct_Bundle c) ?conf) w = ((Inr x, i'), u)"
    "c' = c\<lparr>ct_task := Some i', ct_processes := gm_put (xp_id x) x (ct_processes c)\<rparr>"
    by (rule run_container_Exec [OF assms(3,2)]) simp
  have "\<exists>w0. fst (fst (run_state (st_Exec env i (ct_Bundle c) ?conf) w0)) = Inr x"
    using x(1) by (auto simp: init_Exec_def with_lock_def split: prod.splits) (metis fst_conv)
  with assms(1) have "init_exec env i (ct_Bundle c) ?conf = Inr x" unfolding states_forward_def by blast
  then show "xp_id x = er_ExecID r" using init_exec_id by fastforce
  then show "gm_get (ct_processes c') (er_ExecID r) = Some x" using x(2) by (simp add: gm.get_put)
qed

text \<open>The call of \<open>Exec\<close> with an ID that is free.\<close>

lemma service_Exec_free:
  assumes "states_forward env" "gm_get (sv_containers s) (er_ID r) = Some c" "ct_task c = Some i"
    and "ct_lookup c (er_ExecID r) = Inl e" "run_state (service_Exec env s r) w = ((err, s'), v)"
  shows "\<exists>as. trace v = trace w @ as \<and> (err \<noteq> None \<longrightarrow> events as = []) \<and>
    (err = None \<longrightarrow> (\<exists>x. holds s' (er_ID r) (er_ExecID r) (PExec x) \<and> xp_id x = er_ExecID r) \<and>
       events as = [TaskExecAdded (er_ID r) (er_ExecID r)] \<and>
       last as = ActSend (TaskExecAdded (er_ID r) (er_ExecID r)))"
proof -
  let ?w1 = "\<lparr>ext = ext w, trace = trace w @ [ActLock MuService, ActUnlock MuService]\<rparr>"
  let ?w2 = "after_lookup c ?w1"
  let ?locks = "[ActLock MuService, ActUnlock MuService, ActLock (ct_mu c), ActUnlock (ct_mu c)]"
  have locks: "trace ?w2 = trace w @ ?locks" "events ?locks = []" by (simp_all add: after_lookup_def)
  have ne: "er_ExecID r \<noteq> []" using assms(3,4) by (auto simp: ct_lookup_def ct_init_def)
  obtain rp c' w2 where c': "run_state (container_Exec env c r) ?w2 = ((rp, c'), w2)" by (metis surj_pair)
  obtain bs where bs: "trace w2 = trace ?w2 @ bs" "\<forall>a \<in> set bs. silent a"
    by (rule emitsD [OF emits_container_Exec [OF assms(1)] c'])
  then have none: "events (?locks @ bs) = []" using locks(2) events_silent [of bs] by (simp add: list_all_iff)
  show ?thesis
  proof (cases rp)
    case (Inl er)
    with assms(2,4,5) c' have "err = Some er" "v = w2"
      by (simp_all add: service_Exec_def container_Process_def after_lookup_def Let_def)
    with bs(1) locks(1) none show ?thesis by (intro exI [of _ "?locks @ bs"]) simp
  next
    case (Inr x)
    note x = container_Exec_added [OF assms(1,3) c' [unfolded Inr]]
    let ?ev = "ActSend (TaskExecAdded (er_ID r) (er_ExecID r))"
    have "err = None" "s' = sv_put (er_ID r) c' s" "trace v = trace w2 @ [?ev]"
      using assms(2,4,5) c' Inr x(1)
      by (auto simp: service_Exec_def container_Process_def after_lookup_def send_def Let_def)
    moreover have "holds (sv_put (er_ID r) c' s) (er_ID r) (er_ExecID r) (PExec x)"
      using x ne by (simp add: holds_def sv_put_def gm.get_put ct_view_eq)
    moreover have "events (?locks @ bs @ [?ev]) = [TaskExecAdded (er_ID r) (er_ExecID r)]"
      using none by simp
    ultimately show ?thesis using x(1) bs(1) locks(1) by (intro exI [of _ "?locks @ bs @ [?ev]"]) auto
  qed
qed

text \<open>
  C14: \<open>Exec\<close> adds a process at most once. When a process with the ID is in the container, the call is
  refused with AlreadyExists and neither the service changes nor an event is sent; when it succeeds, the
  ID was free, the new process is in the container under its ID, and the only event of the call is one
  TaskExecAdded for it, sent last. A call that fails sends no event.
\<close>

theorem exec_adds_once:
  assumes "states_forward env" "registry_ok s" "gm_get (sv_containers s) (er_ID r) = Some c"
    and "run_state (service_Exec env s r) w = ((err, s'), v)"
  shows "\<exists>as. trace v = trace w @ as \<and>
    (ct_view c (er_ExecID r) \<noteq> None \<longrightarrow>
       err = Some (ToGRPCf ErrAlreadyExists (''id '' @ er_ExecID r)) \<and> s' = s) \<and>
    (err \<noteq> None \<longrightarrow> events as = []) \<and>
    (err = None \<longrightarrow> ct_view c (er_ExecID r) = None \<and>
       (\<exists>x. holds s' (er_ID r) (er_ExecID r) (PExec x) \<and> xp_id x = er_ExecID r) \<and>
       events as = [TaskExecAdded (er_ID r) (er_ExecID r)] \<and>
       last as = ActSend (TaskExecAdded (er_ID r) (er_ExecID r)))"
proof (cases "ct_lookup c (er_ExecID r)")
  case (Inr p)
  let ?locks = "[ActLock MuService, ActUnlock MuService, ActLock (ct_mu c), ActUnlock (ct_mu c)]"
  have "err = Some (ToGRPCf ErrAlreadyExists (''id '' @ er_ExecID r))" "s' = s"
    "trace v = trace w @ ?locks"
    using assms(3,4) Inr by (auto simp: service_Exec_def container_Process_def after_lookup_def)
  moreover have "events ?locks = []" by simp
  ultimately show ?thesis by (intro exI [of _ ?locks]) simp
next
  case (Inl e)
  then have "ct_view c (er_ExecID r) = None" by (simp add: ct_view_def)
  moreover obtain i where "ct_task c = Some i" by (rule container_ok_task [OF registry_ok_get [OF assms(2,3)]])
  ultimately show ?thesis using service_Exec_free [OF assms(1,3) _ Inl assms(4)] by auto
qed

lemma exec_adds_once_witness:
  "\<exists>s' v x. run_state (service_Exec sample_env exec_service ((sample_exec_request ''e2'')\<lparr>er_ID := ''app''\<rparr>))
       \<lparr>ext = 0, trace = []\<rparr> = ((None, s'), v) \<and> holds s' ''app'' ''e2'' (PExec x) \<and>
     events (trace v) = [TaskExecAdded ''app'' ''e2''] \<and>
     fst (fst (run_state (service_Exec sample_env exec_service ((sample_exec_request ''e1'')\<lparr>er_ID := ''app''\<rparr>))
       \<lparr>ext = 0, trace = []\<rparr>)) = Some (ToGRPCf ErrAlreadyExists ''id e1'')"
proof -
  let ?r = "\<lambda>x. (sample_exec_request x)\<lparr>er_ID := ''app''\<rparr>"
  let ?x = "\<lambda>x. run_state (service_Exec sample_env exec_service (?r x)) \<lparr>ext = 0, trace = []\<rparr>"
  obtain c where c: "gm_get (sv_containers exec_service) (er_ID (?r ''e2'')) = Some c"
    "gm_get (sv_containers exec_service) (er_ID (?r ''e1'')) = Some c" "ct_view c ''e1'' \<noteq> None"
    by (simp add: exec_service_def sv_put_def sample_service_def ct_view_eq)
  have "fst (fst (?x ''e2'')) = None" by code_simp
  then have r: "?x ''e2'' = ((None, snd (fst (?x ''e2''))), snd (?x ''e2''))" by (metis prod.collapse)
  have 2: "\<exists>x. holds (snd (fst (?x ''e2''))) ''app'' ''e2'' (PExec x)"
    "events (trace (snd (?x ''e2''))) = [TaskExecAdded ''app'' ''e2'']"
    using exec_adds_once [OF sample_states_forward exec_service_ok c(1) r] by (auto simp: sample_exec_request_def)
  have r1: "?x ''e1'' = ((fst (fst (?x ''e1'')), snd (fst (?x ''e1''))), snd (?x ''e1''))" by simp
  have "fst (fst (?x ''e1'')) = Some (ToGRPCf ErrAlreadyExists ''id e1'')"
    using exec_adds_once [OF sample_states_forward exec_service_ok c(2) r1] c(3)
    by (auto simp: sample_exec_request_def)
  with r 2 show ?thesis by blast
qed

end
