(* ===== verification/StartRestore.thy ===== *)
theory StartRestore
  imports Exits
begin

text \<open>
  \<open>Start\<close>, \<open>Restore\<close> and \<open>Checkpoint\<close> from the call of the service down to the command line: which
  containers are restored and from what, the fork of a whole pod from one image, and the checkpoint
  that leaves its container running.
\<close>

section \<open>What the handlers start\<close>

text \<open>
  The created state calls the process's \<open>start\<close> (\<open>proc/init_state.go\<close>, not part of this source) and answers
  with its result. On success only the state of the process changes and nothing else is done. On failure
  the process may change in any way (a container that is not the sandbox is given the internal error code
  as its exit, which \<open>convertStatus\<close> relies on) and more may be done, but no further command is started.
\<close>

definition created_starts :: "('x, 's, 'z) state_env_scheme \<Rightarrow> bool" where
  "created_starts env \<longleftrightarrow>
     (\<forall>p conf w. i_initState p = created_state env \<longrightarrow>
        (\<exists>err u q v as. run_state (init_start env p conf) w = (err, u) \<and>
           run_state (st_Start env p conf) w = ((err, q), v) \<and>
           trace v = trace u @ as \<and> started as = [] \<and>
           (err = None \<longrightarrow> v = u \<and> (\<exists>st. q = p\<lparr>i_initState := st\<rparr>))))"

lemma started_locks [simp]:
  "started (ActLock m # as) = started as" "started (ActUnlock m # as) = started as"
  "started (ActGoWait c # as) = started as"
  by (simp_all add: started_def)

definition restore_to :: "string \<Rightarrow> restore_conf option" where
  "restore_to img =
     (if img = [] then None
      else Some \<lparr>rc_ImagePath = img, rc_Direct = False, rc_Background = False\<rparr>)"

text \<open>The decision \<open>Start\<close> takes for an init process, as a configuration of \<open>start\<close>.\<close>

definition image_of :: "oci_spec result \<Rightarrow> string" where
  "image_of rs = (case rs of Inl e \<Rightarrow> [] | Inr spec \<Rightarrow> shouldRestore spec)"

lemma run_container_Process [simp]:
  "run_state (container_Process c k) w = (ct_lookup c k, after_lookup c w)"
  by (simp add: container_Process_def after_lookup_def)

text \<open>The container's part: one lookup, the process's mutex, one command.\<close>

lemma run_init_Start:
  assumes "created_starts env" "i_initState i = created_state env"
  obtains q err v as where
    "run_state (with_lock (init_mu i) (st_Start env i conf)) w = ((err, q), v)"
    "trace v = trace w @ as" "started as = [start_command env i conf]"
    "err = fst (run_state (init_start env i conf) \<lparr>ext = ext w, trace = trace w @ [ActLock (init_mu i)]\<rparr>)"
    "err = None \<longrightarrow> ActGoWait (i_id i) \<in> set as \<and> i_pid q = i_pid i"
proof -
  let ?w1 = "\<lparr>ext = ext w, trace = trace w @ [ActLock (init_mu i)]\<rparr>"
  from assms obtain err u q v cs where s: "run_state (init_start env i conf) ?w1 = (err, u)"
    and st: "run_state (st_Start env i conf) ?w1 = ((err, q), v)"
    and cs: "trace v = trace u @ cs" "started cs = []"
    and ok: "err = None \<Longrightarrow> \<exists>st. q = i\<lparr>i_initState := st\<rparr>"
    unfolding created_starts_def by blast
  from run_init_start [of env i conf ?w1] s obtain bs where
    bs: "trace u = trace ?w1 @ bs @ (if err = None then [ActGoWait (i_id i)] else [])"
      "list_all is_run bs" "started bs = [start_command env i conf]" by auto
  show thesis
  proof (rule that)
    show "run_state (with_lock (init_mu i) (st_Start env i conf)) w =
        ((err, q), \<lparr>ext = ext v, trace = trace v @ [ActUnlock (init_mu i)]\<rparr>)"
      using st by (simp add: with_lock_def)
    let ?as = "ActLock (init_mu i) # bs @ (if err = None then [ActGoWait (i_id i)] else []) @ cs @
      [ActUnlock (init_mu i)]"
    show "trace \<lparr>ext = ext v, trace = trace v @ [ActUnlock (init_mu i)]\<rparr> = trace w @ ?as"
      using bs(1) cs(1) by simp
    show "started ?as = [start_command env i conf]" using bs(3) cs(2) by simp
    show "err = fst (run_state (init_start env i conf) ?w1)" using s by simp
    show "err = None \<longrightarrow> ActGoWait (i_id i) \<in> set ?as \<and> i_pid q = i_pid i"
      using ok by auto
  qed
qed

definition start_container ::
    "('x, 's, 'z) svc_env_scheme \<Rightarrow> 's container \<Rightarrow> start_request \<Rightarrow> string \<Rightarrow>
     ('x world, 's process result \<times> 's container) state" where
  "start_container env c r img =
     (if img \<noteq> [] then
        container_Restore env c
          \<lparr>rr_Start = r, rr_Conf = \<lparr>rc_ImagePath = img, rc_Direct = False, rc_Background = False\<rparr>\<rparr>
      else container_Start env c r)"

lemma run_forward_init:
  assumes "ct_task c = Some i" "run_state (f i) (after_lookup c w) = ((err, q), v)"
  shows "run_state (forward_to c [] (on_process f g)) w =
    ((case err of None \<Rightarrow> Inr (PInit q) | Some e \<Rightarrow> Inl e, c\<lparr>ct_task := Some q\<rparr>), v)"
proof -
  have "ct_lookup c [] = Inr (PInit i)" using assms(1) by (simp add: ct_lookup_def ct_init_def)
  moreover have "ct_store [] (PInit q) c = c\<lparr>ct_task := Some q\<rparr>" by (simp add: ct_store_def)
  ultimately show ?thesis
    using assms(2) by (simp add: forward_to_def on_process_def Let_def split: option.split)
qed

lemma start_container_eq:
  assumes "sr_ExecID r = []"
  shows "start_container env c r img = forward_to c []
    (on_process (\<lambda>i. with_lock (init_mu i) (st_Start env i (restore_to img)))
       (case restore_to img of None \<Rightarrow> ep_Start env | Some conf \<Rightarrow> \<lambda>e. ep_Restore env e conf))"
  using assms
  by (simp add: start_container_def container_Start_def container_Restore_def process_Start_def
      process_Restore_def restore_to_def init_Start_def [abs_def] init_Restore_def)

lemma service_Start_eq:
  assumes "gm_get (sv_containers s) (sr_ID r) = Some c" "sr_ExecID r = []"
    and "read_spec env (ct_Bundle c) (ext w) = (rs, x)"
    and "run_state (start_container env c r (image_of rs))
      \<lparr>ext = x, trace = trace w @ [ActLock MuService, ActUnlock MuService]\<rparr> = ((rp, c'), v)"
  shows "run_state (service_Start env s r) w =
    ((case rp of Inl e \<Rightarrow> Inl (ToGRPC e) | Inr p \<Rightarrow> Inr (uint32 (process_Pid env p)),
      sv_put (sr_ID r) c' s), v)"
proof -
  have "run_state (restore_route env c r)
      \<lparr>ext = ext w, trace = trace w @ [ActLock MuService, ActUnlock MuService]\<rparr> =
    (image_of rs, \<lparr>ext = x, trace = trace w @ [ActLock MuService, ActUnlock MuService]\<rparr>)"
    using assms(2,3) by (simp add: restore_route_def run_ext_call image_of_def)
  with assms(1,4) show ?thesis
    unfolding service_Start_def start_container_def [symmetric]
    by (simp add: Let_def split: sum.split)
qed

lemma run_service_Start:
  assumes "gm_get (sv_containers s) (sr_ID r) = Some c" "ct_task c = Some i" "sr_ExecID r = []"
    and "created_starts env" "i_initState i = created_state env"
  obtains c' resp v as where
    "run_state (service_Start env s r) w = ((resp, sv_put (sr_ID r) c' s), v)"
    "trace v = trace w @ as"
    "started as = [start_command env i (restore_to (image_of (fst (read_spec env (ct_Bundle c) (ext w)))))]"
    "(\<exists>e u. resp = Inl (ToGRPC e) \<and> fst (run_state (init_start env i
        (restore_to (image_of (fst (read_spec env (ct_Bundle c) (ext w)))))) u) = Some e) \<or>
     resp = Inr (uint32 (i_pid i)) \<and> ActGoWait (i_id i) \<in> set as"
proof -
  obtain rs x where rs: "read_spec env (ct_Bundle c) (ext w) = (rs, x)" by fastforce
  let ?w1 = "\<lparr>ext = x, trace = trace w @ [ActLock MuService, ActUnlock MuService]\<rparr>"
  let ?conf = "restore_to (image_of rs)"
  let ?w2 = "after_lookup c ?w1"
  obtain q err v as where
    i: "run_state (with_lock (init_mu i) (st_Start env i ?conf)) ?w2 = ((err, q), v)"
      "trace v = trace ?w2 @ as" "started as = [start_command env i ?conf]"
      "err = fst (run_state (init_start env i ?conf) \<lparr>ext = ext ?w2, trace = trace ?w2 @ [ActLock (init_mu i)]\<rparr>)"
      "err = None \<longrightarrow> ActGoWait (i_id i) \<in> set as \<and> i_pid q = i_pid i"
    by (rule run_init_Start [OF assms(4,5), of ?conf ?w2])
  note run_forward_init [where f = "\<lambda>i. with_lock (init_mu i) (st_Start env i ?conf)", OF assms(2) i(1)]
  then have "run_state (start_container env c r (image_of rs)) ?w1 =
      ((case err of None \<Rightarrow> Inr (PInit q) | Some e \<Rightarrow> Inl e, c\<lparr>ct_task := Some q\<rparr>), v)"
    unfolding start_container_eq [OF assms(3)] .
  note route = service_Start_eq [OF assms(1,3) rs this]
  let ?as = "[ActLock MuService, ActUnlock MuService, ActLock (ct_mu c), ActUnlock (ct_mu c)] @ as"
  have tr: "trace v = trace w @ ?as" using i(2) by (simp add: after_lookup_def)
  have st: "started ?as = [start_command env i (restore_to (image_of (fst (read_spec env (ct_Bundle c) (ext w)))))]"
    using i(3) rs by simp
  show thesis
  proof (cases err)
    case None
    show thesis
      by (rule that [OF route [unfolded None] tr st]) (use i(5) None in \<open>simp add: process_Pid_def\<close>)
  next
    case (Some e)
    with i(4) have "fst (run_state (init_start env i ?conf)
      \<lparr>ext = ext ?w2, trace = trace ?w2 @ [ActLock (init_mu i)]\<rparr>) = Some e" by simp
    with rs have "fst (run_state (init_start env i (restore_to (image_of (fst (read_spec env (ct_Bundle c) (ext w))))))
      \<lparr>ext = ext ?w2, trace = trace ?w2 @ [ActLock (init_mu i)]\<rparr>) = Some e" by simp
    then show thesis
      by (intro that [OF route [unfolded Some] tr st] disjI1 exI conjI) simp_all
  qed
qed


text \<open>What \<open>start\<close> reads of its environment.\<close>

lemma init_start_cong:
  fixes env :: "('x, 's, 'z) proc_env_scheme" and env' :: "('x, 's, 'z2) proc_env_scheme"
  assumes eqs: "mon_start env = mon_start env'" "mon_wait env = mon_wait env'" "io_set env = io_set env'"
    "io_start_closer env = io_start_closer env'" "map_order env = map_order env'"
    "errtxt env = errtxt env'" "last_runtime_error env = last_runtime_error env'"
  shows "init_start env p conf = init_start env' p conf"
proof -
  have cmd: "runsc_command env r a = runsc_command env' r a" for r a
    by (simp add: runsc_command_def runsc_args_def eqs)
  have ap: "apply_io env c k = apply_io env' c k" for c k by (simp add: apply_io_def eqs split: option.split)
  have cl: "close_after_start env c = close_after_start env' c" for c
    by (simp add: close_after_start_def eqs split: option.split)
  have ms: "monitor_start env k = monitor_start env' k" "monitor_wait env k h = monitor_wait env' k h" for k h
    by (simp_all add: monitor_start_def monitor_wait_def eqs)
  have "start_cmd env c k = start_cmd env' c k" for c k
    by (simp add: start_cmd_def cmdOutput_def wait_checked_def ap cl ms
        cong: option.case_cong sum.case_cong if_cong)
  moreover have "runtime_error env p e m = runtime_error env' p e m" for e m
    by (simp add: runtime_error_def eqs cong: sum.case_cong if_cong)
  ultimately show ?thesis by (simp add: init_start_eq cmd cong: option.case_cong)
qed

lemma sample_init_start:
  "init_start (sample_svc_env st out tick status sp ms) p conf =
   init_start (sample_init_env st out tick status) p conf"
  by (rule init_start_cong) (simp_all add: sample_env_defs Let_def)

lemma setExited_cong:
  assumes "now env = now env'" "shutdown_console env = shutdown_console env'"
  shows "init_setExited env p s = init_setExited env' p s"
  by (simp add: init_setExited_def assms)

lemma sample_st_Start:
  "st_Start (sample_svc_env st out tick status sp ms) = sample_start (sample_init_env st out tick status)"
  by (simp add: sample_svc_env_def sample_ctr_env_def sample_state_env_def init_env.defs state_env.defs
      ctr_env.defs svc_env.defs Let_def)

lemma sample_created_starts: "created_starts (sample_svc_env st out tick status sp ms)"
proof -
  let ?e = "sample_init_env st out tick status"
  have "\<exists>err u q v as. run_state (init_start ?e p conf) w = (err, u) \<and>
      run_state (sample_start ?e p conf) w = ((err, q), v) \<and> trace v = trace u @ as \<and> started as = [] \<and>
      (err = None \<longrightarrow> v = u \<and> (\<exists>st. q = p\<lparr>i_initState := st\<rparr>))" for p conf w
  proof -
    obtain err u where s: "run_state (init_start ?e p conf) w = (err, u)" by fastforce
    show ?thesis
    proof (cases "err = None \<or> i_Sandbox p")
      case True
      then have "run_state (sample_start ?e p conf) w = ((err, p), u)"
        using s by (cases err) (simp_all add: sample_start_def)
      with s show ?thesis
        by (intro exI [of _ err] exI [of _ u] exI [of _ p] exI [of _ "[]"]) (simp add: exI [of _ "()"])
    next
      case False
      obtain q v where q: "run_state (init_setExited ?e p (internalErrorCode ?e)) u = (q, v)" by fastforce
      have "emits (\<lambda>a. a = ActShutdownConsole \<or> (\<exists>i. a = ActCloseWaitBlock i))
          (init_setExited ?e p (internalErrorCode ?e))"
        unfolding init_setExited_def by (intro emits_intros) simp_all
      from emitsD [OF this q] obtain as where
        as: "trace v = trace u @ as" "\<forall>a \<in> set as. a = ActShutdownConsole \<or> (\<exists>i. a = ActCloseWaitBlock i)" .
      have "started as = []" using as(2) by (induction as) (auto simp: started_def)
      moreover have "run_state (sample_start ?e p conf) w = ((err, case q of None \<Rightarrow> p | Some p' \<Rightarrow> p'), v)"
        using s q False by (cases err) (simp_all add: sample_start_def)
      ultimately show ?thesis using s as(1) False by blast
    qed
  qed
  then show ?thesis unfolding created_starts_def sample_init_start sample_st_Start by blast
qed

section \<open>Starting a pod\<close>

text \<open>The calls kubelet makes one after the other: the pause container first, then the others.\<close>

fun start_all ::
    "('x, 's, 'z) svc_env_scheme \<Rightarrow> 's service \<Rightarrow> start_request list \<Rightarrow>
     ('x world, u32 result list \<times> 's service) state" where
  "start_all env s [] = ret ([], s)"
| "start_all env s (r # rs) = do {
     (resp, s1) \<leftarrow> service_Start env s r;
     (resps, s2) \<leftarrow> start_all env s1 rs;
     ret (resp # resps, s2)
   }"

definition task_of :: "'s service \<Rightarrow> string \<Rightarrow> 's init option" where
  "task_of s cid = Option.bind (gm_get (sv_containers s) cid) ct_task"

text \<open>A created container of the pod whose spec carries the image path.\<close>

definition pod_ready ::
    "('x, 's, 'z) svc_env_scheme \<Rightarrow> 's service \<Rightarrow> string \<Rightarrow> start_request \<Rightarrow> bool" where
  "pod_ready env s img r \<longleftrightarrow>
     sr_ExecID r = [] \<and>
     (\<exists>c i. gm_get (sv_containers s) (sr_ID r) = Some c \<and> ct_task c = Some i \<and>
        i_initState i = created_state env \<and>
        (\<forall>x. \<exists>spec. fst (read_spec env (ct_Bundle c) x) = Inr spec \<and> shouldRestore spec = img))"

lemma pod_ready_put:
  assumes "pod_ready env s img r'" "sr_ID r' \<noteq> cid"
  shows "pod_ready env (sv_put cid c s) img r'" "task_of (sv_put cid c s) (sr_ID r') = task_of s (sr_ID r')"
  using assms by (simp_all add: pod_ready_def task_of_def sv_put_def gm.get_put)

lemma run_start_all:
  assumes "created_starts env" "distinct (map sr_ID rs)" "\<forall>r \<in> set rs. pod_ready env s img r"
  shows "\<exists>resps s' v as. run_state (start_all env s rs) w = ((resps, s'), v) \<and> trace v = trace w @ as \<and>
    started as = map (\<lambda>r. start_command env (the (task_of s (sr_ID r))) (restore_to img)) rs"
  using assms(2,3)
proof (induction rs arbitrary: s w)
  case Nil
  then show ?case by simp
next
  case (Cons r rs)
  then have "pod_ready env s img r" by simp
  then obtain c i where c: "gm_get (sv_containers s) (sr_ID r) = Some c" "ct_task c = Some i"
    "i_initState i = created_state env" "sr_ExecID r = []"
    and rd: "\<exists>spec. fst (read_spec env (ct_Bundle c) (ext w)) = Inr spec \<and> shouldRestore spec = img"
    unfolding pod_ready_def by blast
  have img: "image_of (fst (read_spec env (ct_Bundle c) (ext w))) = img"
    using rd by (auto simp: image_of_def)
  obtain c' resp v as where st: "run_state (service_Start env s r) w = ((resp, sv_put (sr_ID r) c' s), v)"
    "trace v = trace w @ as" "started as = [start_command env i (restore_to img)]"
    by (rule run_service_Start [OF c(1,2,4) assms(1) c(3), of w, unfolded img])
  let ?s1 = "sv_put (sr_ID r) c' s"
  have others: "pod_ready env ?s1 img r'" "task_of ?s1 (sr_ID r') = task_of s (sr_ID r')"
    if "r' \<in> set rs" for r'
  proof -
    have "sr_ID r' \<noteq> sr_ID r" using Cons.prems(1) that by (metis distinct.simps(2) imageI list.set_map list.simps(9))
    moreover have "pod_ready env s img r'" using Cons.prems(2) that by simp
    ultimately show "pod_ready env ?s1 img r'" "task_of ?s1 (sr_ID r') = task_of s (sr_ID r')"
      using pod_ready_put by metis+
  qed
  have "distinct (map sr_ID rs)" "\<forall>r \<in> set rs. pod_ready env ?s1 img r"
    using Cons.prems(1) others(1) by simp_all
  from Cons.IH [OF this, of v] obtain resps s' u bs where
    ih: "run_state (start_all env ?s1 rs) v = ((resps, s'), u)" "trace u = trace v @ bs"
      "started bs = map (\<lambda>r. start_command env (the (task_of ?s1 (sr_ID r))) (restore_to img)) rs" by blast
  have "run_state (start_all env s (r # rs)) w = ((resp # resps, s'), u)" using st(1) ih(1) by simp
  moreover have "trace u = trace w @ as @ bs" using st(2) ih(2) by simp
  moreover have "task_of s (sr_ID r) = Some i" using c(1,2) by (simp add: task_of_def)
  then have "started (as @ bs) =
      map (\<lambda>r. start_command env (the (task_of s (sr_ID r))) (restore_to img)) (r # rs)"
    using st(3) ih(3) others(2) by simp
  ultimately show ?case by blast
qed

section \<open>Properties\<close>

text \<open>
  C2: \<open>Start\<close> restores exactly the annotated init processes. For a registered container whose task is in
  the created state, one command is started: \<open>runsc restore --image-path=P --detach\<close> on the container
  when its spec can be read and its restore annotation is a non-empty \<open>P\<close>, and \<open>runsc start\<close>
  otherwise. The response is the task's pid, with the waiter spawned, or the error of that \<open>start\<close> or
  \<open>restore\<close> as a gRPC error; what a failed start does to the process is left open.
\<close>

theorem start_routes_by_annotation:
  assumes "gm_get (sv_containers s) (sr_ID r) = Some c" "ct_task c = Some i" "sr_ExecID r = []"
    and "created_starts env" "i_initState i = created_state env"
  shows "\<exists>resp s' v as conf. run_state (service_Start env s r) w = ((resp, s'), v) \<and> trace v = trace w @ as \<and>
    conf = (case fst (read_spec env (ct_Bundle c) (ext w)) of
         Inr spec \<Rightarrow>
           if shouldRestore spec \<noteq> [] then
             Some \<lparr>rc_ImagePath = shouldRestore spec, rc_Direct = False, rc_Background = False\<rparr>
           else None
       | Inl e \<Rightarrow> None) \<and>
    started as = [start_final env (if i_Sandbox i then None else i_io i) (runsc_command env (i_runtime i)
      (case conf of
         Some cf \<Rightarrow> [''restore'', ''--image-path='' @ rc_ImagePath cf, ''--detach'', i_id i]
       | None \<Rightarrow> [''start'', i_id i]))] \<and>
    ((\<exists>e u. resp = Inl (ToGRPC e) \<and> fst (run_state (init_start env i conf) u) = Some e) \<or>
     resp = Inr (uint32 (i_pid i)) \<and> ActGoWait (i_id i) \<in> set as)"
proof -
  let ?conf = "restore_to (image_of (fst (read_spec env (ct_Bundle c) (ext w))))"
  obtain c' resp v as where r:
    "run_state (service_Start env s r) w = ((resp, sv_put (sr_ID r) c' s), v)"
    "trace v = trace w @ as" "started as = [start_command env i ?conf]"
    "(\<exists>e u. resp = Inl (ToGRPC e) \<and> fst (run_state (init_start env i ?conf) u) = Some e) \<or>
     resp = Inr (uint32 (i_pid i)) \<and> ActGoWait (i_id i) \<in> set as"
    by (rule run_service_Start [OF assms])
  have conf: "?conf = (case fst (read_spec env (ct_Bundle c) (ext w)) of
         Inr spec \<Rightarrow>
           if shouldRestore spec \<noteq> [] then
             Some \<lparr>rc_ImagePath = shouldRestore spec, rc_Direct = False, rc_Background = False\<rparr>
           else None
       | Inl e \<Rightarrow> None)"
    by (simp add: restore_to_def image_of_def split: sum.split)
  have "started as = [start_final env (if i_Sandbox i then None else i_io i) (runsc_command env (i_runtime i)
      (case ?conf of
         Some cf \<Rightarrow> [''restore'', ''--image-path='' @ rc_ImagePath cf, ''--detach'', i_id i]
       | None \<Rightarrow> [''start'', i_id i]))]"
    using r(3) by (simp add: start_command_def start_io_def start_argv_def restore_to_def)
  with r(1,2,4) conf show ?thesis by (intro exI [of _ ?conf] exI conjI) auto
qed

lemma start_routes_by_annotation_witness:
  "\<exists>s' v as. run_state (service_Start (sample_svc_env 0 [] 1 ''running'' (pod_spec ''/img'') [])
       sample_service \<lparr>sr_ID = ''app'', sr_ExecID = []\<rparr>) \<lparr>ext = 0, trace = []\<rparr> = ((Inr 42, s'), v) \<and>
     trace v = as \<and> map c_Args (started as) =
       [[''--root=/run/runsc'', ''--log-format=json'', ''--platform=systrap'',
         ''restore'', ''--image-path=/img'', ''--detach'', ''app'']]"
proof -
  let ?env = "sample_svc_env 0 [] 1 ''running'' (pod_spec ''/img'') []"
  let ?r = "\<lparr>sr_ID = ''app'', sr_ExecID = []\<rparr>"
  let ?w = "\<lparr>ext = 0, trace = []\<rparr> :: nat world"
  let ?i = "sample_init\<lparr>i_id := ''app''\<rparr>"
  let ?c = "sample_container\<lparr>ct_ID := ''app'', ct_task := Some ?i\<rparr>"
  have c: "gm_get (sv_containers sample_service) (sr_ID ?r) = Some ?c" by (simp add: sample_service_def)
  have img: "fst (read_spec ?env (ct_Bundle ?c) (ext ?w)) = Inr (pod_spec ''/img'')"
    by (simp add: sample_env_defs Let_def)
  have sr: "shouldRestore (pod_spec ''/img'') = ''/img''"
    by (simp add: shouldRestore_def annotation_def pod_spec_def)
  have i: "i_Sandbox ?i = False" "i_id ?i = ''app''" "ct_task ?c = Some ?i"
    by (simp_all add: sample_init_def New_def)
  from start_routes_by_annotation [OF c i(3) _ sample_created_starts, of 0 "[]" 1 "''running''"
      "pod_spec ''/img''" "[]" ?w]
  obtain resp s' v where
    r: "run_state (service_Start ?env sample_service ?r) ?w = ((resp, s'), v)"
    "started (trace v) = [start_final ?env (i_io ?i) (runsc_command ?env (i_runtime ?i)
      [''restore'', ''--image-path=/img'', ''--detach'', ''app''])]"
    unfolding img i by (auto simp: sr)
  have "fst (fst (run_state (service_Start ?env sample_service ?r) ?w)) = Inr 42" by code_simp
  with r(1) have "resp = Inr 42" by simp
  moreover have "c_Args (start_final ?env (i_io ?i) (runsc_command ?env (i_runtime ?i)
      [''restore'', ''--image-path=/img'', ''--detach'', ''app''])) =
    [''--root=/run/runsc'', ''--log-format=json'', ''--platform=systrap'',
         ''restore'', ''--image-path=/img'', ''--detach'', ''app'']" by code_simp
  ultimately show ?thesis using r by auto
qed


text \<open>
  C1: A pod is forked from one image. When the containers of a pod are created and each spec carries
  the same non-empty image path, starting them one after the other runs exactly one command per
  container, in that order: \<open>runsc restore --image-path=P --detach\<close> with the container's own ID, the
  same \<open>P\<close> for all. No container is started cold, whatever the results of the commands before it.
\<close>

theorem pod_restored_from_one_image:
  assumes "created_starts env" "distinct (map sr_ID rs)" "img \<noteq> []"
    and "\<forall>r \<in> set rs. pod_ready env s img r"
  shows "\<exists>resps s' v as. run_state (start_all env s rs) w = ((resps, s'), v) \<and> trace v = trace w @ as \<and>
    started as = map (\<lambda>r. let i = the (task_of s (sr_ID r)) in
      start_final env (if i_Sandbox i then None else i_io i)
        (runsc_command env (i_runtime i) [''restore'', ''--image-path='' @ img, ''--detach'', i_id i])) rs"
  using run_start_all [OF assms(1,2,4), of w] assms(3)
  by (simp add: start_command_def start_io_def start_argv_def restore_to_def Let_def cong: map_cong)

lemma pod_restored_from_one_image_witness:
  "\<exists>resps s' v as. run_state (start_all (sample_svc_env 0 [] 1 ''running'' (pod_spec ''/img'') [])
      sample_service [\<lparr>sr_ID = ''pause'', sr_ExecID = []\<rparr>, \<lparr>sr_ID = ''app'', sr_ExecID = []\<rparr>])
      \<lparr>ext = 0, trace = []\<rparr> = ((resps, s'), v) \<and> trace v = as \<and> length (started as) = 2"
proof -
  let ?env = "sample_svc_env 0 [] 1 ''running'' (pod_spec ''/img'') []"
  let ?rs = "[\<lparr>sr_ID = ''pause'', sr_ExecID = []\<rparr>, \<lparr>sr_ID = ''app'', sr_ExecID = []\<rparr>]"
  have "\<forall>r \<in> set ?rs. pod_ready ?env sample_service ''/img'' r"
    by (simp add: pod_ready_def sample_service_def sample_env_defs Let_def shouldRestore_def
        annotation_def pod_spec_def)
  from pod_restored_from_one_image [OF sample_created_starts _ _ this, of "\<lparr>ext = 0, trace = []\<rparr>"]
  obtain resps s' v as where
    1: "run_state (start_all ?env sample_service ?rs) \<lparr>ext = 0, trace = []\<rparr> = ((resps, s'), v)"
      "trace v = [] @ as"
    and 2: "started as = map (\<lambda>r. let i = the (task_of sample_service (sr_ID r)) in
      start_final ?env (if i_Sandbox i then None else i_io i)
        (runsc_command ?env (i_runtime i) [''restore'', ''--image-path='' @ ''/img'', ''--detach'', i_id i])) ?rs"
    by auto
  from 2 have "length (started as) = length ?rs" by (simp only: length_map)
  with 1 show ?thesis by (intro exI conjI) auto
qed

text \<open>
  C29: An unreadable spec is not surfaced: the container is cold-started. When the spec cannot be read, the
  whole outcome of \<open>Start\<close> is that of starting the container with no image: the read error is dropped,
  and a response that is an error carries the error of that start. For a task in the created state the one
  command is \<open>runsc start\<close> and the answer the pid or the error of this \<open>start\<close>.
\<close>

theorem unreadable_spec_cold_starts:
  assumes "gm_get (sv_containers s) (sr_ID r) = Some c" "sr_ExecID r = []"
    and "read_spec env (ct_Bundle c) (ext w) = (Inl e, x)"
  shows "run_state (service_Start env s r) w =
      (case run_state (container_Start env c r)
              \<lparr>ext = x, trace = trace w @ [ActLock MuService, ActUnlock MuService]\<rparr> of
         ((Inl err, c'), v) \<Rightarrow> ((Inl (ToGRPC err), sv_put (sr_ID r) c' s), v)
       | ((Inr p, c'), v) \<Rightarrow> ((Inr (uint32 (process_Pid env p)), sv_put (sr_ID r) c' s), v)) \<and>
    (\<forall>i. ct_task c = Some i \<and> created_starts env \<and> i_initState i = created_state env \<longrightarrow>
      (\<exists>resp s' v as. run_state (service_Start env s r) w = ((resp, s'), v) \<and> trace v = trace w @ as \<and>
        started as = [start_final env (if i_Sandbox i then None else i_io i)
          (runsc_command env (i_runtime i) [''start'', i_id i])] \<and>
        (resp = Inr (uint32 (i_pid i)) \<or>
         (\<exists>err u. resp = Inl (ToGRPC err) \<and> fst (run_state (init_start env i None) u) = Some err))))"
proof (intro conjI allI impI)
  let ?w1 = "\<lparr>ext = x, trace = trace w @ [ActLock MuService, ActUnlock MuService]\<rparr>"
  obtain rp c' v where st: "run_state (container_Start env c r) ?w1 = ((rp, c'), v)" by (metis surj_pair)
  then have "run_state (start_container env c r (image_of (Inl e))) ?w1 = ((rp, c'), v)"
    by (simp add: start_container_def image_of_def)
  from service_Start_eq [OF assms(1,2,3) this] st
  show "run_state (service_Start env s r) w =
      (case run_state (container_Start env c r) ?w1 of
         ((Inl err, c'), v) \<Rightarrow> ((Inl (ToGRPC err), sv_put (sr_ID r) c' s), v)
       | ((Inr p, c'), v) \<Rightarrow> ((Inr (uint32 (process_Pid env p)), sv_put (sr_ID r) c' s), v))"
    by (simp split: sum.split)
next
  fix i
  assume i: "ct_task c = Some i \<and> created_starts env \<and> i_initState i = created_state env"
  have conf: "restore_to (image_of (fst (read_spec env (ct_Bundle c) (ext w)))) = None"
    using assms(3) by (simp add: image_of_def restore_to_def)
  obtain c' resp v as where r:
    "run_state (service_Start env s r) w = ((resp, sv_put (sr_ID r) c' s), v)" "trace v = trace w @ as"
    "started as = [start_command env i None]"
    "(\<exists>e u. resp = Inl (ToGRPC e) \<and> fst (run_state (init_start env i None) u) = Some e) \<or>
     resp = Inr (uint32 (i_pid i)) \<and> ActGoWait (i_id i) \<in> set as"
    by (rule run_service_Start [OF assms(1) _ assms(2), of i env w, unfolded conf]) (use i in simp_all)
  then show "\<exists>resp s' v as. run_state (service_Start env s r) w = ((resp, s'), v) \<and> trace v = trace w @ as \<and>
        started as = [start_final env (if i_Sandbox i then None else i_io i)
          (runsc_command env (i_runtime i) [''start'', i_id i])] \<and>
        (resp = Inr (uint32 (i_pid i)) \<or>
         (\<exists>err u. resp = Inl (ToGRPC err) \<and> fst (run_state (init_start env i None) u) = Some err))"
    by (intro exI conjI) (auto simp: start_command_def start_io_def start_argv_def)
qed


lemma created_starts_read_spec:
  "created_starts (env\<lparr>read_spec := f\<rparr>) = created_starts env"
proof -
  have "init_start (env\<lparr>read_spec := f\<rparr>) p conf = init_start env p conf" for p conf
    by (rule init_start_cong) simp_all
  then show ?thesis by (simp add: created_starts_def)
qed

lemma unreadable_spec_cold_starts_witness:
  "\<exists>resp s' v as. run_state (service_Start
      ((sample_svc_env 0 [] 1 ''running'' plain_spec [])\<lparr>read_spec := \<lambda>b x. (Inl (Msg ''no such file''), x)\<rparr>)
      sample_service \<lparr>sr_ID = ''app'', sr_ExecID = []\<rparr>) \<lparr>ext = 0, trace = []\<rparr> = ((resp, s'), v) \<and>
    trace v = as \<and> map c_Args (started as) =
      [[''--root=/run/runsc'', ''--log-format=json'', ''--platform=systrap'', ''start'', ''app'']]"
proof -
  let ?env = "(sample_svc_env 0 [] 1 ''running'' plain_spec [])\<lparr>read_spec := \<lambda>b x. (Inl (Msg ''no such file''), x)\<rparr>"
  let ?r = "\<lparr>sr_ID = ''app'', sr_ExecID = []\<rparr>"
  let ?w = "\<lparr>ext = 0, trace = []\<rparr> :: nat world"
  let ?i = "sample_init\<lparr>i_id := ''app''\<rparr>"
  let ?c = "sample_container\<lparr>ct_ID := ''app'', ct_task := Some ?i\<rparr>"
  have c: "gm_get (sv_containers sample_service) (sr_ID ?r) = Some ?c" by (simp add: sample_service_def)
  have f: "created_starts ?env" by (simp add: created_starts_read_spec sample_created_starts)
  have "read_spec ?env (ct_Bundle ?c) (ext ?w) = (Inl (Msg ''no such file''), ext ?w)" by simp
  from conjunct2 [OF unreadable_spec_cold_starts [OF c _ this], rule_format, of ?i] f
  obtain resp s' v where
    "run_state (service_Start ?env sample_service ?r) ?w = ((resp, s'), v)"
    "started (trace v) = [start_final ?env (i_io ?i) (runsc_command ?env (i_runtime ?i) [''start'', ''app''])]"
    by (auto simp: sample_init_def New_def)
  moreover have "c_Args (start_final ?env (i_io ?i) (runsc_command ?env (i_runtime ?i) [''start'', ''app''])) =
    [''--root=/run/runsc'', ''--log-format=json'', ''--platform=systrap'', ''start'', ''app'']" by code_simp
  ultimately show ?thesis by auto
qed

lemma restore_route_exec: "sr_ExecID r \<noteq> [] \<Longrightarrow> restore_route env c r = ret []"
  by (simp add: restore_route_def)

text \<open>
  C28: Exec'd processes are never restored. \<open>Start\<close> with the ID of an exec'd process is exactly that
  process's own \<open>Start\<close>: its error or its pid is the answer, the process it leaves is stored under the
  same ID and nothing else happens. No spec is read and no \<open>Restore\<close> is called: whatever they would give,
  the outcome is the same; and an exec ID that is not in the container is an error.
\<close>

theorem exec_start_never_restores:
  assumes "sr_ExecID r \<noteq> []" "gm_get (sv_containers s) (sr_ID r) = Some c"
  shows "run_state (service_Start env s r) w =
      (let w1 = after_lookup c \<lparr>ext = ext w, trace = trace w @ [ActLock MuService, ActUnlock MuService]\<rparr> in
       case gm_get (ct_processes c) (sr_ExecID r) of
         None \<Rightarrow> ((Inl (ToGRPC (Wrapf (''process does not exist '' @ sr_ExecID r @ '': '') (Sentinel ErrNotFound) [])),
                   sv_put (sr_ID r) c s), w1)
       | Some x \<Rightarrow>
           (case run_state (ep_Start env x) w1 of
              ((err, x'), v) \<Rightarrow>
                ((case err of None \<Rightarrow> Inr (uint32 (ep_Pid env x')) | Some e \<Rightarrow> Inl (ToGRPC e),
                  sv_put (sr_ID r) (c\<lparr>ct_processes := gm_put (sr_ExecID r) x' (ct_processes c)\<rparr>) s), v))) \<and>
    service_Start (env\<lparr>read_spec := f, ep_Restore := g\<rparr>) s r = service_Start env s r"
proof
  note route = restore_route_exec [OF assms(1)]
  show "run_state (service_Start env s r) w =
      (let w1 = after_lookup c \<lparr>ext = ext w, trace = trace w @ [ActLock MuService, ActUnlock MuService]\<rparr> in
       case gm_get (ct_processes c) (sr_ExecID r) of
         None \<Rightarrow> ((Inl (ToGRPC (Wrapf (''process does not exist '' @ sr_ExecID r @ '': '') (Sentinel ErrNotFound) [])),
                   sv_put (sr_ID r) c s), w1)
       | Some x \<Rightarrow>
           (case run_state (ep_Start env x) w1 of
              ((err, x'), v) \<Rightarrow>
                ((case err of None \<Rightarrow> Inr (uint32 (ep_Pid env x')) | Some e \<Rightarrow> Inl (ToGRPC e),
                  sv_put (sr_ID r) (c\<lparr>ct_processes := gm_put (sr_ExecID r) x' (ct_processes c)\<rparr>) s), v)))"
  proof (cases "gm_get (ct_processes c) (sr_ExecID r)")
    case None
    with assms show ?thesis
      by (simp add: service_Start_def route container_Start_def forward_to_def ct_lookup_def Let_def)
  next
    case (Some x)
    obtain err x' v where "run_state (ep_Start env x) (after_lookup c
        \<lparr>ext = ext w, trace = trace w @ [ActLock MuService, ActUnlock MuService]\<rparr>) = ((err, x'), v)"
      by (metis surj_pair)
    with Some assms show ?thesis
      by (cases err) (simp_all add: service_Start_def route container_Start_def forward_to_def ct_lookup_def
          ct_store_def process_Start_def on_process_def process_Pid_def Let_def)
  qed
  have "container_Start (env\<lparr>read_spec := f, ep_Restore := g\<rparr>) c r = container_Start env c r" for c
    by (simp add: container_Start_def process_Start_def init_Start_def [abs_def])
  moreover have "process_Pid (env\<lparr>read_spec := f, ep_Restore := g\<rparr>) p = process_Pid env p" for p
    by (simp add: process_Pid_def split: process.split)
  ultimately show "service_Start (env\<lparr>read_spec := f, ep_Restore := g\<rparr>) s r = service_Start env s r"
    by (simp add: service_Start_def route cong: sum.case_cong)
qed

lemma exec_start_never_restores_witness:
  "\<exists>s' v. run_state (service_Start (sample_svc_env 0 [] 1 ''running'' (pod_spec ''/img'') []) exec_service
      \<lparr>sr_ID = ''app'', sr_ExecID = ''e1''\<rparr>) \<lparr>ext = 0, trace = []\<rparr> = ((Inr 50, s'), v) \<and> started (trace v) = []"
proof -
  let ?env = "sample_svc_env 0 [] 1 ''running'' (pod_spec ''/img'') []"
  let ?r = "\<lparr>sr_ID = ''app'', sr_ExecID = ''e1''\<rparr>"
  obtain c x where c: "gm_get (sv_containers exec_service) (sr_ID ?r) = Some c"
    "gm_get (ct_processes c) (sr_ExecID ?r) = Some x"
    by (simp add: exec_service_def sv_put_def sample_service_def)
  have ep: "ep_Start ?env = (\<lambda>e. ret (None, e))" "ep_Pid ?env x = 50"
    by (simp_all add: sample_env_defs Let_def)
  have "sr_ExecID ?r \<noteq> []" by simp
  from conjunct1 [OF exec_start_never_restores [OF this c(1), of ?env "\<lparr>ext = 0, trace = []\<rparr>"]] c(2) show ?thesis
    by (simp add: ep after_lookup_def uint32_def started_def del: One_nat_def)
qed

text \<open>
  C3: A checkpoint leaves the container running. On a registered container with a task, \<open>Checkpoint\<close>
  runs one command, \<open>runsc checkpoint\<close> with the request's path and always \<open>--leave-running\<close>, and
  answers nil exactly when it was waited for and exited with status 0. The only mutex it takes is the
  service's, released before the command: neither the container's nor the process's is held.
\<close>

theorem checkpoint_leaves_running:
  assumes "gm_get (sv_containers s) (pr_ID r) = Some c" "ct_task c = Some i"
  shows "\<exists>e v bs. run_state (service_Checkpoint env s r) w = (e, v) \<and>
    (let cmd = buffered (runsc_command env (i_runtime i)
       ([''checkpoint''] @ (if pr_Path r = [] then [] else [''--image-path='' @ pr_Path r]) @
        [''--leave-running'', i_id i])) in
     trace v = trace w @ [ActLock MuService, ActUnlock MuService, ActStart cmd] @ bs \<and>
     (bs = [] \<or> bs = [ActWait cmd]) \<and>
     (e = None \<longleftrightarrow> exit_ok env no_step cmd
        \<lparr>ext = ext w, trace = trace w @ [ActLock MuService, ActUnlock MuService]\<rparr>))"
proof -
  let ?w1 = "\<lparr>ext = ext w, trace = trace w @ [ActLock MuService, ActUnlock MuService]\<rparr>"
  let ?c = "runsc_command env (i_runtime i) ([''checkpoint''] @
     (if pr_Path r = [] then [] else [''--image-path='' @ pr_Path r]) @ [''--leave-running'', i_id i])"
  obtain e v where r: "run_state (runOrError env ?c) ?w1 = (e, v)" by fastforce
  have cp: "container_Checkpoint env c r = runOrError env ?c"
    using assms(2) by (simp add: container_Checkpoint_def init_Checkpoint_def runsc_Checkpoint_def
        opt_args_def checkpoint_opts_args_def)
  have "run_state (service_Checkpoint env s r) w = (map_option ToGRPC e, v)"
    using assms(1) r by (simp add: service_Checkpoint_def on_container_def cp)
  moreover have "\<exists>bs. trace v = trace ?w1 @ ActStart (buffered ?c) # bs \<and> (bs = [] \<or> bs = [ActWait (buffered ?c)])"
    using roe.run_trace [of env ?c ?w1] r by simp
  moreover have "e = None \<longleftrightarrow> exit_ok env no_step (buffered ?c) ?w1"
    using roe.run_ok [of env ?c ?w1] r by simp
  ultimately show ?thesis unfolding Let_def by auto
qed

lemma checkpoint_leaves_running_witness:
  "\<exists>e v bs. run_state (service_Checkpoint (sample_svc_env 0 [] 1 ''running'' plain_spec []) sample_service
      \<lparr>pr_ID = ''app'', pr_Path = ''/ckpt''\<rparr>) \<lparr>ext = 0, trace = []\<rparr> = (e, v) \<and>
    map c_Args (started (trace v)) = [[''--root=/run/runsc'', ''--log-format=json'', ''--platform=systrap'',
      ''checkpoint'', ''--image-path=/ckpt'', ''--leave-running'', ''app'']]"
proof -
  let ?env = "sample_svc_env 0 [] 1 ''running'' plain_spec []"
  let ?r = "\<lparr>pr_ID = ''app'', pr_Path = ''/ckpt''\<rparr>"
  let ?i = "sample_init\<lparr>i_id := ''app''\<rparr>"
  let ?c = "sample_container\<lparr>ct_ID := ''app'', ct_task := Some ?i\<rparr>"
  have c: "gm_get (sv_containers sample_service) (pr_ID ?r) = Some ?c" by (simp add: sample_service_def)
  from checkpoint_leaves_running [OF c, of ?i ?env "\<lparr>ext = 0, trace = []\<rparr>"] obtain e v bs where
    1: "run_state (service_Checkpoint ?env sample_service ?r) \<lparr>ext = 0, trace = []\<rparr> = (e, v)"
    "trace v = [ActLock MuService, ActUnlock MuService, ActStart (buffered (runsc_command ?env (i_runtime ?i)
       [''checkpoint'', ''--image-path=/ckpt'', ''--leave-running'', ''app'']))] @ bs"
    "bs = [] \<or> (\<exists>c. bs = [ActWait c])"
    by (auto simp: Let_def)
  then have "started (trace v) = [buffered (runsc_command ?env (i_runtime ?i)
       [''checkpoint'', ''--image-path=/ckpt'', ''--leave-running'', ''app''])]" by auto
  moreover have "c_Args (buffered (runsc_command ?env (i_runtime ?i)
       [''checkpoint'', ''--image-path=/ckpt'', ''--leave-running'', ''app''])) =
     [''--root=/run/runsc'', ''--log-format=json'', ''--platform=systrap'',
      ''checkpoint'', ''--image-path=/ckpt'', ''--leave-running'', ''app'']" by code_simp
  ultimately show ?thesis using 1(1) by auto
qed

end
