(* ===== verification/EventStream.thy ===== *)
theory EventStream
  imports RunscCmd
begin

text \<open>
  The stream of runsc events (\<open>Runsc.Events\<close> in \<open>runsccmd/runsc.go\<close>): a command whose standard output
  is decoded by a goroutine that hands the events on through a channel until the end of the output, and
  then closes the channel and the pipe and waits for the command. The pipe and the JSON decoder are
  parameters. The channel's reader is the caller: the model gives the events in the order in which they
  are handed on, one per turn of the loop, a turn being over when the reader has made room for it.
\<close>

section \<open>The operation\<close>

datatype decoded = Decoded run_event | DecodeEOF | DecodeFailed gerror

text \<open>An event of the stream: the field \<open>Err\<close> is set by the loop only.\<close>

record stream_event = run_event +
  ev_Err :: "gerror option"

record 'x stream_env = "'x cmd_env" +
  stdout_pipe :: "'x \<Rightarrow> nat result \<times> 'x"
  decode_next :: "nat \<Rightarrow> 'x \<Rightarrow> decoded \<times> 'x"
  close_pipe :: "nat \<Rightarrow> 'x \<Rightarrow> unit \<times> 'x"

text \<open>What the goroutine holds: the started command, the monitor's channel and the pipe.\<close>

record event_stream =
  es_cmd :: cmd
  es_wait :: nat
  es_pipe :: nat

text \<open>\<open>seconds\<close> is \<open>int(interval.Seconds())\<close>.\<close>

definition runsc_Events ::
    "('x, 'z) stream_env_scheme \<Rightarrow> runsc \<Rightarrow> string \<Rightarrow> int \<Rightarrow> ('x world, event_stream result) state" where
  "runsc_Events env r cid seconds = do {
     rd \<leftarrow> ext_call (stdout_pipe env);
     case rd of
       Inl e \<Rightarrow> ret (Inl e)
     | Inr h \<Rightarrow> do {
         let c = (runsc_command env r [''events'', ''--interval='' @ itoa seconds @ ''s'', cid])
                   \<lparr>c_Stdout := Some (Io_stream h)\<rparr>;
         ec \<leftarrow> monitor_start env c;
         case ec of
           Inl e \<Rightarrow> do { emit (ActClosePipe h); ext_call (close_pipe env h); ret (Inl e) }
         | Inr ch \<Rightarrow> ret (Inr \<lparr>es_cmd = c, es_wait = ch, es_pipe = h\<rparr>)
       }
   }"

definition error_event :: "gerror \<Rightarrow> stream_event" where
  "error_event err = \<lparr>ev_Type = ''error'', ev_Stats = None, ev_Err = Some err\<rparr>"

definition plain_event :: "run_event \<Rightarrow> stream_event" where
  "plain_event e = \<lparr>ev_Type = ev_Type e, ev_Stats = ev_Stats e, ev_Err = None\<rparr>"

text \<open>
  The loop, with one unit of fuel per turn: the events handed on, and whether the end of the output was
  reached. An error of the decoder that is not the end of the output becomes an event.
\<close>

fun stream_loop ::
    "nat \<Rightarrow> ('x, 'z) stream_env_scheme \<Rightarrow> nat \<Rightarrow> ('x world, stream_event list \<times> bool) state" where
  "stream_loop 0 env h = ret ([], False)"
| "stream_loop (Suc n) env h = do {
     d \<leftarrow> ext_call (decode_next env h);
     case d of
       DecodeEOF \<Rightarrow> ret ([], True)
     | Decoded e \<Rightarrow> do { (es, b) \<leftarrow> stream_loop n env h; ret (plain_event e # es, b) }
     | DecodeFailed err \<Rightarrow> do { (es, b) \<leftarrow> stream_loop n env h; ret (error_event err # es, b) }
   }"

text \<open>The goroutine: when the loop is over, its deferred function closes the channel and the pipe and waits.\<close>

definition stream_goroutine ::
    "nat \<Rightarrow> ('x, 'z) stream_env_scheme \<Rightarrow> event_stream \<Rightarrow> ('x world, stream_event list \<times> bool) state" where
  "stream_goroutine n env s = do {
     (es, ended) \<leftarrow> stream_loop n env (es_pipe s);
     (if ended then do {
        emit ActCloseStream;
        emit (ActClosePipe (es_pipe s));
        ext_call (close_pipe env (es_pipe s));
        w \<leftarrow> monitor_wait env (es_cmd s) (es_wait s);
        ret ()
      } else ret ());
     ret (es, ended)
   }"

section \<open>What a decoder feeds\<close>

text \<open>The decoder gives these replies, one after the other, from this state of the world.\<close>

fun feeds :: "('x, 'z) stream_env_scheme \<Rightarrow> nat \<Rightarrow> decoded list \<Rightarrow> 'x \<Rightarrow> 'x option" where
  "feeds env h [] x = Some x"
| "feeds env h (d # ds) x =
     (case decode_next env h x of (d', x') \<Rightarrow> if d' = d then feeds env h ds x' else None)"

definition handed_on :: "decoded \<Rightarrow> stream_event" where
  "handed_on d = (case d of Decoded e \<Rightarrow> plain_event e | DecodeFailed err \<Rightarrow> error_event err
                  | DecodeEOF \<Rightarrow> error_event (Msg ''EOF''))"

lemma stream_loop_feeds:
  assumes "feeds env h (ds @ [DecodeEOF]) x = Some x'" "DecodeEOF \<notin> set ds" "length ds < m" "ext w = x"
  shows "run_state (stream_loop m env h) w = ((map handed_on ds, True), \<lparr>ext = x', trace = trace w\<rparr>)"
  using assms
proof (induction ds arbitrary: x m w)
  case Nil
  then show ?case by (cases m) (auto simp: run_ext_call split: prod.splits if_splits)
next
  case (Cons d ds)
  obtain k where m: "m = Suc k" "length ds < k" using Cons.prems(3) by (cases m) auto
  obtain x1 where d: "decode_next env h x = (d, x1)" "feeds env h (ds @ [DecodeEOF]) x1 = Some x'"
    using Cons.prems(1) by (auto split: prod.splits if_splits)
  have "run_state (stream_loop k env h) \<lparr>ext = x1, trace = trace w\<rparr> =
      ((map handed_on ds, True), \<lparr>ext = x', trace = trace w\<rparr>)"
    using Cons.IH [OF d(2) _ m(2), of "\<lparr>ext = x1, trace = trace w\<rparr>"] Cons.prems(2) by simp
  with Cons.prems(2,4) d(1) m(1) show ?case
    by (cases d) (simp_all add: run_ext_call handed_on_def)
qed

lemma stream_loop_stuck:
  assumes "\<And>x. fst (decode_next env h x) = DecodeFailed err"
  shows "\<exists>x. run_state (stream_loop n env h) w = ((replicate n (error_event err), False), \<lparr>ext = x, trace = trace w\<rparr>)"
proof (induction n arbitrary: w)
  case 0
  show ?case by (intro exI [of _ "ext w"]) simp
next
  case (Suc n)
  obtain x1 where d: "decode_next env h (ext w) = (DecodeFailed err, x1)"
    using assms [of "ext w"] by (metis prod.collapse)
  from Suc.IH [of "\<lparr>ext = x1, trace = trace w\<rparr>"] obtain x where
    "run_state (stream_loop n env h) \<lparr>ext = x1, trace = trace w\<rparr> =
      ((replicate n (error_event err), False), \<lparr>ext = x, trace = trace w\<rparr>)" by auto
  with d show ?case by (intro exI [of _ x]) (simp add: run_ext_call)
qed

section \<open>A concrete environment\<close>

text \<open>The world counts the decoded values: two events, a broken one, and the end (or the break for ever).\<close>

definition sample_stream_env :: "bool \<Rightarrow> nat stream_env" where
  "sample_stream_env sticky = cmd_env.extend (sample_cmd_env 0 [])
     (stream_env.fields (\<lambda>x. (Inr 5, x))
        (\<lambda>h x. (if sticky then DecodeFailed (Msg ''bad'')
                else if x < 2 then Decoded \<lparr>ev_Type = ''stats'', ev_Stats = None\<rparr> else DecodeEOF, x + 1))
        (\<lambda>h x. ((), x)))"

section \<open>Properties\<close>

text \<open>
  C35: A stream that ends is handed on whole. When the decoder gives the replies \<open>ds\<close> and then the end of the
  output, the goroutine started by \<open>Events\<close> ends after one turn per reply and one for the end, with
  one event per reply in their order (the broken ones as error events), and then closes the channel, closes
  the pipe and waits for the command, in this order and once each.
\<close>

theorem events_stream_ends:
  assumes "run_state (runsc_Events env r cid secs) w = (Inr s, w1)"
    and "feeds env (es_pipe s) (ds @ [DecodeEOF]) (ext w1) = Some x'" "DecodeEOF \<notin> set ds"
  shows "es_cmd s = (runsc_command env r [''events'', ''--interval='' @ itoa secs @ ''s'', cid])
            \<lparr>c_Stdout := Some (Io_stream (es_pipe s))\<rparr> \<and>
    trace w1 = trace w @ [ActStart (es_cmd s)] \<and>
    (\<exists>v. run_state (stream_goroutine (Suc (length ds) + n) env s) w1 = ((map handed_on ds, True), v) \<and>
       trace v = trace w1 @ [ActCloseStream, ActClosePipe (es_pipe s), ActWait (es_cmd s)])"
proof (intro conjI)
  show "es_cmd s = (runsc_command env r [''events'', ''--interval='' @ itoa secs @ ''s'', cid])
            \<lparr>c_Stdout := Some (Io_stream (es_pipe s))\<rparr>"
    and "trace w1 = trace w @ [ActStart (es_cmd s)]"
    using assms(1)
    by (auto simp: runsc_Events_def monitor_start_def run_ext_call Let_def split: prod.splits sum.splits)
  have l: "run_state (stream_loop (Suc (length ds) + n) env (es_pipe s)) w1 =
      ((map handed_on ds, True), \<lparr>ext = x', trace = trace w1\<rparr>)"
    by (rule stream_loop_feeds [OF assms(2,3)]) simp_all
  obtain x2 where c: "close_pipe env (es_pipe s) x' = ((), x2)" by (metis surj_pair old.unit.exhaust)
  obtain q x3 where m: "mon_wait env (es_cmd s) (es_wait s) x2 = (q, x3)" by fastforce
  show "\<exists>v. run_state (stream_goroutine (Suc (length ds) + n) env s) w1 = ((map handed_on ds, True), v) \<and>
       trace v = trace w1 @ [ActCloseStream, ActClosePipe (es_pipe s), ActWait (es_cmd s)]"
    unfolding stream_goroutine_def run_state_bind l
    by (simp add: run_ext_call monitor_wait_def c m)
qed

lemma events_stream_ends_witness:
  "\<exists>s w1 v. run_state (runsc_Events (sample_stream_env False) sample_runsc ''c1'' 2) \<lparr>ext = 0, trace = []\<rparr> =
      (Inr s, w1) \<and>
    run_state (stream_goroutine 3 (sample_stream_env False) s) w1 =
      (([plain_event \<lparr>ev_Type = ''stats'', ev_Stats = None\<rparr>,
         plain_event \<lparr>ev_Type = ''stats'', ev_Stats = None\<rparr>], True), v) \<and>
    trace v = [ActStart (es_cmd s), ActCloseStream, ActClosePipe 5, ActWait (es_cmd s)]"
proof -
  let ?env = "sample_stream_env False"
  let ?d = "Decoded \<lparr>ev_Type = ''stats'', ev_Stats = None\<rparr>"
  have env: "stdout_pipe ?env = (\<lambda>x. (Inr 5, x))" "mon_start ?env = (\<lambda>c x. (Inr 7, x))"
    "decode_next ?env = (\<lambda>h x. (if x < 2 then ?d else DecodeEOF, x + 1))"
    by (simp_all add: sample_stream_env_def sample_cmd_env_def cmd_env.defs stream_env.defs)
  obtain s w1 where s: "run_state (runsc_Events ?env sample_runsc ''c1'' 2) \<lparr>ext = 0, trace = []\<rparr> = (Inr s, w1)"
    "es_pipe s = 5" "ext w1 = 0"
    by (simp add: runsc_Events_def env run_ext_call monitor_start_def Let_def)
  have "feeds ?env (es_pipe s) ([?d, ?d] @ [DecodeEOF]) (ext w1) = Some 3" by (simp add: env s(3))
  from events_stream_ends [OF s(1) this, of 0] s(1,2) show ?thesis
    by (auto simp: handed_on_def numeral_eq_Suc)
qed

text \<open>
  C36: An error that stays is reported for ever. When every read of the decoder gives the same error, as
  those of a JSON decoder do once it has met a syntax error, the loop never ends: however many turns it is
  given, each hands on one more error event, and neither the pipe nor the channel is closed nor the command
  waited for.
\<close>

theorem events_error_never_ends:
  assumes "\<forall>x. fst (decode_next env (es_pipe s) x) = DecodeFailed err"
  shows "\<exists>x. run_state (stream_goroutine n env s) w =
    ((replicate n (error_event err), False), \<lparr>ext = x, trace = trace w\<rparr>)"
proof -
  from stream_loop_stuck [of env "es_pipe s" err n w] assms obtain x where
    "run_state (stream_loop n env (es_pipe s)) w =
      ((replicate n (error_event err), False), \<lparr>ext = x, trace = trace w\<rparr>)" by blast
  then show ?thesis by (intro exI [of _ x]) (simp add: stream_goroutine_def)
qed

lemma events_error_never_ends_witness:
  "\<exists>x. run_state (stream_goroutine 4 (sample_stream_env True)
      \<lparr>es_cmd = runsc_command (sample_stream_env True) sample_runsc [], es_wait = 7, es_pipe = 5\<rparr>)
      \<lparr>ext = 0, trace = []\<rparr> =
    ((replicate 4 (error_event (Msg ''bad'')), False), \<lparr>ext = x, trace = []\<rparr>)"
  using events_error_never_ends [of "sample_stream_env True"
      "\<lparr>es_cmd = runsc_command (sample_stream_env True) sample_runsc [], es_wait = 7, es_pipe = 5\<rparr>"
      "Msg ''bad''" 4 "\<lparr>ext = 0, trace = []\<rparr>"]
  by (simp add: sample_stream_env_def cmd_env.defs stream_env.defs)

end
