(* ===== verification/EventChan.thy ===== *)
theory EventChan
  imports Exits
begin

text \<open>
  The channel of events of the service: a Go channel that holds 128 events, filled by \<open>send\<close> in the
  order of the trace, emptied by \<open>forward\<close>, which publishes each event under its topic, and closed
  by the callback of the shutdown service. Sender and forwarder take turns in any order: a step relation
  says what each may do, what makes it wait and what makes it panic.
\<close>

section \<open>The contract of a bounded queue\<close>


section \<open>The channel\<close>














section \<open>Sender, forwarder and shutdown\<close>












section \<open>Progress\<close>






section \<open>After the shutdown\<close>




section \<open>A concrete run\<close>

text \<open>An OOM and a pause are sent; the first is in the channel, the second not yet.\<close>

definition sample_sends :: "action list" where
  "sample_sends = [ActSend (TaskOOM ''app''), ActLock (MuInit ''app''), ActSend (TaskPaused ''app'')]"


lemma events_sample_sends [simp]: "events sample_sends = [TaskOOM ''app'', TaskPaused ''app'']"
  by (simp add: sample_sends_def events_def)


section \<open>Properties\<close>







end
