(* ===== verification/Spec2Isabelle.thy ===== *)
theory Spec2Isabelle
  imports Registry StartRestore EventStream EventChan
begin

text \<open>
  A verification development for the containerd shim of the gVisor checkpoint and restore stack: the four
  Go files under \<open>src/changes/\<close>, which a patch puts into gVisor's shim. containerd talks to the task
  service (\<open>runsc_service.go\<close>), which keeps a registry of containers (\<open>runsc_container.go\<close>); a container
  owns the init process (\<open>proc_init.go\<close>) and the table of exec'd processes; an init process runs the
  \<open>runsc\<close> command line through a client (\<open>runsccmd_runsc.go\<close>). Reports of ended processes go the other
  way: from the reaper to the service, to the process, and as events to containerd. What this stack adds to
  gVisor is the checkpoint that leaves its container running and the routing of \<open>Start\<close> to
  \<open>runsc restore\<close> by an annotation of the OCI spec, on which a pod is forked from one image.

  The theories, in the order of their imports:

  \<^item> \<open>Prelude\<close>: Go maps as a locale with its interpretation on association lists, Go's string
    functions, machine integers.
  \<^item> \<open>World\<close>: error values, commands, the world and its trace, mutexes around operations
    (\<open>with_lock\<close>), and the predicate \<open>emits\<close>, which bounds what an operation adds to the trace.
  \<^item> \<open>Filepath\<close>: \<open>Clean\<close>, \<open>Join\<close>, \<open>IsAbs\<close>, \<open>Abs\<close> and \<open>Dir\<close> of \<open>path/filepath\<close>, from their documentation.
  \<^item> \<open>RunscCmd\<close> (\<open>runsccmd_runsc.go\<close>): options and flags, building and running a command, one definition
    for each method of \<open>Runsc\<close>.
  \<^item> \<open>EventStream\<close> (\<open>Runsc.Events\<close> in the same file): the goroutine that decodes a stream of events.
  \<^item> \<open>OciSpec\<close> (\<open>shouldRestore\<close> and \<open>setPodCgroup\<close> in \<open>runsc_service.go\<close>).
  \<^item> \<open>ProcInit\<close> (\<open>proc_init.go\<close>): \<open>Init\<close> and its methods, each with the prefix \<open>init_\<close>.
  \<^item> \<open>Container\<close> (\<open>runsc_container.go\<close>, and \<open>newInit\<close> of \<open>runsc_service.go\<close>): \<open>NewContainer\<close>, the
    process table, the metrics; methods of \<open>Container\<close> have the prefix \<open>container_\<close>.
  \<^item> \<open>Service\<close> (\<open>runsc_service.go\<close>): the registry, the handlers (\<open>service_\<close> and the name in the code), the
    dispatch of exits, the forwarding of events.
  \<^item> \<open>Exits\<close>: from the report of an exit to the recorded status, the events and the callers of \<open>Wait\<close>.
  \<^item> \<open>EventChan\<close> (the channel \<open>s.events\<close> of \<open>runsc_service.go\<close>): sender, forwarder and shutdown.
  \<^item> \<open>Registry\<close>: the service as a state machine, its invariant, creation, deletion and exec.
  \<^item> \<open>StartRestore\<close>: \<open>Start\<close>, \<open>Restore\<close> and \<open>Checkpoint\<close> from the handler to the command line.
\<close>

text \<open>
  How the code is modelled.

  State and effects. A Go struct is a record, a nil-able pointer an option, a map an association list with
  distinct keys, an error value a \<open>gerror\<close> and a fallible result a sum. An operation is a computation
  of the state monad on a \<open>world\<close>: the state \<open>ext\<close> of all that is outside, moved only by the parameters in
  the environment record (\<open>cmd_env\<close>, extended to \<open>proc_env\<close>, \<open>init_env\<close>, \<open>state_env\<close>, \<open>ctr_env\<close>, \<open>svc_env\<close>),
  and \<open>trace\<close>, what the shim asked of it in order: commands started and waited for, mutexes taken and
  released, files and streams closed, events sent. A pointer that several callers share is a value that the
  operation gives back and its caller stores where it was found. A panic is the result \<^const>\<open>None\<close>.

  Numbers. pids and statuses are Go's \<open>int\<close>, taken as unbounded integers, and cut to 32 bits by \<open>uint32\<close> where
  the code converts; the metrics are 64 bit words and the console's size 16 bit words. Time is in nanoseconds.

  Concurrency. A handler or the report of an exit runs to its end between two steps of the state machine of
  \<open>Registry\<close>; the mutexes it takes are in the trace, so that what is held while a command runs can be stated.
  The waiter goroutine is an operation of its own (\<open>wait_goroutine\<close>), and the channel of events has a step
  relation of its own, in which senders, forwarder and shutdown take turns in any order.

  Loops. The retry loop of \<open>kill\<close> takes fuel, one unit per test of its condition: five are enough with a clock
  that does not run backwards, because the back-off doubles and the fifth test comes after 1.5 s of sleep
  (C11). The loop of \<open>Events\<close> takes fuel too: one more turn than replies is enough for a stream that ends (C35),
  and no fuel is enough when the decoder's error stays (C36). All other recursion is structural or on a
  decreasing index.

  Hypotheses on what is not under \<open>src/\<close>. The states of the init process (\<open>init_state.go\<close>) and exec'd
  processes (\<open>exec.go\<close>) are parameters, and four predicates say what is relied on:
  \<^item> \<open>created_starts\<close>: in the created state \<open>Start\<close> is the process's \<open>start\<close>; on success only the state
    changes, on failure the process may change and more may be done, but no further command is started. A
    failing start may therefore record the internal error code as an exit, as \<open>convertStatus\<close> expects.
  \<^item> \<open>exit_forwards\<close> and \<open>exec_exit_ok\<close>: \<open>SetExited\<close> is passed on to \<open>setExited\<close>, and an exec'd process
    takes its exit without a panic, events of its own or a change of its ID.
  \<^item> \<open>states_forward\<close>: the wait channel and the exit of an init process are written by nothing but
    \<open>setExited\<close>, IDs do not change, and \<open>Exec\<close> answers with what \<open>Init.exec\<close> builds.
  \<^item> \<open>clocked\<close>: the clock does not run backwards, and a sleep lasts at least as long as was asked.

  None of them says that \<open>setExited\<close> closes the channel once or keeps the first exit: that is proved of
  \<open>init_setExited\<close>. Each is shown to hold of a concrete environment (\<open>sample_svc_env\<close>, \<open>sample_init_env\<close>), which the
  witnesses use, and in which a failing start of a container that is not the sandbox does record an exit.
\<close>

text \<open>
  What the lemmas show.

  \<^item> Client. Three ways to run a command satisfy one contract, the locale \<open>checked_run\<close>: one command is
    started, and the error is nil exactly when it was waited for and exited with 0 (C16, C17). The flags of an
    option record can be read back, the locale \<open>flag_codec\<close> (C24, C25). Temporary files are removed (C23).
  \<^item> Streams. The goroutine of \<open>Events\<close> hands on every reply and cleans up (C35), or never ends (C36).
  \<^item> Init process. The commands of a creation (C18) and a start (C19), the closing of the console
    socket (C22), the waiter's report (C20); a first exit wins, the locale \<open>exit_latch\<close> (C21); kill ends and
    its nil is justified (C11, C12, with the exception of C33); deletion cleans up (C8, except C34).
  \<^item> Container. Mounts of \<open>NewContainer\<close> (C9); the process table as an abstract map, the locale
    \<open>process_table\<close> (C10); the two formats of metrics agree (C30); the console's size is cut (C31).
  \<^item> OCI spec. The pod's cgroup is found and nothing else is written (C26, C27).
  \<^item> Service. The registry's invariant and the absence of panics in all reachable states (C6, C7); events and
    status of an exit (C4, C5, C13); exec, creation and deletion (C14, C15, C32).
  \<^item> Events. The channel is a bounded queue, the locale \<open>bounded_queue\<close>: nothing is lost or reordered (C37),
    all is published without a shutdown (C38), and a shutdown drops what was not sent (C39).
  \<^item> Restore. Start is routed by the annotation (C2), a pod is restored from one image (C1), a
    checkpoint leaves the container running (C3), exec'd processes are never restored (C28) and an
    unreadable spec is started cold (C29).

  Not modelled: the files of gVisor's shim that are not under \<open>src/\<close> (the states of processes, the exec
  process, the OOM pollers, the console platform, \<open>epoll\<close>), containerd's and the OCI runtime's packages, the
  encoding of requests and events, the text of log lines, contexts and their cancellation, the pooling of
  buffers (their bytes are values), and the Python tools, scripts, manifests and documents of the repository.
\<close>

end
